(* ===== verification/Prelude.thy ===== *)
theory Prelude
  imports Main "HOL-Library.Word"
begin

text \<open>
  What every component of the model shares: bytes, the outcome of a Rust function
  (\<open>Ok\<close>, \<open>Err\<close> or a panic), the threading of an explicit state through a sequence
  of fallible calls, the panicking slice operations of the standard library that the code
  uses, and big-endian numbers.  The lemmas about them are collected in
  \<open>outcome_simps\<close> (inversion of successful runs) and \<open>slice_simps\<close>.
\<close>

named_theorems outcome_simps \<open>inversion of the sequencing combinators\<close>
named_theorems slice_simps \<open>slice operations within their bounds\<close>

type_synonym byte = "8 word"
type_synonym bytes = "byte list"

text \<open>A byte string fits in memory, as every one does in a Rust program.\<close>

definition fits_memory :: "bytes \<Rightarrow> bool" where
  "fits_memory bs \<longleftrightarrow> length bs < 2 ^ 63"

section \<open>Outcomes\<close>

text \<open>
  A Rust function that returns \<open>Result<T, E>\<close> either returns \<open>Ok\<close>, returns
  \<open>Err\<close>, or panics; a panic carries its message here.  Calls whose failures cannot be
  panics are kept as sums \<open>'e + 'a\<close> (\<open>Inl\<close> the error).
\<close>

datatype ('e, 'a) outcome = Ok 'a | Err 'e | Panic string

text \<open>\<open>r.map_err(f)?\<close> on a call that cannot panic.\<close>

fun try_map :: "('e \<Rightarrow> 'f) \<Rightarrow> 'e + 'a \<Rightarrow> ('f, 'a) outcome" where
  "try_map f (Inr a) = Ok a"
| "try_map f (Inl e) = Err (f e)"

text \<open>\<open>r.map_err(f)\<close> on a call that may panic.\<close>

fun map_err :: "('e \<Rightarrow> 'f) \<Rightarrow> ('e, 'a) outcome \<Rightarrow> ('f, 'a) outcome" where
  "map_err f (Ok a) = Ok a"
| "map_err f (Err e) = Err (f e)"
| "map_err f (Panic p) = Panic p"

text \<open>\<open>o.ok_or_else(|| e)\<close>.\<close>

fun ok_or :: "'e \<Rightarrow> 'a option \<Rightarrow> ('e, 'a) outcome" where
  "ok_or e (Some a) = Ok a"
| "ok_or e None = Err e"

text \<open>
  The \<open>?\<close> operator.  \<open>obind\<close> sequences calls without an effect; \<open>after\<close> also
  threads the state: the result of the first call is paired with the state it left, and an
  error or a panic stops the run in that state.
\<close>

fun obind :: "('e, 'a) outcome \<Rightarrow> ('a \<Rightarrow> ('e, 'b) outcome) \<Rightarrow> ('e, 'b) outcome" where
  "obind (Ok a) k = k a"
| "obind (Err e) k = Err e"
| "obind (Panic p) k = Panic p"

fun after :: "('e, 'a) outcome \<times> 's \<Rightarrow> ('a \<Rightarrow> 's \<Rightarrow> ('e, 'b) outcome \<times> 's)
    \<Rightarrow> ('e, 'b) outcome \<times> 's" where
  "after (Ok a, s) k = k a s"
| "after (Err e, s) k = (Err e, s)"
| "after (Panic p, s) k = (Panic p, s)"

text \<open>The same for sums.\<close>

fun sbind :: "'e + 'a \<Rightarrow> ('a \<Rightarrow> 'e + 'b) \<Rightarrow> 'e + 'b" where
  "sbind (Inr a) k = k a"
| "sbind (Inl e) k = Inl e"

lemma try_map_Ok [outcome_simps, simp]: "try_map f r = Ok a \<longleftrightarrow> r = Inr a"
  by (cases r) auto

lemma try_map_Err [outcome_simps, simp]: "try_map f r = Err e \<longleftrightarrow> (\<exists>x. r = Inl x \<and> e = f x)"
  by (cases r) auto

lemma try_map_not_Panic [simp]: "try_map f r \<noteq> Panic p"
  by (cases r) auto

lemma map_err_Ok [outcome_simps, simp]: "map_err f r = Ok a \<longleftrightarrow> r = Ok a"
  by (cases r) auto

lemma map_err_Err [outcome_simps, simp]: "map_err f r = Err e \<longleftrightarrow> (\<exists>x. r = Err x \<and> e = f x)"
  by (cases r) auto

lemma map_err_Panic [outcome_simps, simp]: "map_err f r = Panic p \<longleftrightarrow> r = Panic p"
  by (cases r) auto

lemma ok_or_Ok [outcome_simps, simp]: "ok_or e r = Ok a \<longleftrightarrow> r = Some a"
  by (cases r) auto

lemma ok_or_not_Panic [simp]: "ok_or e r \<noteq> Panic p"
  by (cases r) auto

lemma obind_Ok_iff [outcome_simps]: "obind r k = Ok b \<longleftrightarrow> (\<exists>a. r = Ok a \<and> k a = Ok b)"
  by (cases r) auto

lemma obind_Err_iff [outcome_simps]:
  "obind r k = Err e \<longleftrightarrow> r = Err e \<or> (\<exists>a. r = Ok a \<and> k a = Err e)"
  by (cases r) auto

lemma obind_Panic_iff [outcome_simps]:
  "obind r k = Panic p \<longleftrightarrow> r = Panic p \<or> (\<exists>a. r = Ok a \<and> k a = Panic p)"
  by (cases r) auto

lemma after_Ok_iff [outcome_simps]:
  "after x k = (Ok b, t) \<longleftrightarrow> (\<exists>a s. x = (Ok a, s) \<and> k a s = (Ok b, t))"
  by (cases "(x, k)" rule: after.cases) auto

lemma after_Err_iff [outcome_simps]:
  "after x k = (Err e, t) \<longleftrightarrow> x = (Err e, t) \<or> (\<exists>a s. x = (Ok a, s) \<and> k a s = (Err e, t))"
  by (cases "(x, k)" rule: after.cases) auto

lemma after_Panic_iff [outcome_simps]:
  "after x k = (Panic p, t) \<longleftrightarrow> x = (Panic p, t) \<or> (\<exists>a s. x = (Ok a, s) \<and> k a s = (Panic p, t))"
  by (cases "(x, k)" rule: after.cases) auto

lemma sbind_Inr_iff [outcome_simps]: "sbind r k = Inr b \<longleftrightarrow> (\<exists>a. r = Inr a \<and> k a = Inr b)"
  by (cases r) auto

lemma sbind_Inl_iff [outcome_simps]:
  "sbind r k = Inl e \<longleftrightarrow> r = Inl e \<or> (\<exists>a. r = Inr a \<and> k a = Inl e)"
  by (cases r) auto

text \<open>A pure call in a stateful run leaves the state alone.\<close>

lemma after_pure: "after (r, s) k = (case r of Ok a \<Rightarrow> k a s | Err e \<Rightarrow> (Err e, s) | Panic p \<Rightarrow> (Panic p, s))"
  by (cases r) auto

lemma after_snd_invariant:
  assumes "I (snd x)" and "\<And>a s. I s \<Longrightarrow> I (snd (k a s))"
  shows "I (snd (after x k))"
  using assms by (cases "(x, k)" rule: after.cases) auto

section \<open>Panicking slice operations\<close>

text \<open>
  \<open>s.split_at(mid)\<close> panics if \<open>mid > len\<close>; \<open>dst[a..a + src.len()].copy_from_slice(src)\<close>
  panics if the range does not lie in \<open>dst\<close>; \<open>a - b\<close> on \<open>usize\<close> panics below zero
  when overflow checks are on and wraps around modulo \<open>2 ^ 64\<close> when they are off.
\<close>

definition split_at :: "nat \<Rightarrow> 'a list \<Rightarrow> ('e, 'a list \<times> 'a list) outcome" where
  "split_at mid xs =
     (if mid \<le> length xs then Ok (take mid xs, drop mid xs) else Panic ''mid > len'')"

definition copy_into :: "nat \<Rightarrow> 'a list \<Rightarrow> 'a list \<Rightarrow> ('e, 'a list) outcome" where
  "copy_into off src dst =
     (if off + length src \<le> length dst
      then Ok (take off dst @ src @ drop (off + length src) dst)
      else Panic ''range end index out of range for slice'')"

definition usize_sub :: "bool \<Rightarrow> nat \<Rightarrow> nat \<Rightarrow> ('e, nat) outcome" where
  "usize_sub overflow_checks a b =
     (if overflow_checks \<and> a < b then Panic ''attempt to subtract with overflow''
      else Ok (unat (of_nat a - of_nat b :: 64 word)))"

definition rust_assert :: "bool \<Rightarrow> string \<Rightarrow> ('e, unit) outcome" where
  "rust_assert c msg = (if c then Ok () else Panic (''assertion failed: '' @ msg))"

lemma split_at_ok [slice_simps]: "mid \<le> length xs \<Longrightarrow> split_at mid xs = Ok (take mid xs, drop mid xs)"
  by (simp add: split_at_def)

lemma split_at_append [slice_simps, simp]: "split_at (length xs) (xs @ ys) = Ok (xs, ys)"
  by (simp add: split_at_def)

lemma split_at_Panic: "split_at n xs = Panic m \<longleftrightarrow> length xs < n \<and> m = ''mid > len''"
  by (auto simp: split_at_def)

lemma split_at_panics: "length xs < mid \<Longrightarrow> split_at mid xs = Panic ''mid > len''"
  by (simp add: split_at_def)

lemma split_at_not_Err [simp]: "split_at mid xs \<noteq> Err e"
  by (simp add: split_at_def)

lemma copy_into_ok [slice_simps]:
  "off + length src \<le> length dst \<Longrightarrow>
   copy_into off src dst = Ok (take off dst @ src @ drop (off + length src) dst)"
  by (simp add: copy_into_def)

lemma usize_sub_exact [slice_simps]:
  assumes "b \<le> a" and "a < 2 ^ 64"
  shows "usize_sub oc a b = Ok (a - b)"
proof -
  have "unat (of_nat (a - b) :: 64 word) = a - b"
    using assms by (simp add: unat_of_nat del: of_nat_diff)
  then show ?thesis
    using assms by (simp add: usize_sub_def flip: of_nat_diff)
qed

text \<open>Below zero the unchecked difference is far beyond any length a slice can have.\<close>

lemma usize_sub_wraps:
  assumes "a < b" and "b \<le> 2 ^ 62"
  shows "\<exists>n. usize_sub False a b = Ok n \<and> 2 ^ 63 \<le> n"
proof -
  have b: "b < 2 ^ 64" using assms(2) by simp
  have "unat (of_nat a - of_nat b :: 64 word) = (a + (2 ^ 64 - b)) mod 2 ^ 64"
    using assms b by (simp add: unat_sub_if_size word_size unat_of_nat)
  also have "\<dots> = a + (2 ^ 64 - b)"
    using assms b by simp
  also have "2 ^ 63 \<le> \<dots>"
    using assms by simp
  finally show ?thesis
    by (auto simp: usize_sub_def)
qed

section \<open>Big-endian numbers\<close>

definition be_nat :: "bytes \<Rightarrow> nat" where
  "be_nat bs = foldl (\<lambda>n b. n * 256 + unat b) 0 bs"

fun be_fixed :: "nat \<Rightarrow> nat \<Rightarrow> bytes" where
  "be_fixed 0 n = []"
| "be_fixed (Suc k) n = be_fixed k (n div 256) @ [of_nat (n mod 256)]"

text \<open>The shortest big-endian encoding: no leading zero byte, nothing at all for zero.\<close>

fun be_min :: "nat \<Rightarrow> bytes" where
  "be_min n = (if n = 0 then [] else be_min (n div 256) @ [of_nat (n mod 256)])"

declare be_min.simps [simp del]

lemma be_nat_Nil [simp]: "be_nat [] = 0"
  by (simp add: be_nat_def)

lemma be_nat_snoc [simp]: "be_nat (bs @ [b]) = be_nat bs * 256 + unat b"
  by (simp add: be_nat_def)

lemma be_nat_append: "be_nat (xs @ ys) = be_nat xs * 256 ^ length ys + be_nat ys"
  by (induction ys rule: rev_induct) (auto simp: append_assoc [symmetric] algebra_simps simp del: append_assoc)

lemma be_nat_zeros [simp]: "be_nat (replicate n 0) = 0"
  by (induction n) (auto simp: replicate_append_same [symmetric])

lemma be_nat_pad [simp]: "be_nat (replicate n 0 @ bs) = be_nat bs"
  by (simp add: be_nat_append)

lemma be_nat_bound: "be_nat bs < 256 ^ length bs"
proof (induction bs rule: rev_induct)
  case Nil
  then show ?case by simp
next
  case (snoc b bs)
  have "unat b < 256" using unsigned_less [of b, where ?'a = nat] by simp
  with snoc show ?case by simp
qed

lemma unat_of_nat_byte [simp]: "unat (of_nat (n mod 256) :: byte) = n mod 256"
  by (simp add: unat_of_nat)

lemma length_be_fixed [simp]: "length (be_fixed k n) = k"
  by (induction k arbitrary: n) auto

lemma be_nat_be_fixed: "n < 256 ^ k \<Longrightarrow> be_nat (be_fixed k n) = n"
  by (induction k arbitrary: n) (auto simp: less_mult_imp_div_less mult.commute)

lemma be_nat_be_min [simp]: "be_nat (be_min n) = n"
proof (induction n rule: be_min.induct)
  case (1 n)
  then show ?case by (subst be_min.simps) auto
qed

lemma length_be_min: "n < 256 ^ k \<Longrightarrow> length (be_min n) \<le> k"
proof (induction k arbitrary: n)
  case 0
  then show ?case by (simp add: be_min.simps)
next
  case (Suc k)
  have "n div 256 < 256 ^ k"
    using Suc.prems by (simp add: less_mult_imp_div_less mult.commute)
  then have "length (be_min (n div 256)) \<le> k" by (rule Suc.IH)
  then show ?case by (subst be_min.simps) simp
qed

section \<open>Decimal numbers in messages\<close>

fun show_nat :: "nat \<Rightarrow> string" where
  "show_nat n = (if n < 10 then [char_of (48 + n)] else show_nat (n div 10) @ [char_of (48 + n mod 10)])"

declare show_nat.simps [simp del]

end
