(* ===== verification/Cose_Error.thy ===== *)
theory Cose_Error
  imports Prelude
begin

text \<open>
  The error type of the crate (\<open>src/src/error.rs\<close>): the enum \<open>CoseError\<close> with all its
  feature-gated variants, its \<open>Display\<close> text and its \<open>Error::source\<close>.

  The errors of the libraries the crate calls are opaque there and are kept by what the crate
  reads of them: their displayed text, the error they report as their source, and, for the TPM
  and KMS errors that the verifiers inspect, the response code and the
  invalid-signature exception.
\<close>

section \<open>Errors of the libraries\<close>

text \<open>Any other \<open>dyn Error\<close>: its text and its source.\<close>

datatype ext_error = Ext_Error (ext_text: string) (ext_source: "ext_error option")

text \<open>\<open>serde_cbor::Error\<close>.\<close>

datatype cbor_category = Io | Syntax | Data | Eof

datatype cbor_error =
  Cbor_Error (category: cbor_category) (cbor_text: string) (cbor_source: "ext_error option")

text \<open>
  \<open>tss_esapi::Error\<close>: \<open>Tss2Error(FormatOne(FormatOneResponseCode(rc)))\<close>, or anything else.
\<close>

datatype tpm_error = Tss2_Format_One "32 word" string | Tpm_Other string

text \<open>
  \<open>aws_sdk_kms::error::SdkError\<close>: a \<open>ServiceError\<close> with the answer of
  \<open>is_kms_invalid_signature_exception\<close>, or anything else.
\<close>

datatype sdk_error = Service_Error bool string | Sdk_Other string

section \<open>The error enum\<close>

text \<open>
  \<open>Box<dyn Error + Send + Sync>\<close> holds an error of the crate itself, of \<open>serde_cbor\<close>
  or of another library.
\<close>

datatype cose_error =
    EntropyError dyn_error
  | HashingError dyn_error
  | SignatureError dyn_error
  | UnimplementedError
  | UnsupportedError string
  | UnverifiedSignature
  | SpecificationError string
  | SerializationError cbor_error
  | TagError "64 word option"
  | EncryptionError dyn_error
  | TpmError tpm_error
  | AwsSignError sdk_error
  | AwsVerifyError sdk_error
  | AwsGetPublicKeyError sdk_error
and dyn_error =
    Dyn_Cose cose_error
  | Dyn_Cbor cbor_error
  | Dyn_Ext ext_error

text \<open>The outcome of a function that returns \<open>Result<T, CoseError>\<close>.\<close>

type_synonym 'a cose_result = "(cose_error, 'a) outcome"

section \<open>Display\<close>

fun tpm_text :: "tpm_error \<Rightarrow> string" where
  "tpm_text (Tss2_Format_One rc t) = t"
| "tpm_text (Tpm_Other t) = t"

fun sdk_text :: "sdk_error \<Rightarrow> string" where
  "sdk_text (Service_Error b t) = t"
| "sdk_text (Sdk_Other t) = t"

fun display_error :: "cose_error \<Rightarrow> string"
and display_dyn :: "dyn_error \<Rightarrow> string" where
  "display_error (EntropyError e) = ''Entropy error: '' @ display_dyn e"
| "display_error (HashingError e) = ''Hashing failed: '' @ display_dyn e"
| "display_error (SignatureError e) = ''Signature error: '' @ display_dyn e"
| "display_error UnimplementedError = ''Not implemented''"
| "display_error (UnsupportedError e) = ''Not supported: '' @ e"
| "display_error UnverifiedSignature = ''Unverified signature''"
| "display_error (SpecificationError e) = ''Specification error: '' @ e"
| "display_error (SerializationError e) = ''Serialization error: '' @ cbor_text e"
| "display_error (TagError (Some tag)) = ''Tag '' @ show_nat (unat tag) @ '' was not expected''"
| "display_error (TagError None) = ''Expected tag is missing''"
| "display_error (EncryptionError e) = ''Encryption error: '' @ display_dyn e"
| "display_error (TpmError e) = ''TPM error: '' @ tpm_text e"
| "display_error (AwsSignError e) = ''AWS sign error: '' @ sdk_text e"
| "display_error (AwsVerifyError e) = ''AWS verify error: '' @ sdk_text e"
| "display_error (AwsGetPublicKeyError e) = ''AWS GetPublicKey error: '' @ sdk_text e"
| "display_dyn (Dyn_Cose e) = display_error e"
| "display_dyn (Dyn_Cbor e) = cbor_text e"
| "display_dyn (Dyn_Ext e) = ext_text e"

section \<open>Source\<close>

text \<open>
  \<open>SignatureError\<close> delegates to the boxed error, so it reports that error's source and not
  the boxed error itself; \<open>SerializationError\<close> reports its error; every other variant
  reports nothing, also those that box an error.
\<close>

fun error_source :: "cose_error \<Rightarrow> dyn_error option"
and dyn_source :: "dyn_error \<Rightarrow> dyn_error option" where
  "error_source (SignatureError e) = dyn_source e"
| "error_source (SerializationError e) = Some (Dyn_Cbor e)"
| "error_source _ = None"
| "dyn_source (Dyn_Cose e) = error_source e"
| "dyn_source (Dyn_Cbor e) = map_option Dyn_Ext (cbor_source e)"
| "dyn_source (Dyn_Ext e) = map_option Dyn_Ext (ext_source e)"

end
