(* ===== verification/Btree.thy ===== *)
theory Btree
  imports Prelude
begin

text \<open>
  The standard library's \<open>Ordering\<close> and \<open>BTreeMap\<close>, as far as \<open>HeaderMap\<close> uses
  them: \<open>new\<close>, \<open>insert\<close>, \<open>get\<close>, \<open>is_empty\<close> and iteration in key order.  A map is
  the list of its entries in strictly increasing key order; keys are compared with the key type's
  \<open>Ord\<close>, an argument here.  The contract a client of the map relies on is the locale
  \<open>key_map\<close>; the entry lists satisfy it over every comparison that is lawful
  (\<open>ordered_keys\<close>).
\<close>

section \<open>Ordering\<close>

datatype ordering = Less | Equal | Greater

fun flip :: "ordering \<Rightarrow> ordering" where
  "flip Less = Greater"
| "flip Equal = Equal"
| "flip Greater = Less"

lemma flip_flip [simp]: "flip (flip c) = c"
  by (cases c) auto

lemma flip_eq [simp]:
  "flip c = Less \<longleftrightarrow> c = Greater" "flip c = Equal \<longleftrightarrow> c = Equal" "flip c = Greater \<longleftrightarrow> c = Less"
  by (cases c; simp)+

text \<open>\<open>Ordering\<close> is itself ordered, \<open>Less < Equal < Greater\<close>.\<close>

instantiation ordering :: linorder
begin

fun ordering_rank :: "ordering \<Rightarrow> nat" where
  "ordering_rank Less = 0"
| "ordering_rank Equal = 1"
| "ordering_rank Greater = 2"

definition less_eq_ordering :: "ordering \<Rightarrow> ordering \<Rightarrow> bool" where
  "a \<le> b \<longleftrightarrow> ordering_rank a \<le> ordering_rank b"

definition less_ordering :: "ordering \<Rightarrow> ordering \<Rightarrow> bool" where
  "a < b \<longleftrightarrow> ordering_rank a < ordering_rank b"

instance
proof
  fix a b :: ordering
  show "a \<le> b \<Longrightarrow> b \<le> a \<Longrightarrow> a = b"
    by (cases a; cases b) (auto simp: less_eq_ordering_def)
qed (auto simp: less_eq_ordering_def less_ordering_def)

end

section \<open>The map operations\<close>

type_synonym ('k, 'v) btree = "('k \<times> 'v) list"

text \<open>\<open>insert\<close> returns the value it replaces; the key of a replaced entry stays.\<close>

fun btree_insert :: "('k \<Rightarrow> 'k \<Rightarrow> ordering) \<Rightarrow> 'k \<Rightarrow> 'v \<Rightarrow> ('k, 'v) btree
    \<Rightarrow> 'v option \<times> ('k, 'v) btree" where
  "btree_insert cmp k v [] = (None, [(k, v)])"
| "btree_insert cmp k v ((a, b) # ps) =
     (case cmp k a of
        Less \<Rightarrow> (None, (k, v) # (a, b) # ps)
      | Equal \<Rightarrow> (Some b, (a, v) # ps)
      | Greater \<Rightarrow> (case btree_insert cmp k v ps of (old, qs) \<Rightarrow> (old, (a, b) # qs)))"

fun btree_get :: "('k \<Rightarrow> 'k \<Rightarrow> ordering) \<Rightarrow> 'k \<Rightarrow> ('k, 'v) btree \<Rightarrow> 'v option" where
  "btree_get cmp k [] = None"
| "btree_get cmp k ((a, b) # ps) =
     (case cmp k a of Less \<Rightarrow> None | Equal \<Rightarrow> Some b | Greater \<Rightarrow> btree_get cmp k ps)"

definition sorted_keys :: "('k \<Rightarrow> 'k \<Rightarrow> ordering) \<Rightarrow> ('k, 'v) btree \<Rightarrow> bool" where
  "sorted_keys cmp m \<longleftrightarrow> sorted_wrt (\<lambda>p q. cmp (fst p) (fst q) = Less) m"

definition distinct_keys :: "('k \<Rightarrow> 'k \<Rightarrow> ordering) \<Rightarrow> ('k \<times> 'v) list \<Rightarrow> bool" where
  "distinct_keys cmp es \<longleftrightarrow> sorted_wrt (\<lambda>p q. cmp (fst p) (fst q) \<noteq> Equal) es"

text \<open>The map that receives the entries of a list one after the other.\<close>

definition btree_of :: "('k \<Rightarrow> 'k \<Rightarrow> ordering) \<Rightarrow> ('k \<times> 'v) list \<Rightarrow> ('k, 'v) btree" where
  "btree_of cmp es = foldl (\<lambda>m (k, v). snd (btree_insert cmp k v m)) [] es"

text \<open>What a list of insertions leaves under a key: the value of the last one whose key compares equal.\<close>

definition last_value :: "('k \<Rightarrow> 'k \<Rightarrow> ordering) \<Rightarrow> ('k \<times> 'v) list \<Rightarrow> 'k \<Rightarrow> 'v option" where
  "last_value cmp es k = map_option snd (List.find (\<lambda>(k', _). cmp k k' = Equal) (rev es))"

lemma last_value_Nil [simp]: "last_value cmp [] k = None"
  by (simp add: last_value_def)

lemma last_value_snoc [simp]:
  "last_value cmp (es @ [(k', v)]) k = (if cmp k k' = Equal then Some v else last_value cmp es k)"
  by (simp add: last_value_def)

lemma sorted_keys_Nil [simp]: "sorted_keys cmp []"
  by (simp add: sorted_keys_def)

lemma sorted_keys_Cons [simp]:
  "sorted_keys cmp (p # m) \<longleftrightarrow> (\<forall>q \<in> set m. cmp (fst p) (fst q) = Less) \<and> sorted_keys cmp m"
  by (simp add: sorted_keys_def)

lemma key_btree_insert:
  "q \<in> set (snd (btree_insert cmp k v m)) \<Longrightarrow> fst q = k \<or> (\<exists>p \<in> set m. fst q = fst p)"
proof (induction m)
  case (Cons p ps)
  then show ?case by (cases p) (force split: ordering.splits prod.splits)
qed simp

lemma set_btree_insert:
  "q \<in> set (snd (btree_insert cmp k v m)) \<Longrightarrow>
   fst q \<in> insert k (fst ` set m) \<and> snd q \<in> insert v (snd ` set m)"
proof (induction m)
  case (Cons p ps)
  then show ?case by (cases p) (force split: ordering.splits prod.splits)
qed simp

lemma length_btree_insert: "length (snd (btree_insert cmp k v m)) \<le> Suc (length m)"
  by (induction m) (auto split: ordering.splits prod.splits)

lemma btree_of_Nil [simp]: "btree_of cmp [] = []"
  by (simp add: btree_of_def)

lemma btree_of_snoc [simp]: "btree_of cmp (es @ [(k, v)]) = snd (btree_insert cmp k v (btree_of cmp es))"
  by (simp add: btree_of_def)

text \<open>The keys and the values of the map come from the entries, repeated or not.\<close>

lemma set_btree_of:
  "q \<in> set (btree_of cmp es) \<Longrightarrow> fst q \<in> fst ` set es \<and> snd q \<in> snd ` set es"
proof (induction es arbitrary: q rule: rev_induct)
  case (snoc e es)
  obtain k v where e: "e = (k, v)" by fastforce
  with snoc.prems have "q \<in> set (snd (btree_insert cmp k v (btree_of cmp es)))" by simp
  from set_btree_insert [OF this] show ?case
    using snoc.IH e by (auto simp del: btree_insert.simps)
qed simp

lemma length_btree_of: "length (btree_of cmp es) \<le> length es"
proof (induction es rule: rev_induct)
  case (snoc e es)
  then show ?case
    using length_btree_insert [of cmp "fst e" "snd e" "btree_of cmp es"] by (cases e) simp
qed simp

lemma btree_insert_old: "fst (btree_insert cmp k v m) = btree_get cmp k m"
  by (induction m) (auto split: ordering.splits prod.splits)

section \<open>The contract of the map\<close>

locale key_map =
  fixes cmp :: "'k \<Rightarrow> 'k \<Rightarrow> ordering"
    and empty :: "'m"
    and insert_kv :: "'k \<Rightarrow> 'v \<Rightarrow> 'm \<Rightarrow> 'v option \<times> 'm"
    and get :: "'k \<Rightarrow> 'm \<Rightarrow> 'v option"
    and inv :: "'m \<Rightarrow> bool"
  assumes inv_empty: "inv empty"
    and inv_insert: "inv m \<Longrightarrow> inv (snd (insert_kv k v m))"
    and get_empty: "get k empty = None"
    and get_insert: "inv m \<Longrightarrow>
          get k' (snd (insert_kv k v m)) = (if cmp k' k = Equal then Some v else get k' m)"
    and insert_old: "fst (insert_kv k v m) = get k m"
begin

lemma get_singleton: "get k' (snd (insert_kv k v empty)) = (if cmp k' k = Equal then Some v else None)"
  by (simp add: get_insert inv_empty get_empty)

lemma get_insert_other:
  "inv m \<Longrightarrow> cmp k' k \<noteq> Equal \<Longrightarrow> get k' (snd (insert_kv k v m)) = get k' m"
  by (simp add: get_insert)

lemma insert_twice_old:
  assumes "inv m" and "cmp k k = Equal"
  shows "fst (insert_kv k w (snd (insert_kv k v m))) = Some v"
  using assms by (simp add: insert_old get_insert)

end

section \<open>Lawful comparisons\<close>

locale ordered_keys =
  fixes cmp :: "'k \<Rightarrow> 'k \<Rightarrow> ordering"
  assumes cmp_refl [simp]: "cmp a a = Equal"
    and cmp_flip: "cmp b a = flip (cmp a b)"
    and cmp_trans: "cmp a b = Less \<Longrightarrow> cmp b c = Less \<Longrightarrow> cmp a c = Less"
    and cmp_cong: "cmp a b = Equal \<Longrightarrow> cmp a c = cmp b c"
begin

lemma cmp_Equal_sym: "cmp a b = Equal \<longleftrightarrow> cmp b a = Equal"
  using cmp_flip [of b a] by auto

lemma cmp_cong_right: "cmp a b = Equal \<Longrightarrow> cmp c a = cmp c b"
  using cmp_cong [of a b c] cmp_flip [of c a] cmp_flip [of c b] by simp

lemma cmp_Greater: "cmp a b = Greater \<longleftrightarrow> cmp b a = Less"
  using cmp_flip [of b a] by auto

lemma get_below: "\<forall>q \<in> set m. cmp k (fst q) = Less \<Longrightarrow> btree_get cmp k m = None"
  by (cases m) auto

lemma sorted_insert: "sorted_keys cmp m \<Longrightarrow> sorted_keys cmp (snd (btree_insert cmp k v m))"
proof (induction m)
  case Nil
  then show ?case by simp
next
  case (Cons p ps)
  obtain a b where p: "p = (a, b)" by fastforce
  show ?case
  proof (cases "cmp k a")
    case Less
    with Cons.prems p show ?thesis by (auto intro: cmp_trans)
  next
    case Equal
    with Cons.prems p show ?thesis by auto
  next
    case Greater
    obtain old qs where ins: "btree_insert cmp k v ps = (old, qs)" by fastforce
    have "cmp a k = Less" using Greater by (simp add: cmp_Greater)
    then have "\<forall>q \<in> set qs. cmp a (fst q) = Less"
      using Cons.prems p ins key_btree_insert [of _ cmp k v ps] by fastforce
    moreover have "sorted_keys cmp qs"
      using Cons ins p by auto
    ultimately show ?thesis using Greater p ins by simp
  qed
qed

lemma get_insert_btree:
  "sorted_keys cmp m \<Longrightarrow>
   btree_get cmp k' (snd (btree_insert cmp k v m)) = (if cmp k' k = Equal then Some v else btree_get cmp k' m)"
proof (induction m)
  case Nil
  show ?case by (cases "cmp k' k") auto
next
  case (Cons p ps)
  obtain a b where p: "p = (a, b)" by fastforce
  have below: "\<forall>q \<in> set ps. cmp a (fst q) = Less" and ps: "sorted_keys cmp ps"
    using Cons.prems p by auto
  show ?case
  proof (cases "cmp k a")
    case Less
    then have "cmp k' k = Less \<Longrightarrow> cmp k' a = Less" using cmp_trans by blast
    moreover have "cmp k' k = Equal \<Longrightarrow> cmp k' a = Less" using Less cmp_cong [of k' k a] by simp
    ultimately show ?thesis using Less p by (auto split: ordering.splits)
  next
    case Equal
    then have "cmp k' k = cmp k' a" by (rule cmp_cong_right)
    with Equal p show ?thesis by (auto split: ordering.splits)
  next
    case Greater
    obtain old qs where ins: "btree_insert cmp k v ps = (old, qs)" by fastforce
    have IH: "btree_get cmp k' qs = (if cmp k' k = Equal then Some v else btree_get cmp k' ps)"
      using Cons.IH [OF ps] ins by simp
    have "cmp k' k = Equal \<Longrightarrow> cmp k' a = Greater" using Greater cmp_cong [of k' k a] by simp
    with IH show ?thesis using Greater p ins by (auto split: ordering.splits)
  qed
qed

sublocale btree: key_map cmp "[]" "btree_insert cmp" "btree_get cmp" "sorted_keys cmp"
proof unfold_locales
  show "btree_get cmp k [] = None" for k by simp
qed (simp_all add: sorted_insert get_insert_btree btree_insert_old)

lemma sorted_btree_of_aux:
  "sorted_keys cmp m \<Longrightarrow> sorted_keys cmp (foldl (\<lambda>m (k, v). snd (btree_insert cmp k v m)) m es)"
  by (induction es arbitrary: m) (auto simp: sorted_insert)

lemma sorted_btree_of: "sorted_keys cmp (btree_of cmp es)"
  unfolding btree_of_def by (rule sorted_btree_of_aux) simp

lemma insert_above:
  "\<forall>p \<in> set m. cmp (fst p) k = Less \<Longrightarrow> snd (btree_insert cmp k v m) = m @ [(k, v)]"
proof (induction m)
  case Nil
  show ?case by simp
next
  case (Cons p ps)
  obtain a b where p: "p = (a, b)" by fastforce
  have "cmp k a = Greater" using Cons.prems p by (simp add: cmp_Greater)
  with Cons p show ?case by (auto split: prod.splits)
qed

text \<open>A list already in key order is the map of its entries.\<close>

lemma btree_of_sorted_aux:
  "sorted_keys cmp (m @ es) \<Longrightarrow> foldl (\<lambda>m (k, v). snd (btree_insert cmp k v m)) m es = m @ es"
proof (induction es arbitrary: m)
  case Nil
  show ?case by simp
next
  case (Cons e es)
  obtain k v where e: "e = (k, v)" by fastforce
  have "\<forall>p \<in> set m. cmp (fst p) k = Less"
    using Cons.prems e by (auto simp: sorted_keys_def sorted_wrt_append)
  then have "snd (btree_insert cmp k v m) = m @ [(k, v)]" by (rule insert_above)
  with Cons e show ?case by simp
qed

lemma btree_of_sorted: "sorted_keys cmp es \<Longrightarrow> btree_of cmp es = es"
  using btree_of_sorted_aux [of "[]" es] by (simp add: btree_of_def)

lemma sorted_imp_distinct: "sorted_keys cmp es \<Longrightarrow> distinct_keys cmp es"
  unfolding sorted_keys_def distinct_keys_def by (erule sorted_wrt_mono_rel [rotated]) auto

text \<open>Inserting entries one after the other leaves the last value of every key.\<close>

lemma get_btree_of: "btree_get cmp k (btree_of cmp es) = last_value cmp es k"
proof (induction es rule: rev_induct)
  case (snoc e es)
  then show ?case by (cases e) (simp add: get_insert_btree sorted_btree_of)
qed simp

lemma distinct_keys_Nil [simp]: "distinct_keys cmp []"
  by (simp add: distinct_keys_def)

lemma distinct_keys_Cons [simp]:
  "distinct_keys cmp (e # es) \<longleftrightarrow> (\<forall>q \<in> set es. cmp (fst e) (fst q) \<noteq> Equal) \<and> distinct_keys cmp es"
  by (simp add: distinct_keys_def)

end

end
