(* ===== verification/Cbor.thy ===== *)
theory Cbor
  imports Cose_Error Btree
begin

text \<open>
  What the crate uses of \<open>serde\<close>, \<open>serde_cbor\<close>, \<open>serde_bytes\<close> and \<open>serde_with\<close>.
  None of them is part of the repository, so they are a parameter: the record \<open>cbor_lib\<close>
  holds the library functions the code calls, and every definition that calls one takes it as
  its argument \<open>L\<close>.  What the code relies on is the locale \<open>serde_cbor\<close>; each law states
  documented behaviour.

  A data item, the thing a \<open>Serialize\<close> implementation emits and a \<open>Deserialize\<close>
  implementation is driven with, has the shape of \<open>serde_cbor::Value\<close>, except that its maps
  keep their entries in the order of the wire, duplicates included.  A \<open>Value\<close> is an item
  whose maps are in key order.
\<close>

section \<open>Data items\<close>

datatype cbor_value =
    VNull
  | VBool bool
  | VInteger int
  | VFloat "64 word"
  | VBytes bytes
  | VText string
  | VArray "cbor_value list"
  | VMap "(cbor_value \<times> cbor_value) list"
  | VTag "64 word" cbor_value

text \<open>Rust strings are UTF-8; a text item holds the bytes of its string.\<close>

fun utf8_cont :: "nat \<Rightarrow> bool" where
  "utf8_cont b \<longleftrightarrow> 128 \<le> b \<and> b < 192"

fun utf8 :: "nat list \<Rightarrow> bool" where
  "utf8 [] = True"
| "utf8 (b # bs) =
     (if b < 128 then utf8 bs
      else if 194 \<le> b \<and> b < 224 then
        (case bs of c # r \<Rightarrow> utf8_cont c \<and> utf8 r | _ \<Rightarrow> False)
      else if 224 \<le> b \<and> b < 240 then
        (case bs of c # d # r \<Rightarrow>
           utf8_cont c \<and> utf8_cont d \<and> (b = 224 \<longrightarrow> 160 \<le> c) \<and> (b = 237 \<longrightarrow> c < 160) \<and> utf8 r
         | _ \<Rightarrow> False)
      else if 240 \<le> b \<and> b < 245 then
        (case bs of c # d # e # r \<Rightarrow>
           utf8_cont c \<and> utf8_cont d \<and> utf8_cont e
           \<and> (b = 240 \<longrightarrow> 144 \<le> c) \<and> (b = 244 \<longrightarrow> c < 144) \<and> utf8 r
         | _ \<Rightarrow> False)
      else False)"

definition rust_string :: "string \<Rightarrow> bool" where
  "rust_string s \<longleftrightarrow> length s < 2 ^ 63 \<and> utf8 (map of_char s)"

text \<open>The bits of an \<open>f64\<close> that is not a NaN.\<close>

definition not_nan :: "64 word \<Rightarrow> bool" where
  "not_nan w \<longleftrightarrow> drop_bit 52 (take_bit 63 w) \<noteq> 2047 \<or> take_bit 52 w = 0"

text \<open>
  The items that can be written and read back: integers in CBOR's range, no NaN, byte strings and
  collections no longer than a Rust allocation can be, maps in key order, and at most \<open>n\<close>
  levels of arrays, maps and tags.
\<close>

fun wf_item :: "(cbor_value \<Rightarrow> cbor_value \<Rightarrow> ordering) \<Rightarrow> nat \<Rightarrow> cbor_value \<Rightarrow> bool" where
  "wf_item cmp n VNull = True"
| "wf_item cmp n (VBool b) = True"
| "wf_item cmp n (VInteger i) = (- (2 ^ 64) \<le> i \<and> i < 2 ^ 64)"
| "wf_item cmp n (VFloat w) = not_nan w"
| "wf_item cmp n (VBytes b) = (length b < 2 ^ 63)"
| "wf_item cmp n (VText s) = rust_string s"
| "wf_item cmp 0 (VArray xs) = False"
| "wf_item cmp (Suc n) (VArray xs) = (length xs < 2 ^ 63 \<and> list_all (wf_item cmp n) xs)"
| "wf_item cmp 0 (VMap es) = False"
| "wf_item cmp (Suc n) (VMap es) =
     (length es < 2 ^ 63 \<and> sorted_keys cmp es
      \<and> list_all (\<lambda>(k, v). wf_item cmp n k \<and> wf_item cmp n v) es)"
| "wf_item cmp 0 (VTag t v) = False"
| "wf_item cmp (Suc n) (VTag t v) = wf_item cmp n v"

abbreviation wf_entries :: "(cbor_value \<Rightarrow> cbor_value \<Rightarrow> ordering) \<Rightarrow> nat \<Rightarrow> (cbor_value \<times> cbor_value) list \<Rightarrow> bool" where
  "wf_entries cmp n es \<equiv> list_all (\<lambda>(k, v). wf_item cmp n k \<and> wf_item cmp n v) es"

lemma wf_item_mono: "wf_item cmp n v \<Longrightarrow> n \<le> m \<Longrightarrow> wf_item cmp m v"
proof (induction cmp n v arbitrary: m rule: wf_item.induct)
  case (8 cmp n xs)
  then show ?case by (cases m) (auto simp: list_all_iff)
next
  case (10 cmp n es)
  then show ?case by (cases m) (fastforce simp: list_all_iff)+
next
  case (12 cmp n t v)
  then show ?case by (cases m) auto
qed auto

section \<open>The library functions\<close>

text \<open>The errors that \<open>serde\<close>'s \<open>de::Error\<close> trait constructs.\<close>

datatype de_error =
    Missing_Field string
  | Invalid_Length nat
  | Invalid_Type
  | Trailing_Data

text \<open>
  \<^item> \<open>key_cmp\<close>: \<open>Ord for Value\<close>;
  \<^item> \<open>to_vec\<close>: \<open>serde_cbor::to_vec\<close>, given the item that the value's \<open>Serialize\<close> emits;
  \<^item> \<open>parse\<close>: the reading half of \<open>serde_cbor::from_slice\<close>, exactly one item and nothing
    after it;
  \<^item> \<open>split_tag\<close>: \<open>serde_cbor::tags::Tagged<T>\<close>, the tag of an item if it has one, and the
    item that \<open>T\<close> is then deserialized from;
  \<^item> \<open>bytebuf\<close>: \<open>Deserialize for serde_bytes::ByteBuf\<close>;
  \<^item> \<open>map_no_duplicates\<close>: \<open>serde_with::rust::maps_duplicate_key_is_error::deserialize\<close> at
    \<open>BTreeMap<Value, Value>\<close>;
  \<^item> \<open>struct_fields\<close>: the map form of a derived \<open>Deserialize\<close> for a struct, the values of the
    named fields in the order of the names;
  \<^item> \<open>end_seq\<close>: the end of a sequence, given the elements the visitor left unread;
  \<^item> \<open>de_error\<close>: the errors of \<open>serde::de::Error\<close>;
  \<^item> \<open>depth_limit\<close>: how deep the items that are read may nest.
\<close>

record cbor_lib =
  key_cmp :: "cbor_value \<Rightarrow> cbor_value \<Rightarrow> ordering"
  to_vec :: "cbor_value \<Rightarrow> cbor_error + bytes"
  parse :: "bytes \<Rightarrow> cbor_error + cbor_value"
  split_tag :: "cbor_value \<Rightarrow> 64 word option \<times> cbor_value"
  bytebuf :: "cbor_value \<Rightarrow> cbor_error + bytes"
  map_no_duplicates :: "cbor_value \<Rightarrow> cbor_error + (cbor_value, cbor_value) btree"
  struct_fields :: "string list \<Rightarrow> (cbor_value \<times> cbor_value) list \<Rightarrow> cbor_error + cbor_value list"
  end_seq :: "cbor_value list \<Rightarrow> cbor_error option"
  de_error :: "de_error \<Rightarrow> cbor_error"
  depth_limit :: nat

abbreviation wf_value :: "cbor_lib \<Rightarrow> nat \<Rightarrow> cbor_value \<Rightarrow> bool" where
  "wf_value L n v \<equiv> wf_item (key_cmp L) n v"

text \<open>\<open>next_element\<close> of a sequence: the element, deserialized, and what is left.\<close>

fun next_element :: "(cbor_value \<Rightarrow> cbor_error + 'a) \<Rightarrow> cbor_value list
    \<Rightarrow> cbor_error + ('a option \<times> cbor_value list)" where
  "next_element d [] = Inr (None, [])"
| "next_element d (x # xs) = sbind (d x) (\<lambda>a. Inr (Some a, xs))"

text \<open>The element, or the given error where the sequence has ended.\<close>

fun required_element :: "cbor_error \<Rightarrow> (cbor_value \<Rightarrow> cbor_error + 'a) \<Rightarrow> cbor_value list
    \<Rightarrow> cbor_error + ('a \<times> cbor_value list)" where
  "required_element e d xs =
     sbind (next_element d xs) (\<lambda>(r, rest). case r of Some v \<Rightarrow> Inr (v, rest) | None \<Rightarrow> Inl e)"

lemma required_element_Inr [outcome_simps]:
  "required_element e d xs = Inr (v, rest) \<longleftrightarrow> (\<exists>x. xs = x # rest \<and> d x = Inr v)"
  by (cases xs) (auto simp: outcome_simps)

declare required_element.simps [simp del]

lemma required_element_Cons [simp]:
  "required_element e d (x # xs) = sbind (d x) (\<lambda>v. Inr (v, xs))"
  by (cases "d x") (auto simp: required_element.simps)

lemma required_element_Nil [simp]: "required_element e d [] = Inl e"
  by (simp add: required_element.simps)

text \<open>\<open>serde_cbor::from_slice::<Tagged<T>>\<close>, given how \<open>T\<close> is deserialized.\<close>

definition tagged_from_slice :: "cbor_lib \<Rightarrow> (cbor_value \<Rightarrow> cbor_error + 'a) \<Rightarrow> bytes
    \<Rightarrow> cbor_error + (64 word option \<times> 'a)" where
  "tagged_from_slice L d bs =
     sbind (parse L bs) (\<lambda>item.
       case split_tag L item of (tag, inner) \<Rightarrow> sbind (d inner) (\<lambda>v. Inr (tag, v)))"

lemma tagged_from_slice_Inr:
  "tagged_from_slice L d bs = Inr (tag, v) \<longleftrightarrow>
   (\<exists>item inner. parse L bs = Inr item \<and> split_tag L item = (tag, inner) \<and> d inner = Inr v)"
proof (cases "parse L bs")
  case (Inr item)
  then show ?thesis
    by (cases "split_tag L item") (auto simp: tagged_from_slice_def outcome_simps)
qed (simp add: tagged_from_slice_def)

text \<open>The checks of a tag after reading.\<close>

lemma tag_check_Ok:
  "(case tag of None \<Rightarrow> Ok () | Some t \<Rightarrow> if t = n then Ok () else Err (e t)) = Ok u \<longleftrightarrow>
   tag = None \<or> tag = Some n"
  by (cases tag) auto

lemma tag_required_Ok: "(if tag = Some n then Ok () else Err e) = Ok u \<longleftrightarrow> tag = Some n"
  by auto

text \<open>\<open>serde_cbor::tags::Tagged::new(tag, &value)\<close>, written.\<close>

fun tagged_item :: "64 word option \<Rightarrow> cbor_value \<Rightarrow> cbor_value" where
  "tagged_item (Some t) v = VTag t v"
| "tagged_item None v = v"

text \<open>
  The shape of an item that is read: its outermost tag, what is under that tag, and what is under all
  its tags.
\<close>

fun outer_tag :: "cbor_value \<Rightarrow> 64 word option" where
  "outer_tag (VTag t v) = Some t"
| "outer_tag _ = None"

fun under_tag :: "cbor_value \<Rightarrow> cbor_value" where
  "under_tag (VTag t v) = v"
| "under_tag v = v"

fun strip_tags :: "cbor_value \<Rightarrow> cbor_value" where
  "strip_tags (VTag t v) = strip_tags v"
| "strip_tags v = v"

lemma strip_under_tag [simp]: "strip_tags (under_tag item) = strip_tags item"
  by (cases item) simp_all

lemma strip_tagged_item [simp]: "strip_tags (tagged_item tag v) = strip_tags v"
  by (cases tag) simp_all

section \<open>What the code relies on\<close>

text \<open>
  \<^item> \<open>Ord\<close> is lawful, and an integer is equal only to itself;
  \<^item> a well-formed item that does not nest too deeply is written, and what was written is read
    back as the same item;
  \<^item> the empty input holds no item;
  \<^item> a tagged item has its tag, any other item none;
  \<^item> a byte string is the \<open>ByteBuf\<close> of its bytes;
  \<^item> a map with well-formed entries whose keys are pairwise different becomes the \<open>BTreeMap\<close>
    of its entries, a repeated key is an error, and what is read is always in key order;
  \<^item> a sequence read to its end is in order, one with elements left over is an error.
\<close>

locale serde_cbor =
  fixes L :: cbor_lib
  assumes key_order: "ordered_keys (key_cmp L)"
    and key_integer: "key_cmp L (VInteger i) v = Equal \<Longrightarrow> - (2 ^ 64) \<le> i \<Longrightarrow> i < 2 ^ 64 \<Longrightarrow> v = VInteger i"
    and write_read: "wf_value L n v \<Longrightarrow> n \<le> depth_limit L \<Longrightarrow> \<exists>bs. to_vec L v = Inr bs \<and> parse L bs = Inr v"
    and depth_limit: "16 \<le> depth_limit L"
    and parse_empty: "\<exists>e. parse L [] = Inl e \<and> category e = Eof"
    and split_tag_tag: "split_tag L (VTag t v) = (Some t, v)"
    and split_tag_none: "\<forall>t u. v \<noteq> VTag t u \<Longrightarrow> split_tag L v = (None, v)"
    and bytebuf_bytes: "bytebuf L (VBytes b) = Inr b"
    and map_distinct: "wf_entries (key_cmp L) n es \<Longrightarrow> n \<le> depth_limit L \<Longrightarrow> distinct_keys (key_cmp L) es \<Longrightarrow>
          map_no_duplicates L (VMap es) = Inr (btree_of (key_cmp L) es)"
    and map_duplicate: "wf_entries (key_cmp L) n es \<Longrightarrow> n \<le> depth_limit L \<Longrightarrow> \<not> distinct_keys (key_cmp L) es \<Longrightarrow>
          \<exists>e. map_no_duplicates L (VMap es) = Inl e"
    and map_sorted: "map_no_duplicates L item = Inr m \<Longrightarrow> sorted_keys (key_cmp L) m"
    and end_seq_done: "end_seq L [] = None"
    and end_seq_unread: "end_seq L (x # xs) \<noteq> None"

sublocale serde_cbor \<subseteq> keys: ordered_keys "key_cmp L"
  by (rule key_order)

context serde_cbor
begin

lemma get_integer_key:
  assumes "- (2 ^ 64) \<le> i" and "i < 2 ^ 64"
  shows "key_cmp L (VInteger i) v = Equal \<longleftrightarrow> v = VInteger i"
  using key_integer [OF _ assms] by auto

lemma to_vec_inj:
  assumes "to_vec L v = Inr bs" and "to_vec L w = Inr bs"
    and "wf_value L n v" and "wf_value L n w" and "n \<le> depth_limit L"
  shows "v = w"
  using assms write_read [of n v] write_read [of n w] by auto

lemma map_sorted_entries:
  assumes "wf_entries (key_cmp L) n es" and "n \<le> depth_limit L" and "sorted_keys (key_cmp L) es"
  shows "map_no_duplicates L (VMap es) = Inr es"
  using assms map_distinct [of n es] by (simp add: keys.sorted_imp_distinct keys.btree_of_sorted)

lemma write_read_bytes:
  assumes "to_vec L v = Inr bs" and "wf_value L n v" and "n \<le> depth_limit L"
  shows "parse L bs = Inr v"
  using write_read [OF assms(2,3)] assms(1) by auto

lemma tagged_from_slice_item:
  assumes "parse L bs = Inr (tagged_item tag v)" and "\<forall>t u. v \<noteq> VTag t u"
  shows "tagged_from_slice L d bs = sbind (d v) (\<lambda>x. Inr (tag, x))"
  using assms by (cases tag) (simp_all add: tagged_from_slice_def split_tag_tag split_tag_none)

lemma split_tag_eq: "split_tag L item = (outer_tag item, under_tag item)"
  by (cases item) (simp_all add: split_tag_tag split_tag_none)

lemma end_seq_Inr [simp]:
  "(case end_seq L rest of None \<Rightarrow> Inr d | Some e \<Rightarrow> Inl e) = Inr r \<longleftrightarrow> rest = [] \<and> d = r"
  by (cases rest; cases "end_seq L rest") (auto simp: end_seq_done end_seq_unread)

lemma wf_tagged_item:
  "wf_value L n v \<Longrightarrow> wf_value L (Suc n) (tagged_item tag v)"
  by (cases tag) (auto intro: wf_item_mono)

text \<open>What was written is never empty, since the empty input holds no item.\<close>

lemma written_nonempty:
  assumes "to_vec L v = Inr bs" and "wf_value L n v" and "n \<le> depth_limit L"
  shows "bs \<noteq> []"
  using write_read_bytes [OF assms] parse_empty by auto

end

end
