(* ===== verification/Header_Map.thy ===== *)
theory Header_Map
  imports Cbor
begin

text \<open>
  \<open>src/src/header_map.rs\<close>: the newtype \<open>HeaderMap\<close> over \<open>BTreeMap<Value, Value>\<close>, its
  operations, its (derived) serialization, and \<open>map_to_empty_or_serialized\<close>.
\<close>

section \<open>The type and its operations\<close>

datatype header_map = HeaderMap (entries: "(cbor_value, cbor_value) btree")

definition header_new :: header_map where
  "header_new = HeaderMap []"

text \<open>\<open>insert(&mut self, key, value)\<close>: the replaced value, and the map afterwards.\<close>

fun header_insert :: "cbor_lib \<Rightarrow> header_map \<Rightarrow> cbor_value \<Rightarrow> cbor_value \<Rightarrow> cbor_value option \<times> header_map" where
  "header_insert L (HeaderMap m) key val =
     (case btree_insert (key_cmp L) key val m of (old, m') \<Rightarrow> (old, HeaderMap m'))"

fun header_get :: "cbor_lib \<Rightarrow> header_map \<Rightarrow> cbor_value \<Rightarrow> cbor_value option" where
  "header_get L (HeaderMap m) key = btree_get (key_cmp L) key m"

fun header_is_empty :: "header_map \<Rightarrow> bool" where
  "header_is_empty (HeaderMap m) \<longleftrightarrow> m = []"

section \<open>Serialization\<close>

text \<open>
  The derived \<open>Serialize\<close> of the newtype writes the inner map, whose entries come in key order;
  the derived \<open>Deserialize\<close> reads it with the function its attribute names.
\<close>

fun header_item :: "header_map \<Rightarrow> cbor_value" where
  "header_item (HeaderMap m) = VMap m"

definition header_deserialize :: "cbor_lib \<Rightarrow> cbor_value \<Rightarrow> cbor_error + header_map" where
  "header_deserialize L item = sbind (map_no_duplicates L item) (\<lambda>m. Inr (HeaderMap m))"

definition header_from_bytes :: "cbor_lib \<Rightarrow> bytes \<Rightarrow> cbor_error + header_map" where
  "header_from_bytes L bs = sbind (parse L bs) (header_deserialize L)"

definition map_to_empty_or_serialized :: "cbor_lib \<Rightarrow> header_map \<Rightarrow> cbor_error + bytes" where
  "map_to_empty_or_serialized L m =
     (if header_is_empty m then Inr [] else sbind (to_vec L (header_item m)) Inr)"

lemma header_deserialize_Inr:
  "header_deserialize L item = Inr m \<longleftrightarrow> map_no_duplicates L item = Inr (entries m)"
  by (cases m) (auto simp: header_deserialize_def outcome_simps)

lemma header_from_bytes_Inr:
  "header_from_bytes L bs = Inr m \<longleftrightarrow>
   (\<exists>item. parse L bs = Inr item \<and> map_no_duplicates L item = Inr (entries m))"
  by (simp add: header_from_bytes_def header_deserialize_Inr outcome_simps)

section \<open>Well-formed headers\<close>

text \<open>
  The type invariant of a \<open>HeaderMap\<close> is that its entries are in key order.  A header is
  storable when its values can also be written, with the room that a COSE structure around it
  needs.
\<close>

definition header_sorted :: "cbor_lib \<Rightarrow> header_map \<Rightarrow> bool" where
  "header_sorted L m \<longleftrightarrow> sorted_keys (key_cmp L) (entries m)"

definition header_depth :: "cbor_lib \<Rightarrow> nat" where
  "header_depth L = depth_limit L - 3"

definition header_storable :: "cbor_lib \<Rightarrow> header_map \<Rightarrow> bool" where
  "header_storable L m \<longleftrightarrow> wf_value L (Suc (header_depth L)) (header_item m)"

lemma header_storable_sorted: "header_storable L m \<Longrightarrow> header_sorted L m"
  by (cases m) (simp add: header_storable_def header_sorted_def)

lemma header_sorted_new [simp]: "header_sorted L header_new"
  by (simp add: header_sorted_def header_new_def)

lemma header_storable_new [simp]: "header_storable L header_new"
  by (simp add: header_storable_def header_new_def)

lemma header_is_empty_iff: "header_is_empty m \<longleftrightarrow> m = header_new"
  by (cases m) (auto simp: header_new_def)

text \<open>The header with one entry, as every constructor of the crate builds it.\<close>

lemma header_single: "snd (header_insert L header_new k v) = HeaderMap [(k, v)]"
  by (simp add: header_new_def)

text \<open>The header that a program builds by inserting entries one after the other.\<close>

definition header_of :: "cbor_lib \<Rightarrow> (cbor_value \<times> cbor_value) list \<Rightarrow> header_map" where
  "header_of L es = foldl (\<lambda>m (k, v). snd (header_insert L m k v)) header_new es"

lemma header_of_btree: "header_of L es = HeaderMap (btree_of (key_cmp L) es)"
proof -
  have step: "snd (header_insert L (HeaderMap m) k v) = HeaderMap (snd (btree_insert (key_cmp L) k v m))" for k v m
    by (simp split: prod.splits)
  have "foldl (\<lambda>m (k, v). snd (header_insert L m k v)) (HeaderMap m) es =
      HeaderMap (foldl (\<lambda>m (k, v). snd (btree_insert (key_cmp L) k v m)) m es)" for m
    by (induction es arbitrary: m) (auto simp: step simp del: header_insert.simps)
  then show ?thesis by (simp add: header_of_def btree_of_def header_new_def)
qed

section \<open>The header operations over a lawful library\<close>

context serde_cbor
begin

lemma header_sorted_insert: "header_sorted L m \<Longrightarrow> header_sorted L (snd (header_insert L m k v))"
  using keys.btree.inv_insert [of "entries m" k v]
  by (cases m) (auto simp: header_sorted_def split: prod.splits)

lemma header_get_insert:
  "header_sorted L m \<Longrightarrow>
   header_get L (snd (header_insert L m k v)) k' =
     (if key_cmp L k' k = Equal then Some v else header_get L m k')"
  using keys.btree.get_insert [of "entries m" k' k v]
  by (cases m) (auto simp: header_sorted_def split: prod.splits)

lemma header_insert_old: "fst (header_insert L m k v) = header_get L m k"
  using keys.btree.insert_old [of k v "entries m"] by (cases m) (auto split: prod.splits)

lemma header_get_new: "header_get L header_new k = None"
  by (simp add: header_new_def)

lemma header_insert_empty:
  "\<not> header_is_empty (snd (header_insert L m k v))"
proof (cases m)
  case (HeaderMap es)
  then show ?thesis
    by (cases es) (auto split: prod.splits ordering.splits)
qed

lemma header_single_storable:
  "wf_value L n k \<Longrightarrow> wf_value L n v \<Longrightarrow> n \<le> header_depth L \<Longrightarrow>
   header_storable L (HeaderMap [(k, v)])"
  by (auto simp: header_storable_def intro: wf_item_mono)

lemma header_from_bytes_sorted: "header_from_bytes L bs = Inr m \<Longrightarrow> header_sorted L m"
  by (auto simp: header_from_bytes_def header_deserialize_def header_sorted_def outcome_simps
      dest: map_sorted)

lemma header_deserialize_item:
  assumes "header_storable L m"
  shows "header_deserialize L (header_item m) = Inr m"
proof (cases m)
  case (HeaderMap es)
  have "map_no_duplicates L (VMap es) = Inr es"
    using assms HeaderMap map_sorted_entries [of "header_depth L" es]
    by (simp add: header_storable_def header_depth_def)
  then show ?thesis using HeaderMap by (simp add: header_deserialize_def)
qed

lemma header_depth_limit [simp]: "Suc (Suc (Suc (header_depth L))) = depth_limit L"
  using depth_limit by (simp add: header_depth_def)

lemma header_depth_le: "Suc (header_depth L) \<le> depth_limit L"
  using depth_limit by (simp add: header_depth_def)

lemma header_from_bytes_empty: "\<exists>e. header_from_bytes L [] = Inl e \<and> category e = Eof"
  using parse_empty by (auto simp: header_from_bytes_def)

lemma header_write:
  assumes "header_storable L m" and "\<not> header_is_empty m"
  obtains bs where "map_to_empty_or_serialized L m = Inr bs"
    and "to_vec L (header_item m) = Inr bs" and "header_from_bytes L bs = Inr m"
proof -
  have wf: "wf_value L (Suc (header_depth L)) (header_item m)"
    using assms(1) by (simp add: header_storable_def)
  obtain bs where bs: "to_vec L (header_item m) = Inr bs" "parse L bs = Inr (header_item m)"
    using write_read [OF wf header_depth_le] by blast
  show thesis
    by (rule that [of bs])
      (use bs assms in \<open>simp_all add: map_to_empty_or_serialized_def header_from_bytes_def header_deserialize_item\<close>)
qed

text \<open>
  A header built by insertions is storable if its entries are, whether a label was inserted once or
  repeatedly, and holds the last value of every label.
\<close>

lemma header_of_storable:
  assumes "wf_entries (key_cmp L) n es" and "n \<le> header_depth L" and "length es < 2 ^ 63"
  shows "header_storable L (header_of L es)"
proof -
  let ?m = "btree_of (key_cmp L) es"
  have "wf_value L (header_depth L) k \<and> wf_value L (header_depth L) v" if entry: "(k, v) \<in> set ?m" for k v
  proof -
    obtain k' v' where "(k, v') \<in> set es" and "(k', v) \<in> set es"
      using set_btree_of [OF entry] by auto
    then have "wf_value L n k" and "wf_value L n v"
      using assms(1) by (auto simp: list_all_iff)
    then show ?thesis using assms(2) by (blast intro: wf_item_mono)
  qed
  then have "wf_entries (key_cmp L) (header_depth L) ?m"
    by (auto simp: list_all_iff)
  then show ?thesis
    using assms(3) keys.sorted_btree_of [of es] length_btree_of [of "key_cmp L" es]
    by (simp add: header_storable_def header_of_btree)
qed

lemma header_of_get: "header_get L (header_of L es) key = last_value (key_cmp L) es key"
  by (simp add: header_of_btree keys.get_btree_of)

lemma header_written:
  "header_storable L m \<Longrightarrow> \<not> header_is_empty m \<Longrightarrow> map_to_empty_or_serialized L m = Inr bs \<Longrightarrow>
   header_from_bytes L bs = Inr m"
  by (erule header_write) auto

lemma header_bytes_nonempty:
  assumes "header_storable L m" and "\<not> header_is_empty m" and "map_to_empty_or_serialized L m = Inr bs"
  shows "bs \<noteq> []"
proof (rule header_write [OF assms(1,2)])
  fix cs
  assume "map_to_empty_or_serialized L m = Inr cs" and "header_from_bytes L cs = Inr m"
  then show "bs \<noteq> []"
    using assms(3) parse_empty by (auto simp: header_from_bytes_def)
qed

end

end
