(* ===== verification/Crypto.thy ===== *)
theory Crypto
  imports Header_Map
begin

text \<open>
  \<open>src/src/crypto/mod.rs\<close>: the algorithms, the traits that abstract the cryptography, and the
  fixed-width encoding of an ECDSA signature.

  A trait is a record of its methods.  The static traits \<open>Entropy\<close>, \<open>Encryption\<close>,
  \<open>Decryption\<close> and \<open>Hash\<close> are the type parameters of the code's functions and become
  arguments; \<open>SigningPublicKey\<close> and \<open>SigningPrivateKey\<close> are trait objects, whose methods
  may change what is behind \<open>&self\<close> (a TPM context, a remote service), so their methods thread a
  state of type \<open>'k\<close>.  A buffer passed as \<open>&mut [u8]\<close> is an argument and a result.
\<close>

section \<open>Algorithms\<close>

datatype encryption_algorithm = Aes128Gcm | Aes192Gcm | Aes256Gcm

datatype message_digest = Sha256 | Sha384 | Sha512

datatype signature_algorithm = ES256 | ES384 | ES512

text \<open>\<open>CoseAlgorithm\<close> is declared in \<open>encrypt.rs\<close>; \<open>From<CoseAlgorithm>\<close> is here.\<close>

datatype cose_algorithm = AesGcm96_128_128 | AesGcm96_128_192 | AesGcm96_128_256

fun encryption_algorithm_from :: "cose_algorithm \<Rightarrow> encryption_algorithm" where
  "encryption_algorithm_from AesGcm96_128_128 = Aes128Gcm"
| "encryption_algorithm_from AesGcm96_128_192 = Aes192Gcm"
| "encryption_algorithm_from AesGcm96_128_256 = Aes256Gcm"

text \<open>The ciphers and digests of the \<open>openssl\<close> crate that the code names.\<close>

datatype cipher = Cipher_aes_128_gcm | Cipher_aes_192_gcm | Cipher_aes_256_gcm

datatype openssl_digest = Openssl_sha256 | Openssl_sha384 | Openssl_sha512

fun cipher_from :: "encryption_algorithm \<Rightarrow> cipher" where
  "cipher_from Aes128Gcm = Cipher_aes_128_gcm"
| "cipher_from Aes192Gcm = Cipher_aes_192_gcm"
| "cipher_from Aes256Gcm = Cipher_aes_256_gcm"

fun openssl_digest_from :: "message_digest \<Rightarrow> openssl_digest" where
  "openssl_digest_from Sha256 = Openssl_sha256"
| "openssl_digest_from Sha384 = Openssl_sha384"
| "openssl_digest_from Sha512 = Openssl_sha512"

section \<open>Signature algorithms\<close>

text \<open>The discriminant \<open>sig_alg as i8\<close> and its conversion into a CBOR integer.\<close>

fun sig_alg_i8 :: "signature_algorithm \<Rightarrow> 8 word" where
  "sig_alg_i8 ES256 = -7"
| "sig_alg_i8 ES384 = -35"
| "sig_alg_i8 ES512 = -36"

definition i8_into :: "8 word \<Rightarrow> cbor_value" where
  "i8_into w = VInteger (sint w)"

fun key_length :: "signature_algorithm \<Rightarrow> nat" where
  "key_length ES256 = 32"
| "key_length ES384 = 48"
| "key_length ES512 = 66"

fun suggested_message_digest :: "signature_algorithm \<Rightarrow> message_digest" where
  "suggested_message_digest ES256 = Sha256"
| "suggested_message_digest ES384 = Sha384"
| "suggested_message_digest ES512 = Sha512"

definition sig_alg_from_str :: "string \<Rightarrow> signature_algorithm cose_result" where
  "sig_alg_from_str s =
     (if s = ''ES256'' then Ok ES256
      else if s = ''ES384'' then Ok ES384
      else if s = ''ES512'' then Ok ES512
      else Err (UnsupportedError (''Algorithm '' @ [CHR 0x27] @ s @ [CHR 0x27] @ '' is not supported'')))"

fun sig_alg_display :: "signature_algorithm \<Rightarrow> string" where
  "sig_alg_display ES256 = ''ES256''"
| "sig_alg_display ES384 = ''ES384''"
| "sig_alg_display ES512 = ''ES512''"

definition header_from_sig_alg :: "cbor_lib \<Rightarrow> signature_algorithm \<Rightarrow> header_map" where
  "header_from_sig_alg L sig_alg =
     (let map = header_new in snd (header_insert L map (VInteger 1) (i8_into (sig_alg_i8 sig_alg))))"

section \<open>The traits\<close>

record 'w entropy =
  rand_bytes :: "bytes \<Rightarrow> 'w \<Rightarrow> unit cose_result \<times> bytes \<times> 'w"

record encryption =
  encrypt_aead :: "encryption_algorithm \<Rightarrow> bytes \<Rightarrow> bytes option \<Rightarrow> bytes \<Rightarrow> bytes \<Rightarrow> bytes
    \<Rightarrow> bytes cose_result \<times> bytes"

record decryption =
  decrypt_aead :: "encryption_algorithm \<Rightarrow> bytes \<Rightarrow> bytes option \<Rightarrow> bytes \<Rightarrow> bytes \<Rightarrow> bytes
    \<Rightarrow> bytes cose_result"

record hash =
  hash_of :: "message_digest \<Rightarrow> bytes \<Rightarrow> bytes cose_result"

record 'k signing_public_key =
  get_parameters :: "'k \<Rightarrow> (signature_algorithm \<times> message_digest) cose_result \<times> 'k"
  verify :: "bytes \<Rightarrow> bytes \<Rightarrow> 'k \<Rightarrow> bool cose_result \<times> 'k"

record 'k signing_private_key = "'k signing_public_key" +
  sign :: "bytes \<Rightarrow> 'k \<Rightarrow> bytes cose_result \<times> 'k"

section \<open>The encoding of an ECDSA signature\<close>

text \<open>
  \<open>merge_ec_signature\<close> asserts that both factors fit, allocates \<open>2 * key_length\<close> zeros and
  copies each factor to the end of its half.
\<close>

definition merge_ec_signature :: "bytes \<Rightarrow> bytes \<Rightarrow> nat \<Rightarrow> bytes cose_result" where
  "merge_ec_signature bytes_r bytes_s key_len =
     obind (rust_assert (length bytes_r \<le> key_len) ''bytes_r.len() <= key_length'') (\<lambda>_.
     obind (rust_assert (length bytes_s \<le> key_len) ''bytes_s.len() <= key_length'') (\<lambda>_.
     let signature_bytes = replicate (key_len * 2) 0;
         offset_copy = key_len - length bytes_r in
     obind (copy_into offset_copy bytes_r signature_bytes) (\<lambda>signature_bytes.
     let offset_copy = key_len - length bytes_s + key_len in
     copy_into offset_copy bytes_s signature_bytes)))"

section \<open>Lemmas on the algorithms\<close>

lemma sig_alg_i8_inj [simp]: "sig_alg_i8 a = sig_alg_i8 b \<longleftrightarrow> a = b"
  by (cases a; cases b) simp_all

lemma sint_sig_alg [simp]:
  "sint (sig_alg_i8 ES256) = -7" "sint (sig_alg_i8 ES384) = -35" "sint (sig_alg_i8 ES512) = -36"
  by simp_all

lemma sint_sig_alg_inj [simp]: "sint (sig_alg_i8 a) = sint (sig_alg_i8 b) \<longleftrightarrow> a = b"
  by (cases a; cases b) simp_all

lemma sint_sig_alg_range:
  "- (2 ^ 64) \<le> sint (sig_alg_i8 a)" "sint (sig_alg_i8 a) < 2 ^ 64"
  by (cases a; simp)+

lemma wf_sig_alg [simp]: "wf_item cmp n (i8_into (sig_alg_i8 a))"
  by (cases a) (simp_all add: i8_into_def)

lemma key_length_pos [simp]: "0 < key_length a"
  by (cases a) auto

section \<open>Lemmas on the encoding\<close>

lemma rust_assert_true [simp]: "rust_assert True m = Ok ()"
  by (simp add: rust_assert_def)

lemma merge_ec_signature_ok:
  assumes "length r \<le> n" and "length s \<le> n"
  shows "merge_ec_signature r s n =
    Ok ((replicate (n - length r) 0 @ r) @ (replicate (n - length s) 0 @ s))"
proof -
  have first: "copy_into (n - length r) r (replicate (n * 2) 0) =
      (Ok (replicate (n - length r) 0 @ r @ replicate n 0) :: bytes cose_result)"
    using assms(1) by (simp add: copy_into_ok min_absorb2 mult_2_right)
  have second: "copy_into (n - length s + n) s (replicate (n - length r) 0 @ r @ replicate n 0) =
      (Ok ((replicate (n - length r) 0 @ r) @ (replicate (n - length s) 0 @ s)) :: bytes cose_result)"
    using assms by (simp add: copy_into_ok)
  show ?thesis
    using assms first second by (simp add: merge_ec_signature_def Let_def)
qed

lemma merge_ec_signature_panics:
  "n < length r \<or> n < length s \<Longrightarrow> \<exists>m. merge_ec_signature r s n = Panic m"
  by (auto simp: merge_ec_signature_def rust_assert_def Let_def)

lemma merge_ec_signature_Panic_iff: "(\<exists>m. merge_ec_signature r s n = Panic m) \<longleftrightarrow> n < length r \<or> n < length s"
  using merge_ec_signature_ok [of r n s] merge_ec_signature_panics [of n r s]
  by (cases "n < length r \<or> n < length s") auto

text \<open>What the verifiers recover: splitting at \<open>key_length\<close> gives back both numbers.\<close>

lemma split_merged:
  assumes "length r \<le> n" and "length s \<le> n"
  obtains sig where "merge_ec_signature r s n = Ok sig" and "length sig = 2 * n"
    and "split_at n sig = Ok (replicate (n - length r) 0 @ r, replicate (n - length s) 0 @ s)"
proof -
  let ?a = "replicate (n - length r) 0 @ r" and ?b = "replicate (n - length s) 0 @ s"
  have "length ?a = n" using assms(1) by simp
  then have "split_at n (?a @ ?b) = Ok (?a, ?b)"
    using split_at_append [of ?a ?b] by simp
  then show thesis
    using that [of "?a @ ?b"] assms merge_ec_signature_ok [OF assms] by simp
qed

section \<open>What a key pair promises\<close>

text \<open>
  The contract of the two signing traits, as the code that signs and verifies relies on it.  A
  private key and the public key that belongs to it report the same parameters, keep their state
  valid, and the public key accepts every signature that the private key makes.
\<close>

locale key_pair =
  fixes K :: "('k, 'm) signing_private_key_scheme"
    and P :: "('p, 'n) signing_public_key_scheme"
    and valid_priv :: "'k \<Rightarrow> bool"
    and valid_pub :: "'p \<Rightarrow> bool"
    and alg :: signature_algorithm
    and dig :: message_digest
  assumes priv_parameters: "valid_priv k \<Longrightarrow> \<exists>k'. get_parameters K k = (Ok (alg, dig), k') \<and> valid_priv k'"
    and pub_parameters: "valid_pub p \<Longrightarrow> \<exists>p'. get_parameters P p = (Ok (alg, dig), p') \<and> valid_pub p'"
    and sign_keeps: "valid_priv k \<Longrightarrow> valid_priv (snd (sign K d k))"
    and verify_keeps: "valid_pub p \<Longrightarrow> valid_pub (snd (verify P d s p))"
    and verify_signed: "valid_priv k \<Longrightarrow> sign K d k = (Ok s, k') \<Longrightarrow> valid_pub p \<Longrightarrow>
          fst (verify P d s p) = Ok True"
begin

lemma priv_parametersE:
  assumes "valid_priv k"
  obtains k' where "get_parameters K k = (Ok (alg, dig), k')" and "valid_priv k'"
  using priv_parameters [OF assms] by blast

lemma pub_parametersE:
  assumes "valid_pub p"
  obtains p' where "get_parameters P p = (Ok (alg, dig), p')" and "valid_pub p'"
  using pub_parameters [OF assms] by blast

lemma verify_signedE:
  assumes "valid_priv k" and "sign K d k = (Ok s, k')" and "valid_pub p"
  obtains p' where "verify P d s p = (Ok True, p')" and "valid_pub p'"
  using verify_signed [OF assms] verify_keeps [OF assms(3), of d s]
  by (cases "verify P d s p") auto

end

section \<open>What the other traits promise\<close>

text \<open>
  A source of entropy fills the buffer it is given; a slice cannot change its length.  Decryption
  under the same key, nonce and associated data undoes encryption, given the tag that encryption
  wrote into its buffer.
\<close>

locale entropy_source =
  fixes R :: "('w, 'r) entropy_scheme"
  assumes rand_length: "rand_bytes R buf w = (r, buf', w') \<Longrightarrow> length buf' = length buf"

locale aead =
  fixes E :: "'e encryption_scheme" and D :: "'d decryption_scheme"
  assumes tag_length: "encrypt_aead E a key iv aad data tag = (r, tag') \<Longrightarrow> length tag' = length tag"
    and decrypt_encrypted: "encrypt_aead E a key iv aad data tag = (Ok c, tag') \<Longrightarrow>
          decrypt_aead D a key iv aad c tag' = Ok data"

end
