(* ===== verification/Encrypt.thy ===== *)
theory Encrypt
  imports Crypto
begin

text \<open>
  \<open>src/src/encrypt.rs\<close>: the choice of the algorithm, the \<open>Enc_structure\<close> that is
  authenticated, the \<open>COSE_Encrypt0\<close> document, its creation, decryption and serialization.
\<close>

section \<open>Labels and algorithms\<close>

definition KTY :: "8 word" where "KTY = 1"

definition IV :: "8 word" where "IV = 5"

datatype cipher_configuration = Gcm

fun cose_alg :: "cipher_configuration \<Rightarrow> bytes \<Rightarrow> cose_algorithm option" where
  "cose_alg Gcm key =
     (if length key = 16 then Some AesGcm96_128_128
      else if length key = 24 then Some AesGcm96_128_192
      else if length key = 32 then Some AesGcm96_128_256
      else None)"

fun alg_value :: "cose_algorithm \<Rightarrow> nat" where
  "alg_value AesGcm96_128_128 = 1"
| "alg_value AesGcm96_128_192 = 2"
| "alg_value AesGcm96_128_256 = 3"

definition alg_from_value :: "8 word \<Rightarrow> cose_algorithm option" where
  "alg_from_value v =
     (if v = 1 then Some AesGcm96_128_128
      else if v = 2 then Some AesGcm96_128_192
      else if v = 3 then Some AesGcm96_128_256
      else None)"

fun tag_size :: "cose_algorithm \<Rightarrow> nat" where
  "tag_size AesGcm96_128_128 = 16"
| "tag_size AesGcm96_128_192 = 16"
| "tag_size AesGcm96_128_256 = 16"

fun iv_len :: "cose_algorithm \<Rightarrow> nat option" where
  "iv_len AesGcm96_128_128 = Some 12"
| "iv_len AesGcm96_128_192 = Some 12"
| "iv_len AesGcm96_128_256 = Some 12"

text \<open>\<open>i128 as i8\<close> keeps the low eight bits.\<close>

definition i128_as_i8 :: "int \<Rightarrow> 8 word" where
  "i128_as_i8 v = word_of_int v"

section \<open>The Enc\_structure\<close>

datatype enc_structure =
  EncStructure (enc_context: string) (enc_protected: bytes) (enc_external_aad: bytes)

definition enc_new_encrypt0 :: "bytes \<Rightarrow> cbor_error + enc_structure" where
  "enc_new_encrypt0 protected = Inr (EncStructure ''Encrypt0'' protected [])"

fun enc_structure_item :: "enc_structure \<Rightarrow> cbor_value" where
  "enc_structure_item (EncStructure ctx protected aad) = VArray [VText ctx, VBytes protected, VBytes aad]"

definition enc_structure_as_bytes :: "cbor_lib \<Rightarrow> enc_structure \<Rightarrow> cbor_error + bytes" where
  "enc_structure_as_bytes L s = to_vec L (enc_structure_item s)"

section \<open>The document\<close>

record cose_encrypt0 =
  enc0_protected :: bytes
  enc0_unprotected :: header_map
  enc0_ciphertext :: bytes

definition cose_encrypt0_item :: "cose_encrypt0 \<Rightarrow> cbor_value" where
  "cose_encrypt0_item doc =
     VArray [VBytes (enc0_protected doc), header_item (enc0_unprotected doc), VBytes (enc0_ciphertext doc)]"

text \<open>
  The derived \<open>Deserialize\<close> accepts the three fields as a sequence in order, or as a map by
  name; nothing else, so in particular no further tag.
  The derived code deserializes the values of a map as it meets them, while here the fields are collected first; the
  same maps are accepted, as the same documents, and a map with several faults may be refused with
  the error of another one of them, a \<open>SerializationError\<close> all the same.
\<close>

fun cose_encrypt0_deserialize :: "cbor_lib \<Rightarrow> cbor_value \<Rightarrow> cbor_error + cose_encrypt0" where
  "cose_encrypt0_deserialize L (VArray xs) =
     sbind (required_element (de_error L (Invalid_Length 0)) (bytebuf L) xs) (\<lambda>(protected, xs).
     sbind (required_element (de_error L (Invalid_Length 1)) (header_deserialize L) xs) (\<lambda>(unprotected, xs).
     sbind (required_element (de_error L (Invalid_Length 2)) (bytebuf L) xs) (\<lambda>(ciphertext, xs).
     case end_seq L xs of
       None \<Rightarrow> Inr \<lparr>enc0_protected = protected, enc0_unprotected = unprotected, enc0_ciphertext = ciphertext\<rparr>
     | Some e \<Rightarrow> Inl e)))"
| "cose_encrypt0_deserialize L (VMap es) =
     sbind (struct_fields L [''protected'', ''unprotected'', ''ciphertext''] es) (\<lambda>vs.
     case vs of
       [p, u, c] \<Rightarrow>
         sbind (bytebuf L p) (\<lambda>protected.
         sbind (header_deserialize L u) (\<lambda>unprotected.
         sbind (bytebuf L c) (\<lambda>ciphertext.
         Inr \<lparr>enc0_protected = protected, enc0_unprotected = unprotected, enc0_ciphertext = ciphertext\<rparr>)))
     | _ \<Rightarrow> Inl (de_error L (Invalid_Length (length vs))))"
| "cose_encrypt0_deserialize L _ = Inl (de_error L Invalid_Type)"

section \<open>Creation\<close>

definition cose_encrypt0_new :: "cbor_lib \<Rightarrow> ('w, 'r) entropy_scheme \<Rightarrow> 'e encryption_scheme
    \<Rightarrow> bytes \<Rightarrow> cipher_configuration \<Rightarrow> bytes \<Rightarrow> 'w \<Rightarrow> cose_encrypt0 cose_result \<times> 'w" where
  "cose_encrypt0_new L R E payload cipher_config key w =
     (case cose_alg cipher_config key of
        None \<Rightarrow> (Err (UnsupportedError ''Unsupported encryption algorithm''), w)
      | Some alg \<Rightarrow>
     (case iv_len alg of
        None \<Rightarrow> (Panic ''called Option::unwrap() on a None value'', w)
      | Some n \<Rightarrow>
     (case rand_bytes R (replicate n 0) w of (r, iv, w) \<Rightarrow>
     after (r, w) (\<lambda>_ w.
     let cose_alg_value = alg_value alg;
         protected = snd (header_insert L header_new (i8_into KTY) (VInteger (int cose_alg_value)));
         unprotected = snd (header_insert L header_new (i8_into IV) (VBytes iv)) in
     after (try_map SerializationError (map_to_empty_or_serialized L protected), w) (\<lambda>protected_bytes w.
     after (try_map SerializationError (enc_new_encrypt0 protected_bytes), w) (\<lambda>enc_structure w.
     let tag = replicate (tag_size alg) 0 in
     after (try_map SerializationError (enc_structure_as_bytes L enc_structure), w) (\<lambda>aad w.
     case encrypt_aead E (encryption_algorithm_from alg) key (Some iv) aad payload tag of (r, tag) \<Rightarrow>
     after (map_err (\<lambda>e. EncryptionError (Dyn_Cose e)) r, w) (\<lambda>ciphertext w.
     (Ok \<lparr>enc0_protected = protected_bytes, enc0_unprotected = unprotected,
           enc0_ciphertext = ciphertext @ tag\<rparr>, w)))))))))"

section \<open>Decryption\<close>

text \<open>
  \<open>overflow_checks\<close> is the build profile's setting; it decides what the subtraction of the tag
  size from the length of the ciphertext does when the ciphertext is shorter than the tag.
\<close>

definition decrypt :: "bool \<Rightarrow> cbor_lib \<Rightarrow> 'd decryption_scheme \<Rightarrow> cose_encrypt0 \<Rightarrow> bytes
    \<Rightarrow> (header_map \<times> header_map \<times> bytes) cose_result" where
  "decrypt overflow_checks L D doc key =
     obind (try_map SerializationError (header_from_bytes L (enc0_protected doc))) (\<lambda>protected.
     case header_get L protected (VInteger 1) of
       Some (VInteger protected_enc_alg) \<Rightarrow>
         (case alg_from_value (i128_as_i8 protected_enc_alg) of
            None \<Rightarrow> Err (UnsupportedError ''Unsupported encryption algorithm'')
          | Some alg \<Rightarrow>
              obind (try_map SerializationError (map_to_empty_or_serialized L protected)) (\<lambda>protected_bytes.
              obind (try_map SerializationError (enc_new_encrypt0 protected_bytes)) (\<lambda>enc_structure.
              case header_get L (enc0_unprotected doc) (VInteger 5) of
                Some (VBytes iv) \<Rightarrow>
                  obind (usize_sub overflow_checks (length (enc0_ciphertext doc)) (tag_size alg)) (\<lambda>mid.
                  obind (split_at mid (enc0_ciphertext doc)) (\<lambda>(ciphertext, tag).
                  obind (try_map SerializationError (enc_structure_as_bytes L enc_structure)) (\<lambda>aad.
                  obind (map_err (\<lambda>e. EncryptionError (Dyn_Cose e))
                    (decrypt_aead D (encryption_algorithm_from alg) key (Some iv) aad ciphertext tag)) (\<lambda>payload.
                  Ok (protected, enc0_unprotected doc, payload)))))
              | _ \<Rightarrow> Err (SpecificationError ''Unprotected Header contains invalid IV specification''))))
     | _ \<Rightarrow> Err (SpecificationError ''Protected Header contains invalid Encryption Algorithm specification''))"

section \<open>Serialization\<close>

definition encrypt0_as_bytes :: "cbor_lib \<Rightarrow> cose_encrypt0 \<Rightarrow> bool \<Rightarrow> bytes cose_result" where
  "encrypt0_as_bytes L doc tagged =
     try_map SerializationError
       (if tagged then to_vec L (tagged_item (Some 16) (cose_encrypt0_item doc))
        else to_vec L (cose_encrypt0_item doc))"

definition encrypt0_from_bytes :: "cbor_lib \<Rightarrow> bytes \<Rightarrow> cose_encrypt0 cose_result" where
  "encrypt0_from_bytes L bytes =
     obind (try_map SerializationError (tagged_from_slice L (cose_encrypt0_deserialize L) bytes)) (\<lambda>(tag, doc).
     obind (case tag of None \<Rightarrow> Ok ()
            | Some t \<Rightarrow> if t = 16 then Ok () else Err (TagError (Some t))) (\<lambda>_.
     obind (try_map SerializationError (header_from_bytes L (enc0_protected doc))) (\<lambda>_.
     Ok doc)))"

section \<open>What is authenticated\<close>

definition aead_item :: "bytes \<Rightarrow> cbor_value" where
  "aead_item protected = VArray [VText ''Encrypt0'', VBytes protected, VBytes []]"

lemma enc_new_encrypt0_Inr [simp]: "enc_new_encrypt0 p = Inr s \<longleftrightarrow> s = EncStructure ''Encrypt0'' p []"
  by (auto simp: enc_new_encrypt0_def)

lemma enc_structure_as_bytes_encrypt0 [simp]:
  "enc_structure_as_bytes L (EncStructure ''Encrypt0'' p []) = to_vec L (aead_item p)"
  by (simp add: enc_structure_as_bytes_def aead_item_def)

lemma aead_item_inj [simp]: "aead_item a = aead_item b \<longleftrightarrow> a = b"
  by (simp add: aead_item_def)

lemma wf_aead_item: "length p < 2 ^ 63 \<Longrightarrow> wf_item cmp (Suc n) (aead_item p)"
  by (simp add: aead_item_def rust_string_def)

section \<open>The algorithms\<close>

lemma tag_size_16 [simp]: "tag_size a = 16"
  by (cases a) auto

lemma iv_len_12 [simp]: "iv_len a = Some 12"
  by (cases a) auto

lemma alg_from_value_Some [simp]:
  "alg_from_value v = Some a \<longleftrightarrow> v = of_nat (alg_value a)"
  by (cases a) (auto simp: alg_from_value_def)

lemma i128_as_i8_alg [simp]: "i128_as_i8 (int (alg_value a)) = of_nat (alg_value a)"
  by (simp add: i128_as_i8_def)

lemma i128_as_i8_eq_iff: "i128_as_i8 v = i128_as_i8 w \<longleftrightarrow> v mod 256 = w mod 256"
  by (simp add: i128_as_i8_def word_of_int_eq_iff take_bit_eq_mod)

lemma labels [simp]: "i8_into KTY = VInteger 1" "i8_into IV = VInteger 5"
  by (simp_all add: i8_into_def KTY_def IV_def)

section \<open>Inversion and the steps of decryption\<close>

definition alg_header :: "cose_algorithm \<Rightarrow> header_map" where
  "alg_header alg = HeaderMap [(VInteger 1, VInteger (int (alg_value alg)))]"

definition iv_header :: "bytes \<Rightarrow> header_map" where
  "iv_header iv = HeaderMap [(VInteger 5, VBytes iv)]"

lemma cose_encrypt0_new_Ok:
  assumes "cose_encrypt0_new L R E payload cfg key w = (Ok doc, w')"
  obtains alg iv pb aad c tag
  where "cose_alg cfg key = Some alg"
    and "rand_bytes R (replicate 12 0) w = (Ok (), iv, w')"
    and "map_to_empty_or_serialized L (alg_header alg) = Inr pb"
    and "to_vec L (aead_item pb) = Inr aad"
    and "encrypt_aead E (encryption_algorithm_from alg) key (Some iv) aad payload (replicate 16 0) = (Ok c, tag)"
    and "doc = \<lparr>enc0_protected = pb, enc0_unprotected = iv_header iv, enc0_ciphertext = c @ tag\<rparr>"
proof -
  obtain r iv w1 where rand: "rand_bytes R (replicate 12 0) w = (r, iv, w1)"
    by (rule prod_cases3)
  obtain alg pb aad where 1: "cose_alg cfg key = Some alg" "r = Ok ()" "w1 = w'"
      "map_to_empty_or_serialized L (alg_header alg) = Inr pb" "to_vec L (aead_item pb) = Inr aad"
    and enc: "(case encrypt_aead E (encryption_algorithm_from alg) key (Some iv) aad payload (replicate 16 0) of (r, tag) \<Rightarrow>
       after (map_err (\<lambda>e. EncryptionError (Dyn_Cose e)) r, w1) (\<lambda>ciphertext w.
         (Ok \<lparr>enc0_protected = pb, enc0_unprotected = iv_header iv, enc0_ciphertext = ciphertext @ tag\<rparr>, w)))
       = (Ok doc, w')"
    using assms rand
    by (auto simp: cose_encrypt0_new_def Let_def header_single alg_header_def iv_header_def outcome_simps
        case_prod_unfold split: option.splits)
  obtain r tag where "encrypt_aead E (encryption_algorithm_from alg) key (Some iv) aad payload (replicate 16 0) = (r, tag)"
    by fastforce
  with enc 1 rand show thesis
    by (auto simp: outcome_simps intro!: that)
qed

lemma cose_encrypt0_new_unsupported:
  "cose_alg cfg key = None \<Longrightarrow>
   cose_encrypt0_new L R E payload cfg key w = (Err (UnsupportedError ''Unsupported encryption algorithm''), w)"
  by (simp add: cose_encrypt0_new_def)

text \<open>Decryption once the headers are known, up to the split of the ciphertext.\<close>

lemma decrypt_step:
  assumes "header_from_bytes L (enc0_protected doc) = Inr m"
    and "header_get L m (VInteger 1) = Some (VInteger v)"
    and "alg_from_value (i128_as_i8 v) = Some alg"
    and "map_to_empty_or_serialized L m = Inr pb"
    and "header_get L (enc0_unprotected doc) (VInteger 5) = Some (VBytes iv)"
  shows "decrypt oc L D doc key =
    obind (usize_sub oc (length (enc0_ciphertext doc)) 16) (\<lambda>mid.
    obind (split_at mid (enc0_ciphertext doc)) (\<lambda>(ciphertext, tag).
    obind (try_map SerializationError (to_vec L (aead_item pb))) (\<lambda>aad.
    obind (map_err (\<lambda>e. EncryptionError (Dyn_Cose e))
      (decrypt_aead D (encryption_algorithm_from alg) key (Some iv) aad ciphertext tag)) (\<lambda>payload.
    Ok (m, enc0_unprotected doc, payload)))))"
  unfolding decrypt_def enc_new_encrypt0_def try_map.simps obind.simps enc_structure_as_bytes_encrypt0
  by (simp add: assms del: alg_from_value_Some)

lemma decrypt_splits:
  assumes "header_from_bytes L (enc0_protected doc) = Inr m"
    and "header_get L m (VInteger 1) = Some (VInteger v)"
    and "alg_from_value (i128_as_i8 v) = Some alg"
    and "map_to_empty_or_serialized L m = Inr pb"
    and "header_get L (enc0_unprotected doc) (VInteger 5) = Some (VBytes iv)"
    and "to_vec L (aead_item pb) = Inr aad"
    and "enc0_ciphertext doc = c @ tag" and "length tag = 16" and "length (enc0_ciphertext doc) < 2 ^ 63"
  shows "decrypt oc L D doc key =
    obind (map_err (\<lambda>e. EncryptionError (Dyn_Cose e))
      (decrypt_aead D (encryption_algorithm_from alg) key (Some iv) aad c tag)) (\<lambda>payload.
    Ok (m, enc0_unprotected doc, payload))"
proof -
  have "usize_sub oc (length (enc0_ciphertext doc)) 16 = (Ok (length c) :: nat cose_result)"
    using assms(7-9) by (subst usize_sub_exact) simp_all
  moreover have "split_at (length c) (enc0_ciphertext doc) = (Ok (c, tag) :: (bytes \<times> bytes) cose_result)"
    using assms(7) by simp
  ultimately show ?thesis
    unfolding decrypt_step [OF assms(1-5)] by (simp add: assms(6))
qed

text \<open>Inversion of a successful decryption, up to the split of the ciphertext.\<close>

lemma case_integer_Ok:
  "(case x of VInteger v \<Rightarrow> f v | _ \<Rightarrow> Err e) = Ok r \<longleftrightarrow> (\<exists>v. x = VInteger v \<and> f v = Ok r)"
  by (cases x) auto

lemma case_bytes_Ok:
  "(case x of VBytes b \<Rightarrow> f b | _ \<Rightarrow> Err e) = Ok r \<longleftrightarrow> (\<exists>b. x = VBytes b \<and> f b = Ok r)"
  by (cases x) auto

lemma case_Some_Ok:
  "(case a of None \<Rightarrow> Err e | Some x \<Rightarrow> f x) = Ok r \<longleftrightarrow> (\<exists>x. a = Some x \<and> f x = Ok r)"
  by (auto split: option.splits)

lemma decrypt_Ok:
  assumes "decrypt oc L D doc key = Ok (m, u, payload)"
  obtains v alg iv pb
  where "header_from_bytes L (enc0_protected doc) = Inr m"
    and "header_get L m (VInteger 1) = Some (VInteger v)"
    and "alg_from_value (i128_as_i8 v) = Some alg"
    and "map_to_empty_or_serialized L m = Inr pb"
    and "header_get L (enc0_unprotected doc) (VInteger 5) = Some (VBytes iv)"
    and "u = enc0_unprotected doc"
  using assms
  by (auto simp: decrypt_def case_integer_Ok case_bytes_Ok case_Some_Ok outcome_simps
      simp del: alg_from_value_Some)

lemma split_tag_length:
  assumes "usize_sub oc (length ct) 16 = (Ok mid :: nat cose_result)"
    and "split_at mid ct = (Ok (c, tag) :: (bytes \<times> bytes) cose_result)"
    and "length ct < 2 ^ 63"
  shows "length tag = 16"
proof (cases "16 \<le> length ct")
  case True
  then have "usize_sub oc (length ct) 16 = (Ok (length ct - 16) :: nat cose_result)"
    using assms(3) by (intro usize_sub_exact) simp_all
  then have "mid = length ct - 16" using assms(1) by simp
  with True assms(2) show ?thesis by (auto simp: split_at_def split: if_splits)
next
  case False
  then have "\<not> oc" using assms(1) by (auto simp: usize_sub_def)
  moreover obtain n where "usize_sub False (length ct) 16 = (Ok n :: nat cose_result)" "2 ^ 63 \<le> n"
    using False usize_sub_wraps [of "length ct" 16] by auto
  ultimately have "2 ^ 63 \<le> mid" using assms(1) by simp
  with assms(2,3) show ?thesis by (auto simp: split_at_def split: if_splits)
qed

text \<open>A successful decryption is one that the AEAD accepted.\<close>

lemma decrypt_Ok_accepted:
  assumes "decrypt oc L D doc key = Ok (m, u, payload)" and "length (enc0_ciphertext doc) < 2 ^ 63"
  obtains v alg iv c tag pb aad
  where "header_from_bytes L (enc0_protected doc) = Inr m" and "u = enc0_unprotected doc"
    and "header_get L m (VInteger 1) = Some (VInteger v)" and "alg_from_value (i128_as_i8 v) = Some alg"
    and "header_get L u (VInteger 5) = Some (VBytes iv)"
    and "enc0_ciphertext doc = c @ tag" and "length tag = 16"
    and "map_to_empty_or_serialized L m = Inr pb" and "to_vec L (aead_item pb) = Inr aad"
    and "decrypt_aead D (encryption_algorithm_from alg) key (Some iv) aad c tag = Ok payload"
proof (rule decrypt_Ok [OF assms(1)])
  fix v alg iv pb
  assume step: "header_from_bytes L (enc0_protected doc) = Inr m" "header_get L m (VInteger 1) = Some (VInteger v)"
    "alg_from_value (i128_as_i8 v) = Some alg" "map_to_empty_or_serialized L m = Inr pb"
    "header_get L (enc0_unprotected doc) (VInteger 5) = Some (VBytes iv)" "u = enc0_unprotected doc"
  obtain mid c tag aad where rest: "usize_sub oc (length (enc0_ciphertext doc)) 16 = (Ok mid :: nat cose_result)"
    "split_at mid (enc0_ciphertext doc) = (Ok (c, tag) :: (bytes \<times> bytes) cose_result)"
    "to_vec L (aead_item pb) = Inr aad"
    "decrypt_aead D (encryption_algorithm_from alg) key (Some iv) aad c tag = Ok payload"
    using assms(1) unfolding decrypt_step [OF step(1-5)] by (auto simp: outcome_simps)
  have "enc0_ciphertext doc = c @ tag" using rest(2) by (auto simp: split_at_def split: if_splits)
  with that step rest split_tag_length [OF rest(1,2) assms(2)] show thesis by simp
qed

text \<open>
  A ciphertext shorter than the tag: the subtraction panics when overflow is checked; when it is
  not, the wrapped length is out of range for the split, which panics.
\<close>

lemma decrypt_short_panics:
  assumes "header_from_bytes L (enc0_protected doc) = Inr m"
    and "header_get L m (VInteger 1) = Some (VInteger v)"
    and "alg_from_value (i128_as_i8 v) = Some alg"
    and "map_to_empty_or_serialized L m = Inr pb"
    and "header_get L (enc0_unprotected doc) (VInteger 5) = Some (VBytes iv)"
    and short: "length (enc0_ciphertext doc) < 16"
  shows "\<exists>msg. decrypt oc L D doc key = Panic msg"
proof (cases oc)
  case True
  then show ?thesis
    unfolding decrypt_step [OF assms(1-5)] using short by (simp add: usize_sub_def)
next
  case False
  obtain n where n: "usize_sub False (length (enc0_ciphertext doc)) 16 = (Ok n :: nat cose_result)" "2 ^ 63 \<le> n"
    using usize_sub_wraps [OF short] by auto
  have "split_at n (enc0_ciphertext doc) = (Panic ''mid > len'' :: (bytes \<times> bytes) cose_result)"
    using n(2) short by (simp add: split_at_panics)
  with False n(1) show ?thesis
    unfolding decrypt_step [OF assms(1-5)] by simp
qed

text \<open>The errors of the headers.\<close>

lemma decrypt_no_algorithm:
  assumes "header_from_bytes L (enc0_protected doc) = Inr m"
    and "\<And>v. header_get L m (VInteger 1) \<noteq> Some (VInteger v)"
  shows "decrypt oc L D doc key =
    Err (SpecificationError ''Protected Header contains invalid Encryption Algorithm specification'')"
  using assms by (auto simp: decrypt_def split: option.splits cbor_value.splits)

lemma decrypt_unknown_algorithm:
  assumes "header_from_bytes L (enc0_protected doc) = Inr m"
    and "header_get L m (VInteger 1) = Some (VInteger v)" and "alg_from_value (i128_as_i8 v) = None"
  shows "decrypt oc L D doc key = Err (UnsupportedError ''Unsupported encryption algorithm'')"
  using assms by (simp add: decrypt_def)

lemma decrypt_no_iv:
  assumes "header_from_bytes L (enc0_protected doc) = Inr m"
    and "header_get L m (VInteger 1) = Some (VInteger v)" and "alg_from_value (i128_as_i8 v) = Some alg"
    and "map_to_empty_or_serialized L m = Inr pb"
    and "\<And>iv. header_get L (enc0_unprotected doc) (VInteger 5) \<noteq> Some (VBytes iv)"
  shows "decrypt oc L D doc key =
    Err (SpecificationError ''Unprotected Header contains invalid IV specification'')"
  unfolding decrypt_def enc_new_encrypt0_def try_map.simps obind.simps
  using assms by (auto simp del: alg_from_value_Some split: option.splits cbor_value.splits)

text \<open>Exactly when decryption panics: the ciphertext is too short, or the back end panics.\<close>

lemma case_integer_Panic:
  "(case x of VInteger v \<Rightarrow> f v | _ \<Rightarrow> Err e) = Panic m \<longleftrightarrow> (\<exists>v. x = VInteger v \<and> f v = Panic m)"
  by (cases x) auto

lemma case_bytes_Panic:
  "(case x of VBytes b \<Rightarrow> f b | _ \<Rightarrow> Err e) = Panic m \<longleftrightarrow> (\<exists>b. x = VBytes b \<and> f b = Panic m)"
  by (cases x) auto

lemma case_Some_Panic:
  "(case a of None \<Rightarrow> Err e | Some x \<Rightarrow> f x) = Panic m \<longleftrightarrow> (\<exists>x. a = Some x \<and> f x = Panic m)"
  by (auto split: option.splits)

lemma decrypt_Panic_headers:
  assumes "decrypt oc L D doc key = Panic msg"
  obtains m v alg pb iv
  where "header_from_bytes L (enc0_protected doc) = Inr m"
    and "header_get L m (VInteger 1) = Some (VInteger v)"
    and "alg_from_value (i128_as_i8 v) = Some alg"
    and "map_to_empty_or_serialized L m = Inr pb"
    and "header_get L (enc0_unprotected doc) (VInteger 5) = Some (VBytes iv)"
  using assms
  by (auto simp: decrypt_def case_integer_Panic case_bytes_Panic case_Some_Panic outcome_simps
      simp del: alg_from_value_Some)

lemma decrypt_Panic_split:
  assumes h: "header_from_bytes L (enc0_protected doc) = Inr m" "header_get L m (VInteger 1) = Some (VInteger v)"
      "alg_from_value (i128_as_i8 v) = Some alg" "map_to_empty_or_serialized L m = Inr pb"
      "header_get L (enc0_unprotected doc) (VInteger 5) = Some (VBytes iv)"
    and len: "16 \<le> length (enc0_ciphertext doc)" "length (enc0_ciphertext doc) < 2 ^ 63"
    and panic: "decrypt oc L D doc key = Panic msg"
  shows "\<exists>aad c tag. to_vec L (aead_item pb) = Inr aad \<and> enc0_ciphertext doc = c @ tag \<and> length tag = 16
    \<and> decrypt_aead D (encryption_algorithm_from alg) key (Some iv) aad c tag = Panic msg"
proof -
  let ?ct = "enc0_ciphertext doc"
  let ?c = "take (length ?ct - 16) ?ct" and ?tag = "drop (length ?ct - 16) ?ct"
  have split: "?ct = ?c @ ?tag" "length ?tag = 16" using len(1) by simp_all
  have mid: "usize_sub oc (length ?ct) 16 = (Ok (length ?ct - 16) :: nat cose_result)"
    using len by (intro usize_sub_exact) simp_all
  have "split_at (length ?ct - 16) ?ct = (Ok (?c, ?tag) :: (bytes \<times> bytes) cose_result)"
    by (simp add: split_at_def)
  then obtain aad where "to_vec L (aead_item pb) = Inr aad"
    "decrypt_aead D (encryption_algorithm_from alg) key (Some iv) aad ?c ?tag = Panic msg"
    using panic unfolding decrypt_step [OF h] mid by (auto simp: outcome_simps)
  with split show ?thesis by blast
qed

lemma decrypt_Panic_iff:
  assumes len: "length (enc0_ciphertext doc) < 2 ^ 63"
  shows "(\<exists>msg. decrypt oc L D doc key = Panic msg) \<longleftrightarrow>
    (\<exists>m v alg pb iv. header_from_bytes L (enc0_protected doc) = Inr m
      \<and> header_get L m (VInteger 1) = Some (VInteger v)
      \<and> alg_from_value (i128_as_i8 v) = Some alg
      \<and> map_to_empty_or_serialized L m = Inr pb
      \<and> header_get L (enc0_unprotected doc) (VInteger 5) = Some (VBytes iv)
      \<and> (length (enc0_ciphertext doc) < 16
         \<or> (\<exists>aad c tag msg. to_vec L (aead_item pb) = Inr aad \<and> enc0_ciphertext doc = c @ tag \<and> length tag = 16
              \<and> decrypt_aead D (encryption_algorithm_from alg) key (Some iv) aad c tag = Panic msg)))"
  (is "_ \<longleftrightarrow> ?cause")
proof
  assume "\<exists>msg. decrypt oc L D doc key = Panic msg"
  then obtain msg where panic: "decrypt oc L D doc key = Panic msg" ..
  from this show ?cause
  proof (rule decrypt_Panic_headers)
    fix m v alg pb iv
    assume h: "header_from_bytes L (enc0_protected doc) = Inr m" "header_get L m (VInteger 1) = Some (VInteger v)"
      "alg_from_value (i128_as_i8 v) = Some alg" "map_to_empty_or_serialized L m = Inr pb"
      "header_get L (enc0_unprotected doc) (VInteger 5) = Some (VBytes iv)"
    show ?cause
    proof (cases "length (enc0_ciphertext doc) < 16")
      case False
      with decrypt_Panic_split [OF h _ len panic] h show ?thesis by (metis not_less)
    qed (use h in blast)
  qed
next
  assume ?cause
  then obtain m v alg pb iv where h: "header_from_bytes L (enc0_protected doc) = Inr m"
    "header_get L m (VInteger 1) = Some (VInteger v)" "alg_from_value (i128_as_i8 v) = Some alg"
    "map_to_empty_or_serialized L m = Inr pb" "header_get L (enc0_unprotected doc) (VInteger 5) = Some (VBytes iv)"
    and why: "length (enc0_ciphertext doc) < 16
         \<or> (\<exists>aad c tag msg. to_vec L (aead_item pb) = Inr aad \<and> enc0_ciphertext doc = c @ tag \<and> length tag = 16
              \<and> decrypt_aead D (encryption_algorithm_from alg) key (Some iv) aad c tag = Panic msg)"
    by blast
  from why show "\<exists>msg. decrypt oc L D doc key = Panic msg"
  proof (elim disjE exE conjE)
    assume "length (enc0_ciphertext doc) < 16"
    then show ?thesis by (rule decrypt_short_panics [OF h])
  next
    fix aad c tag msg
    assume a: "to_vec L (aead_item pb) = Inr aad" "enc0_ciphertext doc = c @ tag" "length tag = 16"
      "decrypt_aead D (encryption_algorithm_from alg) key (Some iv) aad c tag = Panic msg"
    show ?thesis unfolding decrypt_splits [OF h a(1-3) len] a(4) by simp
  qed
qed

text \<open>Exactly when creation panics: the source of entropy or the AEAD does.\<close>

lemma cose_encrypt0_new_Panic_iff:
  "(\<exists>msg w'. cose_encrypt0_new L R E payload cfg key w = (Panic msg, w')) \<longleftrightarrow>
   (\<exists>alg. cose_alg cfg key = Some alg
     \<and> ((\<exists>msg iv w1. rand_bytes R (replicate 12 0) w = (Panic msg, iv, w1))
       \<or> (\<exists>iv w1 pb aad msg tag. rand_bytes R (replicate 12 0) w = (Ok (), iv, w1)
           \<and> map_to_empty_or_serialized L (alg_header alg) = Inr pb \<and> to_vec L (aead_item pb) = Inr aad
           \<and> encrypt_aead E (encryption_algorithm_from alg) key (Some iv) aad payload (replicate 16 0) = (Panic msg, tag))))"
proof (cases "cose_alg cfg key")
  case (Some alg)
  obtain r iv w1 where rand: "rand_bytes R (replicate 12 0) w = (r, iv, w1)" by (rule prod_cases3)
  have pair: "(\<exists>msg tag. x = (Panic msg, tag)) \<longleftrightarrow> (\<exists>msg. fst x = Panic msg)" for x :: "bytes cose_result \<times> bytes"
    by (cases x) auto
  show ?thesis
    using Some by (cases r)
      (auto simp: cose_encrypt0_new_def rand Let_def header_single alg_header_def outcome_simps case_prod_unfold pair)
qed (simp add: cose_encrypt0_new_unsupported)

section \<open>Encryption and decryption with a lawful suite\<close>

definition encrypt0_storable :: "cbor_lib \<Rightarrow> cose_encrypt0 \<Rightarrow> bool" where
  "encrypt0_storable L doc \<longleftrightarrow>
     length (enc0_protected doc) < 2 ^ 63 \<and> header_storable L (enc0_unprotected doc)
     \<and> length (enc0_ciphertext doc) < 2 ^ 63"

text \<open>Neither reading nor writing a document panics.\<close>

lemma tag_checked_not_Panic: "(case tag of None \<Rightarrow> Ok () | Some t \<Rightarrow> if c t then Ok () else Err (e t)) \<noteq> Panic p"
  by (cases tag) auto

lemma encrypt0_io_no_panic: "encrypt0_from_bytes L bs \<noteq> Panic p" "encrypt0_as_bytes L doc tagged \<noteq> Panic p"
  by (auto simp: encrypt0_from_bytes_def encrypt0_as_bytes_def outcome_simps tag_checked_not_Panic)

context serde_cbor
begin

lemma case_three_Inr:
  "(case vs of [p, u, c] \<Rightarrow> f p u c | _ \<Rightarrow> Inl e) = Inr r \<longleftrightarrow> (\<exists>p u c. vs = [p, u, c] \<and> f p u c = Inr r)"
  by (auto split: list.split)

text \<open>
  The items that are a document: an array of exactly the three fields, or a map that has them.
\<close>

lemma cose_encrypt0_deserialize_Inr:
  "cose_encrypt0_deserialize L item = Inr doc \<longleftrightarrow>
   (\<exists>p u c. (item = VArray [p, u, c]
        \<or> (\<exists>es. item = VMap es \<and> struct_fields L [''protected'', ''unprotected'', ''ciphertext''] es = Inr [p, u, c]))
      \<and> bytebuf L p = Inr (enc0_protected doc) \<and> header_deserialize L u = Inr (enc0_unprotected doc)
      \<and> bytebuf L c = Inr (enc0_ciphertext doc))"
proof (cases item)
  case (VArray xs)
  then show ?thesis by (cases doc) (auto simp: outcome_simps)
next
  case (VMap es)
  then show ?thesis by (cases doc) (auto simp: outcome_simps case_three_Inr)
qed simp_all

lemma alg_header_storable: "header_storable L (alg_header alg)"
  unfolding alg_header_def by (rule header_single_storable [of 0]) (cases alg; simp)+

lemma alg_header_not_empty: "\<not> header_is_empty (alg_header alg)"
  by (simp add: alg_header_def)

lemma alg_header_get: "header_get L (alg_header alg) (VInteger 1) = Some (VInteger (int (alg_value alg)))"
  by (simp add: alg_header_def)

lemma iv_header_get: "header_get L (iv_header iv) (VInteger 5) = Some (VBytes iv)"
  by (simp add: iv_header_def)

lemma iv_header_storable: "length iv < 2 ^ 63 \<Longrightarrow> header_storable L (iv_header iv)"
  unfolding iv_header_def by (rule header_single_storable [of 0]) simp_all

lemma alg_header_bytes:
  "map_to_empty_or_serialized L (alg_header alg) = Inr pb \<Longrightarrow> header_from_bytes L pb = Inr (alg_header alg)"
  by (rule header_write [OF alg_header_storable alg_header_not_empty [of alg]]) auto

lemma wf_cose_encrypt0_item:
  "encrypt0_storable L doc \<Longrightarrow> wf_value L (Suc (Suc (header_depth L))) (cose_encrypt0_item doc)"
  by (simp add: encrypt0_storable_def header_storable_def cose_encrypt0_item_def)

lemma cose_encrypt0_not_tag: "\<forall>t u. cose_encrypt0_item doc \<noteq> VTag t u"
  by (simp add: cose_encrypt0_item_def)

lemma cose_encrypt0_deserialize_item:
  "encrypt0_storable L doc \<Longrightarrow> cose_encrypt0_deserialize L (cose_encrypt0_item doc) = Inr doc"
  by (simp add: cose_encrypt0_item_def bytebuf_bytes header_deserialize_item encrypt0_storable_def end_seq_done)

lemma encrypt0_write_read:
  assumes "encrypt0_storable L doc"
  obtains bs where "encrypt0_as_bytes L doc tagged = Ok bs"
    and "tagged_from_slice L (cose_encrypt0_deserialize L) bs = Inr (if tagged then Some 16 else None, doc)"
proof -
  let ?tag = "if tagged then Some 16 else None" and ?v = "cose_encrypt0_item doc"
  have "wf_value L (depth_limit L) (tagged_item ?tag ?v)"
    using wf_tagged_item [OF wf_cose_encrypt0_item [OF assms]] by simp
  then obtain bs where bs: "to_vec L (tagged_item ?tag ?v) = Inr bs" "parse L bs = Inr (tagged_item ?tag ?v)"
    using write_read by blast
  show thesis
  proof (rule that [of bs])
    show "encrypt0_as_bytes L doc tagged = Ok bs"
      using bs(1) by (simp add: encrypt0_as_bytes_def split: if_splits)
    show "tagged_from_slice L (cose_encrypt0_deserialize L) bs = Inr (?tag, doc)"
      unfolding tagged_from_slice_item [OF bs(2) cose_encrypt0_not_tag]
      by (simp add: cose_encrypt0_deserialize_item [OF assms])
  qed
qed

lemma encrypt0_roundtrip:
  assumes "encrypt0_storable L doc" and "header_from_bytes L (enc0_protected doc) = Inr m"
  shows "\<exists>bs. encrypt0_as_bytes L doc tagged = Ok bs \<and> encrypt0_from_bytes L bs = Ok doc"
  by (rule encrypt0_write_read [OF assms(1), of tagged]) (use assms(2) in \<open>simp add: encrypt0_from_bytes_def\<close>)

lemma encrypt0_unreadable:
  assumes "encrypt0_storable L doc" and "header_from_bytes L (enc0_protected doc) = Inl e"
  shows "\<exists>bs. encrypt0_as_bytes L doc tagged = Ok bs \<and> encrypt0_from_bytes L bs = Err (SerializationError e)"
  by (rule encrypt0_write_read [OF assms(1), of tagged]) (use assms(2) in \<open>simp add: encrypt0_from_bytes_def\<close>)

end

locale encrypt0_suite = serde_cbor + aead + entropy_source
begin

text \<open>
  Decryption of a fresh document, where its protected bytes may be exchanged for any other
  encoding \<open>pb\<close> of the same header.
\<close>

lemma new_decrypts:
  assumes new: "cose_encrypt0_new L R E payload cfg key w = (Ok doc, w')"
    and pb: "header_from_bytes L pb = header_from_bytes L (enc0_protected doc)"
    and len: "length (enc0_ciphertext doc) < 2 ^ 63"
  shows "\<exists>alg. cose_alg cfg key = Some alg \<and>
    decrypt oc L D (doc\<lparr>enc0_protected := pb\<rparr>) key = Ok (alg_header alg, enc0_unprotected doc, payload)"
proof (rule cose_encrypt0_new_Ok [OF new])
  fix alg iv p aad c tag
  assume alg: "cose_alg cfg key = Some alg"
    and p: "map_to_empty_or_serialized L (alg_header alg) = Inr p"
    and aad: "to_vec L (aead_item p) = Inr aad"
    and enc: "encrypt_aead E (encryption_algorithm_from alg) key (Some iv) aad payload (replicate 16 0) = (Ok c, tag)"
    and doc: "doc = \<lparr>enc0_protected = p, enc0_unprotected = iv_header iv, enc0_ciphertext = c @ tag\<rparr>"
  let ?doc = "doc\<lparr>enc0_protected := pb\<rparr>"
  have "length tag = 16" using tag_length [OF enc] by simp
  moreover have "header_from_bytes L (enc0_protected ?doc) = Inr (alg_header alg)"
    using pb doc alg_header_bytes [OF p] by simp
  ultimately have "decrypt oc L D ?doc key =
    obind (map_err (\<lambda>e. EncryptionError (Dyn_Cose e))
      (decrypt_aead D (encryption_algorithm_from alg) key (Some iv) aad c tag)) (\<lambda>payload.
    Ok (alg_header alg, enc0_unprotected ?doc, payload))"
    using doc len by (intro decrypt_splits [OF _ alg_header_get _ p _ aad]) (simp_all add: iv_header_get)
  then show ?thesis
    using alg decrypt_encrypted [OF enc] by simp
qed

lemma new_decrypts_self:
  assumes "cose_encrypt0_new L R E payload cfg key w = (Ok doc, w')" and "length (enc0_ciphertext doc) < 2 ^ 63"
  shows "\<exists>alg. cose_alg cfg key = Some alg \<and>
    decrypt oc L D doc key = Ok (alg_header alg, enc0_unprotected doc, payload)"
  using new_decrypts [OF assms(1) refl assms(2), of oc] by simp

text \<open>The shape of a fresh document.\<close>

lemma new_shape:
  assumes new: "cose_encrypt0_new L R E payload cfg key w = (Ok doc, w')"
  shows "\<exists>iv. length iv = 12 \<and> rand_bytes R (replicate 12 0) w = (Ok (), iv, w')
    \<and> enc0_unprotected doc = iv_header iv \<and> 16 \<le> length (enc0_ciphertext doc)"
proof (rule cose_encrypt0_new_Ok [OF new])
  fix alg iv p aad c tag
  assume r: "rand_bytes R (replicate 12 0) w = (Ok (), iv, w')"
    and enc: "encrypt_aead E (encryption_algorithm_from alg) key (Some iv) aad payload (replicate 16 0) = (Ok c, tag)"
    and doc: "doc = \<lparr>enc0_protected = p, enc0_unprotected = iv_header iv, enc0_ciphertext = c @ tag\<rparr>"
  then show ?thesis
    using rand_length [OF r] tag_length [OF enc] by auto
qed

end

end
