(* ===== verification/Openssl.thy ===== *)
theory Openssl
  imports Encrypt
begin

text \<open>
  \<open>src/src/crypto/openssl.rs\<close>: the implementation of \<open>Entropy\<close>, \<open>Encryption\<close>,
  \<open>Decryption\<close> and \<open>Hash\<close> by the \<open>openssl\<close> crate, whose four functions are the
  parameter \<open>openssl_lib\<close>.
\<close>

record 'w openssl_lib =
  ossl_rand_bytes :: "bytes \<Rightarrow> 'w \<Rightarrow> (ext_error + unit) \<times> bytes \<times> 'w"
  ossl_encrypt_aead :: "cipher \<Rightarrow> bytes \<Rightarrow> bytes option \<Rightarrow> bytes \<Rightarrow> bytes \<Rightarrow> bytes
    \<Rightarrow> (ext_error, bytes) outcome \<times> bytes"
  ossl_decrypt_aead :: "cipher \<Rightarrow> bytes \<Rightarrow> bytes option \<Rightarrow> bytes \<Rightarrow> bytes \<Rightarrow> bytes
    \<Rightarrow> (ext_error, bytes) outcome"
  ossl_hash :: "openssl_digest \<Rightarrow> bytes \<Rightarrow> ext_error + bytes"

section \<open>The methods\<close>

definition openssl_rand_bytes :: "'w openssl_lib \<Rightarrow> bytes \<Rightarrow> 'w \<Rightarrow> unit cose_result \<times> bytes \<times> 'w" where
  "openssl_rand_bytes OL buff w =
     (case ossl_rand_bytes OL buff w of (r, buff, w) \<Rightarrow>
        (try_map (\<lambda>e. EntropyError (Dyn_Ext e)) r, buff, w))"

definition openssl_encrypt_aead :: "'w openssl_lib \<Rightarrow> encryption_algorithm \<Rightarrow> bytes \<Rightarrow> bytes option
    \<Rightarrow> bytes \<Rightarrow> bytes \<Rightarrow> bytes \<Rightarrow> bytes cose_result \<times> bytes" where
  "openssl_encrypt_aead OL algo key iv aad data tag =
     (let cipher = (case algo of
          Aes128Gcm \<Rightarrow> Cipher_aes_128_gcm
        | Aes192Gcm \<Rightarrow> Cipher_aes_192_gcm
        | Aes256Gcm \<Rightarrow> Cipher_aes_256_gcm)
      in case ossl_encrypt_aead OL cipher key iv aad data tag of (r, tag) \<Rightarrow>
        (map_err (\<lambda>e. EncryptionError (Dyn_Ext e)) r, tag))"

definition openssl_decrypt_aead :: "'w openssl_lib \<Rightarrow> encryption_algorithm \<Rightarrow> bytes \<Rightarrow> bytes option
    \<Rightarrow> bytes \<Rightarrow> bytes \<Rightarrow> bytes \<Rightarrow> bytes cose_result" where
  "openssl_decrypt_aead OL algo key iv aad ciphertext tag =
     (let cipher = cipher_from algo
      in map_err (\<lambda>e. EncryptionError (Dyn_Ext e)) (ossl_decrypt_aead OL cipher key iv aad ciphertext tag))"

definition openssl_hash :: "'w openssl_lib \<Rightarrow> message_digest \<Rightarrow> bytes \<Rightarrow> bytes cose_result" where
  "openssl_hash OL digest data =
     try_map (\<lambda>e. HashingError (Dyn_Ext e)) (ossl_hash OL (openssl_digest_from digest) data)"

section \<open>The trait implementations\<close>

definition openssl_entropy :: "'w openssl_lib \<Rightarrow> 'w entropy" where
  "openssl_entropy OL = \<lparr>rand_bytes = openssl_rand_bytes OL\<rparr>"

definition openssl_encryption :: "'w openssl_lib \<Rightarrow> encryption" where
  "openssl_encryption OL = \<lparr>encrypt_aead = openssl_encrypt_aead OL\<rparr>"

definition openssl_decryption :: "'w openssl_lib \<Rightarrow> decryption" where
  "openssl_decryption OL = \<lparr>decrypt_aead = openssl_decrypt_aead OL\<rparr>"

definition openssl_hasher :: "'w openssl_lib \<Rightarrow> hash" where
  "openssl_hasher OL = \<lparr>hash_of = openssl_hash OL\<rparr>"

lemma openssl_hasher_no_panic: "hash_of (openssl_hasher OL) dig data \<noteq> Panic m"
  by (simp add: openssl_hasher_def openssl_hash_def)

section \<open>What is relied on, and the contracts that follow\<close>

text \<open>
  \<open>rand_bytes\<close> and \<open>encrypt_aead\<close> cannot change the length of the slices they fill, and
  \<open>decrypt_aead\<close> undoes \<open>encrypt_aead\<close> under the same cipher, key, nonce and data.
\<close>

locale openssl_laws =
  fixes OL :: "'w openssl_lib"
  assumes ossl_rand_length: "ossl_rand_bytes OL buf w = (r, buf', w') \<Longrightarrow> length buf' = length buf"
    and ossl_tag_length: "ossl_encrypt_aead OL c key iv aad data tag = (q, tag') \<Longrightarrow> length tag' = length tag"
    and ossl_decrypt: "ossl_encrypt_aead OL c key iv aad data tag = (Ok ct, tag') \<Longrightarrow>
          ossl_decrypt_aead OL c key iv aad ct tag' = Ok data"

text \<open>
  Encryption chooses the cipher by its own match and decryption by \<open>From\<close>; the two agree, which
  is what makes the pair an AEAD.
\<close>

lemma encrypt_cipher:
  "(case algo of Aes128Gcm \<Rightarrow> Cipher_aes_128_gcm | Aes192Gcm \<Rightarrow> Cipher_aes_192_gcm
     | Aes256Gcm \<Rightarrow> Cipher_aes_256_gcm) = cipher_from algo"
  by (cases algo) simp_all

sublocale openssl_laws \<subseteq> aead "openssl_encryption OL" "openssl_decryption OL"
  by unfold_locales
    (auto simp: openssl_encryption_def openssl_decryption_def openssl_encrypt_aead_def
      openssl_decrypt_aead_def encrypt_cipher Let_def split: prod.splits
      dest: ossl_tag_length ossl_decrypt)

sublocale openssl_laws \<subseteq> entropy_source "openssl_entropy OL"
  by unfold_locales
    (auto simp: openssl_entropy_def openssl_rand_bytes_def split: prod.splits dest: ossl_rand_length)

end
