(* ===== verification/Openssl_Pkey.thy ===== *)
theory Openssl_Pkey
  imports Crypto
begin

text \<open>
  \<open>src/src/crypto/openssl_pkey.rs\<close>: the signing traits on \<open>openssl\<close>'s \<open>PKey\<close> and
  \<open>PKeyRef\<close>.  What the code calls of the crate is the parameter \<open>pkey_lib\<close>: keys of type
  \<open>'pk\<close>, the EC key inside one, of type \<open>'ec\<close>, and a source of randomness \<open>'w\<close> that signing
  draws from.  A \<open>BigNum\<close> is the natural number it holds.
\<close>

datatype nid = X9_62_PRIME256V1 | SECP384R1 | SECP521R1 | Other_Nid int

record ecdsa_sig =
  sig_r :: nat
  sig_s :: nat

lemma ecdsa_sig_eta [simp]: "\<lparr>sig_r = sig_r sig, sig_s = sig_s sig\<rparr> = sig"
  by (cases sig) simp

text \<open>
  \<^item> \<open>ec_key\<close>: \<open>PKeyRef::ec_key\<close>;
  \<^item> \<open>curve_name\<close>: \<open>EcKeyRef::group().curve_name()\<close>;
  \<^item> \<open>nid_debug\<close>: the \<open>Debug\<close> text of a \<open>Nid\<close>;
  \<^item> \<open>bn_from_slice\<close>, \<open>bn_to_vec\<close>: \<open>BigNum::from_slice\<close>, \<open>BigNumRef::to_vec\<close>; the former asserts that
    the length of the slice fits a C \<open>int\<close>, and slices are taken to be shorter than 2 GiB here;
  \<^item> \<open>sig_components\<close>: \<open>EcdsaSig::from_private_components\<close>;
  \<^item> \<open>ecdsa_sign\<close>, \<open>ecdsa_verify\<close>: \<open>EcdsaSig::sign\<close>, \<open>EcdsaSig::verify\<close>;
  \<^item> \<open>sig_to_der\<close>, \<open>sig_from_der\<close>, \<open>public_key_from_der\<close>: the DER forms the KMS key uses.
\<close>

record ('pk, 'ec, 'w) pkey_lib =
  ec_key :: "'pk \<Rightarrow> ext_error + 'ec"
  curve_name :: "'ec \<Rightarrow> nid option"
  nid_debug :: "nid \<Rightarrow> string"
  bn_from_slice :: "bytes \<Rightarrow> ext_error + nat"
  bn_to_vec :: "nat \<Rightarrow> bytes"
  sig_components :: "nat \<Rightarrow> nat \<Rightarrow> ext_error + ecdsa_sig"
  ecdsa_sign :: "bytes \<Rightarrow> 'ec \<Rightarrow> 'w \<Rightarrow> (ext_error + ecdsa_sig) \<times> 'w"
  ecdsa_verify :: "ecdsa_sig \<Rightarrow> bytes \<Rightarrow> 'ec \<Rightarrow> ext_error + bool"
  sig_to_der :: "ecdsa_sig \<Rightarrow> ext_error + bytes"
  sig_from_der :: "bytes \<Rightarrow> ext_error + ecdsa_sig"
  public_key_from_der :: "bytes \<Rightarrow> ext_error + 'pk"

section \<open>Parameters of a curve\<close>

definition ec_curve_to_parameters :: "('pk, 'ec, 'w) pkey_lib \<Rightarrow> nid
    \<Rightarrow> (signature_algorithm \<times> message_digest \<times> nat) cose_result" where
  "ec_curve_to_parameters PL curve =
     obind (case curve of
         X9_62_PRIME256V1 \<Rightarrow> Ok ES256
       | SECP384R1 \<Rightarrow> Ok ES384
       | SECP521R1 \<Rightarrow> Ok ES512
       | _ \<Rightarrow> Err (UnsupportedError (''Curve name '' @ nid_debug PL curve @ '' is not supported''))) (\<lambda>sig_alg.
     Ok (sig_alg, suggested_message_digest sig_alg, key_length sig_alg))"

section \<open>The methods of PKeyRef\<close>

definition pkeyref_get_parameters :: "('pk, 'ec, 'w) pkey_lib \<Rightarrow> 'pk
    \<Rightarrow> (signature_algorithm \<times> message_digest) cose_result" where
  "pkeyref_get_parameters PL pk =
     obind (try_map (\<lambda>_. UnsupportedError ''Non-EC keys are not supported'') (ec_key PL pk)) (\<lambda>key.
     obind (ok_or (UnsupportedError ''Anonymous EC keys are not supported'') (curve_name PL key)) (\<lambda>curve.
     obind (ec_curve_to_parameters PL curve) (\<lambda>(sig_alg, digest, _).
     Ok (sig_alg, digest))))"

definition pkeyref_verify :: "('pk, 'ec, 'w) pkey_lib \<Rightarrow> 'pk \<Rightarrow> bytes \<Rightarrow> bytes \<Rightarrow> bool cose_result" where
  "pkeyref_verify PL pk digest signature =
     obind (try_map (\<lambda>_. UnsupportedError ''Non-EC keys are not yet supported'') (ec_key PL pk)) (\<lambda>key.
     obind (ok_or (UnsupportedError ''Anonymous EC keys are not supported'') (curve_name PL key)) (\<lambda>curve.
     obind (ec_curve_to_parameters PL curve) (\<lambda>(_, _, key_len).
     obind (split_at key_len signature) (\<lambda>(bytes_r, bytes_s).
     obind (try_map (\<lambda>e. SignatureError (Dyn_Ext e)) (bn_from_slice PL bytes_r)) (\<lambda>r.
     obind (try_map (\<lambda>e. SignatureError (Dyn_Ext e)) (bn_from_slice PL bytes_s)) (\<lambda>s.
     obind (try_map (\<lambda>e. SignatureError (Dyn_Ext e)) (sig_components PL r s)) (\<lambda>sig.
     try_map (\<lambda>e. SignatureError (Dyn_Ext e)) (ecdsa_verify PL sig digest key))))))))"

definition pkeyref_sign :: "('pk, 'ec, 'w) pkey_lib \<Rightarrow> 'pk \<Rightarrow> bytes \<Rightarrow> 'w \<Rightarrow> bytes cose_result \<times> 'w" where
  "pkeyref_sign PL pk digest w =
     after (try_map (\<lambda>_. UnsupportedError ''Non-EC keys are not yet supported'') (ec_key PL pk), w) (\<lambda>key w.
     after (ok_or (UnsupportedError ''Anonymous EC keys are not supported'') (curve_name PL key), w) (\<lambda>curve w.
     after (ec_curve_to_parameters PL curve, w) (\<lambda>(_, _, key_len) w.
     case ecdsa_sign PL digest key w of (r, w) \<Rightarrow>
     after (try_map (\<lambda>e. SignatureError (Dyn_Ext e)) r, w) (\<lambda>signature w.
     let bytes_r = bn_to_vec PL (sig_r signature);
         bytes_s = bn_to_vec PL (sig_s signature) in
     (merge_ec_signature bytes_r bytes_s key_len, w)))))"

section \<open>The trait implementations\<close>

text \<open>\<open>PKey<T>\<close> passes every call on to the \<open>PKeyRef<T>\<close> it owns.\<close>

definition pkey_public :: "('pk, 'ec, 'w) pkey_lib \<Rightarrow> 'pk \<Rightarrow> 'w signing_public_key" where
  "pkey_public PL pk =
     \<lparr>get_parameters = \<lambda>w. (pkeyref_get_parameters PL pk, w),
      verify = \<lambda>digest signature w. (pkeyref_verify PL pk digest signature, w)\<rparr>"

definition pkey_private :: "('pk, 'ec, 'w) pkey_lib \<Rightarrow> 'pk \<Rightarrow> 'w signing_private_key" where
  "pkey_private PL pk =
     \<lparr>get_parameters = \<lambda>w. (pkeyref_get_parameters PL pk, w),
      verify = \<lambda>digest signature w. (pkeyref_verify PL pk digest signature, w),
      sign = pkeyref_sign PL pk\<rparr>"

section \<open>What is relied on\<close>

text \<open>The curve of each algorithm, by the recommendation of RFC 8152.\<close>

fun curve_of :: "signature_algorithm \<Rightarrow> nid" where
  "curve_of ES256 = X9_62_PRIME256V1"
| "curve_of ES384 = SECP384R1"
| "curve_of ES512 = SECP521R1"

lemma curve_of_inj [simp]: "curve_of a = curve_of b \<longleftrightarrow> a = b"
  by (cases a; cases b) simp_all

lemma ec_curve_to_parameters_Ok:
  "ec_curve_to_parameters PL curve = Ok (alg, dig, n) \<longleftrightarrow>
   curve = curve_of alg \<and> dig = suggested_message_digest alg \<and> n = key_length alg"
  by (cases curve; cases alg) (auto simp: ec_curve_to_parameters_def)

lemma ec_curve_to_parameters_curve_of [simp]:
  "ec_curve_to_parameters PL (curve_of alg) = Ok (alg, suggested_message_digest alg, key_length alg)"
  by (simp add: ec_curve_to_parameters_Ok)

text \<open>
  Numbers are read big-endian and written without leading zeros, and two numbers make a
  signature.
\<close>

definition fits_algorithm :: "signature_algorithm \<Rightarrow> ecdsa_sig \<Rightarrow> bool" where
  "fits_algorithm alg sig \<longleftrightarrow> sig_r sig < 256 ^ key_length alg \<and> sig_s sig < 256 ^ key_length alg"

locale openssl_bn =
  fixes PL :: "('pk, 'ec, 'w) pkey_lib"
  assumes read_bn: "bn_from_slice PL bs = Inr (be_nat bs)"
    and bn_value: "be_nat (bn_to_vec PL n) = n"
    and bn_shortest: "n < 256 ^ k \<Longrightarrow> length (bn_to_vec PL n) \<le> k"
    and components: "sig_components PL r s = Inr \<lparr>sig_r = r, sig_s = s\<rparr>"
begin

text \<open>
  The wire form of a signature: what signing writes, verification reads back as the same two
  numbers.
\<close>

lemma encoded_signature:
  assumes "fits_algorithm alg sig"
  obtains bs bytes_r bytes_s where
    "merge_ec_signature (bn_to_vec PL (sig_r sig)) (bn_to_vec PL (sig_s sig)) (key_length alg) = Ok bs"
    and "length bs = 2 * key_length alg"
    and "split_at (key_length alg) bs = Ok (bytes_r, bytes_s)"
    and "be_nat bytes_r = sig_r sig" and "be_nat bytes_s = sig_s sig"
proof -
  have len: "length (bn_to_vec PL (sig_r sig)) \<le> key_length alg" "length (bn_to_vec PL (sig_s sig)) \<le> key_length alg"
    using assms by (simp_all add: fits_algorithm_def bn_shortest)
  obtain bs where bs:
    "merge_ec_signature (bn_to_vec PL (sig_r sig)) (bn_to_vec PL (sig_s sig)) (key_length alg) = Ok bs"
    "length bs = 2 * key_length alg" and split:
    "split_at (key_length alg) bs =
      (Ok (replicate (key_length alg - length (bn_to_vec PL (sig_r sig))) 0 @ bn_to_vec PL (sig_r sig),
          replicate (key_length alg - length (bn_to_vec PL (sig_s sig))) 0 @ bn_to_vec PL (sig_s sig))
       :: (bytes \<times> bytes) cose_result)"
    by (rule split_merged [OF len])
  show thesis
    by (rule that [OF bs, of "replicate (key_length alg - length (bn_to_vec PL (sig_r sig))) 0 @ bn_to_vec PL (sig_r sig)"
        "replicate (key_length alg - length (bn_to_vec PL (sig_s sig))) 0 @ bn_to_vec PL (sig_s sig)"])
      (use split in \<open>simp_all add: bn_value split_at_def split: if_splits\<close>)
qed

lemma pkeyref_verify_split:
  assumes "ec_key PL pk = Inr key" and "curve_name PL key = Some (curve_of alg)"
    and "split_at (key_length alg) bs = (Ok (bytes_r, bytes_s) :: (bytes \<times> bytes) cose_result)"
  shows "pkeyref_verify PL pk digest bs =
    try_map (\<lambda>e. SignatureError (Dyn_Ext e))
      (ecdsa_verify PL \<lparr>sig_r = be_nat bytes_r, sig_s = be_nat bytes_s\<rparr> digest key)"
  using assms by (simp add: pkeyref_verify_def read_bn components)

text \<open>
  Leading zeros of the second factor change nothing, since it is read as a number of any length.
\<close>

lemma pkeyref_verify_padded:
  assumes "ec_key PL pk = Inr key" and "curve_name PL key = Some (curve_of alg)" and "length r = key_length alg"
  shows "pkeyref_verify PL pk digest (r @ replicate n 0 @ s) = pkeyref_verify PL pk digest (r @ s)"
proof -
  have split: "split_at (key_length alg) (r @ x) = (Ok (r, x) :: (bytes \<times> bytes) cose_result)" for x
    using assms(3) split_at_append [of r x] by simp
  show ?thesis
    by (simp add: pkeyref_verify_split [OF assms(1,2) split])
qed

end

text \<open>
  A key pair of the algorithm \<open>alg\<close>: both halves hold an EC key on its curve, and ECDSA accepts
  what it has signed; the factors of a signature are below the order of the curve.
\<close>

locale openssl_ec = openssl_bn PL
  for PL :: "('pk, 'ec, 'w) pkey_lib" +
  fixes priv pub :: 'pk
    and priv_ec pub_ec :: 'ec
    and alg :: signature_algorithm
  assumes priv_key: "ec_key PL priv = Inr priv_ec" "curve_name PL priv_ec = Some (curve_of alg)"
    and pub_key: "ec_key PL pub = Inr pub_ec" "curve_name PL pub_ec = Some (curve_of alg)"
    and ecdsa_fits: "ecdsa_sign PL d priv_ec w = (Inr sig, w') \<Longrightarrow> fits_algorithm alg sig"
    and ecdsa_correct: "ecdsa_sign PL d priv_ec w = (Inr sig, w') \<Longrightarrow> ecdsa_verify PL sig d pub_ec = Inr True"
begin

lemma pkey_sign_verify:
  assumes "pkeyref_sign PL priv d w = (Ok bs, w')"
  shows "pkeyref_verify PL pub d bs = Ok True"
proof -
  obtain r w1 where signed: "ecdsa_sign PL d priv_ec w = (r, w1)" by fastforce
  obtain sig where sig: "r = Inr sig"
    "merge_ec_signature (bn_to_vec PL (sig_r sig)) (bn_to_vec PL (sig_s sig)) (key_length alg) = Ok bs"
    using assms signed by (auto simp: pkeyref_sign_def priv_key outcome_simps Let_def)
  have sign: "ecdsa_sign PL d priv_ec w = (Inr sig, w1)"
    using signed sig(1) by simp
  obtain bs' bytes_r bytes_s where enc:
    "merge_ec_signature (bn_to_vec PL (sig_r sig)) (bn_to_vec PL (sig_s sig)) (key_length alg) = Ok bs'"
    "split_at (key_length alg) bs' = (Ok (bytes_r, bytes_s) :: (bytes \<times> bytes) cose_result)"
    "be_nat bytes_r = sig_r sig" "be_nat bytes_s = sig_s sig"
    by (rule encoded_signature [OF ecdsa_fits [OF sign]])
  have "bs' = bs" using enc(1) sig(2) by simp
  with enc(2) have "pkeyref_verify PL pub d bs =
    try_map (\<lambda>e. SignatureError (Dyn_Ext e))
      (ecdsa_verify PL \<lparr>sig_r = be_nat bytes_r, sig_s = be_nat bytes_s\<rparr> d pub_ec)"
    by (intro pkeyref_verify_split [OF pub_key]) simp
  then show ?thesis
    using enc(3,4) ecdsa_correct [OF sign] by simp
qed

lemma pkey_sign_length:
  assumes "pkeyref_sign PL priv d w = (Ok bs, w')"
  shows "length bs = 2 * key_length alg"
proof -
  obtain r w1 where signed: "ecdsa_sign PL d priv_ec w = (r, w1)" by fastforce
  obtain sig where sig: "r = Inr sig"
    "merge_ec_signature (bn_to_vec PL (sig_r sig)) (bn_to_vec PL (sig_s sig)) (key_length alg) = Ok bs"
    using assms signed by (auto simp: pkeyref_sign_def priv_key outcome_simps Let_def)
  have "ecdsa_sign PL d priv_ec w = (Inr sig, w1)" using signed sig(1) by simp
  from encoded_signature [OF ecdsa_fits [OF this]] sig(2) show ?thesis by auto
qed

end

sublocale openssl_ec \<subseteq>
  key_pair "pkey_private PL priv" "pkey_public PL pub" "\<lambda>_. True" "\<lambda>_. True" alg "suggested_message_digest alg"
proof unfold_locales
  show "\<exists>k'. get_parameters (pkey_private PL priv) k = (Ok (alg, suggested_message_digest alg), k') \<and> True" for k
    by (simp add: pkey_private_def pkeyref_get_parameters_def priv_key)
  show "\<exists>p'. get_parameters (pkey_public PL pub) p = (Ok (alg, suggested_message_digest alg), p') \<and> True" for p
    by (simp add: pkey_public_def pkeyref_get_parameters_def pub_key)
  show "sign (pkey_private PL priv) d k = (Ok s, k') \<Longrightarrow> fst (verify (pkey_public PL pub) d s p) = Ok True" for d k s k' p
    by (simp add: pkey_private_def pkey_public_def pkey_sign_verify)
qed simp_all

context openssl_ec
begin

lemma pkey_pair:
  "key_pair (pkey_private PL priv) (pkey_public PL pub) (\<lambda>_. True) (\<lambda>_. True) alg (suggested_message_digest alg)"
  by unfold_locales

end

section \<open>Signatures that are too short\<close>

text \<open>
  A signature with fewer bytes than one factor is not rejected: the split panics, whatever the
  digest.
\<close>

lemma ec_curve_to_parameters_not_Panic [simp]: "ec_curve_to_parameters PL curve \<noteq> Panic m"
  by (auto simp: ec_curve_to_parameters_def outcome_simps split: nid.splits)

lemma pkeyref_get_parameters_not_Panic [simp]: "pkeyref_get_parameters PL pk \<noteq> Panic m"
  by (auto simp: pkeyref_get_parameters_def outcome_simps)

lemma pkeyref_get_parameters_Ok:
  "pkeyref_get_parameters PL pk = Ok (alg, dig) \<longleftrightarrow>
   (\<exists>key. ec_key PL pk = Inr key \<and> curve_name PL key = Some (curve_of alg) \<and> dig = suggested_message_digest alg)"
  by (auto simp: pkeyref_get_parameters_def outcome_simps ec_curve_to_parameters_Ok)

lemma pkeyref_verify_Panic:
  "pkeyref_verify PL pk digest bs = Panic m \<longleftrightarrow>
   m = ''mid > len'' \<and> (\<exists>key alg. ec_key PL pk = Inr key \<and> curve_name PL key = Some (curve_of alg) \<and> length bs < key_length alg)"
  by (auto simp: pkeyref_verify_def outcome_simps ec_curve_to_parameters_Ok split_at_Panic)

lemma pkeyref_verify_short_panics:
  assumes "ec_key PL pk = Inr key" and "curve_name PL key = Some (curve_of alg)"
    and "length bs < key_length alg"
  shows "pkeyref_verify PL pk digest bs = Panic ''mid > len''"
  using assms by (simp add: pkeyref_verify_def split_at_panics)

text \<open>Signing panics only in the encoding, where OpenSSL returns a number that is too long for the curve.\<close>

lemma pkeyref_sign_Panic:
  "(\<exists>m w'. pkeyref_sign PL pk digest w = (Panic m, w')) \<longleftrightarrow>
   (\<exists>key alg sig w1. ec_key PL pk = Inr key \<and> curve_name PL key = Some (curve_of alg)
      \<and> ecdsa_sign PL digest key w = (Inr sig, w1)
      \<and> (key_length alg < length (bn_to_vec PL (sig_r sig)) \<or> key_length alg < length (bn_to_vec PL (sig_s sig))))"
  unfolding merge_ec_signature_Panic_iff [symmetric]
  by (cases "ec_key PL pk"; cases "ecdsa_sign PL digest (projr (ec_key PL pk)) w")
    (auto simp: pkeyref_sign_def outcome_simps ec_curve_to_parameters_Ok Let_def)

end
