(* ===== verification/Kms.thy ===== *)
theory Kms
  imports Openssl_Pkey
begin

text \<open>
  \<open>src/src/crypto/kms.rs\<close>: a signing key held by AWS KMS, with verification either by the service
  or by a local public key.

  The service client and the Tokio runtime are the parameter \<open>kms_lib\<close>; the client, with
  whatever it talks to, is a state of type \<open>'c\<close>.  A request is built lazily and sent by
  \<open>block_on\<close>, which yields the reply or panics; \<open>Handle::current()\<close> panics outside a
  Tokio context.
\<close>

section \<open>Requests and the key\<close>

datatype signing_algorithm_spec = EcdsaSha256 | EcdsaSha384 | EcdsaSha512

datatype message_type = Raw | Digest

record kms_request =
  req_key_id :: string
  req_message :: bytes
  req_message_type :: message_type
  req_signing_algorithm :: signing_algorithm_spec

record 'c kms_lib =
  in_tokio :: "'c \<Rightarrow> bool"
  send_get_public_key :: "string \<Rightarrow> 'c \<Rightarrow> (sdk_error, bytes option) outcome \<times> 'c"
  send_sign :: "kms_request \<Rightarrow> 'c \<Rightarrow> (sdk_error, bytes option) outcome \<times> 'c"
  send_verify :: "kms_request \<Rightarrow> bytes \<Rightarrow> 'c \<Rightarrow> (sdk_error, bool) outcome \<times> 'c"

record ('c, 'pk) kms_key =
  kms_client :: 'c
  kms_key_id :: string
  kms_sig_alg :: signature_algorithm
  kms_public_key :: "'pk option"

definition handle_current :: "'c kms_lib \<Rightarrow> 'c \<Rightarrow> ('e, unit) outcome" where
  "handle_current KL client =
     (if in_tokio KL client then Ok () else Panic ''there is no reactor running'')"

section \<open>Construction\<close>

definition kms_new :: "'c \<Rightarrow> string \<Rightarrow> signature_algorithm \<Rightarrow> ('c, 'pk) kms_key cose_result" where
  "kms_new client key_id sig_alg =
     Ok \<lparr>kms_client = client, kms_key_id = key_id, kms_sig_alg = sig_alg, kms_public_key = None\<rparr>"

definition kms_new_with_public_key :: "('pk, 'ec, 'w) pkey_lib \<Rightarrow> 'c kms_lib \<Rightarrow> string \<Rightarrow> 'pk option
    \<Rightarrow> 'c \<Rightarrow> ('c, 'pk) kms_key cose_result \<times> 'c" where
  "kms_new_with_public_key PL KL key_id public_key client =
     after (handle_current KL client, client) (\<lambda>_ client.
     after (case public_key of
         Some key \<Rightarrow> (Ok key, client)
       | None \<Rightarrow>
           (case send_get_public_key KL key_id client of (reply, client) \<Rightarrow>
            after (map_err AwsGetPublicKeyError reply, client) (\<lambda>reply client.
            after (ok_or (UnsupportedError ''No public key returned'') reply, client) (\<lambda>der client.
            (try_map (\<lambda>e. SignatureError (Dyn_Ext e)) (public_key_from_der PL der), client)))))
       (\<lambda>public_key client.
     after (try_map (\<lambda>_. UnsupportedError ''Non-EC keys are not supported'') (ec_key PL public_key), client) (\<lambda>key client.
     after (ok_or (UnsupportedError ''Anonymous EC keys are not supported'') (curve_name PL key), client) (\<lambda>curve client.
     after (ec_curve_to_parameters PL curve, client) (\<lambda>(sig_alg, _, _) client.
     (Ok \<lparr>kms_client = client, kms_key_id = key_id, kms_sig_alg = sig_alg, kms_public_key = Some public_key\<rparr>,
      client))))))"

section \<open>The methods\<close>

fun sig_alg_spec :: "signature_algorithm \<Rightarrow> signing_algorithm_spec" where
  "sig_alg_spec ES256 = EcdsaSha256"
| "sig_alg_spec ES384 = EcdsaSha384"
| "sig_alg_spec ES512 = EcdsaSha512"

definition get_sig_alg_spec :: "('c, 'pk) kms_key \<Rightarrow> signing_algorithm_spec" where
  "get_sig_alg_spec self = sig_alg_spec (kms_sig_alg self)"

definition verify_with_public_key :: "('pk, 'ec, 'w) pkey_lib \<Rightarrow> ('c, 'pk) kms_key \<Rightarrow> bytes \<Rightarrow> bytes
    \<Rightarrow> bool cose_result" where
  "verify_with_public_key PL self data signature =
     (case kms_public_key self of
        Some public_key \<Rightarrow> pkeyref_verify PL public_key data signature
      | None \<Rightarrow> Panic ''called Option::unwrap() on a None value'')"

definition kms_get_parameters :: "('c, 'pk) kms_key
    \<Rightarrow> (signature_algorithm \<times> message_digest) cose_result \<times> ('c, 'pk) kms_key" where
  "kms_get_parameters self = (Ok (kms_sig_alg self, suggested_message_digest (kms_sig_alg self)), self)"

definition kms_request_of :: "('c, 'pk) kms_key \<Rightarrow> bytes \<Rightarrow> kms_request" where
  "kms_request_of self data =
     \<lparr>req_key_id = kms_key_id self, req_message = data, req_message_type = Digest,
      req_signing_algorithm = get_sig_alg_spec self\<rparr>"

definition kms_verify :: "('pk, 'ec, 'w) pkey_lib \<Rightarrow> 'c kms_lib \<Rightarrow> bytes \<Rightarrow> bytes \<Rightarrow> ('c, 'pk) kms_key
    \<Rightarrow> bool cose_result \<times> ('c, 'pk) kms_key" where
  "kms_verify PL KL data signature self =
     (if kms_public_key self \<noteq> None then (verify_with_public_key PL self data signature, self)
      else
     after (split_at (key_length (kms_sig_alg self)) signature, self) (\<lambda>(bytes_r, bytes_s) self.
     after (try_map (\<lambda>e. SignatureError (Dyn_Ext e)) (bn_from_slice PL bytes_r), self) (\<lambda>r self.
     after (try_map (\<lambda>e. SignatureError (Dyn_Ext e)) (bn_from_slice PL bytes_s), self) (\<lambda>s self.
     after (try_map (\<lambda>e. SignatureError (Dyn_Ext e)) (sig_components PL r s), self) (\<lambda>sig self.
     after (try_map (\<lambda>e. SignatureError (Dyn_Ext e)) (sig_to_der PL sig), self) (\<lambda>der self.
     after (handle_current KL (kms_client self), self) (\<lambda>_ self.
     case send_verify KL (kms_request_of self data) der (kms_client self) of (reply, client) \<Rightarrow>
     let self = self\<lparr>kms_client := client\<rparr> in
     (case reply of
        Ok valid \<Rightarrow> (Ok valid, self)
      | Err (Service_Error True _) \<Rightarrow> (Ok False, self)
      | Err e \<Rightarrow> (Err (AwsVerifyError e), self)
      | Panic p \<Rightarrow> (Panic p, self)))))))))"

text \<open>
  The end of \<open>sign\<close> does not call \<open>merge_ec_signature\<close> but repeats its steps.
\<close>

definition kms_signature_bytes :: "bytes \<Rightarrow> bytes \<Rightarrow> nat \<Rightarrow> bytes cose_result" where
  "kms_signature_bytes bytes_r bytes_s key_len =
     obind (rust_assert (length bytes_r \<le> key_len) ''bytes_r.len() <= key_length'') (\<lambda>_.
     obind (rust_assert (length bytes_s \<le> key_len) ''bytes_s.len() <= key_length'') (\<lambda>_.
     let signature_bytes = replicate (key_len * 2) 0;
         offset_copy = key_len - length bytes_r in
     obind (copy_into offset_copy bytes_r signature_bytes) (\<lambda>signature_bytes.
     let offset_copy = key_len - length bytes_s + key_len in
     obind (copy_into offset_copy bytes_s signature_bytes) (\<lambda>signature_bytes.
     Ok signature_bytes))))"

definition kms_sign :: "('pk, 'ec, 'w) pkey_lib \<Rightarrow> 'c kms_lib \<Rightarrow> bytes \<Rightarrow> ('c, 'pk) kms_key
    \<Rightarrow> bytes cose_result \<times> ('c, 'pk) kms_key" where
  "kms_sign PL KL data self =
     after (handle_current KL (kms_client self), self) (\<lambda>_ self.
     case send_sign KL (kms_request_of self data) (kms_client self) of (reply, client) \<Rightarrow>
     let self = self\<lparr>kms_client := client\<rparr> in
     after (map_err AwsSignError reply, self) (\<lambda>reply self.
     after (ok_or (UnsupportedError ''No signature returned'') reply, self) (\<lambda>der self.
     after (try_map (\<lambda>e. SignatureError (Dyn_Ext e)) (sig_from_der PL der), self) (\<lambda>signature self.
     let key_len = key_length (kms_sig_alg self);
         bytes_r = bn_to_vec PL (sig_r signature);
         bytes_s = bn_to_vec PL (sig_s signature) in
     (kms_signature_bytes bytes_r bytes_s key_len, self)))))"

definition kms_signer :: "('pk, 'ec, 'w) pkey_lib \<Rightarrow> 'c kms_lib \<Rightarrow> (('c, 'pk) kms_key) signing_private_key" where
  "kms_signer PL KL =
     \<lparr>get_parameters = kms_get_parameters, verify = kms_verify PL KL, sign = kms_sign PL KL\<rparr>"

section \<open>The repeated steps are those of merge\_ec\_signature\<close>

lemma obind_Ok [simp]: "obind r Ok = r"
  by (cases r) simp_all

lemma kms_signature_bytes_merge [simp]: "kms_signature_bytes r s n = merge_ec_signature r s n"
  by (simp add: kms_signature_bytes_def merge_ec_signature_def Let_def)

section \<open>What is relied on\<close>

text \<open>
  The KMS key \<open>key_id\<close> of algorithm \<open>alg\<close>, reached through clients that are \<open>connected\<close>:
  they are inside a Tokio context and stay connected, a signature that the service returns fits its
  algorithm, and the service accepts the DER form of every signature it has made for the digest it
  made it for.  A local public key, if there is one, is an EC key on the algorithm's curve and
  accepts these signatures too.
\<close>

definition kms_digest_request :: "string \<Rightarrow> signature_algorithm \<Rightarrow> bytes \<Rightarrow> kms_request" where
  "kms_digest_request key_id alg data =
     \<lparr>req_key_id = key_id, req_message = data, req_message_type = Digest,
      req_signing_algorithm = sig_alg_spec alg\<rparr>"

text \<open>The handles on that key which the crate's constructors build.\<close>

definition kms_usable :: "('c \<Rightarrow> bool) \<Rightarrow> string \<Rightarrow> signature_algorithm \<Rightarrow> 'pk \<Rightarrow> ('c, 'pk) kms_key \<Rightarrow> bool" where
  "kms_usable connected key_id alg pub k \<longleftrightarrow> connected (kms_client k) \<and> kms_key_id k = key_id
     \<and> kms_sig_alg k = alg \<and> (kms_public_key k = None \<or> kms_public_key k = Some pub)"

locale kms_service = openssl_bn PL
  for PL :: "('pk, 'ec, 'w) pkey_lib" +
  fixes KL :: "'c kms_lib"
    and connected :: "'c \<Rightarrow> bool"
    and key_id :: string
    and alg :: signature_algorithm
    and pub :: 'pk
    and pub_ec :: 'ec
  assumes connected_tokio: "connected c \<Longrightarrow> in_tokio KL c"
    and connected_sign: "connected c \<Longrightarrow> connected (snd (send_sign KL req c))"
    and connected_verify: "connected c \<Longrightarrow> connected (snd (send_verify KL req der c))"
    and signed_der: "connected c \<Longrightarrow> send_sign KL (kms_digest_request key_id alg d) c = (Ok (Some der), c') \<Longrightarrow>
          sig_from_der PL der = Inr sig \<Longrightarrow> fits_algorithm alg sig"
    and service_verifies: "connected c \<Longrightarrow> send_sign KL (kms_digest_request key_id alg d) c = (Ok (Some der), c') \<Longrightarrow>
          sig_from_der PL der = Inr sig \<Longrightarrow> connected c'' \<Longrightarrow>
          \<exists>der'. sig_to_der PL sig = Inr der'
            \<and> fst (send_verify KL (kms_digest_request key_id alg d) der' c'') = Ok True"
    and pub_key: "ec_key PL pub = Inr pub_ec" "curve_name PL pub_ec = Some (curve_of alg)"
    and local_verifies: "connected c \<Longrightarrow> send_sign KL (kms_digest_request key_id alg d) c = (Ok (Some der), c') \<Longrightarrow>
          sig_from_der PL der = Inr sig \<Longrightarrow> ecdsa_verify PL sig d pub_ec = Inr True"
begin

abbreviation usable :: "('c, 'pk) kms_key \<Rightarrow> bool" where
  "usable k \<equiv> kms_usable connected key_id alg pub k"

lemmas usable_def = kms_usable_def [of connected key_id alg pub]

lemma request_of_usable: "usable k \<Longrightarrow> kms_request_of k d = kms_digest_request key_id alg d"
  by (simp add: usable_def kms_request_of_def kms_digest_request_def get_sig_alg_spec_def)

lemma usable_client: "usable k \<Longrightarrow> connected c \<Longrightarrow> usable (k\<lparr>kms_client := c\<rparr>)"
  by (simp add: usable_def)

lemma usable_tokio: "usable k \<Longrightarrow> handle_current KL (kms_client k) = Ok ()"
  by (simp add: usable_def handle_current_def connected_tokio)

lemma kms_sign_Ok:
  assumes "usable k" and "kms_sign PL KL d k = (Ok bs, k')"
  obtains c der sig c' where "connected c"
    and "send_sign KL (kms_digest_request key_id alg d) c = (Ok (Some der), c')"
    and "sig_from_der PL der = Inr sig"
    and "merge_ec_signature (bn_to_vec PL (sig_r sig)) (bn_to_vec PL (sig_s sig)) (key_length alg) = Ok bs"
proof -
  obtain reply c' where send: "send_sign KL (kms_request_of k d) (kms_client k) = (reply, c')" by fastforce
  have "kms_sig_alg k = alg" "connected (kms_client k)" using assms(1) by (simp_all add: usable_def)
  with assms(2) send that [of "kms_client k"] show thesis
    by (auto simp: kms_sign_def usable_tokio [OF assms(1)] request_of_usable [OF assms(1)] Let_def outcome_simps)
qed

lemma kms_verify_decoded:
  assumes "usable k" and "split_at (key_length alg) bs = (Ok (bytes_r, bytes_s) :: (bytes \<times> bytes) cose_result)"
    and "be_nat bytes_r = sig_r sig" and "be_nat bytes_s = sig_s sig"
    and "sig_to_der PL sig = Inr der"
    and "fst (send_verify KL (kms_digest_request key_id alg d) der (kms_client k)) = Ok True"
    and "ecdsa_verify PL sig d pub_ec = Inr True"
  shows "fst (kms_verify PL KL d bs k) = Ok True"
proof (cases "kms_public_key k")
  case None
  have alg: "kms_sig_alg k = alg" using assms(1) by (simp add: usable_def)
  obtain c' where reply: "send_verify KL (kms_digest_request key_id alg d) der (kms_client k) = (Ok True, c')"
    using assms(6) by (cases "send_verify KL (kms_digest_request key_id alg d) der (kms_client k)") auto
  show ?thesis
    using None reply assms(2-5)
    by (simp add: kms_verify_def alg read_bn components usable_tokio [OF assms(1)] request_of_usable [OF assms(1)])
next
  case (Some p)
  then have "p = pub" using assms(1) by (auto simp: usable_def)
  with Some show ?thesis
    using pkeyref_verify_split [OF pub_key assms(2), of d] assms(3,4,7)
    by (simp add: kms_verify_def verify_with_public_key_def)
qed

lemma kms_sign_verify:
  assumes "usable k" and signed: "kms_sign PL KL d k = (Ok bs, k')" and "usable k2"
  shows "fst (kms_verify PL KL d bs k2) = Ok True"
proof (rule kms_sign_Ok [OF assms(1,2)])
  fix c der sig c'
  assume c: "connected c" "send_sign KL (kms_digest_request key_id alg d) c = (Ok (Some der), c')"
    "sig_from_der PL der = Inr sig"
    and bs: "merge_ec_signature (bn_to_vec PL (sig_r sig)) (bn_to_vec PL (sig_s sig)) (key_length alg) = Ok bs"
  obtain bs' bytes_r bytes_s where enc:
    "merge_ec_signature (bn_to_vec PL (sig_r sig)) (bn_to_vec PL (sig_s sig)) (key_length alg) = Ok bs'"
    "split_at (key_length alg) bs' = (Ok (bytes_r, bytes_s) :: (bytes \<times> bytes) cose_result)"
    "be_nat bytes_r = sig_r sig" "be_nat bytes_s = sig_s sig"
    by (rule encoded_signature [OF signed_der [OF c]])
  have "bs' = bs" using enc(1) bs by simp
  moreover have "connected (kms_client k2)" using assms(3) by (simp add: usable_def)
  then obtain der' where "sig_to_der PL sig = Inr der'"
    "fst (send_verify KL (kms_digest_request key_id alg d) der' (kms_client k2)) = Ok True"
    using service_verifies [OF c] by blast
  ultimately show ?thesis
    using kms_verify_decoded [OF assms(3) _ enc(3,4)] enc(2) local_verifies [OF c] by simp
qed

lemma usable_sign: "usable k \<Longrightarrow> usable (snd (kms_sign PL KL d k))"
proof -
  assume k: "usable k"
  obtain reply c' where send: "send_sign KL (kms_request_of k d) (kms_client k) = (reply, c')" by fastforce
  have "connected c'" using connected_sign [of "kms_client k" "kms_request_of k d"] send k
    by (simp add: usable_def)
  then have k': "usable (k\<lparr>kms_client := c'\<rparr>)" by (rule usable_client [OF k])
  show ?thesis
    unfolding kms_sign_def using k k' send
    by (auto simp: usable_tokio Let_def intro!: after_snd_invariant [where I = usable])
qed

lemma usable_verify: "usable k \<Longrightarrow> usable (snd (kms_verify PL KL d bs k))"
proof -
  assume k: "usable k"
  have reply: "usable (snd (case send_verify KL (kms_request_of k d) der (kms_client k) of (reply, client) \<Rightarrow>
     let self = k\<lparr>kms_client := client\<rparr> in
     (case reply of
        Ok valid \<Rightarrow> (Ok valid, self)
      | Err (Service_Error True _) \<Rightarrow> (Ok False, self)
      | Err e \<Rightarrow> (Err (AwsVerifyError e), self)
      | Panic p \<Rightarrow> (Panic p, self))))" if "usable k" for k :: "('c, 'pk) kms_key" and der
    using connected_verify [of "kms_client k" "kms_request_of k d" der] that
    by (auto simp: Let_def usable_def split: prod.splits outcome.splits sdk_error.splits bool.splits)
  show ?thesis
    unfolding kms_verify_def using k reply
    by (auto intro!: after_snd_invariant [where I = usable])
qed

end

sublocale kms_service \<subseteq>
  key_pair "kms_signer PL KL" "kms_signer PL KL" "kms_usable connected key_id alg pub" "kms_usable connected key_id alg pub" alg "suggested_message_digest alg"
proof unfold_locales
  show "usable k \<Longrightarrow> \<exists>k'. get_parameters (kms_signer PL KL) k = (Ok (alg, suggested_message_digest alg), k') \<and> usable k'" for k
    by (simp add: kms_signer_def kms_get_parameters_def usable_def)
  show "usable k \<Longrightarrow> usable (snd (sign (kms_signer PL KL) d k))" for k d
    by (simp add: kms_signer_def usable_sign)
  show "usable p \<Longrightarrow> usable (snd (verify (kms_signer PL KL) d s p))" for p d s
    by (simp add: kms_signer_def usable_verify)
  show "usable k \<Longrightarrow> sign (kms_signer PL KL) d k = (Ok s, k') \<Longrightarrow> usable p \<Longrightarrow>
      fst (verify (kms_signer PL KL) d s p) = Ok True" for k d s k' p
    by (simp add: kms_signer_def kms_sign_verify)
qed

context kms_service
begin

lemma signer_key_pair:
  "key_pair (kms_signer PL KL) (kms_signer PL KL) (kms_usable connected key_id alg pub) (kms_usable connected key_id alg pub)
     alg (suggested_message_digest alg)"
  by unfold_locales

end

section \<open>Panics\<close>

text \<open>
  Verification panics where the local key does; without one, in the split of a signature that is too
  short, outside a Tokio context, and where the call of the service does.
\<close>

lemma kms_verify_Panic:
  "(\<exists>m k'. kms_verify PL KL data bs k = (Panic m, k')) \<longleftrightarrow>
   (case kms_public_key k of
      Some pk \<Rightarrow> \<exists>key alg. ec_key PL pk = Inr key \<and> curve_name PL key = Some (curve_of alg) \<and> length bs < key_length alg
    | None \<Rightarrow> length bs < key_length (kms_sig_alg k)
        \<or> (\<exists>r s sig der. bn_from_slice PL (take (key_length (kms_sig_alg k)) bs) = Inr r
            \<and> bn_from_slice PL (drop (key_length (kms_sig_alg k)) bs) = Inr s
            \<and> sig_components PL r s = Inr sig \<and> sig_to_der PL sig = Inr der
            \<and> (if in_tokio KL (kms_client k)
                then \<exists>p. fst (send_verify KL (kms_request_of k data) der (kms_client k)) = Panic p
                else True)))"
proof (cases "kms_public_key k")
  case (Some pk)
  then show ?thesis by (simp add: kms_verify_def verify_with_public_key_def pkeyref_verify_Panic)
next
  case None
  have reply: "(case send_verify KL req der c of (reply, client) \<Rightarrow>
      let self = k\<lparr>kms_client := client\<rparr> in
      (case reply of
         Ok valid \<Rightarrow> (Ok valid, self)
       | Err (Service_Error True _) \<Rightarrow> (Ok False, self)
       | Err e \<Rightarrow> (Err (AwsVerifyError e), self)
       | Panic p \<Rightarrow> (Panic p, self))) = (Panic m, k')
    \<longleftrightarrow> fst (send_verify KL req der c) = Panic m \<and> k' = k\<lparr>kms_client := snd (send_verify KL req der c)\<rparr>"
    for req der c m k'
    by (auto simp: Let_def split: prod.splits outcome.splits sdk_error.splits bool.splits)
  show ?thesis
    unfolding kms_verify_def using None reply
    by (auto simp: outcome_simps handle_current_def split_at_def)
qed

lemma kms_sign_Panic:
  "(\<exists>m k'. kms_sign PL KL data k = (Panic m, k')) \<longleftrightarrow>
   (if in_tokio KL (kms_client k)
    then (\<exists>p. fst (send_sign KL (kms_request_of k data) (kms_client k)) = Panic p)
      \<or> (\<exists>der sig. fst (send_sign KL (kms_request_of k data) (kms_client k)) = Ok (Some der)
          \<and> sig_from_der PL der = Inr sig
          \<and> (key_length (kms_sig_alg k) < length (bn_to_vec PL (sig_r sig))
             \<or> key_length (kms_sig_alg k) < length (bn_to_vec PL (sig_s sig))))
    else True)"
proof (cases "in_tokio KL (kms_client k)")
  case True
  then show ?thesis
    unfolding merge_ec_signature_Panic_iff [symmetric]
    by (cases "send_sign KL (kms_request_of k data) (kms_client k)")
      (auto simp: kms_sign_def handle_current_def Let_def outcome_simps)
qed (auto simp: kms_sign_def handle_current_def)

section \<open>Tokio contexts\<close>

lemma kms_sign_outside_tokio:
  "\<not> in_tokio KL (kms_client k) \<Longrightarrow> kms_sign PL KL d k = (Panic ''there is no reactor running'', k)"
  by (simp add: kms_sign_def handle_current_def)

lemma kms_new_with_public_key_outside_tokio:
  "\<not> in_tokio KL c \<Longrightarrow> kms_new_with_public_key PL KL key_id pk c = (Panic ''there is no reactor running'', c)"
  by (simp add: kms_new_with_public_key_def handle_current_def)

lemma kms_verify_local:
  "kms_public_key k = Some pk \<Longrightarrow> kms_verify PL KL d bs k = (pkeyref_verify PL pk d bs, k)"
  by (simp add: kms_verify_def verify_with_public_key_def)

section \<open>Signatures with leading zeros\<close>

context openssl_bn
begin

lemma kms_verify_padded:
  assumes "kms_public_key k = None" and "length r = key_length (kms_sig_alg k)"
  shows "kms_verify PL KL digest (r @ replicate n 0 @ s) k = kms_verify PL KL digest (r @ s) k"
proof -
  have split: "split_at (key_length (kms_sig_alg k)) (r @ x) = (Ok (r, x) :: (bytes \<times> bytes) cose_result)" for x
    using assms(2) split_at_append [of r x] by simp
  show ?thesis
    by (simp add: kms_verify_def assms(1) split read_bn)
qed

end

end
