(* ===== verification/Tpm.thy ===== *)
theory Tpm
  imports Crypto
begin

unbundle bit_operations_syntax

text \<open>
  \<open>src/src/crypto/tpm.rs\<close>: a signing key held by a TPM.  The \<open>tss-esapi\<close> crate is the
  parameter \<open>tss_lib\<close>: its constants, its checked conversions and the three TPM commands, which
  act on a context of type \<open>'ctx\<close>.  The key keeps the context in a \<open>RefCell\<close>; every borrow ends
  in the method that takes it, so the context is simply part of the state the methods thread.
\<close>

section \<open>The library\<close>

text \<open>The parts of a \<open>TPMT_PUBLIC\<close> that are read.\<close>

record tpmt_public =
  pub_type :: "16 word"
  ecc_curve_id :: "16 word"
  ecc_scheme :: "16 word"
  ecdsa_hash_alg :: "16 word"

datatype 'ha tpm_signature = EcDsa 'ha bytes bytes | Other_Signature

record tpmt_sig_scheme =
  sig_scheme :: "16 word"

record tpmt_tk_hashcheck =
  hashcheck_tag :: "16 word"
  hashcheck_hierarchy :: "32 word"

text \<open>
  \<open>ecc_parameter\<close>, \<open>ecc_signature\<close>, \<open>tpm_digest\<close>, \<open>hashing_algorithm\<close>,
  \<open>signature_scheme\<close> and \<open>hashcheck_ticket\<close> are the conversions \<open>EccParameter::try_from\<close>,
  \<open>EccSignature::create\<close>, \<open>Digest::try_from\<close> and the three \<open>try_into\<close> calls, \<open>None\<close> where
  they fail.  \<open>'pub\<close> is the crate's \<open>Public\<close>, which \<open>public_into\<close> converts into a \<open>TPMT_PUBLIC\<close>.
\<close>

record ('ctx, 'h, 'ha, 'sc, 'tk, 'pub) tss_lib =
  TPM2_ALG_ECDSA :: "16 word"
  TPM2_ALG_ECC :: "16 word"
  TPM2_ALG_NULL :: "16 word"
  TPM2_ALG_SHA256 :: "16 word"
  TPM2_ALG_SHA384 :: "16 word"
  TPM2_ALG_SHA512 :: "16 word"
  TPM2_ECC_NIST_P256 :: "16 word"
  TPM2_ECC_NIST_P384 :: "16 word"
  TPM2_ECC_NIST_P521 :: "16 word"
  TPM2_RC_SIGNATURE :: "32 word"
  TPM2_RC_2 :: "32 word"
  TPM2_RC_P :: "32 word"
  TPM2_ST_HASHCHECK :: "16 word"
  TPM2_RH_NULL :: "32 word"
  hashing_algorithm :: "16 word \<Rightarrow> 'ha option"
  ecc_parameter :: "bytes \<Rightarrow> bytes option"
  ecc_signature :: "'ha \<Rightarrow> bytes \<Rightarrow> bytes \<Rightarrow> ('ha \<times> bytes \<times> bytes) option"
  tpm_digest :: "bytes \<Rightarrow> bytes option"
  signature_scheme :: "tpmt_sig_scheme \<Rightarrow> 'sc option"
  hashcheck_ticket :: "tpmt_tk_hashcheck \<Rightarrow> 'tk option"
  context_read_public :: "'h \<Rightarrow> 'ctx \<Rightarrow> (tpm_error + 'pub) \<times> 'ctx"
  public_into :: "'pub \<Rightarrow> tpmt_public"
  context_verify_signature :: "'h \<Rightarrow> bytes \<Rightarrow> 'ha tpm_signature \<Rightarrow> 'ctx \<Rightarrow> (tpm_error + unit) \<times> 'ctx"
  context_sign :: "'h \<Rightarrow> bytes \<Rightarrow> 'sc \<Rightarrow> 'tk \<Rightarrow> 'ctx \<Rightarrow> (tpm_error + 'ha tpm_signature) \<times> 'ctx"

definition TSS2_RC_SIGNATURE :: "('ctx, 'h, 'ha, 'sc, 'tk, 'pub) tss_lib \<Rightarrow> 32 word" where
  "TSS2_RC_SIGNATURE TL = (TPM2_RC_SIGNATURE TL OR TPM2_RC_2 TL) OR TPM2_RC_P TL"

section \<open>The key\<close>

record ('ctx, 'h, 'ha) tpm_key =
  tpm_context :: 'ctx
  tpm_key_handle :: 'h
  tpm_parameters :: "signature_algorithm \<times> message_digest"
  tpm_hash_alg :: 'ha
  tpm_key_length :: nat

definition public_to_parameters :: "('ctx, 'h, 'ha, 'sc, 'tk, 'pub) tss_lib \<Rightarrow> tpmt_public
    \<Rightarrow> ((signature_algorithm \<times> message_digest) \<times> 'ha \<times> nat) cose_result" where
  "public_to_parameters TL public =
     obind (if pub_type public = TPM2_ALG_ECDSA TL then Ok ()
            else if pub_type public = TPM2_ALG_ECC TL then Ok ()
            else Err (UnsupportedError (''Key algorithm '' @ show_nat (unat (pub_type public))
                @ '' is not supported, only ECDSA is currently supported''))) (\<lambda>_.
     obind (if ecc_curve_id public = TPM2_ECC_NIST_P256 TL then Ok (ES256, 32)
            else if ecc_curve_id public = TPM2_ECC_NIST_P384 TL then Ok (ES384, 48)
            else if ecc_curve_id public = TPM2_ECC_NIST_P521 TL then Ok (ES512, 66)
            else Err (UnsupportedError (''Key curve '' @ show_nat (unat (ecc_curve_id public))
                @ '' is not supported''))) (\<lambda>(param_sig_alg, key_len).
     obind (if ecc_scheme public = TPM2_ALG_ECDSA TL then Ok ()
            else Err (UnsupportedError (''Key scheme '' @ show_nat (unat (ecc_scheme public))
                @ '' is not supported''))) (\<lambda>_.
     obind (if ecdsa_hash_alg public = TPM2_ALG_SHA256 TL then Ok Sha256
            else if ecdsa_hash_alg public = TPM2_ALG_SHA384 TL then Ok Sha384
            else if ecdsa_hash_alg public = TPM2_ALG_SHA512 TL then Ok Sha512
            else Err (UnsupportedError (''Key hash alg '' @ show_nat (unat (ecdsa_hash_alg public))
                @ '' is not supported''))) (\<lambda>param_hash_alg.
     obind (ok_or (UnsupportedError ''Unsupported hashing algorithm'')
              (hashing_algorithm TL (ecdsa_hash_alg public))) (\<lambda>hash_alg.
     Ok ((param_sig_alg, param_hash_alg), hash_alg, key_len))))))"

definition tpm_new :: "('ctx, 'h, 'ha, 'sc, 'tk, 'pub) tss_lib \<Rightarrow> 'h \<Rightarrow> 'ctx
    \<Rightarrow> ('ctx, 'h, 'ha) tpm_key cose_result \<times> 'ctx" where
  "tpm_new TL key_handle ctx =
     (case context_read_public TL key_handle ctx of (r, ctx) \<Rightarrow>
     after (try_map TpmError r, ctx) (\<lambda>key_public ctx.
     after (public_to_parameters TL (public_into TL key_public), ctx) (\<lambda>(parameters, hash_alg, key_len) ctx.
     (Ok \<lparr>tpm_context = ctx, tpm_key_handle = key_handle, tpm_parameters = parameters,
           tpm_hash_alg = hash_alg, tpm_key_length = key_len\<rparr>, ctx))))"

section \<open>The methods\<close>

definition tpm_get_parameters :: "('ctx, 'h, 'ha) tpm_key
    \<Rightarrow> (signature_algorithm \<times> message_digest) cose_result \<times> ('ctx, 'h, 'ha) tpm_key" where
  "tpm_get_parameters self = (Ok (tpm_parameters self), self)"

definition tpm_verify :: "('ctx, 'h, 'ha, 'sc, 'tk, 'pub) tss_lib \<Rightarrow> bytes \<Rightarrow> bytes \<Rightarrow> ('ctx, 'h, 'ha) tpm_key
    \<Rightarrow> bool cose_result \<times> ('ctx, 'h, 'ha) tpm_key" where
  "tpm_verify TL data signature self =
     after (split_at (tpm_key_length self) signature, self) (\<lambda>(bytes_r, bytes_s) self.
     after (ok_or (UnsupportedError ''Unable to convert R signature component'') (ecc_parameter TL bytes_r), self) (\<lambda>r self.
     after (ok_or (UnsupportedError ''Unable to convert S signature component'') (ecc_parameter TL bytes_s), self) (\<lambda>s self.
     after (ok_or (UnsupportedError ''Unable to create ECC signature'') (ecc_signature TL (tpm_hash_alg self) r s), self) (\<lambda>(h, r, s) self.
     after (ok_or (UnsupportedError ''Invalid digest passed to verify'') (tpm_digest TL data), self) (\<lambda>data self.
     case context_verify_signature TL (tpm_key_handle self) data (EcDsa h r s) (tpm_context self) of (reply, ctx) \<Rightarrow>
     let self = self\<lparr>tpm_context := ctx\<rparr> in
     (case reply of
        Inr _ \<Rightarrow> (Ok True, self)
      | Inl (Tss2_Format_One rc msg) \<Rightarrow>
          if rc = TSS2_RC_SIGNATURE TL then (Ok False, self)
          else (Err (TpmError (Tss2_Format_One rc msg)), self)
      | Inl e \<Rightarrow> (Err (TpmError e), self)))))))"

definition tpm_sign :: "('ctx, 'h, 'ha, 'sc, 'tk, 'pub) tss_lib \<Rightarrow> bytes \<Rightarrow> ('ctx, 'h, 'ha) tpm_key
    \<Rightarrow> bytes cose_result \<times> ('ctx, 'h, 'ha) tpm_key" where
  "tpm_sign TL data self =
     (let scheme = \<lparr>sig_scheme = TPM2_ALG_NULL TL\<rparr>;
          validation = \<lparr>hashcheck_tag = TPM2_ST_HASHCHECK TL, hashcheck_hierarchy = TPM2_RH_NULL TL\<rparr> in
     after (ok_or (UnsupportedError ''Tried to sign invalid data'') (tpm_digest TL data), self) (\<lambda>data self.
     after (ok_or (UnsupportedError ''Unable to convert signature scheme'') (signature_scheme TL scheme), self) (\<lambda>scheme self.
     after (case hashcheck_ticket TL validation of
              Some v \<Rightarrow> Ok v | None \<Rightarrow> Panic ''Unable to convert validation'', self) (\<lambda>validation self.
     case context_sign TL (tpm_key_handle self) data scheme validation (tpm_context self) of (reply, ctx) \<Rightarrow>
     let self = self\<lparr>tpm_context := ctx\<rparr> in
     after (try_map TpmError reply, self) (\<lambda>signature self.
     case signature of
       EcDsa _ r s \<Rightarrow> (merge_ec_signature r s (tpm_key_length self), self)
     | Other_Signature \<Rightarrow> (Err (UnsupportedError ''Unsupported signature data returned''), self))))))"

definition tpm_signer :: "('ctx, 'h, 'ha, 'sc, 'tk, 'pub) tss_lib \<Rightarrow> (('ctx, 'h, 'ha) tpm_key) signing_private_key" where
  "tpm_signer TL = \<lparr>get_parameters = tpm_get_parameters, verify = tpm_verify TL, sign = tpm_sign TL\<rparr>"

section \<open>The parameters of a key\<close>

lemma public_to_parameters_Ok:
  assumes "public_to_parameters TL public = Ok ((alg, dig), h, n)"
  shows "n = key_length alg"
    and "(alg, ecc_curve_id public) \<in> {(ES256, TPM2_ECC_NIST_P256 TL), (ES384, TPM2_ECC_NIST_P384 TL), (ES512, TPM2_ECC_NIST_P521 TL)}"
    and "(dig, ecdsa_hash_alg public) \<in> {(Sha256, TPM2_ALG_SHA256 TL), (Sha384, TPM2_ALG_SHA384 TL), (Sha512, TPM2_ALG_SHA512 TL)}"
    and "hashing_algorithm TL (ecdsa_hash_alg public) = Some h"
  using assms by (auto simp: public_to_parameters_def outcome_simps split: if_splits)

lemma tpm_new_Ok:
  assumes "tpm_new TL handle ctx = (Ok k, ctx')"
  obtains key_public where "context_read_public TL handle ctx = (Inr key_public, ctx')"
    and "public_to_parameters TL (public_into TL key_public) = Ok (tpm_parameters k, tpm_hash_alg k, tpm_key_length k)"
    and "tpm_context k = ctx'" and "tpm_key_handle k = handle"
  using assms by (auto simp: tpm_new_def outcome_simps split: prod.splits)

section \<open>What is relied on\<close>

text \<open>
  The TPM key \<open>handle\<close> of algorithm \<open>alg\<close> with the digest \<open>dig\<close>, reached through contexts that
  are \<open>ready\<close> and stay so: the factors of a signature are no longer than its algorithm's
  width, and the TPM accepts a signature it has made, however its factors are padded.
\<close>

definition tpm_usable :: "('ctx \<Rightarrow> bool) \<Rightarrow> 'h \<Rightarrow> 'ha \<Rightarrow> signature_algorithm \<Rightarrow> message_digest
    \<Rightarrow> ('ctx, 'h, 'ha) tpm_key \<Rightarrow> bool" where
  "tpm_usable ready handle ha alg dig k \<longleftrightarrow> ready (tpm_context k) \<and> tpm_key_handle k = handle
     \<and> tpm_parameters k = (alg, dig) \<and> tpm_hash_alg k = ha \<and> tpm_key_length k = key_length alg"

locale tpm_device =
  fixes TL :: "('ctx, 'h, 'ha, 'sc, 'tk, 'pub) tss_lib"
    and ready :: "'ctx \<Rightarrow> bool"
    and handle :: 'h and ha :: 'ha
    and alg :: signature_algorithm and dig :: message_digest
  assumes ready_sign: "ready c \<Longrightarrow> ready (snd (context_sign TL handle d sc tk c))"
    and ready_verify: "ready c \<Longrightarrow> ready (snd (context_verify_signature TL handle d sg c))"
    and parameter: "length x \<le> key_length alg \<Longrightarrow> ecc_parameter TL x = Some x"
    and signature: "length r \<le> key_length alg \<Longrightarrow> length s \<le> key_length alg \<Longrightarrow> ecc_signature TL ha r s = Some (ha, r, s)"
    and signed_length: "ready c \<Longrightarrow> context_sign TL handle d sc tk c = (Inr (EcDsa h' r s), c') \<Longrightarrow>
          length r \<le> key_length alg \<and> length s \<le> key_length alg"
    and signed_verifies: "ready c \<Longrightarrow> context_sign TL handle d sc tk c = (Inr (EcDsa h' r s), c') \<Longrightarrow>
          be_nat r' = be_nat r \<Longrightarrow> be_nat s' = be_nat s \<Longrightarrow> ready c'' \<Longrightarrow>
          fst (context_verify_signature TL handle d (EcDsa ha r' s') c'') = Inr ()"
begin

abbreviation usable :: "('ctx, 'h, 'ha) tpm_key \<Rightarrow> bool" where
  "usable k \<equiv> tpm_usable ready handle ha alg dig k"

lemmas usable_def = tpm_usable_def [of ready handle ha alg dig]

lemma tpm_sign_Ok:
  assumes "usable k" and "tpm_sign TL data k = (Ok bs, k')"
  obtains d sc tk h' r s c' where "tpm_digest TL data = Some d"
    and "context_sign TL handle d sc tk (tpm_context k) = (Inr (EcDsa h' r s), c')"
    and "merge_ec_signature r s (key_length alg) = Ok bs"
proof -
  obtain d sc tk where conv: "tpm_digest TL data = Some d"
    "signature_scheme TL \<lparr>sig_scheme = TPM2_ALG_NULL TL\<rparr> = Some sc"
    "hashcheck_ticket TL \<lparr>hashcheck_tag = TPM2_ST_HASHCHECK TL, hashcheck_hierarchy = TPM2_RH_NULL TL\<rparr> = Some tk"
    using assms(2) by (auto simp: tpm_sign_def Let_def outcome_simps split: option.splits)
  obtain reply c' where reply: "context_sign TL handle d sc tk (tpm_context k) = (reply, c')" by fastforce
  have key: "tpm_key_handle k = handle" "tpm_key_length k = key_length alg"
    using assms(1) by (simp_all add: usable_def)
  with assms(2) conv reply obtain sg where "reply = Inr sg"
    and "(case sg of EcDsa _ r s \<Rightarrow> (merge_ec_signature r s (tpm_key_length (k\<lparr>tpm_context := c'\<rparr>)), k\<lparr>tpm_context := c'\<rparr>)
            | Other_Signature \<Rightarrow> (Err (UnsupportedError ''Unsupported signature data returned''), k\<lparr>tpm_context := c'\<rparr>)) = (Ok bs, k')"
    by (auto simp: tpm_sign_def Let_def outcome_simps)
  with conv reply key show thesis
    by (cases sg) (auto intro: that)
qed

lemma tpm_sign_verify:
  assumes "usable k" and "tpm_sign TL data k = (Ok bs, k')" and "usable k2"
  shows "fst (tpm_verify TL data bs k2) = Ok True"
proof (rule tpm_sign_Ok [OF assms(1,2)])
  fix d sc tk h' r s c'
  assume d: "tpm_digest TL data = Some d"
    and signed: "context_sign TL handle d sc tk (tpm_context k) = (Inr (EcDsa h' r s), c')"
    and bs: "merge_ec_signature r s (key_length alg) = Ok bs"
  have ready: "ready (tpm_context k)" using assms(1) by (simp add: usable_def)
  have len: "length r \<le> key_length alg" "length s \<le> key_length alg"
    using signed_length [OF ready signed] by simp_all
  let ?r = "replicate (key_length alg - length r) 0 @ r" and ?s = "replicate (key_length alg - length s) 0 @ s"
  have lens: "length ?r = key_length alg" "length ?s = key_length alg" using len by simp_all
  have "bs = ?r @ ?s" using bs merge_ec_signature_ok [OF len] by simp
  then have split: "split_at (key_length alg) bs = (Ok (?r, ?s) :: (bytes \<times> bytes) cose_result)"
    using split_at_append [of ?r ?s] lens(1) by simp
  have k2: "tpm_key_length k2 = key_length alg" "tpm_hash_alg k2 = ha" "tpm_key_handle k2 = handle"
    "ready (tpm_context k2)" using assms(3) by (simp_all add: usable_def)
  obtain c'' where "context_verify_signature TL handle d (EcDsa ha ?r ?s) (tpm_context k2) = (Inr (), c'')"
    using signed_verifies [OF ready signed, of ?r ?s "tpm_context k2"] k2(4)
    by (cases "context_verify_signature TL handle d (EcDsa ha ?r ?s) (tpm_context k2)") auto
  then show ?thesis
    unfolding tpm_verify_def k2(1) split
    using lens d k2 parameter [of ?r] parameter [of ?s] signature [of ?r ?s] by simp
qed

lemma usable_sign: "usable k \<Longrightarrow> usable (snd (tpm_sign TL data k))"
proof -
  assume k: "usable k"
  have "usable (k\<lparr>tpm_context := snd (context_sign TL (tpm_key_handle k) d sc tk (tpm_context k))\<rparr>)"
    if "usable k" for k d sc tk
    using that ready_sign [of "tpm_context k" d sc tk] by (simp add: usable_def)
  with k show ?thesis
    unfolding tpm_sign_def Let_def case_prod_unfold
    by (auto split: tpm_signature.splits intro!: after_snd_invariant [where I = usable])
qed

lemma usable_verify: "usable k \<Longrightarrow> usable (snd (tpm_verify TL data bs k))"
proof -
  assume k: "usable k"
  have "usable (k\<lparr>tpm_context := snd (context_verify_signature TL (tpm_key_handle k) d sg (tpm_context k))\<rparr>)"
    if "usable k" for k d sg
    using that ready_verify [of "tpm_context k" d sg] by (simp add: usable_def)
  with k show ?thesis
    unfolding tpm_verify_def Let_def case_prod_unfold
    by (auto split: sum.splits tpm_error.splits intro!: after_snd_invariant [where I = usable])
qed

end

sublocale tpm_device \<subseteq>
  key_pair "tpm_signer TL" "tpm_signer TL" "tpm_usable ready handle ha alg dig"
    "tpm_usable ready handle ha alg dig" alg dig
proof unfold_locales
  show "usable k \<Longrightarrow> \<exists>k'. get_parameters (tpm_signer TL) k = (Ok (alg, dig), k') \<and> usable k'" for k
    by (simp add: tpm_signer_def tpm_get_parameters_def usable_def)
  show "usable k \<Longrightarrow> usable (snd (sign (tpm_signer TL) d k))" for k d
    by (simp add: tpm_signer_def usable_sign)
  show "usable p \<Longrightarrow> usable (snd (verify (tpm_signer TL) d s p))" for p d s
    by (simp add: tpm_signer_def usable_verify)
  show "usable k \<Longrightarrow> sign (tpm_signer TL) d k = (Ok s, k') \<Longrightarrow> usable p \<Longrightarrow>
      fst (verify (tpm_signer TL) d s p) = Ok True" for k d s k' p
    by (simp add: tpm_signer_def tpm_sign_verify)
qed

context tpm_device
begin

lemma signer_key_pair:
  "key_pair (tpm_signer TL) (tpm_signer TL) (tpm_usable ready handle ha alg dig) (tpm_usable ready handle ha alg dig) alg dig"
  by unfold_locales

end

section \<open>Rejected and malformed signatures\<close>

lemma tpm_verify_Panic:
  "tpm_verify TL data bs k = (Panic m, k') \<longleftrightarrow> length bs < tpm_key_length k \<and> m = ''mid > len'' \<and> k' = k"
proof -
  have reply: "(case x of (reply, ctx) \<Rightarrow>
     let self = k\<lparr>tpm_context := ctx\<rparr> in
     (case reply of
        Inr _ \<Rightarrow> (Ok True, self)
      | Inl (Tss2_Format_One rc msg) \<Rightarrow>
          if rc = TSS2_RC_SIGNATURE TL then (Ok False, self)
          else (Err (TpmError (Tss2_Format_One rc msg)), self)
      | Inl e \<Rightarrow> (Err (TpmError e), self))) \<noteq> (Panic m, k')" for x :: "(tpm_error + unit) \<times> 'a"
    by (auto simp: Let_def split: prod.split sum.split tpm_error.split)
  show ?thesis
    unfolding tpm_verify_def using reply by (auto simp: outcome_simps split_at_Panic)
qed

lemma tpm_sign_Panic:
  "(\<exists>m k'. tpm_sign TL data k = (Panic m, k')) \<longleftrightarrow>
   (\<exists>d sc. tpm_digest TL data = Some d \<and> signature_scheme TL \<lparr>sig_scheme = TPM2_ALG_NULL TL\<rparr> = Some sc
      \<and> (case hashcheck_ticket TL \<lparr>hashcheck_tag = TPM2_ST_HASHCHECK TL, hashcheck_hierarchy = TPM2_RH_NULL TL\<rparr> of
           None \<Rightarrow> True
         | Some tk \<Rightarrow> \<exists>h r s c'. context_sign TL (tpm_key_handle k) d sc tk (tpm_context k) = (Inr (EcDsa h r s), c')
             \<and> (tpm_key_length k < length r \<or> tpm_key_length k < length s)))"
proof -
  have reply: "(\<exists>m k'. (case x of (reply, ctx) \<Rightarrow>
     after (try_map TpmError reply, k\<lparr>tpm_context := ctx\<rparr>) (\<lambda>signature self.
     case signature of
       EcDsa _ r s \<Rightarrow> (merge_ec_signature r s (tpm_key_length self), self)
     | Other_Signature \<Rightarrow> (Err (UnsupportedError ''Unsupported signature data returned''), self))) = (Panic m, k'))
    \<longleftrightarrow> (\<exists>h r s. (\<exists>c'. x = (Inr (EcDsa h r s), c')) \<and> (\<exists>m. merge_ec_signature r s (tpm_key_length k) = Panic m))"
    for x
    by (cases x; cases "fst x") (auto simp: outcome_simps split: tpm_signature.splits)
  show ?thesis
    unfolding merge_ec_signature_Panic_iff [symmetric]
    by (cases "tpm_digest TL data"; cases "signature_scheme TL \<lparr>sig_scheme = TPM2_ALG_NULL TL\<rparr>";
        cases "hashcheck_ticket TL \<lparr>hashcheck_tag = TPM2_ST_HASHCHECK TL, hashcheck_hierarchy = TPM2_RH_NULL TL\<rparr>")
      (simp_all add: tpm_sign_def reply)
qed

lemma tpm_verify_short_panics:
  "length bs < tpm_key_length k \<Longrightarrow> tpm_verify TL data bs k = (Panic ''mid > len'', k)"
  by (simp add: tpm_verify_def split_at_panics)

end
