(* ===== verification/Cbor_Reference.thy ===== *)
theory Cbor_Reference
  imports Cbor "HOL-Library.Code_Target_Nat" "HOL-Library.Code_Target_Int"
begin

text \<open>
  A reference codec for RFC 7049 items, executable and proved to satisfy every law of
  \<open>serde_cbor\<close>: definite lengths, arguments in all their widths, doubles, tags, text in UTF-8.
  It shows that the laws the development assumes of the library can hold together, and the
  concrete runs of the development use it.
\<close>

section \<open>Errors\<close>

definition eof_error :: cbor_error where
  "eof_error = Cbor_Error Eof ''EOF while parsing a value'' None"

definition syntax_error :: "string \<Rightarrow> cbor_error" where
  "syntax_error msg = Cbor_Error Syntax msg None"

definition data_error :: "string \<Rightarrow> cbor_error" where
  "data_error msg = Cbor_Error Data msg None"

fun reference_de_error :: "de_error \<Rightarrow> cbor_error" where
  "reference_de_error (Missing_Field f) = data_error (''missing field '' @ f)"
| "reference_de_error (Invalid_Length n) = data_error (''invalid length '' @ show_nat n)"
| "reference_de_error Invalid_Type = data_error ''invalid type''"
| "reference_de_error Trailing_Data = Cbor_Error Syntax ''trailing data'' None"

section \<open>Writing\<close>

text \<open>The head of an item: its major type, and its argument in the shortest form.\<close>

definition initial_byte :: "nat \<Rightarrow> nat \<Rightarrow> byte" where
  "initial_byte mt ai = of_nat (mt * 32 + ai)"

definition head :: "nat \<Rightarrow> nat \<Rightarrow> bytes" where
  "head mt n =
     (if n < 24 then [initial_byte mt n]
      else if n < 2 ^ 8 then initial_byte mt 24 # be_fixed 1 n
      else if n < 2 ^ 16 then initial_byte mt 25 # be_fixed 2 n
      else if n < 2 ^ 32 then initial_byte mt 26 # be_fixed 4 n
      else initial_byte mt 27 # be_fixed 8 n)"

definition bytes_of_string :: "string \<Rightarrow> bytes" where
  "bytes_of_string s = map (\<lambda>c. of_nat (of_char c)) s"

definition string_of_bytes :: "bytes \<Rightarrow> string" where
  "string_of_bytes bs = map (\<lambda>b. char_of (unat b)) bs"

fun encode :: "cbor_value \<Rightarrow> bytes" where
  "encode VNull = [0xF6]"
| "encode (VBool b) = [if b then 0xF5 else 0xF4]"
| "encode (VInteger i) = (if 0 \<le> i then head 0 (nat i) else head 1 (nat (- 1 - i)))"
| "encode (VFloat w) = 0xFB # be_fixed 8 (unat w)"
| "encode (VBytes b) = head 2 (length b) @ b"
| "encode (VText s) = head 3 (length s) @ bytes_of_string s"
| "encode (VArray xs) = head 4 (length xs) @ concat (map encode xs)"
| "encode (VMap es) = head 5 (length es) @ concat (map (\<lambda>(k, v). encode k @ encode v) es)"
| "encode (VTag t v) = head 6 (unat t) @ encode v"

fun encodable :: "cbor_value \<Rightarrow> bool" where
  "encodable (VInteger i) \<longleftrightarrow> - (2 ^ 64) \<le> i \<and> i < 2 ^ 64"
| "encodable (VArray xs) \<longleftrightarrow> list_all encodable xs"
| "encodable (VMap es) \<longleftrightarrow> list_all (\<lambda>(k, v). encodable k \<and> encodable v) es"
| "encodable (VTag t v) \<longleftrightarrow> encodable v"
| "encodable v \<longleftrightarrow> True"

definition reference_to_vec :: "cbor_value \<Rightarrow> cbor_error + bytes" where
  "reference_to_vec v =
     (if encodable v then Inr (encode v) else Inl (data_error ''the number cannot be stored in CBOR''))"

section \<open>Reading\<close>

definition take_exact :: "nat \<Rightarrow> bytes \<Rightarrow> cbor_error + (bytes \<times> bytes)" where
  "take_exact n bs = (if n \<le> length bs then Inr (take n bs, drop n bs) else Inl eof_error)"

text \<open>The major type, the additional information, the argument and what follows the head.\<close>

fun read_head :: "bytes \<Rightarrow> cbor_error + (nat \<times> nat \<times> nat \<times> bytes)" where
  "read_head [] = Inl eof_error"
| "read_head (b # bs) =
     (let mt = unat b div 32; ai = unat b mod 32;
          wide = (\<lambda>k. sbind (take_exact k bs) (\<lambda>(arg, rest). Inr (mt, ai, be_nat arg, rest)))
      in if ai < 24 then Inr (mt, ai, ai, bs)
         else if ai = 24 then wide 1
         else if ai = 25 then wide 2
         else if ai = 26 then wide 4
         else if ai = 27 then wide 8
         else Inl (syntax_error ''unexpected code''))"

fun decode_many :: "(bytes \<Rightarrow> cbor_error + ('a \<times> bytes)) \<Rightarrow> nat \<Rightarrow> bytes \<Rightarrow> cbor_error + ('a list \<times> bytes)" where
  "decode_many p 0 bs = Inr ([], bs)"
| "decode_many p (Suc n) bs =
     sbind (p bs) (\<lambda>(x, rest). sbind (decode_many p n rest) (\<lambda>(xs, rest). Inr (x # xs, rest)))"

definition decode_pair :: "(bytes \<Rightarrow> cbor_error + ('a \<times> bytes)) \<Rightarrow> bytes \<Rightarrow> cbor_error + (('a \<times> 'a) \<times> bytes)" where
  "decode_pair p bs = sbind (p bs) (\<lambda>(k, rest). sbind (p rest) (\<lambda>(v, rest). Inr ((k, v), rest)))"

definition decode_simple :: "nat \<Rightarrow> nat \<Rightarrow> bytes \<Rightarrow> cbor_error + (cbor_value \<times> bytes)" where
  "decode_simple ai n rest =
     (if ai = 20 then Inr (VBool False, rest)
      else if ai = 21 then Inr (VBool True, rest)
      else if ai = 22 then Inr (VNull, rest)
      else if ai = 27 then Inr (VFloat (of_nat n), rest)
      else Inl (syntax_error ''unassigned code''))"

text \<open>\<open>inner\<close> reads the items inside a collection or under a tag, where the nesting allows any.\<close>

definition decode_body :: "(bytes \<Rightarrow> cbor_error + (cbor_value \<times> bytes)) option
    \<Rightarrow> nat \<times> nat \<times> nat \<times> bytes \<Rightarrow> cbor_error + (cbor_value \<times> bytes)" where
  "decode_body inner = (\<lambda>(mt, ai, n, rest).
     if mt = 0 then Inr (VInteger (int n), rest)
     else if mt = 1 then Inr (VInteger (- 1 - int n), rest)
     else if mt = 2 then sbind (take_exact n rest) (\<lambda>(b, rest). Inr (VBytes b, rest))
     else if mt = 3 then sbind (take_exact n rest) (\<lambda>(b, rest).
       if utf8 (map unat b) then Inr (VText (string_of_bytes b), rest)
       else Inl (syntax_error ''invalid UTF-8''))
     else if mt = 7 then decode_simple ai n rest
     else case inner of
       None \<Rightarrow> Inl (syntax_error ''recursion limit exceeded'')
     | Some p \<Rightarrow>
         if mt = 4 then sbind (decode_many p n rest) (\<lambda>(xs, rest). Inr (VArray xs, rest))
         else if mt = 5 then sbind (decode_many (decode_pair p) n rest) (\<lambda>(es, rest). Inr (VMap es, rest))
         else sbind (p rest) (\<lambda>(v, rest). Inr (VTag (of_nat n) v, rest)))"

fun decode :: "nat \<Rightarrow> bytes \<Rightarrow> cbor_error + (cbor_value \<times> bytes)" where
  "decode 0 bs = sbind (read_head bs) (decode_body None)"
| "decode (Suc d) bs = sbind (read_head bs) (decode_body (Some (decode d)))"

definition reference_depth :: nat where
  "reference_depth = 127"

definition reference_parse :: "bytes \<Rightarrow> cbor_error + cbor_value" where
  "reference_parse bs =
     sbind (decode reference_depth bs) (\<lambda>(v, rest).
       if rest = [] then Inr v else Inl (reference_de_error Trailing_Data))"

section \<open>Key order\<close>

text \<open>
  The canonical order: the smaller major type first, then the shorter or the smaller in magnitude,
  then the encodings byte by byte.
\<close>

fun lex_cmp :: "nat list \<Rightarrow> nat list \<Rightarrow> ordering" where
  "lex_cmp [] [] = Equal"
| "lex_cmp [] (b # bs) = Less"
| "lex_cmp (a # as) [] = Greater"
| "lex_cmp (a # as) (b # bs) = (if a < b then Less else if b < a then Greater else lex_cmp as bs)"

fun sort_key :: "cbor_value \<Rightarrow> nat list" where
  "sort_key (VInteger i) = [if 0 \<le> i then 0 else 1, nat \<bar>i\<bar>]"
| "sort_key (VBytes b) = [2, length b] @ map unat b"
| "sort_key (VText s) = [3, length s] @ map of_char s"
| "sort_key (VArray xs) = [4, length xs] @ map unat (encode (VArray xs))"
| "sort_key (VMap es) = [5, length es] @ map unat (encode (VMap es))"
| "sort_key (VTag t v) = 6 # map unat (encode (VTag t v))"
| "sort_key v = 7 # map unat (encode v)"

definition value_cmp :: "cbor_value \<Rightarrow> cbor_value \<Rightarrow> ordering" where
  "value_cmp v w = lex_cmp (sort_key v) (sort_key w)"

section \<open>Deserialization into the crate's types\<close>

text \<open>\<open>Value\<close>s keep their maps in key order, and of a repeated key the last value.\<close>

fun as_value :: "cbor_value \<Rightarrow> cbor_value" where
  "as_value (VArray xs) = VArray (map as_value xs)"
| "as_value (VMap es) = VMap (btree_of value_cmp (map (\<lambda>(k, v). (as_value k, as_value v)) es))"
| "as_value (VTag t v) = VTag t (as_value v)"
| "as_value v = v"

fun byte_of_item :: "cbor_value \<Rightarrow> cbor_error + byte" where
  "byte_of_item (VInteger i) =
     (if 0 \<le> i \<and> i < 256 then Inr (of_int i) else Inl (data_error ''invalid value''))"
| "byte_of_item _ = Inl (reference_de_error Invalid_Type)"

fun bytes_of_items :: "cbor_value list \<Rightarrow> cbor_error + bytes" where
  "bytes_of_items [] = Inr []"
| "bytes_of_items (x # xs) = sbind (byte_of_item x) (\<lambda>b. sbind (bytes_of_items xs) (\<lambda>bs. Inr (b # bs)))"

fun reference_bytebuf :: "cbor_value \<Rightarrow> cbor_error + bytes" where
  "reference_bytebuf (VBytes b) = Inr b"
| "reference_bytebuf (VText s) = Inr (bytes_of_string s)"
| "reference_bytebuf (VArray xs) = bytes_of_items xs"
| "reference_bytebuf _ = Inl (reference_de_error Invalid_Type)"

fun reference_map :: "cbor_value \<Rightarrow> cbor_error + (cbor_value, cbor_value) btree" where
  "reference_map (VMap es) =
     (let es = map (\<lambda>(k, v). (as_value k, as_value v)) es
      in if distinct_keys value_cmp es then Inr (btree_of value_cmp es)
         else Inl (data_error ''invalid entry: found duplicate key''))"
| "reference_map _ = Inl (reference_de_error Invalid_Type)"

fun reference_split_tag :: "cbor_value \<Rightarrow> 64 word option \<times> cbor_value" where
  "reference_split_tag (VTag t v) = (Some t, v)"
| "reference_split_tag v = (None, v)"

text \<open>A field is named by its text or bytes; unknown fields are skipped, repeated ones refused.\<close>

fun names_field :: "string \<Rightarrow> cbor_value \<Rightarrow> bool" where
  "names_field f (VText s) = (s = f)"
| "names_field f (VBytes b) = (b = bytes_of_string f)"
| "names_field f _ = False"

fun reference_fields :: "string list \<Rightarrow> (cbor_value \<times> cbor_value) list \<Rightarrow> cbor_error + cbor_value list" where
  "reference_fields [] es = Inr []"
| "reference_fields (f # fs) es =
     (case filter (\<lambda>(k, v). names_field f k) es of
        [] \<Rightarrow> Inl (reference_de_error (Missing_Field f))
      | [(k, v)] \<Rightarrow> sbind (reference_fields fs es) (\<lambda>vs. Inr (v # vs))
      | _ \<Rightarrow> Inl (data_error (''duplicate field '' @ f)))"

definition reference_end_seq :: "cbor_value list \<Rightarrow> cbor_error option" where
  "reference_end_seq xs = (if xs = [] then None else Some (reference_de_error Trailing_Data))"

definition reference_lib :: cbor_lib where
  "reference_lib =
     \<lparr>key_cmp = value_cmp, to_vec = reference_to_vec, parse = reference_parse,
      split_tag = reference_split_tag, bytebuf = reference_bytebuf,
      map_no_duplicates = reference_map, struct_fields = reference_fields,
      end_seq = reference_end_seq, de_error = reference_de_error, depth_limit = reference_depth\<rparr>"

lemma reference_lib_sel [simp]:
  "key_cmp reference_lib = value_cmp" "to_vec reference_lib = reference_to_vec"
  "parse reference_lib = reference_parse" "split_tag reference_lib = reference_split_tag"
  "bytebuf reference_lib = reference_bytebuf" "map_no_duplicates reference_lib = reference_map"
  "struct_fields reference_lib = reference_fields" "end_seq reference_lib = reference_end_seq"
  "cbor_lib.de_error reference_lib = reference_de_error" "depth_limit reference_lib = reference_depth"
  by (simp_all add: reference_lib_def)

section \<open>The order is lawful\<close>

lemma lex_cmp_refl [simp]: "lex_cmp a a = Equal"
  by (induction a) auto

lemma lex_cmp_Equal: "lex_cmp a b = Equal \<longleftrightarrow> a = b"
  by (induction a b rule: lex_cmp.induct) auto

lemma lex_cmp_flip: "lex_cmp b a = flip (lex_cmp a b)"
  by (induction a b rule: lex_cmp.induct) auto

lemma lex_cmp_trans: "lex_cmp a b = Less \<Longrightarrow> lex_cmp b c = Less \<Longrightarrow> lex_cmp a c = Less"
proof (induction a arbitrary: b c)
  case Nil
  then show ?case by (cases b; cases c) auto
next
  case (Cons x a)
  obtain y b' where b: "b = y # b'" using Cons.prems(1) by (cases b) auto
  obtain z c' where c: "c = z # c'" using Cons.prems(2) b by (cases c) auto
  consider "x < y" "y \<le> z" | "x = y" "y < z" | "x = y" "y = z" "lex_cmp a b' = Less" "lex_cmp b' c' = Less"
    using Cons.prems b c by (auto split: if_splits)
  then show ?case
    by cases (use b c Cons.IH in auto)
qed

interpretation value_order: ordered_keys value_cmp
proof
  show "value_cmp a b = Equal \<Longrightarrow> value_cmp a c = value_cmp b c" for a b c
    by (simp add: value_cmp_def lex_cmp_Equal)
  show "value_cmp b a = flip (value_cmp a b)" for a b
    unfolding value_cmp_def by (rule lex_cmp_flip)
  show "value_cmp a b = Less \<Longrightarrow> value_cmp b c = Less \<Longrightarrow> value_cmp a c = Less" for a b c
    unfolding value_cmp_def by (rule lex_cmp_trans)
qed (simp add: value_cmp_def)

lemma value_cmp_integer: "value_cmp (VInteger i) v = Equal \<Longrightarrow> v = VInteger i"
  by (cases v) (auto simp: value_cmp_def lex_cmp_Equal split: if_splits)

section \<open>What was written is read back\<close>

lemma take_exact_append [simp]: "take_exact (length a) (a @ b) = Inr (a, b)"
  by (simp add: take_exact_def)

lemma take_exact_be_fixed [simp]: "take_exact k (be_fixed k n @ rest) = Inr (be_fixed k n, rest)"
  using take_exact_append [of "be_fixed k n" rest] by simp

lemma unat_initial [simp]:
  assumes "mt < 8" and "ai < 32"
  shows "unat (initial_byte mt ai) = mt * 32 + ai"
proof -
  have "mt * 32 + ai < 2 ^ 8" using assms by simp
  then show ?thesis
    unfolding initial_byte_def by (simp only: unat_of_nat len_num1 len_num0 len_bit0 mod_less) simp
qed

lemma read_head_head:
  assumes "mt < 8" and "n < 2 ^ 64"
  shows "\<exists>ai. read_head (head mt n @ rest) = Inr (mt, ai, n, rest)"
proof -
  consider "n < 24" | "24 \<le> n" "n < 2 ^ 8" | "2 ^ 8 \<le> n" "n < 2 ^ 16" | "2 ^ 16 \<le> n" "n < 2 ^ 32" | "2 ^ 32 \<le> n"
    by linarith
  then show ?thesis
  proof cases
    case 1
    then show ?thesis using assms by (simp add: head_def Let_def)
  next
    case 2
    then have "be_nat (be_fixed 1 n) = n" by (intro be_nat_be_fixed) simp
    with 2 show ?thesis using assms by (simp add: head_def Let_def del: be_fixed.simps)
  next
    case 3
    then have "be_nat (be_fixed 2 n) = n" by (intro be_nat_be_fixed) simp
    with 3 show ?thesis using assms by (simp add: head_def Let_def del: be_fixed.simps)
  next
    case 4
    then have "be_nat (be_fixed 4 n) = n" by (intro be_nat_be_fixed) simp
    with 4 show ?thesis using assms by (simp add: head_def Let_def del: be_fixed.simps)
  next
    case 5
    then have "be_nat (be_fixed 8 n) = n" using assms by (intro be_nat_be_fixed) simp
    with 5 show ?thesis using assms by (simp add: head_def Let_def del: be_fixed.simps)
  qed
qed

text \<open>The decoder on an item whose head was written: its body is read.\<close>

definition inner_of :: "nat \<Rightarrow> (bytes \<Rightarrow> cbor_error + (cbor_value \<times> bytes)) option" where
  "inner_of d = (case d of 0 \<Rightarrow> None | Suc d \<Rightarrow> Some (decode d))"

lemma decode_inner: "decode d bs = sbind (read_head bs) (decode_body (inner_of d))"
  by (cases d) (simp_all add: inner_of_def)

lemma decode_body_ai: "mt < 7 \<Longrightarrow> decode_body inner (mt, ai, n, rest) = decode_body inner (mt, 0, n, rest)"
  by (simp add: decode_body_def)

lemma decode_head:
  assumes "mt < 7" and "n < 2 ^ 64"
  shows "decode d (head mt n @ rest) = decode_body (inner_of d) (mt, 0, n, rest)"
proof -
  obtain ai where "read_head (head mt n @ rest) = Inr (mt, ai, n, rest)"
    using read_head_head [of mt n rest] assms by auto
  then show ?thesis
    using decode_body_ai [OF assms(1), of "inner_of d" ai n rest] by (simp add: decode_inner)
qed

lemma decode_many_encode:
  assumes "\<And>x rest. x \<in> set xs \<Longrightarrow> p (enc x @ rest) = Inr (x, rest)"
  shows "decode_many p (length xs) (concat (map enc xs) @ rest) = Inr (xs, rest)"
  using assms by (induction xs) simp_all

lemma string_of_bytes_of_string [simp]: "string_of_bytes (bytes_of_string s) = s"
  by (simp add: string_of_bytes_def bytes_of_string_def comp_def unat_of_nat map_idI)

lemma unat_bytes_of_string [simp]: "map unat (bytes_of_string s) = map of_char s"
  by (simp add: bytes_of_string_def comp_def unat_of_nat)

lemma length_bytes_of_string [simp]: "length (bytes_of_string s) = length s"
  by (simp add: bytes_of_string_def)

lemma decode_bytes: "length b < 2 ^ 63 \<Longrightarrow> decode d (encode (VBytes b) @ rest) = Inr (VBytes b, rest)"
  by (simp add: decode_head decode_body_def)

lemma decode_text: "rust_string s \<Longrightarrow> decode d (encode (VText s) @ rest) = Inr (VText s, rest)"
  using take_exact_append [of "bytes_of_string s" rest]
  by (simp add: decode_head decode_body_def rust_string_def)

lemma decode_integer:
  "- (2 ^ 64) \<le> i \<Longrightarrow> i < 2 ^ 64 \<Longrightarrow> decode d (encode (VInteger i) @ rest) = Inr (VInteger i, rest)"
  by (cases "0 \<le> i") (simp_all add: decode_head decode_body_def nat_less_iff)

lemma decode_float: "decode d (encode (VFloat w) @ rest) = Inr (VFloat w, rest)"
proof -
  have "unat w < 256 ^ 8" using unsigned_less [of w, where ?'a = nat] by simp
  then have "be_nat (be_fixed 8 (unat w)) = unat w" by (rule be_nat_be_fixed)
  then show ?thesis
    by (simp add: decode_inner Let_def decode_body_def decode_simple_def del: be_fixed.simps)
qed

lemma decode_encode:
  "wf_item cmp n v \<Longrightarrow> n \<le> d \<Longrightarrow> decode d (encode v @ rest) = Inr (v, rest)"
proof (induction cmp n v arbitrary: d rest rule: wf_item.induct)
  case (8 cmp n xs)
  then obtain d' where d: "d = Suc d'" "n \<le> d'" by (cases d) auto
  have "decode_many (decode d') (length xs) (concat (map encode xs) @ rest) = Inr (xs, rest)"
    using 8 d by (intro decode_many_encode) (auto simp: list_all_iff)
  with 8 d show ?case
    by (simp add: decode_head decode_body_def inner_of_def del: decode.simps)
next
  case (10 cmp n es)
  then obtain d' where d: "d = Suc d'" "n \<le> d'" by (cases d) auto
  let ?enc = "\<lambda>(k, v). encode k @ encode v"
  have "decode_many (decode_pair (decode d')) (length es) (concat (map ?enc es) @ rest) = Inr (es, rest)"
  proof (rule decode_many_encode)
    fix e rest
    assume e: "e \<in> set es"
    obtain k v where kv: "e = (k, v)" by fastforce
    have "wf_item cmp n k" "wf_item cmp n v" using 10 e kv by (auto simp: list_all_iff)
    then have "decode d' (encode k @ encode v @ rest) = Inr (k, encode v @ rest)"
      "decode d' (encode v @ rest) = Inr (v, rest)"
      using 10 e kv d by auto
    then show "decode_pair (decode d') (?enc e @ rest) = Inr (e, rest)"
      by (simp add: kv decode_pair_def)
  qed
  with 10 d show ?case
    by (simp add: decode_head decode_body_def inner_of_def del: decode.simps)
next
  case (12 cmp n t v)
  then obtain d' where d: "d = Suc d'" "n \<le> d'" by (cases d) auto
  have "unat t < 2 ^ 64" using unsigned_less [of t, where ?'a = nat] by simp
  with 12 d show ?case
    by (simp add: decode_head decode_body_def inner_of_def del: decode.simps)
next
  case (1 cmp n)
  show ?case by (simp add: decode_inner Let_def decode_body_def decode_simple_def)
next
  case (2 cmp n b)
  show ?case by (simp add: decode_inner Let_def decode_body_def decode_simple_def)
qed (simp_all add: decode_bytes decode_text decode_integer decode_float del: encode.simps decode.simps)

lemma wf_encodable: "wf_item cmp n v \<Longrightarrow> encodable v"
  by (induction cmp n v rule: wf_item.induct) (auto simp: list_all_iff)

lemma reference_write_read:
  assumes "wf_item cmp n v" and "n \<le> reference_depth"
  shows "reference_to_vec v = Inr (encode v) \<and> reference_parse (encode v) = Inr v"
  using assms decode_encode [OF assms, of "[]"]
  by (simp add: reference_to_vec_def reference_parse_def wf_encodable)

section \<open>Maps\<close>

lemma as_value_wf: "wf_item value_cmp n v \<Longrightarrow> as_value v = v"
proof (induction "value_cmp" n v rule: wf_item.induct)
  case (8 n xs)
  then show ?case by (auto simp: list_all_iff intro: map_idI)
next
  case (10 n es)
  then have "map (\<lambda>(k, v). (as_value k, as_value v)) es = es"
    by (intro map_idI) (auto simp: list_all_iff)
  with 10 show ?case by (simp add: value_order.btree_of_sorted)
qed auto

lemma as_value_entries:
  "wf_entries value_cmp n es \<Longrightarrow> map (\<lambda>(k, v). (as_value k, as_value v)) es = es"
  by (intro map_idI) (auto simp: list_all_iff as_value_wf)

lemma reference_map_sorted: "reference_map item = Inr m \<Longrightarrow> sorted_keys value_cmp m"
  by (cases item) (auto simp: Let_def value_order.sorted_btree_of split: if_splits)

section \<open>The laws hold\<close>

interpretation reference: serde_cbor reference_lib
proof (rule serde_cbor.intro)
  show "ordered_keys (key_cmp reference_lib)"
    using value_order.ordered_keys_axioms by simp
  show "\<exists>bs. to_vec reference_lib v = Inr bs \<and> parse reference_lib bs = Inr v"
    if "wf_value reference_lib n v" "n \<le> depth_limit reference_lib" for n v
    using that reference_write_read [of value_cmp n v] by simp
  show "\<exists>e. parse reference_lib [] = Inl e \<and> category e = Eof"
    by (simp add: reference_parse_def decode_inner eof_error_def)
  show "split_tag reference_lib v = (None, v)" if "\<forall>t u. v \<noteq> VTag t u" for v
    using that by (cases v) auto
  show "map_no_duplicates reference_lib (VMap es) = Inr (btree_of (key_cmp reference_lib) es)"
    if "wf_entries (key_cmp reference_lib) n es" "distinct_keys (key_cmp reference_lib) es" for n es
    using that by (simp add: as_value_entries Let_def)
  show "\<exists>e. map_no_duplicates reference_lib (VMap es) = Inl e"
    if "wf_entries (key_cmp reference_lib) n es" "\<not> distinct_keys (key_cmp reference_lib) es" for n es
    using that by (simp add: as_value_entries Let_def)
  show "sorted_keys (key_cmp reference_lib) m" if "map_no_duplicates reference_lib item = Inr m" for item m
    using that reference_map_sorted by simp
qed (auto simp: reference_depth_def reference_end_seq_def dest: value_cmp_integer)

interpretation reference_map: key_map "key_cmp reference_lib" "[]" "btree_insert (key_cmp reference_lib)"
    "btree_get (key_cmp reference_lib)" "sorted_keys (key_cmp reference_lib)"
  by unfold_locales

end
