(* ===== verification/Backend.thy ===== *)
theory Backend
  imports Openssl Kms Tpm Cbor_Reference
begin

text \<open>
  Concrete libraries behind the crate's parameters, small enough to run in the kernel: a seeded
  source of bytes, a checksum as the hash, an XOR stream with a 16-byte checksum as the AEAD, DSA in
  the subgroup of order 5 of the integers modulo 11 as the signature scheme, and a KMS service and
  a TPM that hold such a key.  They show that what the locales of \<open>openssl\<close>, KMS and TPM state can
  hold together, and run the crate's code on concrete input.  They are no model of those
  libraries.
\<close>

section \<open>Entropy, hash and AEAD\<close>

definition checksum :: "bytes \<Rightarrow> nat" where
  "checksum bs = foldl (\<lambda>h b. (h * 33 + unat b + 1) mod 65521) 7 bs"

definition demo_rand :: "bytes \<Rightarrow> nat \<Rightarrow> (ext_error + unit) \<times> bytes \<times> nat" where
  "demo_rand buf w = (Inr (), map (\<lambda>i. of_nat (w * 16 + i)) [0..<length buf], Suc w)"

definition demo_hash :: "openssl_digest \<Rightarrow> bytes \<Rightarrow> ext_error + bytes" where
  "demo_hash d data =
     Inr (be_fixed (case d of Openssl_sha256 \<Rightarrow> 32 | Openssl_sha384 \<Rightarrow> 48 | Openssl_sha512 \<Rightarrow> 64)
       (checksum data))"

fun cipher_key_len :: "cipher \<Rightarrow> nat" where
  "cipher_key_len Cipher_aes_128_gcm = 16"
| "cipher_key_len Cipher_aes_192_gcm = 24"
| "cipher_key_len Cipher_aes_256_gcm = 32"

definition demo_mask :: "bytes \<Rightarrow> bytes \<Rightarrow> bytes \<Rightarrow> bytes" where
  "demo_mask key iv data =
     map (\<lambda>(i, b). semiring_bit_operations_class.xor b (of_nat (checksum (iv @ key) + i))) (zip [0..<length data] data)"

definition demo_tag :: "bytes \<Rightarrow> bytes option \<Rightarrow> bytes \<Rightarrow> bytes \<Rightarrow> nat \<Rightarrow> bytes" where
  "demo_tag key iv aad ct n =
     be_fixed n (checksum (key @ (case iv of None \<Rightarrow> [] | Some b \<Rightarrow> b) @ aad @ ct))"

definition demo_error :: "string \<Rightarrow> ext_error" where
  "demo_error msg = Ext_Error msg None"

definition demo_encrypt :: "cipher \<Rightarrow> bytes \<Rightarrow> bytes option \<Rightarrow> bytes \<Rightarrow> bytes \<Rightarrow> bytes
    \<Rightarrow> (ext_error, bytes) outcome \<times> bytes" where
  "demo_encrypt c key iv aad data tag =
     (if length key \<noteq> cipher_key_len c then (Panic ''assertion failed: key_len'', tag)
      else let ct = demo_mask key (case iv of None \<Rightarrow> [] | Some b \<Rightarrow> b) data
           in (Ok ct, demo_tag key iv aad ct (length tag)))"

definition demo_decrypt :: "cipher \<Rightarrow> bytes \<Rightarrow> bytes option \<Rightarrow> bytes \<Rightarrow> bytes \<Rightarrow> bytes
    \<Rightarrow> (ext_error, bytes) outcome" where
  "demo_decrypt c key iv aad ct tag =
     (if length key \<noteq> cipher_key_len c then Panic ''assertion failed: key_len''
      else if tag \<noteq> demo_tag key iv aad ct (length tag) then Err (demo_error ''OpenSSL error'')
      else Ok (demo_mask key (case iv of None \<Rightarrow> [] | Some b \<Rightarrow> b) ct))"

definition demo_openssl :: "nat openssl_lib" where
  "demo_openssl =
     \<lparr>ossl_rand_bytes = demo_rand, ossl_encrypt_aead = demo_encrypt,
      ossl_decrypt_aead = demo_decrypt, ossl_hash = demo_hash\<rparr>"

lemma length_demo_mask [simp]: "length (demo_mask key iv data) = length data"
  by (simp add: demo_mask_def)

lemma demo_mask_twice [simp]: "demo_mask key iv (demo_mask key iv data) = data"
  by (rule nth_equalityI) (simp_all add: demo_mask_def xor.assoc)

lemma length_demo_tag [simp]: "length (demo_tag key iv aad ct n) = n"
  by (simp add: demo_tag_def)

interpretation demo_openssl: openssl_laws demo_openssl
  by unfold_locales
    (auto simp: demo_openssl_def demo_rand_def demo_encrypt_def demo_decrypt_def Let_def split: if_splits)

interpretation demo_aead: aead "openssl_encryption demo_openssl" "openssl_decryption demo_openssl"
  by unfold_locales

interpretation demo_entropy: entropy_source "openssl_entropy demo_openssl"
  by unfold_locales

interpretation demo_suite: encrypt0_suite reference_lib "openssl_encryption demo_openssl"
    "openssl_decryption demo_openssl" "openssl_entropy demo_openssl"
  by unfold_locales

section \<open>Signatures\<close>

fun pow_mod :: "nat \<Rightarrow> nat \<Rightarrow> nat \<Rightarrow> nat" where
  "pow_mod m b 0 = 1 mod m"
| "pow_mod m b (Suc e) = b * pow_mod m b e mod m"

definition dsa_inverse :: "nat \<Rightarrow> nat" where
  "dsa_inverse k = pow_mod 5 k 3"

definition dsa_r :: "nat \<Rightarrow> nat" where
  "dsa_r k = pow_mod 11 4 k mod 5"

definition dsa_s :: "nat \<Rightarrow> nat \<Rightarrow> nat \<Rightarrow> nat" where
  "dsa_s x h k = dsa_inverse k * (h + x * dsa_r k) mod 5"

definition dsa_nonce_ok :: "nat \<Rightarrow> nat \<Rightarrow> nat \<Rightarrow> bool" where
  "dsa_nonce_ok x h k \<longleftrightarrow> dsa_r k \<noteq> 0 \<and> dsa_s x h k \<noteq> 0"

definition dsa_verify :: "nat \<Rightarrow> nat \<Rightarrow> nat \<Rightarrow> nat \<Rightarrow> bool" where
  "dsa_verify y h r s \<longleftrightarrow> 0 < r \<and> r < 5 \<and> 0 < s \<and> s < 5 \<and>
     (let w = dsa_inverse s in
      pow_mod 11 4 (h * w mod 5) * pow_mod 11 y (r * w mod 5) mod 11 mod 5 = r)"

text \<open>The nonce is the first one that serves, from the one the random source gives.\<close>

definition dsa_sign :: "nat \<Rightarrow> bytes \<Rightarrow> nat \<Rightarrow> (ext_error + ecdsa_sig) \<times> nat" where
  "dsa_sign x digest w =
     (let h = be_nat digest mod 5 in
      case List.find (dsa_nonce_ok x h) (map (\<lambda>i. (w + i) mod 4 + 1) [0..<4]) of
        None \<Rightarrow> (Inl (demo_error ''no nonce''), w)
      | Some k \<Rightarrow> (Inr \<lparr>sig_r = dsa_r k, sig_s = dsa_s x h k\<rparr>, Suc w))"

lemma dsa_correct_finite:
  "list_all (\<lambda>h. list_all (\<lambda>k. dsa_nonce_ok 3 h k \<longrightarrow> dsa_verify 9 h (dsa_r k) (dsa_s 3 h k)) [1..<5]) [0..<5]"
  by code_simp

lemma dsa_correct:
  "h < 5 \<Longrightarrow> 0 < k \<Longrightarrow> k < 5 \<Longrightarrow> dsa_nonce_ok 3 h k \<Longrightarrow> dsa_verify 9 h (dsa_r k) (dsa_s 3 h k)"
  using dsa_correct_finite unfolding list_all_iff by auto

lemma dsa_sign_correct:
  assumes "dsa_sign 3 digest w = (Inr sig, w')"
  shows "dsa_verify 9 (be_nat digest mod 5) (sig_r sig) (sig_s sig)" and "sig_r sig < 5" and "sig_s sig < 5"
proof -
  let ?h = "be_nat digest mod 5"
  obtain k where find: "List.find (dsa_nonce_ok 3 ?h) (map (\<lambda>i. (w + i) mod 4 + 1) [0..<4]) = Some k"
    and sig: "sig = \<lparr>sig_r = dsa_r k, sig_s = dsa_s 3 ?h k\<rparr>"
    using assms by (auto simp: dsa_sign_def Let_def split: option.splits)
  have k: "0 < k" "k < 5" "dsa_nonce_ok 3 ?h k"
    using find by (auto simp: find_Some_iff)
  have "?h < 5" by simp
  with k show "dsa_verify 9 ?h (sig_r sig) (sig_s sig)"
    unfolding sig ecdsa_sig.simps by (intro dsa_correct)
  then show "sig_r sig < 5" "sig_s sig < 5" by (simp_all add: dsa_verify_def)
qed

section \<open>Keys\<close>

datatype demo_ec = Demo_Ec "nid option" "nat option" nat

datatype demo_key = Demo_Rsa | Demo_Key demo_ec

fun demo_ec_key :: "demo_key \<Rightarrow> ext_error + demo_ec" where
  "demo_ec_key Demo_Rsa = Inl (demo_error ''expecting an ec key'')"
| "demo_ec_key (Demo_Key ec) = Inr ec"

fun demo_curve :: "demo_ec \<Rightarrow> nid option" where
  "demo_curve (Demo_Ec c x y) = c"

fun demo_nid :: "nid \<Rightarrow> string" where
  "demo_nid X9_62_PRIME256V1 = ''Nid(415)''"
| "demo_nid SECP384R1 = ''Nid(715)''"
| "demo_nid SECP521R1 = ''Nid(716)''"
| "demo_nid (Other_Nid n) = ''Nid('' @ show_nat (nat n) @ '')''"

fun demo_sign :: "bytes \<Rightarrow> demo_ec \<Rightarrow> nat \<Rightarrow> (ext_error + ecdsa_sig) \<times> nat" where
  "demo_sign digest (Demo_Ec c (Some x) y) w = dsa_sign x digest w"
| "demo_sign digest (Demo_Ec c None y) w = (Inl (demo_error ''no private value''), w)"

fun demo_verify :: "ecdsa_sig \<Rightarrow> bytes \<Rightarrow> demo_ec \<Rightarrow> ext_error + bool" where
  "demo_verify sig digest (Demo_Ec c x y) = Inr (dsa_verify y (be_nat digest mod 5) (sig_r sig) (sig_s sig))"

text \<open>The DER forms, for the one-byte numbers that occur.\<close>

definition demo_to_der :: "ecdsa_sig \<Rightarrow> ext_error + bytes" where
  "demo_to_der sig =
     (if sig_r sig < 128 \<and> sig_s sig < 128
      then Inr [0x30, 6, 2, 1, of_nat (sig_r sig), 2, 1, of_nat (sig_s sig)]
      else Inl (demo_error ''too large''))"

definition demo_from_der :: "bytes \<Rightarrow> ext_error + ecdsa_sig" where
  "demo_from_der bs =
     (if length bs = 8 \<and> take 4 bs = [0x30, 6, 2, 1] \<and> take 2 (drop 5 bs) = [2, 1]
      then Inr \<lparr>sig_r = unat (bs ! 4), sig_s = unat (bs ! 7)\<rparr>
      else Inl (demo_error ''ASN1 error''))"

definition demo_key_from_der :: "bytes \<Rightarrow> ext_error + demo_key" where
  "demo_key_from_der bs =
     (if bs = [1] then Inr (Demo_Key (Demo_Ec (Some X9_62_PRIME256V1) None 9))
      else if bs = [2] then Inr Demo_Rsa
      else Inl (demo_error ''ASN1 error''))"

definition demo_pkey :: "(demo_key, demo_ec, nat) pkey_lib" where
  "demo_pkey =
     \<lparr>ec_key = demo_ec_key, curve_name = demo_curve, nid_debug = demo_nid,
      bn_from_slice = (\<lambda>bs. Inr (be_nat bs)), bn_to_vec = be_min,
      sig_components = (\<lambda>r s. Inr \<lparr>sig_r = r, sig_s = s\<rparr>),
      ecdsa_sign = demo_sign, ecdsa_verify = demo_verify,
      sig_to_der = demo_to_der, sig_from_der = demo_from_der,
      public_key_from_der = demo_key_from_der\<rparr>"

definition demo_priv_ec :: "signature_algorithm \<Rightarrow> demo_ec" where
  "demo_priv_ec alg = Demo_Ec (Some (curve_of alg)) (Some 3) 9"

definition demo_pub_ec :: "signature_algorithm \<Rightarrow> demo_ec" where
  "demo_pub_ec alg = Demo_Ec (Some (curve_of alg)) None 9"

lemma demo_fits: "sig_r sig < 5 \<Longrightarrow> sig_s sig < 5 \<Longrightarrow> fits_algorithm alg sig"
proof -
  have "5 < (256::nat) ^ key_length alg" by (cases alg) simp_all
  then show "sig_r sig < 5 \<Longrightarrow> sig_s sig < 5 \<Longrightarrow> fits_algorithm alg sig"
    by (simp add: fits_algorithm_def)
qed

interpretation demo_bn: openssl_bn demo_pkey
  by unfold_locales (simp_all add: demo_pkey_def length_be_min)

interpretation demo_ec: openssl_ec demo_pkey "Demo_Key (demo_priv_ec alg)" "Demo_Key (demo_pub_ec alg)"
    "demo_priv_ec alg" "demo_pub_ec alg" alg
  for alg
  by unfold_locales
    (auto simp: demo_pkey_def demo_priv_ec_def demo_pub_ec_def dsa_sign_correct demo_fits)

interpretation demo_pkey: key_pair "pkey_private demo_pkey (Demo_Key (demo_priv_ec alg))"
    "pkey_public demo_pkey (Demo_Key (demo_pub_ec alg))" "\<lambda>_. True" "\<lambda>_. True" alg "suggested_message_digest alg"
  for alg
  by (rule demo_ec.key_pair_axioms)

section \<open>The KMS service\<close>

text \<open>
  The service holds one key, \<open>alias/demo\<close> on P-256; its state counts the signatures it has made.
\<close>

record demo_client =
  client_tokio :: bool
  client_nonce :: nat

definition demo_key_id :: string where
  "demo_key_id = ''alias/demo''"

definition demo_serves :: "kms_request \<Rightarrow> bool" where
  "demo_serves req \<longleftrightarrow> req_key_id req = demo_key_id \<and> req_message_type req = Digest
     \<and> req_signing_algorithm req = EcdsaSha256"

definition demo_kms_public :: "string \<Rightarrow> demo_client \<Rightarrow> (sdk_error, bytes option) outcome \<times> demo_client" where
  "demo_kms_public key_id c =
     (if key_id = demo_key_id then (Ok (Some [1]), c) else (Err (Service_Error False ''NotFoundException''), c))"

definition demo_kms_sign :: "kms_request \<Rightarrow> demo_client \<Rightarrow> (sdk_error, bytes option) outcome \<times> demo_client" where
  "demo_kms_sign req c =
     (if \<not> demo_serves req then (Err (Service_Error False ''NotFoundException''), c)
      else case dsa_sign 3 (req_message req) (client_nonce c) of
        (Inl e, w) \<Rightarrow> (Err (Sdk_Other (ext_text e)), c\<lparr>client_nonce := w\<rparr>)
      | (Inr sig, w) \<Rightarrow>
          (case demo_to_der sig of
             Inl e \<Rightarrow> (Err (Sdk_Other (ext_text e)), c\<lparr>client_nonce := w\<rparr>)
           | Inr der \<Rightarrow> (Ok (Some der), c\<lparr>client_nonce := w\<rparr>)))"

definition demo_kms_verify :: "kms_request \<Rightarrow> bytes \<Rightarrow> demo_client \<Rightarrow> (sdk_error, bool) outcome \<times> demo_client" where
  "demo_kms_verify req der c =
     (if \<not> demo_serves req then (Err (Service_Error False ''NotFoundException''), c)
      else case demo_from_der der of
        Inl e \<Rightarrow> (Err (Service_Error False (ext_text e)), c)
      | Inr sig \<Rightarrow>
          if dsa_verify 9 (be_nat (req_message req) mod 5) (sig_r sig) (sig_s sig) then (Ok True, c)
          else (Err (Service_Error True ''KMSInvalidSignatureException''), c))"

definition demo_kms :: "demo_client kms_lib" where
  "demo_kms =
     \<lparr>in_tokio = client_tokio, send_get_public_key = demo_kms_public,
      send_sign = demo_kms_sign, send_verify = demo_kms_verify\<rparr>"

lemma demo_der_inverse: "demo_to_der sig = Inr der \<Longrightarrow> demo_from_der der = Inr sig"
  by (auto simp: demo_to_der_def demo_from_der_def unat_of_nat split: if_splits)

lemma demo_serves_request [simp]: "demo_serves (kms_digest_request demo_key_id ES256 d)"
  by (simp add: demo_serves_def kms_digest_request_def)

lemma demo_kms_signed:
  assumes "send_sign demo_kms (kms_digest_request demo_key_id ES256 d) c = (Ok (Some der), c')"
    and "sig_from_der demo_pkey der = Inr sig"
  obtains w' where "dsa_sign 3 d (client_nonce c) = (Inr sig, w')" and "demo_to_der sig = Inr der"
proof -
  obtain sig' w' where "dsa_sign 3 d (client_nonce c) = (Inr sig', w')" "demo_to_der sig' = Inr der"
    using assms(1)
    by (auto simp: demo_kms_def demo_kms_sign_def split: sum.splits prod.splits)
      (auto simp: kms_digest_request_def)
  moreover have "sig' = sig"
    using demo_der_inverse [OF calculation(2)] assms(2) by (simp add: demo_pkey_def)
  ultimately show thesis using that by simp
qed

interpretation demo_kms: kms_service demo_pkey demo_kms client_tokio demo_key_id ES256
    "Demo_Key (demo_pub_ec ES256)" "demo_pub_ec ES256"
proof unfold_locales
  fix c :: demo_client and d der c' sig
  assume signed: "send_sign demo_kms (kms_digest_request demo_key_id ES256 d) c = (Ok (Some der), c')"
    "sig_from_der demo_pkey der = Inr sig"
  obtain w' where w: "dsa_sign 3 d (client_nonce c) = (Inr sig, w')" "demo_to_der sig = Inr der"
    by (rule demo_kms_signed [OF signed])
  note correct = dsa_sign_correct [OF w(1)]
  show "fits_algorithm ES256 sig" using correct(2,3) by (rule demo_fits)
  show "ecdsa_verify demo_pkey sig d (demo_pub_ec ES256) = Inr True"
    using correct by (simp add: demo_pkey_def demo_pub_ec_def)
  show "\<exists>der'. sig_to_der demo_pkey sig = Inr der'
      \<and> fst (send_verify demo_kms (kms_digest_request demo_key_id ES256 d) der' c'') = Ok True" for c''
    using correct w(2) demo_der_inverse [OF w(2)]
    by (simp add: demo_pkey_def demo_kms_def demo_kms_verify_def)
      (simp add: kms_digest_request_def)
qed (auto simp: demo_kms_def demo_kms_sign_def demo_kms_verify_def demo_pkey_def demo_pub_ec_def
    split: sum.splits prod.splits)

interpretation demo_kms_key: key_pair "kms_signer demo_pkey demo_kms" "kms_signer demo_pkey demo_kms"
    "kms_usable client_tokio demo_key_id ES256 (Demo_Key (demo_pub_ec ES256))"
    "kms_usable client_tokio demo_key_id ES256 (Demo_Key (demo_pub_ec ES256))" ES256 Sha256
  using demo_kms.key_pair_axioms by simp

section \<open>The TPM\<close>

text \<open>
  A TPM with one loaded key, the handle 1, on P-256 with SHA-256; its state is a counter.  The
  constants are those of the TPM 2.0 specification.
\<close>

definition demo_tpm_sign :: "nat \<Rightarrow> bytes \<Rightarrow> tpmt_sig_scheme \<Rightarrow> tpmt_tk_hashcheck \<Rightarrow> nat
    \<Rightarrow> (tpm_error + 16 word tpm_signature) \<times> nat" where
  "demo_tpm_sign h digest scheme ticket c =
     (if h \<noteq> 1 then (Inl (Tss2_Format_One 0x18B ''handle''), c)
      else case dsa_sign 3 digest c of
        (Inl e, c) \<Rightarrow> (Inl (Tpm_Other (ext_text e)), c)
      | (Inr sig, c) \<Rightarrow> (Inr (EcDsa 0x0B (be_min (sig_r sig)) (be_min (sig_s sig))), c))"

definition demo_tpm_verify :: "nat \<Rightarrow> bytes \<Rightarrow> 16 word tpm_signature \<Rightarrow> nat \<Rightarrow> (tpm_error + unit) \<times> nat" where
  "demo_tpm_verify h digest sg c =
     (if h \<noteq> 1 then (Inl (Tss2_Format_One 0x18B ''handle''), c)
      else case sg of
        EcDsa ha r s \<Rightarrow>
          (if dsa_verify 9 (be_nat digest mod 5) (be_nat r) (be_nat s) then (Inr (), c)
           else (Inl (Tss2_Format_One 0x2DB ''the signature is not valid''), c))
      | Other_Signature \<Rightarrow> (Inl (Tss2_Format_One 0x2D2 ''unsupported scheme''), c))"

text \<open>The public area of an ECDSA key: its curve and its hash.\<close>

definition demo_public_into :: "16 word \<times> 16 word \<Rightarrow> tpmt_public" where
  "demo_public_into = (\<lambda>(curve, hash_alg).
     \<lparr>pub_type = 0x23, ecc_curve_id = curve, ecc_scheme = 0x18, ecdsa_hash_alg = hash_alg\<rparr>)"

definition demo_tpm_public :: "nat \<Rightarrow> nat \<Rightarrow> (tpm_error + 16 word \<times> 16 word) \<times> nat" where
  "demo_tpm_public h c =
     (if h = 1 then (Inr (3, 0x0B), c)
      else (Inl (Tss2_Format_One 0x18B ''handle''), c))"

definition demo_tss :: "(nat, nat, 16 word, tpmt_sig_scheme, tpmt_tk_hashcheck, 16 word \<times> 16 word) tss_lib" where
  "demo_tss =
     \<lparr>TPM2_ALG_ECDSA = 0x18, TPM2_ALG_ECC = 0x23, TPM2_ALG_NULL = 0x10, TPM2_ALG_SHA256 = 0x0B,
      TPM2_ALG_SHA384 = 0x0C, TPM2_ALG_SHA512 = 0x0D, TPM2_ECC_NIST_P256 = 3, TPM2_ECC_NIST_P384 = 4,
      TPM2_ECC_NIST_P521 = 5, TPM2_RC_SIGNATURE = 0x9B, TPM2_RC_2 = 0x200, TPM2_RC_P = 0x40,
      TPM2_ST_HASHCHECK = 0x8024, TPM2_RH_NULL = 0x40000007,
      hashing_algorithm = (\<lambda>a. if a \<in> {0x0B, 0x0C, 0x0D} then Some a else None),
      ecc_parameter = (\<lambda>bs. if length bs \<le> 128 then Some bs else None),
      ecc_signature = (\<lambda>ha r s. Some (ha, r, s)),
      tpm_digest = (\<lambda>bs. if length bs \<le> 64 then Some bs else None),
      signature_scheme = Some, hashcheck_ticket = Some,
      context_read_public = demo_tpm_public, public_into = demo_public_into,
      context_verify_signature = demo_tpm_verify, context_sign = demo_tpm_sign\<rparr>"

lemma demo_tpm_signed:
  assumes "context_sign demo_tss 1 d sc tk c = (Inr (EcDsa h r s), c')"
  obtains sig where "dsa_sign 3 d c = (Inr sig, c')" and "r = be_min (sig_r sig)" and "s = be_min (sig_s sig)"
  using assms by (auto simp: demo_tss_def demo_tpm_sign_def split: sum.splits prod.splits)

interpretation demo_tpm: tpm_device demo_tss "\<lambda>_. True" 1 "0x0B" ES256 Sha256
proof unfold_locales
  fix c :: nat and d sc tk h r s c'
  assume signed: "context_sign demo_tss 1 d sc tk c = (Inr (EcDsa h r s), c')"
  obtain sig where sig: "dsa_sign 3 d c = (Inr sig, c')" "r = be_min (sig_r sig)" "s = be_min (sig_s sig)"
    by (rule demo_tpm_signed [OF signed])
  note correct = dsa_sign_correct [OF sig(1)]
  show "length r \<le> key_length ES256 \<and> length s \<le> key_length ES256"
    using correct sig(2,3) by (auto intro!: length_be_min)
  show "fst (context_verify_signature demo_tss 1 d (EcDsa 0x0B r' s') c'') = Inr ()"
    if "be_nat r' = be_nat r" "be_nat s' = be_nat s" for r' s' c''
    using that correct sig(2,3) by (simp add: demo_tss_def demo_tpm_verify_def)
qed (auto simp: demo_tss_def)

interpretation demo_tpm_key: key_pair "tpm_signer demo_tss" "tpm_signer demo_tss"
    "tpm_usable (\<lambda>_. True) 1 0x0B ES256 Sha256" "tpm_usable (\<lambda>_. True) 1 0x0B ES256 Sha256" ES256 Sha256
  by (rule demo_tpm.key_pair_axioms)

end
