(* ===== verification/Sign.thy ===== *)
theory Sign
  imports Crypto
begin

text \<open>
  \<open>src/src/sign.rs\<close>: the \<open>Sig_structure\<close> that is signed, the \<open>COSE_Sign1\<close> document, its
  serialization with and without the tag 18, its construction, its verification, and the
  accessors that verify first.
\<close>

section \<open>The Sig\_structure\<close>

text \<open>
  A tuple struct: the context, \<open>body_protected\<close>, \<open>sign_protected\<close>, \<open>external_aad\<close>
  and the payload.  Its derived \<open>Serialize\<close> writes an array and skips \<open>sign_protected\<close>
  when there is none.
\<close>

datatype sig_structure =
  SigStructure (sig_context: string) (body_protected: bytes) (sign_protected: "bytes option")
    (external_aad: bytes) (sig_payload: bytes)

definition sig_new_sign1 :: "bytes \<Rightarrow> bytes \<Rightarrow> cbor_error + sig_structure" where
  "sig_new_sign1 protected payload = Inr (SigStructure ''Signature1'' protected None [] payload)"

definition sig_new_sign1_cbor_value :: "cbor_lib \<Rightarrow> bytes \<Rightarrow> cbor_value \<Rightarrow> cbor_error + sig_structure" where
  "sig_new_sign1_cbor_value L protected payload =
     sbind (to_vec L payload) (\<lambda>bytes. sig_new_sign1 protected bytes)"

fun sig_structure_item :: "sig_structure \<Rightarrow> cbor_value" where
  "sig_structure_item (SigStructure ctx body body_sign aad payload) =
     VArray ([VText ctx, VBytes body]
       @ (case body_sign of None \<Rightarrow> [] | Some b \<Rightarrow> [VBytes b])
       @ [VBytes aad, VBytes payload])"

definition sig_structure_as_bytes :: "cbor_lib \<Rightarrow> sig_structure \<Rightarrow> cbor_error + bytes" where
  "sig_structure_as_bytes L s = to_vec L (sig_structure_item s)"

section \<open>The document\<close>

record cose_sign1 =
  sign1_protected :: bytes
  sign1_unprotected :: header_map
  sign1_payload :: bytes
  sign1_signature :: bytes

definition cose_sign1_item :: "cose_sign1 \<Rightarrow> cbor_value" where
  "cose_sign1_item doc =
     VArray [VBytes (sign1_protected doc), header_item (sign1_unprotected doc),
       VBytes (sign1_payload doc), VBytes (sign1_signature doc)]"

text \<open>
  \<open>CoseSign1Visitor\<close>: \<open>visit_seq\<close> reads the four fields in order and leaves the rest of the
  sequence unread; \<open>visit_newtype_struct\<close>, which the deserializer calls for a tagged item,
  ignores the tag and goes into the item; the visitor has no other method, so any other item is
  an \<open>invalid_type\<close> error.
\<close>

definition sign1_visit_seq :: "cbor_lib \<Rightarrow> cbor_value list \<Rightarrow> cbor_error + (cose_sign1 \<times> cbor_value list)" where
  "sign1_visit_seq L xs =
     sbind (required_element (de_error L (Missing_Field ''protected'')) (bytebuf L) xs) (\<lambda>(protected, xs).
     sbind (required_element (de_error L (Missing_Field ''unprotected'')) (header_deserialize L) xs) (\<lambda>(unprotected, xs).
     sbind (required_element (de_error L (Missing_Field ''payload'')) (bytebuf L) xs) (\<lambda>(payload, xs).
     sbind (required_element (de_error L (Missing_Field ''signature'')) (bytebuf L) xs) (\<lambda>(signature, xs).
     Inr (\<lparr>sign1_protected = protected, sign1_unprotected = unprotected,
            sign1_payload = payload, sign1_signature = signature\<rparr>, xs)))))"

fun cose_sign1_deserialize :: "cbor_lib \<Rightarrow> cbor_value \<Rightarrow> cbor_error + cose_sign1" where
  "cose_sign1_deserialize L (VArray xs) =
     sbind (sign1_visit_seq L xs) (\<lambda>(doc, unread).
       case end_seq L unread of None \<Rightarrow> Inr doc | Some e \<Rightarrow> Inl e)"
| "cose_sign1_deserialize L (VTag t v) = cose_sign1_deserialize L v"
| "cose_sign1_deserialize L _ = Inl (de_error L Invalid_Type)"

section \<open>Construction\<close>

definition new_with_protected :: "cbor_lib \<Rightarrow> hash \<Rightarrow> ('k, 'm) signing_private_key_scheme
    \<Rightarrow> bytes \<Rightarrow> header_map \<Rightarrow> header_map \<Rightarrow> 'k \<Rightarrow> cose_sign1 cose_result \<times> 'k" where
  "new_with_protected L H key payload protected unprotected k =
     after (get_parameters key k) (\<lambda>(_, digest) k.
     after (try_map SerializationError (map_to_empty_or_serialized L protected), k) (\<lambda>protected_bytes k.
     after (try_map SerializationError (sig_new_sign1 protected_bytes payload), k) (\<lambda>sig_structure k.
     after (try_map SerializationError (sig_structure_as_bytes L sig_structure), k) (\<lambda>to_be_signed k.
     after (map_err (\<lambda>e. SignatureError (Dyn_Cose e)) (hash_of H digest to_be_signed), k) (\<lambda>struct_digest k.
     after (sign key struct_digest k) (\<lambda>signature k.
     (Ok \<lparr>sign1_protected = protected_bytes, sign1_unprotected = unprotected,
           sign1_payload = payload, sign1_signature = signature\<rparr>, k)))))))"

definition cose_sign1_new :: "cbor_lib \<Rightarrow> hash \<Rightarrow> ('k, 'm) signing_private_key_scheme
    \<Rightarrow> bytes \<Rightarrow> header_map \<Rightarrow> 'k \<Rightarrow> cose_sign1 cose_result \<times> 'k" where
  "cose_sign1_new L H key payload unprotected k =
     after (get_parameters key k) (\<lambda>(sig_alg, _) k.
     let protected = header_new;
         protected = snd (header_insert L protected (VInteger 1) (i8_into (sig_alg_i8 sig_alg)))
     in new_with_protected L H key payload protected unprotected k)"

section \<open>Serialization\<close>

definition sign1_as_bytes :: "cbor_lib \<Rightarrow> cose_sign1 \<Rightarrow> bool \<Rightarrow> bytes cose_result" where
  "sign1_as_bytes L doc tagged =
     try_map SerializationError
       (if tagged then to_vec L (tagged_item (Some 18) (cose_sign1_item doc))
        else to_vec L (cose_sign1_item doc))"

definition sign1_from_bytes :: "cbor_lib \<Rightarrow> bytes \<Rightarrow> cose_sign1 cose_result" where
  "sign1_from_bytes L bytes =
     obind (try_map SerializationError (tagged_from_slice L (cose_sign1_deserialize L) bytes)) (\<lambda>(tag, doc).
     obind (case tag of None \<Rightarrow> Ok ()
            | Some t \<Rightarrow> if t = 18 then Ok () else Err (TagError (Some t))) (\<lambda>_.
     obind (try_map SerializationError (header_from_bytes L (sign1_protected doc))) (\<lambda>_.
     Ok doc)))"

definition sign1_from_bytes_tagged :: "cbor_lib \<Rightarrow> bytes \<Rightarrow> cose_sign1 cose_result" where
  "sign1_from_bytes_tagged L bytes =
     obind (try_map SerializationError (tagged_from_slice L (cose_sign1_deserialize L) bytes)) (\<lambda>(tag, doc).
     obind (if tag = Some 18 then Ok () else Err (TagError tag)) (\<lambda>_.
     obind (try_map SerializationError (header_from_bytes L (sign1_protected doc))) (\<lambda>_.
     Ok doc)))"

section \<open>Verification\<close>

definition verify_signature :: "cbor_lib \<Rightarrow> hash \<Rightarrow> ('p, 'n) signing_public_key_scheme
    \<Rightarrow> cose_sign1 \<Rightarrow> 'p \<Rightarrow> bool cose_result \<times> 'p" where
  "verify_signature L H key doc p =
     after (get_parameters key p) (\<lambda>(signature_alg, digest) p.
     after (try_map SerializationError (header_from_bytes L (sign1_protected doc)), p) (\<lambda>protected p.
     case header_get L protected (VInteger 1) of
       Some (VInteger protected_signature_alg) \<Rightarrow>
         if protected_signature_alg \<noteq> sint (sig_alg_i8 signature_alg) then (Ok False, p)
         else
           after (try_map SerializationError (sig_new_sign1 (sign1_protected doc) (sign1_payload doc)), p) (\<lambda>sig_structure p.
           after (try_map SerializationError (sig_structure_as_bytes L sig_structure), p) (\<lambda>to_be_signed p.
           after (map_err (\<lambda>e. SignatureError (Dyn_Cose e)) (hash_of H digest to_be_signed), p) (\<lambda>struct_digest p.
           verify key struct_digest (sign1_signature doc) p)))
     | Some _ \<Rightarrow>
         (Err (SpecificationError ''Protected Header contains invalid Signature Algorithm specification''), p)
     | None \<Rightarrow>
         (Err (SpecificationError ''Protected Header does not contain a valid Signature Algorithm specification''), p)))"

definition get_protected_and_payload :: "cbor_lib \<Rightarrow> hash \<Rightarrow> ('p, 'n) signing_public_key_scheme option
    \<Rightarrow> cose_sign1 \<Rightarrow> 'p \<Rightarrow> (header_map \<times> bytes) cose_result \<times> 'p" where
  "get_protected_and_payload L H key doc p =
     after (case key of None \<Rightarrow> (Ok True, p) | Some K \<Rightarrow> verify_signature L H K doc p) (\<lambda>verified p.
     if \<not> verified then (Err UnverifiedSignature, p)
     else
       after (try_map SerializationError (header_from_bytes L (sign1_protected doc)), p) (\<lambda>protected p.
       (Ok (protected, sign1_payload doc), p)))"

definition get_payload :: "cbor_lib \<Rightarrow> hash \<Rightarrow> ('p, 'n) signing_public_key_scheme option
    \<Rightarrow> cose_sign1 \<Rightarrow> 'p \<Rightarrow> bytes cose_result \<times> 'p" where
  "get_payload L H key doc p =
     after (case key of None \<Rightarrow> (Ok True, p) | Some K \<Rightarrow> verify_signature L H K doc p) (\<lambda>verified p.
     if \<not> verified then (Err UnverifiedSignature, p) else (Ok (sign1_payload doc), p))"

definition get_unprotected :: "cose_sign1 \<Rightarrow> header_map" where
  "get_unprotected doc = sign1_unprotected doc"

section \<open>What is signed\<close>

text \<open>
  The specification of the signed bytes: the CBOR array of the context string, the protected header
  as it is transported, no external data, and the payload.
\<close>

definition signed_item :: "bytes \<Rightarrow> bytes \<Rightarrow> cbor_value" where
  "signed_item protected payload =
     VArray [VText ''Signature1'', VBytes protected, VBytes [], VBytes payload]"

lemma sig_new_sign1_Inr [simp]:
  "sig_new_sign1 protected payload = Inr s \<longleftrightarrow> s = SigStructure ''Signature1'' protected None [] payload"
  by (auto simp: sig_new_sign1_def)

lemma sig_new_sign1_not_Inl [simp]: "sig_new_sign1 protected payload \<noteq> Inl e"
  by (simp add: sig_new_sign1_def)

lemma sig_structure_as_bytes_sign1 [simp]:
  "sig_structure_as_bytes L (SigStructure ''Signature1'' protected None [] payload) =
   to_vec L (signed_item protected payload)"
  by (simp add: sig_structure_as_bytes_def signed_item_def)

lemma wf_signed_item:
  "length protected < 2 ^ 63 \<Longrightarrow> length payload < 2 ^ 63 \<Longrightarrow> wf_item cmp (Suc n) (signed_item protected payload)"
  by (simp add: signed_item_def rust_string_def)

lemma signed_item_inj [simp]: "signed_item a b = signed_item c d \<longleftrightarrow> a = c \<and> b = d"
  by (simp add: signed_item_def)

section \<open>Inversion of successful runs\<close>

lemma new_with_protected_Ok:
  assumes "new_with_protected L H K payload protected unprotected k = (Ok doc, k')"
  obtains alg dig k1 pb tbs d sig
  where "get_parameters K k = (Ok (alg, dig), k1)"
    and "map_to_empty_or_serialized L protected = Inr pb"
    and "to_vec L (signed_item pb payload) = Inr tbs"
    and "hash_of H dig tbs = Ok d"
    and "sign K d k1 = (Ok sig, k')"
    and "doc = \<lparr>sign1_protected = pb, sign1_unprotected = unprotected,
                sign1_payload = payload, sign1_signature = sig\<rparr>"
  using assms by (auto simp: new_with_protected_def outcome_simps)

lemma cose_sign1_new_Ok:
  assumes "cose_sign1_new L H K payload unprotected k = (Ok doc, k')"
  obtains alg dig k1
  where "get_parameters K k = (Ok (alg, dig), k1)"
    and "new_with_protected L H K payload (header_from_sig_alg L alg) unprotected k1 = (Ok doc, k')"
  using assms by (auto simp: cose_sign1_new_def header_from_sig_alg_def Let_def outcome_simps)

text \<open>The check of the algorithm, once the key's parameters and the protected header are known.\<close>

lemma verify_signature_step:
  assumes "get_parameters K p = (Ok (alg, dig), p1)"
    and "header_from_bytes L (sign1_protected doc) = Inr protected"
  shows "verify_signature L H K doc p =
    (case header_get L protected (VInteger 1) of
       None \<Rightarrow> (Err (SpecificationError ''Protected Header does not contain a valid Signature Algorithm specification''), p1)
     | Some (VInteger v) \<Rightarrow>
         if v \<noteq> sint (sig_alg_i8 alg) then (Ok False, p1)
         else after (try_map SerializationError (to_vec L (signed_item (sign1_protected doc) (sign1_payload doc))), p1) (\<lambda>tbs p.
              after (map_err (\<lambda>e. SignatureError (Dyn_Cose e)) (hash_of H dig tbs), p) (\<lambda>d p.
              verify K d (sign1_signature doc) p))
     | Some _ \<Rightarrow> (Err (SpecificationError ''Protected Header contains invalid Signature Algorithm specification''), p1))"
  unfolding verify_signature_def sig_new_sign1_def try_map.simps after.simps sig_structure_as_bytes_sign1
  by (simp add: assms)

lemma alg_check_Ok_True:
  "(case h of None \<Rightarrow> (Err e1, p1)
     | Some (VInteger v) \<Rightarrow> if v \<noteq> i then (Ok False, p1) else r
     | Some _ \<Rightarrow> (Err e2, p1)) = (Ok True, p') \<longleftrightarrow> h = Some (VInteger i) \<and> r = (Ok True, p')"
  by (cases h) (auto split: cbor_value.splits)

lemma verify_signature_Ok_True:
  "verify_signature L H K doc p = (Ok True, p') \<longleftrightarrow>
   (\<exists>alg dig p1 protected tbs d.
      get_parameters K p = (Ok (alg, dig), p1)
    \<and> header_from_bytes L (sign1_protected doc) = Inr protected
    \<and> header_get L protected (VInteger 1) = Some (VInteger (sint (sig_alg_i8 alg)))
    \<and> to_vec L (signed_item (sign1_protected doc) (sign1_payload doc)) = Inr tbs
    \<and> hash_of H dig tbs = Ok d
    \<and> verify K d (sign1_signature doc) p1 = (Ok True, p'))"
  (is "?run \<longleftrightarrow> ?inv")
proof
  assume run: ?run
  then obtain alg dig p1 protected where
    1: "get_parameters K p = (Ok (alg, dig), p1)" "header_from_bytes L (sign1_protected doc) = Inr protected"
    unfolding verify_signature_def by (auto simp: outcome_simps)
  from run show ?inv
    unfolding verify_signature_step [OF 1] alg_check_Ok_True using 1 by (auto simp: outcome_simps)
next
  assume ?inv
  then show ?run
    by (auto simp: verify_signature_step)
qed

lemma get_payload_Some_Ok:
  "get_payload L H (Some K) doc p = (Ok pl, p') \<longleftrightarrow>
   verify_signature L H K doc p = (Ok True, p') \<and> pl = sign1_payload doc"
  by (auto simp: get_payload_def outcome_simps split: if_splits)

lemma get_protected_and_payload_Some_Ok:
  "get_protected_and_payload L H (Some K) doc p = (Ok (m, pl), p') \<longleftrightarrow>
   verify_signature L H K doc p = (Ok True, p')
   \<and> header_from_bytes L (sign1_protected doc) = Inr m \<and> pl = sign1_payload doc"
  by (auto simp: get_protected_and_payload_def outcome_simps split: if_splits)

text \<open>Signatures that a key does not tell apart give the same verification.\<close>

lemma verify_signature_cong:
  assumes "\<And>d p. verify K d s p = verify K d s' p"
  shows "verify_signature L H K (doc\<lparr>sign1_signature := s\<rparr>) p = verify_signature L H K (doc\<lparr>sign1_signature := s'\<rparr>) p"
proof -
  have "verify K d s = verify K d s'" for d using assms by (intro ext)
  then show ?thesis by (simp add: verify_signature_def cong: option.case_cong cbor_value.case_cong if_cong)
qed

text \<open>Verification panics only where the key or the hash does.\<close>

lemma alg_check_Panic:
  "(case h of None \<Rightarrow> (Err e1, p1)
     | Some (VInteger v) \<Rightarrow> if v \<noteq> i then (Ok False, p1) else r
     | Some _ \<Rightarrow> (Err e2, p1)) = (Panic m, p') \<longleftrightarrow> h = Some (VInteger i) \<and> r = (Panic m, p')"
  by (cases h) (auto split: cbor_value.splits)

lemma verify_signature_Panic:
  "verify_signature L H K doc p = (Panic m, p') \<longleftrightarrow>
   get_parameters K p = (Panic m, p')
   \<or> (\<exists>alg dig p1 protected tbs.
        get_parameters K p = (Ok (alg, dig), p1)
      \<and> header_from_bytes L (sign1_protected doc) = Inr protected
      \<and> header_get L protected (VInteger 1) = Some (VInteger (sint (sig_alg_i8 alg)))
      \<and> to_vec L (signed_item (sign1_protected doc) (sign1_payload doc)) = Inr tbs
      \<and> (hash_of H dig tbs = Panic m \<and> p' = p1
         \<or> (\<exists>d. hash_of H dig tbs = Ok d \<and> verify K d (sign1_signature doc) p1 = (Panic m, p'))))"
  (is "?run \<longleftrightarrow> ?inv")
proof
  assume run: ?run
  show ?inv
  proof (cases "get_parameters K p = (Panic m, p')")
    case False
    with run obtain alg dig p1 protected where
      1: "get_parameters K p = (Ok (alg, dig), p1)" "header_from_bytes L (sign1_protected doc) = Inr protected"
      unfolding verify_signature_def by (auto simp: outcome_simps)
    from run show ?thesis
      unfolding verify_signature_step [OF 1] alg_check_Panic using 1 by (auto simp: outcome_simps)
  qed simp
next
  assume ?inv
  then show ?run
    by (auto simp: verify_signature_step) (simp add: verify_signature_def)
qed

text \<open>
  What is signed for protected bytes and a payload: the digest, under the key's hash, of the written
  \<open>Sig_structure\<close>.  \<open>digest_submitted\<close> is the one with which \<open>new\<close> asks a key of the given parameters
  to sign, and \<open>digest_asked\<close> the one with which verification asks it, if it comes to that: the
  protected bytes must be a header, which names the algorithm.
\<close>

definition signing_digest :: "cbor_lib \<Rightarrow> hash \<Rightarrow> message_digest \<Rightarrow> bytes \<Rightarrow> bytes \<Rightarrow> bytes option" where
  "signing_digest L H dig protected payload =
     (case to_vec L (signed_item protected payload) of
        Inl _ \<Rightarrow> None
      | Inr tbs \<Rightarrow> (case hash_of H dig tbs of Ok d \<Rightarrow> Some d | _ \<Rightarrow> None))"

definition digest_submitted :: "cbor_lib \<Rightarrow> hash \<Rightarrow> signature_algorithm \<Rightarrow> message_digest \<Rightarrow> bytes \<Rightarrow> bytes option" where
  "digest_submitted L H alg dig payload =
     (case map_to_empty_or_serialized L (header_from_sig_alg L alg) of
        Inl _ \<Rightarrow> None | Inr pb \<Rightarrow> signing_digest L H dig pb payload)"

definition digest_asked :: "cbor_lib \<Rightarrow> hash \<Rightarrow> signature_algorithm \<Rightarrow> message_digest \<Rightarrow> cose_sign1 \<Rightarrow> bytes option" where
  "digest_asked L H alg dig doc =
     (case header_from_bytes L (sign1_protected doc) of
        Inl _ \<Rightarrow> None
      | Inr m \<Rightarrow>
          if header_get L m (VInteger 1) \<noteq> Some (VInteger (sint (sig_alg_i8 alg))) then None
          else signing_digest L H dig (sign1_protected doc) (sign1_payload doc))"

lemma signing_digest_Some:
  "signing_digest L H dig pb pl = Some d \<longleftrightarrow>
   (\<exists>tbs. to_vec L (signed_item pb pl) = Inr tbs \<and> hash_of H dig tbs = Ok d)"
  by (auto simp: signing_digest_def split: sum.splits outcome.splits)

lemma digest_submitted_Some:
  "digest_submitted L H alg dig payload = Some d \<longleftrightarrow>
   (\<exists>pb tbs. map_to_empty_or_serialized L (header_from_sig_alg L alg) = Inr pb
      \<and> to_vec L (signed_item pb payload) = Inr tbs \<and> hash_of H dig tbs = Ok d)"
  by (auto simp: digest_submitted_def signing_digest_Some split: sum.splits)

lemma digest_asked_Some:
  "digest_asked L H alg dig doc = Some d \<longleftrightarrow>
   (\<exists>m tbs. header_from_bytes L (sign1_protected doc) = Inr m
      \<and> header_get L m (VInteger 1) = Some (VInteger (sint (sig_alg_i8 alg)))
      \<and> to_vec L (signed_item (sign1_protected doc) (sign1_payload doc)) = Inr tbs \<and> hash_of H dig tbs = Ok d)"
  by (auto simp: digest_asked_def signing_digest_Some split: sum.splits)

text \<open>Creation panics only where the key does, and nothing before the key is asked.\<close>

lemma cose_sign1_new_Panic:
  assumes "get_parameters K k = (Ok (alg, dig), k1)" and "get_parameters K k1 = (Ok (alg, dig), k2)"
    and "\<And>data m. hash_of H dig data \<noteq> Panic m"
  shows "cose_sign1_new L H K payload unprotected k = (Panic m, k') \<longleftrightarrow>
    (\<exists>d. digest_submitted L H alg dig payload = Some d \<and> sign K d k2 = (Panic m, k'))"
proof -
  have "cose_sign1_new L H K payload unprotected k =
      new_with_protected L H K payload (header_from_sig_alg L alg) unprotected k1"
    using assms(1) by (simp add: cose_sign1_new_def header_from_sig_alg_def Let_def)
  then show ?thesis
    unfolding digest_submitted_Some
    using assms(2,3) by (auto simp: new_with_protected_def sig_new_sign1_def outcome_simps)
qed

lemma verify_signature_asks_Panic:
  assumes "get_parameters K p = (Ok (alg, dig), p1)" and "\<And>data m. hash_of H dig data \<noteq> Panic m"
  shows "verify_signature L H K doc p = (Panic m, p') \<longleftrightarrow>
    (\<exists>d. digest_asked L H alg dig doc = Some d \<and> verify K d (sign1_signature doc) p1 = (Panic m, p'))"
  unfolding verify_signature_Panic digest_asked_Some using assms by auto

lemma get_payload_Some_Panic:
  "get_payload L H (Some K) doc p = (Panic m, p') \<longleftrightarrow> verify_signature L H K doc p = (Panic m, p')"
  by (auto simp: get_payload_def outcome_simps split: if_splits)

lemma get_protected_and_payload_Some_Panic:
  "get_protected_and_payload L H (Some K) doc p = (Panic m, p') \<longleftrightarrow> verify_signature L H K doc p = (Panic m, p')"
  by (auto simp: get_protected_and_payload_def outcome_simps split: if_splits)

section \<open>Signing and verifying with a key pair\<close>

text \<open>
  The client of the contract \<open>key_pair\<close>: a document that a private key signed verifies under
  its public key, provided that its protected header names the key's algorithm.
\<close>

context key_pair
begin

lemma new_with_protected_verifies:
  assumes "valid_priv k" and "valid_pub p"
    and new: "new_with_protected L H K payload protected unprotected k = (Ok doc, k')"
    and protected: "header_from_bytes L (sign1_protected doc) = Inr m"
    and alg: "header_get L m (VInteger 1) = Some (VInteger (sint (sig_alg_i8 alg)))"
  shows "\<exists>p'. verify_signature L H P doc p = (Ok True, p') \<and> valid_pub p'"
proof (rule new_with_protected_Ok [OF new])
  fix alg' dig' k1 pb tbs d sig
  assume params: "get_parameters K k = (Ok (alg', dig'), k1)"
    and tbs: "to_vec L (signed_item pb payload) = Inr tbs"
    and d: "hash_of H dig' tbs = Ok d"
    and sig: "sign K d k1 = (Ok sig, k')"
    and doc: "doc = \<lparr>sign1_protected = pb, sign1_unprotected = unprotected,
                sign1_payload = payload, sign1_signature = sig\<rparr>"
  have dig: "dig' = dig" and k1: "valid_priv k1"
    using params priv_parameters [OF assms(1)] by auto
  obtain p1 where p1: "get_parameters P p = (Ok (alg, dig), p1)" "valid_pub p1"
    by (rule pub_parametersE [OF assms(2)])
  obtain p2 where p2: "verify P d sig p1 = (Ok True, p2)" "valid_pub p2"
    by (rule verify_signedE [OF k1 sig p1(2)])
  have "verify_signature L H P doc p = (Ok True, p2)"
    unfolding verify_signature_Ok_True using p1 p2 protected alg tbs d dig doc by auto
  with p2 show ?thesis by blast
qed

text \<open>Creation only fails where the codec, the hash or the key fails.\<close>

lemma new_with_protected_succeeds:
  assumes "valid_priv k"
    and "map_to_empty_or_serialized L protected = Inr pb"
    and "to_vec L (signed_item pb payload) = Inr tbs"
    and "hash_of H dig tbs = Ok d"
    and "\<And>k1. valid_priv k1 \<Longrightarrow> \<exists>sig k2. sign K d k1 = (Ok sig, k2)"
  shows "\<exists>doc k'. new_with_protected L H K payload protected unprotected k = (Ok doc, k')
           \<and> sign1_protected doc = pb \<and> sign1_payload doc = payload \<and> sign1_unprotected doc = unprotected"
proof (rule priv_parametersE [OF assms(1)])
  fix k1
  assume k1: "get_parameters K k = (Ok (alg, dig), k1)" "valid_priv k1"
  obtain sig k2 where "sign K d k1 = (Ok sig, k2)" using assms(5) [OF k1(2)] by blast
  then show ?thesis
    using k1 assms(2-4) by (simp add: new_with_protected_def sig_new_sign1_def)
qed

end

section \<open>Serialization over a lawful library\<close>

definition sign1_storable :: "cbor_lib \<Rightarrow> cose_sign1 \<Rightarrow> bool" where
  "sign1_storable L doc \<longleftrightarrow>
     length (sign1_protected doc) < 2 ^ 63 \<and> header_storable L (sign1_unprotected doc)
     \<and> length (sign1_payload doc) < 2 ^ 63 \<and> length (sign1_signature doc) < 2 ^ 63"

text \<open>Neither reading nor writing a document panics.\<close>

lemma sign1_io_no_panic:
  "sign1_from_bytes L bs \<noteq> Panic p" "sign1_from_bytes_tagged L bs \<noteq> Panic p" "sign1_as_bytes L doc tagged \<noteq> Panic p"
  by (auto simp: sign1_from_bytes_def sign1_from_bytes_tagged_def sign1_as_bytes_def outcome_simps
      split: option.splits if_splits)

context serde_cbor
begin

text \<open>
  The items that are a document: under any tags, an array of exactly the four fields.
\<close>

lemma sign1_visit_seq_Inr:
  "sign1_visit_seq L xs = Inr (doc, rest) \<longleftrightarrow>
   (\<exists>p u pl s. xs = p # u # pl # s # rest \<and> bytebuf L p = Inr (sign1_protected doc)
      \<and> header_deserialize L u = Inr (sign1_unprotected doc) \<and> bytebuf L pl = Inr (sign1_payload doc)
      \<and> bytebuf L s = Inr (sign1_signature doc))"
  by (cases doc) (auto simp: sign1_visit_seq_def outcome_simps)

lemma cose_sign1_deserialize_Inr:
  "cose_sign1_deserialize L item = Inr doc \<longleftrightarrow>
   (\<exists>p u pl s. strip_tags item = VArray [p, u, pl, s] \<and> bytebuf L p = Inr (sign1_protected doc)
      \<and> header_deserialize L u = Inr (sign1_unprotected doc) \<and> bytebuf L pl = Inr (sign1_payload doc)
      \<and> bytebuf L s = Inr (sign1_signature doc))"
proof (induction item)
  case (VArray xs)
  show ?case by (auto simp: outcome_simps sign1_visit_seq_Inr)
qed simp_all

lemma cose_sign1_not_tag: "\<forall>t u. cose_sign1_item doc \<noteq> VTag t u"
  by (simp add: cose_sign1_item_def)

lemma wf_cose_sign1_item:
  "sign1_storable L doc \<Longrightarrow> wf_value L (Suc (Suc (header_depth L))) (cose_sign1_item doc)"
  by (simp add: sign1_storable_def header_storable_def cose_sign1_item_def)

lemma cose_sign1_deserialize_item:
  "sign1_storable L doc \<Longrightarrow> cose_sign1_deserialize L (cose_sign1_item doc) = Inr doc"
  by (simp add: cose_sign1_item_def sign1_visit_seq_def bytebuf_bytes header_deserialize_item
      sign1_storable_def end_seq_done)

lemma sign1_write_read:
  assumes "sign1_storable L doc"
  obtains bs where "sign1_as_bytes L doc tagged = Ok bs"
    and "tagged_from_slice L (cose_sign1_deserialize L) bs = Inr (if tagged then Some 18 else None, doc)"
proof -
  let ?tag = "if tagged then Some 18 else None" and ?v = "cose_sign1_item doc"
  have "wf_value L (depth_limit L) (tagged_item ?tag ?v)"
    using wf_tagged_item [OF wf_cose_sign1_item [OF assms]] by simp
  then obtain bs where bs: "to_vec L (tagged_item ?tag ?v) = Inr bs" "parse L bs = Inr (tagged_item ?tag ?v)"
    using write_read by blast
  show thesis
  proof (rule that [of bs])
    show "sign1_as_bytes L doc tagged = Ok bs"
      using bs(1) by (simp add: sign1_as_bytes_def split: if_splits)
    show "tagged_from_slice L (cose_sign1_deserialize L) bs = Inr (?tag, doc)"
      unfolding tagged_from_slice_item [OF bs(2) cose_sign1_not_tag]
      by (simp add: cose_sign1_deserialize_item [OF assms])
  qed
qed

lemma sign1_roundtrip:
  assumes "sign1_storable L doc" and "header_from_bytes L (sign1_protected doc) = Inr m"
  shows "\<exists>bs. sign1_as_bytes L doc tagged = Ok bs
           \<and> sign1_from_bytes L bs = Ok doc
           \<and> sign1_from_bytes_tagged L bs = (if tagged then Ok doc else Err (TagError None))"
proof (rule sign1_write_read [OF assms(1), of tagged])
  fix bs
  assume bs: "sign1_as_bytes L doc tagged = Ok bs"
    "tagged_from_slice L (cose_sign1_deserialize L) bs = Inr (if tagged then Some 18 else None, doc)"
  then show ?thesis
    using assms(2) by (simp add: sign1_from_bytes_def sign1_from_bytes_tagged_def)
qed

text \<open>A document whose protected bytes are no header can be written but not read back.\<close>

lemma sign1_unreadable:
  assumes "sign1_storable L doc" and "header_from_bytes L (sign1_protected doc) = Inl e"
  shows "\<exists>bs. sign1_as_bytes L doc tagged = Ok bs
           \<and> sign1_from_bytes L bs = Err (SerializationError e)
           \<and> sign1_from_bytes_tagged L bs = Err (if tagged then SerializationError e else TagError None)"
proof (rule sign1_write_read [OF assms(1), of tagged])
  fix bs
  assume bs: "sign1_as_bytes L doc tagged = Ok bs"
    "tagged_from_slice L (cose_sign1_deserialize L) bs = Inr (if tagged then Some 18 else None, doc)"
  then show ?thesis
    using assms(2) by (simp add: sign1_from_bytes_def sign1_from_bytes_tagged_def)
qed

text \<open>The header that \<open>new\<close> builds, and what a verifier finds in it.\<close>

lemma header_from_sig_alg_eq:
  "header_from_sig_alg L alg = HeaderMap [(VInteger 1, i8_into (sig_alg_i8 alg))]"
  by (simp add: header_from_sig_alg_def Let_def header_single)

lemma header_from_sig_alg_storable: "header_storable L (header_from_sig_alg L alg)"
  unfolding header_from_sig_alg_eq by (rule header_single_storable [of 0]) simp_all

lemma header_from_sig_alg_get:
  "header_get L (header_from_sig_alg L alg) (VInteger 1) = Some (VInteger (sint (sig_alg_i8 alg)))"
  unfolding header_from_sig_alg_eq by (simp add: i8_into_def)

end

text \<open>The library and a key pair together: what \<open>new\<close> promises to a verifier.\<close>

locale sign1_suite = serde_cbor + key_pair
begin

lemma sig_alg_header_bytes:
  "map_to_empty_or_serialized L (header_from_sig_alg L a) = Inr pb \<Longrightarrow>
   header_from_bytes L pb = Inr (header_from_sig_alg L a)"
  by (rule header_write [OF header_from_sig_alg_storable [of a]]) (auto simp: header_from_sig_alg_eq)

lemma new_shape:
  assumes "valid_priv k" and "cose_sign1_new L H K payload unprotected k = (Ok doc, k')"
  shows "header_from_bytes L (sign1_protected doc) = Inr (header_from_sig_alg L alg)
    \<and> sign1_payload doc = payload \<and> sign1_unprotected doc = unprotected"
proof (rule cose_sign1_new_Ok [OF assms(2)])
  fix a d k1
  assume "get_parameters K k = (Ok (a, d), k1)"
    and new: "new_with_protected L H K payload (header_from_sig_alg L a) unprotected k1 = (Ok doc, k')"
  then have "a = alg" using priv_parameters [OF assms(1)] by auto
  with new show ?thesis
    by (auto elim!: new_with_protected_Ok dest: sig_alg_header_bytes)
qed

lemma new_verifies:
  assumes "valid_priv k" and "valid_pub p"
    and new: "cose_sign1_new L H K payload unprotected k = (Ok doc, k')"
  shows "\<exists>p'. verify_signature L H P doc p = (Ok True, p') \<and> valid_pub p'"
proof (rule cose_sign1_new_Ok [OF new])
  fix a d k1
  assume params: "get_parameters K k = (Ok (a, d), k1)"
    and signed: "new_with_protected L H K payload (header_from_sig_alg L a) unprotected k1 = (Ok doc, k')"
  have "valid_priv k1" using params priv_parameters [OF assms(1)] by auto
  then show ?thesis
    using new_with_protected_verifies [OF _ assms(2) signed] new_shape [OF assms(1) new]
    by (simp add: header_from_sig_alg_get)
qed

lemma new_succeeds:
  assumes "valid_priv k" and "length payload < 2 ^ 63"
    and "map_to_empty_or_serialized L (header_from_sig_alg L alg) = Inr pb" and "length pb < 2 ^ 63"
    and "\<And>data. \<exists>d. hash_of H dig data = Ok d"
    and "\<And>data d k1. hash_of H dig data = Ok d \<Longrightarrow> valid_priv k1 \<Longrightarrow> \<exists>sig k2. sign K d k1 = (Ok sig, k2)"
  shows "\<exists>doc k'. cose_sign1_new L H K payload unprotected k = (Ok doc, k')"
proof (rule priv_parametersE [OF assms(1)])
  fix k1
  assume k1: "get_parameters K k = (Ok (alg, dig), k1)" "valid_priv k1"
  obtain tbs where tbs: "to_vec L (signed_item pb payload) = Inr tbs"
    using write_read [OF wf_signed_item [OF assms(4,2)], of 0] depth_limit by auto
  obtain d where d: "hash_of H dig tbs = Ok d" using assms(5) by blast
  obtain doc k' where "new_with_protected L H K payload (header_from_sig_alg L alg) unprotected k1 = (Ok doc, k')"
    using new_with_protected_succeeds [OF k1(2) assms(3) tbs d assms(6) [OF d]] by blast
  with k1(1) show ?thesis
    by (auto simp: cose_sign1_new_def header_from_sig_alg_def Let_def)
qed

end

end
