(* ===== verification/Scenarios.thy ===== *)
theory Scenarios
  imports Backend Sign
begin

text \<open>
  Concrete documents over the reference codec and the backend: a \<open>COSE_Sign1\<close> document and a
  \<open>COSE_Encrypt0\<close> document with the runs that create them, the bytes they are written to, and
  the headers of the repository's own tests.  The witnesses of the properties rest on these runs.
\<close>

abbreviation demo_hasher :: hash where
  "demo_hasher \<equiv> openssl_hasher demo_openssl"

abbreviation demo_signer :: "signature_algorithm \<Rightarrow> nat signing_private_key" where
  "demo_signer alg \<equiv> pkey_private demo_pkey (Demo_Key (demo_priv_ec alg))"

abbreviation demo_verifier :: "signature_algorithm \<Rightarrow> nat signing_public_key" where
  "demo_verifier alg \<equiv> pkey_public demo_pkey (Demo_Key (demo_pub_ec alg))"

abbreviation demo_enc :: encryption where
  "demo_enc \<equiv> openssl_encryption demo_openssl"

abbreviation demo_dec :: decryption where
  "demo_dec \<equiv> openssl_decryption demo_openssl"

abbreviation demo_source :: "nat entropy" where
  "demo_source \<equiv> openssl_entropy demo_openssl"

lemmas reference_laws = reference.serde_cbor_axioms
lemmas demo_pair = demo_ec.key_pair_axioms

interpretation demo_sign1_suite: sign1_suite reference_lib "demo_signer alg" "demo_verifier alg"
    "\<lambda>_. True" "\<lambda>_. True" alg "suggested_message_digest alg"
  for alg
  by unfold_locales

text \<open>The demonstration key signs every digest: some nonce always serves.\<close>

lemma dsa_sign_total: "\<exists>sig w'. dsa_sign 3 d w = (Inr sig, w')"
proof -
  have "list_all (\<lambda>h. list_all (\<lambda>w. List.find (dsa_nonce_ok 3 h) (map (\<lambda>i. (w + i) mod 4 + 1) [0..<4]) \<noteq> None) [0..<4]) [0..<5]"
    by code_simp
  then have "List.find (dsa_nonce_ok 3 (be_nat d mod 5)) (map (\<lambda>i. (w mod 4 + i) mod 4 + 1) [0..<4]) \<noteq> None"
    unfolding list_all_iff by (elim ballE [of _ _ "be_nat d mod 5"] ballE [of _ _ "w mod 4"]) simp_all
  moreover have "(\<lambda>i. (w mod 4 + i) mod 4 + 1) = (\<lambda>i. (w + i) mod 4 + 1)"
    by (simp add: fun_eq_iff mod_add_left_eq)
  ultimately have "List.find (dsa_nonce_ok 3 (be_nat d mod 5)) (map (\<lambda>i. (w + i) mod 4 + 1) [0..<4]) \<noteq> None"
    by metis
  then show ?thesis unfolding dsa_sign_def Let_def by (auto simp del: find_None_iff2)
qed

lemma demo_signer_total: "\<exists>sig k2. sign (demo_signer ES256) d k = (Ok sig, k2)"
proof -
  obtain sig w' where s: "dsa_sign 3 d k = (Inr sig, w')" using dsa_sign_total by blast
  have len: "length (be_min (sig_r sig)) \<le> 32" "length (be_min (sig_s sig)) \<le> 32"
    using dsa_sign_correct [OF s] by (auto intro!: length_be_min)
  show ?thesis
    using s merge_ec_signature_ok [OF len]
    by (simp add: ec_curve_to_parameters_def pkey_private_def pkeyref_sign_def demo_pkey_def demo_priv_ec_def Let_def)
qed

section \<open>A signed document\<close>

text \<open>The unprotected header \<open>{4: h'3131'}\<close> of the repository's tests.\<close>

definition kid_header :: header_map where
  "kid_header = HeaderMap [(VInteger 4, VBytes [0x31, 0x31])]"

definition demo_sign1 :: cose_sign1 where
  "demo_sign1 =
     \<lparr>sign1_protected = [0xA1, 0x01, 0x26], sign1_unprotected = kid_header,
      sign1_payload = [1, 2, 3],
      sign1_signature = replicate 31 0 @ [4] @ replicate 31 0 @ [3]\<rparr>"

definition demo_tbs :: bytes where
  "demo_tbs = [0x84, 0x6A, 0x53, 0x69, 0x67, 0x6E, 0x61, 0x74, 0x75, 0x72, 0x65, 0x31,
     0x43, 0xA1, 0x01, 0x26, 0x40, 0x43, 1, 2, 3]"

definition demo_digest :: bytes where
  "demo_digest = be_fixed 32 (checksum demo_tbs)"

lemma ES256_header_bytes: "reference_to_vec (VMap [(VInteger 1, VInteger (- 7))]) = Inr [0xA1, 0x01, 0x26]"
  by code_simp

lemma ES256_header_parse: "reference_parse [0xA1, 0x01, 0x26] = Inr (VMap [(VInteger 1, VInteger (- 7))])"
  by code_simp

lemma single_entry_map:
  "reference_map (VMap [(VInteger i, VInteger j)]) = Inr [(VInteger i, VInteger j)]"
  by (simp add: Let_def distinct_keys_def value_order.btree_of_sorted)

lemma ES256_header [simp]:
  "header_from_bytes reference_lib [0xA1, 0x01, 0x26] = Inr (HeaderMap [(VInteger 1, VInteger (- 7))])"
  by (simp add: header_from_bytes_def header_deserialize_def ES256_header_parse single_entry_map
      del: reference_map.simps)

lemma demo_tbs_bytes: "reference_to_vec (signed_item [0xA1, 0x01, 0x26] [1, 2, 3]) = Inr demo_tbs"
  by code_simp

lemma demo_hasher_256: "hash_of demo_hasher Sha256 data = Ok (be_fixed 32 (checksum data))"
  by (simp add: openssl_hasher_def openssl_hash_def demo_openssl_def demo_hash_def)

lemma demo_digest_hash: "hash_of demo_hasher Sha256 demo_tbs = Ok demo_digest"
  by (simp add: demo_hasher_256 demo_digest_def)

lemma demo_signer_parameters [simp]:
  "get_parameters (demo_signer alg) k = (Ok (alg, suggested_message_digest alg), k)"
  by (simp add: pkey_private_def pkeyref_get_parameters_def demo_pkey_def demo_priv_ec_def)

lemma demo_verifier_parameters [simp]:
  "get_parameters (demo_verifier alg) k = (Ok (alg, suggested_message_digest alg), k)"
  by (simp add: pkey_public_def pkeyref_get_parameters_def demo_pkey_def demo_pub_ec_def)

lemma demo_digest_signature:
  "sign (demo_signer ES256) demo_digest 5 = (Ok (replicate 31 0 @ [4] @ replicate 31 0 @ [3]), 6)"
  by code_simp

lemma demo_sign1_signed:
  "new_with_protected reference_lib demo_hasher (demo_signer ES256) [1, 2, 3]
     (HeaderMap [(VInteger 1, VInteger (- 7))]) kid_header 5 = (Ok demo_sign1, 6)"
  by (simp add: new_with_protected_def map_to_empty_or_serialized_def ES256_header_bytes sig_new_sign1_def
      demo_tbs_bytes demo_digest_hash demo_digest_signature demo_sign1_def)

lemma demo_sign1_new:
  "cose_sign1_new reference_lib demo_hasher (demo_signer ES256) [1, 2, 3] kid_header 5 = (Ok demo_sign1, 6)"
  using demo_sign1_signed by (simp add: cose_sign1_new_def header_single i8_into_def Let_def)

lemma kid_header_storable [simp]: "header_storable reference_lib kid_header"
  by (simp add: header_storable_def kid_header_def)

lemma demo_sign1_storable: "sign1_storable reference_lib demo_sign1"
  by (simp add: sign1_storable_def demo_sign1_def)

lemma demo_sign1_header:
  "header_from_bytes reference_lib (sign1_protected demo_sign1) = Inr (HeaderMap [(VInteger 1, VInteger (- 7))])"
  by (simp add: demo_sign1_def)

section \<open>An encrypted document\<close>

definition demo_key16 :: bytes where
  "demo_key16 = replicate 16 7"

lemma length_demo_key16 [simp]: "length demo_key16 = 16"
  by (simp add: demo_key16_def)

definition demo_iv :: bytes where
  "demo_iv = [48, 49, 50, 51, 52, 53, 54, 55, 56, 57, 58, 59]"

definition demo_encrypt0 :: cose_encrypt0 where
  "demo_encrypt0 =
     \<lparr>enc0_protected = [0xA1, 0x01, 0x01], enc0_unprotected = iv_header demo_iv,
      enc0_ciphertext = [47, 45, 51] @ (replicate 14 0 @ [24, 187])\<rparr>"

lemma gcm128_header_bytes: "reference_to_vec (VMap [(VInteger 1, VInteger 1)]) = Inr [0xA1, 0x01, 0x01]"
  by code_simp

lemma gcm128_header_parse: "reference_parse [0xA1, 0x01, 0x01] = Inr (VMap [(VInteger 1, VInteger 1)])"
  by code_simp

lemma gcm128_header [simp]:
  "header_from_bytes reference_lib [0xA1, 0x01, 0x01] = Inr (HeaderMap [(VInteger 1, VInteger 1)])"
  by (simp add: header_from_bytes_def header_deserialize_def gcm128_header_parse single_entry_map
      del: reference_map.simps)

definition demo_aad :: bytes where
  "demo_aad = [0x83, 0x68, 0x45, 0x6E, 0x63, 0x72, 0x79, 0x70, 0x74, 0x30, 0x43, 0xA1, 0x01, 0x01, 0x40]"

lemma demo_aad_bytes: "reference_to_vec (aead_item [0xA1, 0x01, 0x01]) = Inr demo_aad"
  by code_simp

lemma demo_random: "rand_bytes demo_source (replicate 12 0) 3 = (Ok (), demo_iv, 4)"
  by code_simp

lemma demo_ciphertext:
  "encrypt_aead demo_enc Aes128Gcm demo_key16 (Some demo_iv) demo_aad [1, 2, 3] (replicate 16 0) =
     (Ok [47, 45, 51], replicate 14 0 @ [24, 187])"
  by code_simp

lemma demo_encrypt0_new:
  "cose_encrypt0_new reference_lib demo_source demo_enc [1, 2, 3] Gcm demo_key16 3 = (Ok demo_encrypt0, 4)"
  by (simp add: cose_encrypt0_new_def demo_random header_single map_to_empty_or_serialized_def
      gcm128_header_bytes enc_new_encrypt0_def demo_aad_bytes demo_ciphertext demo_encrypt0_def
      iv_header_def Let_def)

lemma demo_encrypt0_storable: "encrypt0_storable reference_lib demo_encrypt0"
  by (simp add: encrypt0_storable_def demo_encrypt0_def serde_cbor.iv_header_storable [OF reference_laws] demo_iv_def)

lemma demo_encrypt0_header:
  "header_from_bytes reference_lib (enc0_protected demo_encrypt0) = Inr (HeaderMap [(VInteger 1, VInteger 1)])"
  by (simp add: demo_encrypt0_def)

text \<open>Any payload is encrypted under any key of 16 bytes.\<close>

lemma demo_encrypts:
  assumes "length key = 16"
  obtains c tag where "length c = length payload" and "length tag = 16"
    and "cose_encrypt0_new reference_lib demo_source demo_enc payload Gcm key 3 =
      (Ok \<lparr>enc0_protected = [0xA1, 0x01, 0x01], enc0_unprotected = iv_header demo_iv, enc0_ciphertext = c @ tag\<rparr>, 4)"
proof -
  obtain c tag where enc: "encrypt_aead demo_enc Aes128Gcm key (Some demo_iv) demo_aad payload (replicate 16 0) = (Ok c, tag)"
    and len: "length c = length payload" "length tag = 16"
    using assms
    by (simp add: openssl_encryption_def openssl_encrypt_aead_def demo_openssl_def demo_encrypt_def Let_def)
  have "cose_encrypt0_new reference_lib demo_source demo_enc payload Gcm key 3 =
      (Ok \<lparr>enc0_protected = [0xA1, 0x01, 0x01], enc0_unprotected = iv_header demo_iv, enc0_ciphertext = c @ tag\<rparr>, 4)"
    using assms
    by (simp add: cose_encrypt0_new_def demo_random header_single map_to_empty_or_serialized_def
        gcm128_header_bytes enc_new_encrypt0_def demo_aad_bytes enc iv_header_def Let_def)
  with len show thesis by (rule that)
qed

section \<open>Devices\<close>

definition demo_kms_handle :: "(demo_client, demo_key) kms_key" where
  "demo_kms_handle =
     \<lparr>kms_client = \<lparr>client_tokio = True, client_nonce = 5\<rparr>, kms_key_id = demo_key_id,
      kms_sig_alg = ES256, kms_public_key = None\<rparr>"

definition demo_tpm_handle :: "(nat, nat, 16 word) tpm_key" where
  "demo_tpm_handle =
     \<lparr>tpm_context = 5, tpm_key_handle = 1, tpm_parameters = (ES256, Sha256),
      tpm_hash_alg = 0x0B, tpm_key_length = 32\<rparr>"

lemma demo_kms_usable:
  "kms_usable client_tokio demo_key_id ES256 (Demo_Key (demo_pub_ec ES256)) demo_kms_handle"
  by (simp add: kms_usable_def demo_kms_handle_def)

lemma demo_tpm_usable: "tpm_usable (\<lambda>_. True) 1 0x0B ES256 Sha256 demo_tpm_handle"
  by (simp add: tpm_usable_def demo_tpm_handle_def)

end
