(* ===== verification/Sign_Properties.thy ===== *)
theory Sign_Properties
  imports Scenarios
begin

text \<open>
  The properties of \<open>COSE_Sign1\<close> (\<open>src/src/sign.rs\<close>), each with a run at a concrete input
  where it has hypotheses.
\<close>

section \<open>Signing and verifying\<close>

text \<open>
  C1: a document that \<open>CoseSign1::new\<close> creates with a private key verifies under the public
  key that belongs to it, whatever the payload and the unprotected header.
\<close>

theorem sign_then_verify:
  assumes "serde_cbor L" and "key_pair K P valid_priv valid_pub alg dig"
    and "valid_priv k" and "valid_pub p"
    and "cose_sign1_new L H K payload unprotected k = (Ok doc, k')"
  shows "fst (verify_signature L H P doc p) = Ok True"
proof -
  have "\<exists>p'. verify_signature L H P doc p = (Ok True, p') \<and> valid_pub p'"
    by (rule sign1_suite.new_verifies [OF sign1_suite.intro [OF assms(1,2)] assms(3-5)])
  then show ?thesis by auto
qed

theorem sign_then_verify_witness:
  "cose_sign1_new reference_lib demo_hasher (demo_signer ES256) [1, 2, 3] kid_header 5 = (Ok demo_sign1, 6)
   \<and> fst (verify_signature reference_lib demo_hasher (demo_verifier ES256) demo_sign1 0) = Ok True"
  using sign_then_verify [OF reference_laws demo_pair _ _ demo_sign1_new, of 0] demo_sign1_new by simp

text \<open>
  C10: a document that was created with a private key, written with or without its tag, and
  read back, yields its payload and its protected header, which names the key's algorithm and nothing else, to whoever
  holds the public key; it keeps the unprotected header.
\<close>

theorem sign_transport_verify:
  assumes laws: "serde_cbor L" and keys: "key_pair K P valid_priv valid_pub alg dig"
    and k: "valid_priv k" and p: "valid_pub p"
    and new: "cose_sign1_new L H K payload unprotected k = (Ok doc, k')"
    and "sign1_storable L doc"
  shows "\<exists>bs doc'. sign1_as_bytes L doc tagged = Ok bs \<and> sign1_from_bytes L bs = Ok doc'
    \<and> fst (get_protected_and_payload L H (Some P) doc' p) = Ok (HeaderMap [(VInteger 1, VInteger (sint (sig_alg_i8 alg)))], payload)
    \<and> get_unprotected doc' = unprotected"
proof -
  note suite = sign1_suite.intro [OF laws keys]
  note shape = sign1_suite.new_shape [OF suite k new]
  obtain bs where "sign1_as_bytes L doc tagged = Ok bs" "sign1_from_bytes L bs = Ok doc"
    using serde_cbor.sign1_roundtrip [OF laws assms(6)] shape by blast
  moreover obtain p' where "verify_signature L H P doc p = (Ok True, p')"
    using sign1_suite.new_verifies [OF suite k p new] by blast
  then have "get_protected_and_payload L H (Some P) doc p = (Ok (header_from_sig_alg L alg, payload), p')"
    using shape by (simp add: get_protected_and_payload_Some_Ok)
  ultimately show ?thesis
    using shape by (auto simp: serde_cbor.header_from_sig_alg_eq [OF laws] i8_into_def get_unprotected_def)
qed

theorem sign_transport_verify_witness:
  "\<exists>bs doc'. sign1_as_bytes reference_lib demo_sign1 True = Ok bs \<and> sign1_from_bytes reference_lib bs = Ok doc'
    \<and> fst (get_protected_and_payload reference_lib demo_hasher (Some (demo_verifier ES256)) doc' 0) =
        Ok (HeaderMap [(VInteger 1, VInteger (- 7))], [1, 2, 3])
    \<and> get_unprotected doc' = kid_header"
  using sign_transport_verify [OF reference_laws demo_pair _ _ demo_sign1_new demo_sign1_storable,
      where p = 0 and tagged = True] by simp

text \<open>
  C3: \<open>get_payload\<close> with a key returns exactly the document's payload, and it returns it if and
  only if the protected header is a header whose label 1 is the key's own algorithm and the key
  accepted the document's signature for the digest, under the key's hash, of the array
  \<open>["Signature1", protected, h'', payload]\<close> over the protected bytes as they were received.
\<close>

theorem payload_released_iff:
  "get_payload L H (Some K) doc p = (Ok payload, p') \<longleftrightarrow>
   payload = sign1_payload doc \<and>
   (\<exists>alg dig p1 protected tbs d.
      get_parameters K p = (Ok (alg, dig), p1)
    \<and> header_from_bytes L (sign1_protected doc) = Inr protected
    \<and> header_get L protected (VInteger 1) = Some (VInteger (sint (sig_alg_i8 alg)))
    \<and> to_vec L (VArray [VText ''Signature1'', VBytes (sign1_protected doc), VBytes [], VBytes (sign1_payload doc)]) = Inr tbs
    \<and> hash_of H dig tbs = Ok d
    \<and> verify K d (sign1_signature doc) p1 = (Ok True, p'))"
  unfolding get_payload_Some_Ok verify_signature_Ok_True signed_item_def by blast

text \<open>
  C20: if the protected header names another algorithm than the key's, the document
  is not verified and no accessor returns its payload, and the key is not asked: it is left as it was
  after reporting its parameters.
\<close>

theorem algorithm_mismatch_rejected:
  assumes "get_parameters K p = (Ok (alg, dig), p1)"
    and "header_from_bytes L (sign1_protected doc) = Inr protected"
    and "header_get L protected (VInteger 1) = Some (VInteger v)" and "v \<noteq> sint (sig_alg_i8 alg)"
  shows "verify_signature L H K doc p = (Ok False, p1)
    \<and> get_payload L H (Some K) doc p = (Err UnverifiedSignature, p1)
    \<and> get_protected_and_payload L H (Some K) doc p = (Err UnverifiedSignature, p1)"
proof -
  have "verify_signature L H K doc p = (Ok False, p1)"
    using assms by (simp add: verify_signature_step)
  then show ?thesis by (simp add: get_payload_def get_protected_and_payload_def)
qed

theorem algorithm_mismatch_rejected_witness:
  "verify_signature reference_lib demo_hasher (demo_verifier ES384) demo_sign1 0 = (Ok False, 0)
   \<and> get_payload reference_lib demo_hasher (Some (demo_verifier ES384)) demo_sign1 0 = (Err UnverifiedSignature, 0)
   \<and> get_protected_and_payload reference_lib demo_hasher (Some (demo_verifier ES384)) demo_sign1 0 = (Err UnverifiedSignature, 0)"
  by (rule algorithm_mismatch_rejected [OF demo_verifier_parameters demo_sign1_header, where v = "-7"])
    simp_all

text \<open>
  A protected header without label 1, or whose label 1 is no integer, is a
  \<open>SpecificationError\<close>, never an unverified or verified document.
\<close>

theorem missing_algorithm_errors:
  assumes "get_parameters K p = (Ok (alg, dig), p1)"
    and "header_from_bytes L (sign1_protected doc) = Inr protected"
  shows "(header_get L protected (VInteger 1) = None \<longrightarrow>
      verify_signature L H K doc p =
        (Err (SpecificationError ''Protected Header does not contain a valid Signature Algorithm specification''), p1))
    \<and> (\<forall>v. header_get L protected (VInteger 1) = Some v \<longrightarrow> (\<forall>i. v \<noteq> VInteger i) \<longrightarrow>
      verify_signature L H K doc p =
        (Err (SpecificationError ''Protected Header contains invalid Signature Algorithm specification''), p1))"
  using assms by (auto simp: verify_signature_step split: cbor_value.splits)

lemma label_2_header: "header_from_bytes reference_lib [0xA1, 0x02, 0x26] = Inr (HeaderMap [(VInteger 2, VInteger (- 7))])"
  by code_simp

theorem missing_algorithm_errors_witness:
  "verify_signature reference_lib demo_hasher (demo_verifier ES256) (demo_sign1\<lparr>sign1_protected := [0xA1, 0x02, 0x26]\<rparr>) 0 =
    (Err (SpecificationError ''Protected Header does not contain a valid Signature Algorithm specification''), 0)"
proof -
  let ?doc = "demo_sign1\<lparr>sign1_protected := [0xA1, 0x02, 0x26]\<rparr>"
  have params: "get_parameters (demo_verifier ES256) 0 = (Ok (ES256, Sha256), 0)" by simp
  have header: "header_from_bytes reference_lib (sign1_protected ?doc) = Inr (HeaderMap [(VInteger 2, VInteger (- 7))])"
    by (simp add: label_2_header)
  have "header_get reference_lib (HeaderMap [(VInteger 2, VInteger (- 7))]) (VInteger 1) = None"
    by code_simp
  with missing_algorithm_errors [OF params header] show ?thesis by blast
qed

text \<open>
  C37: creation cannot fail by itself: if hashing and the key succeed and the lengths are those a
  slice can have, \<open>CoseSign1::new\<close> returns a document, with the header of the key's algorithm as
  its protected header and the given payload and unprotected header.
\<close>

theorem signing_succeeds:
  assumes laws: "serde_cbor L" and keys: "key_pair K P valid_priv valid_pub alg dig"
    and k: "valid_priv k" and "length payload < 2 ^ 63"
    and "map_to_empty_or_serialized L (header_from_sig_alg L alg) = Inr pb" and "length pb < 2 ^ 63"
    and "\<forall>data. \<exists>d. hash_of H dig data = Ok d"
    and "\<forall>d k1. valid_priv k1 \<longrightarrow> (\<exists>sig k2. sign K d k1 = (Ok sig, k2))"
  shows "\<exists>doc k'. cose_sign1_new L H K payload unprotected k = (Ok doc, k')
    \<and> header_from_bytes L (sign1_protected doc) = Inr (header_from_sig_alg L alg)
    \<and> sign1_payload doc = payload \<and> sign1_unprotected doc = unprotected"
proof -
  note suite = sign1_suite.intro [OF laws keys]
  obtain doc k' where "cose_sign1_new L H K payload unprotected k = (Ok doc, k')"
    using sign1_suite.new_succeeds [OF suite k assms(4-6)] assms(7,8) by blast
  with sign1_suite.new_shape [OF suite k] show ?thesis by blast
qed

theorem signing_succeeds_witness:
  "\<exists>doc k'. cose_sign1_new reference_lib demo_hasher (demo_signer ES256) [1, 2, 3] kid_header 0 = (Ok doc, k')
    \<and> header_from_bytes reference_lib (sign1_protected doc) = Inr (header_from_sig_alg reference_lib ES256)
    \<and> sign1_payload doc = [1, 2, 3] \<and> sign1_unprotected doc = kid_header"
proof (rule signing_succeeds [OF reference_laws demo_pair, where pb = "[0xA1, 0x01, 0x26]"])
  show "map_to_empty_or_serialized reference_lib (header_from_sig_alg reference_lib ES256) = Inr [0xA1, 0x01, 0x26]"
    by (simp add: header_from_sig_alg_def Let_def header_single i8_into_def map_to_empty_or_serialized_def ES256_header_bytes)
  show "\<forall>data. \<exists>d. hash_of demo_hasher (suggested_message_digest ES256) data = Ok d"
    by (simp add: openssl_hasher_def openssl_hash_def demo_openssl_def demo_hash_def)
  show "\<forall>d k1. True \<longrightarrow> (\<exists>sig k2. sign (demo_signer ES256) d k1 = (Ok sig, k2))"
    using demo_signer_total by blast
qed simp_all

text \<open>
  Where hashing fails, neither creation nor verification asks the key for anything more than
  its parameters: both return the failure as a \<open>SignatureError\<close> around the error of \<open>Hash::hash\<close>,
  whose own source the result then reports.
\<close>

theorem hash_failure_reported:
  assumes "get_parameters K k = (Ok (alg, dig), k1)"
    and "header_from_bytes L (sign1_protected doc) = Inr protected"
    and "header_get L protected (VInteger 1) = Some (VInteger (sint (sig_alg_i8 alg)))"
    and "to_vec L (signed_item (sign1_protected doc) (sign1_payload doc)) = Inr tbs"
    and "map_to_empty_or_serialized L header = Inr (sign1_protected doc)"
    and "hash_of H dig tbs = Err e"
  shows "new_with_protected L H K (sign1_payload doc) header unprotected k = (Err (SignatureError (Dyn_Cose e)), k1)
    \<and> verify_signature L H K doc k = (Err (SignatureError (Dyn_Cose e)), k1)
    \<and> error_source (SignatureError (Dyn_Cose e)) = error_source e"
  using assms
  by (simp add: new_with_protected_def sig_new_sign1_def verify_signature_step [where alg = alg and dig = dig])

definition failing_hasher :: hash where
  "failing_hasher = \<lparr>hash_of = \<lambda>_ _. Err (HashingError (Dyn_Ext (demo_error ''no digest'')))\<rparr>"

theorem hash_failure_reported_witness:
  "new_with_protected reference_lib failing_hasher (demo_signer ES256) (sign1_payload demo_sign1)
      (HeaderMap [(VInteger 1, VInteger (- 7))]) kid_header 5 =
    (Err (SignatureError (Dyn_Cose (HashingError (Dyn_Ext (demo_error ''no digest''))))), 5)"
proof -
  have "get_parameters (demo_signer ES256) 5 = (Ok (ES256, Sha256), 5)" by simp
  moreover note demo_sign1_header
  moreover have "header_get reference_lib (HeaderMap [(VInteger 1, VInteger (- 7))]) (VInteger 1) =
      Some (VInteger (sint (sig_alg_i8 ES256)))"
    by simp
  moreover have "to_vec reference_lib (signed_item (sign1_protected demo_sign1) (sign1_payload demo_sign1)) = Inr demo_tbs"
    by (simp add: demo_sign1_def demo_tbs_bytes)
  moreover have "map_to_empty_or_serialized reference_lib (HeaderMap [(VInteger 1, VInteger (- 7))]) = Inr (sign1_protected demo_sign1)"
    by (simp add: map_to_empty_or_serialized_def ES256_header_bytes demo_sign1_def)
  moreover have "hash_of failing_hasher Sha256 demo_tbs = Err (HashingError (Dyn_Ext (demo_error ''no digest'')))"
    by (simp add: failing_hasher_def)
  ultimately show ?thesis by (rule hash_failure_reported [THEN conjunct1])
qed

section \<open>The protected header\<close>

text \<open>
  C24: the signed bytes determine what is signed: two structures that
  \<open>SigStructure::new_sign1\<close> builds and that are written to the same bytes have the same protected
  bytes and the same payload, so a signature cannot be moved to another document.
\<close>

theorem signed_bytes_injective:
  assumes laws: "serde_cbor L"
    and "sig_new_sign1 protected payload = Inr s" and "sig_structure_as_bytes L s = Inr bs"
    and "sig_new_sign1 protected' payload' = Inr s'" and "sig_structure_as_bytes L s' = Inr bs"
    and len: "length protected < 2 ^ 63" "length payload < 2 ^ 63" "length protected' < 2 ^ 63" "length payload' < 2 ^ 63"
  shows "protected = protected' \<and> payload = payload'"
proof -
  have "1 \<le> depth_limit L" using serde_cbor.depth_limit [OF laws] by simp
  then have "signed_item protected payload = signed_item protected' payload'"
    using assms(2-5) wf_signed_item [OF len(1,2), of _ 0] wf_signed_item [OF len(3,4), of _ 0]
    by (intro serde_cbor.to_vec_inj [OF laws, where n = 1]) auto
  then show ?thesis by simp
qed

theorem signed_bytes_injective_witness:
  "\<exists>bs. sig_structure_as_bytes reference_lib (SigStructure ''Signature1'' [0xA1, 0x01, 0x26] None [] [1, 2, 4]) = Inr bs
    \<and> sig_structure_as_bytes reference_lib (SigStructure ''Signature1'' [0xA1, 0x01, 0x26] None [] [1, 2, 3]) = Inr demo_tbs
    \<and> bs \<noteq> demo_tbs"
proof -
  have run: "sig_structure_as_bytes reference_lib (SigStructure ''Signature1'' [0xA1, 0x01, 0x26] None [] [1, 2, 3]) = Inr demo_tbs"
    by (simp add: demo_tbs_bytes)
  obtain bs where bs: "sig_structure_as_bytes reference_lib (SigStructure ''Signature1'' [0xA1, 0x01, 0x26] None [] [1, 2, 4]) = Inr bs"
    by (simp add: reference_to_vec_def signed_item_def)
  have "bs \<noteq> demo_tbs"
  proof
    assume "bs = demo_tbs"
    with bs have "sig_structure_as_bytes reference_lib (SigStructure ''Signature1'' [0xA1, 0x01, 0x26] None [] [1, 2, 4]) = Inr demo_tbs"
      by simp
    from signed_bytes_injective [OF reference_laws _ run _ this, where protected = "[0xA1, 0x01, 0x26]"
        and payload = "[1, 2, 3]" and protected' = "[0xA1, 0x01, 0x26]" and payload' = "[1, 2, 4]"]
    show False by simp
  qed
  with bs run show ?thesis by blast
qed

text \<open>
  C36: \<open>new_with_protected\<close> signs a document with an empty protected header, which
  it writes as the empty byte string; but no key verifies such a document and \<open>from_bytes\<close> does not
  read it back, since both parse the protected bytes and the empty string holds no item.
\<close>

theorem empty_protected_header_unverifiable:
  assumes laws: "serde_cbor L"
    and new: "new_with_protected L H K payload header_new unprotected k = (Ok doc, k')"
    and stored: "sign1_storable L doc"
    and params: "get_parameters P p = (Ok (alg, dig), p1)"
  shows "\<exists>e. category e = Eof
    \<and> verify_signature L H P doc p = (Err (SerializationError e), p1)
    \<and> (\<exists>bs. sign1_as_bytes L doc tagged = Ok bs \<and> sign1_from_bytes L bs = Err (SerializationError e))"
proof -
  obtain e where e: "header_from_bytes L [] = Inl e" "category e = Eof"
    using serde_cbor.header_from_bytes_empty [OF laws] by blast
  have "sign1_protected doc = []"
    using new by (auto elim!: new_with_protected_Ok simp: map_to_empty_or_serialized_def header_new_def)
  then have doc: "header_from_bytes L (sign1_protected doc) = Inl e" using e(1) by simp
  have "verify_signature L H P doc p = (Err (SerializationError e), p1)"
    using params doc by (simp add: verify_signature_def)
  then show ?thesis
    using e(2) serde_cbor.sign1_unreadable [OF laws stored doc, of tagged] by blast
qed

definition demo_empty_sign1 :: cose_sign1 where
  "demo_empty_sign1 =
     \<lparr>sign1_protected = [], sign1_unprotected = kid_header, sign1_payload = [1, 2, 3],
      sign1_signature = replicate 31 0 @ [4] @ replicate 31 0 @ [4]\<rparr>"

lemma demo_empty_sign1_new:
  "new_with_protected reference_lib demo_hasher (demo_signer ES256) [1, 2, 3] header_new kid_header 5 = (Ok demo_empty_sign1, 6)"
proof -
  have "reference_to_vec (signed_item [] [1, 2, 3]) = Inr [0x84, 0x6A, 0x53, 0x69, 0x67, 0x6E, 0x61, 0x74, 0x75, 0x72, 0x65, 0x31,
      0x40, 0x40, 0x43, 1, 2, 3]" (is "_ = Inr ?tbs")
    by code_simp
  moreover note demo_hasher_256 [of ?tbs]
  moreover have "sign (demo_signer ES256) (be_fixed 32 (checksum ?tbs)) 5 = (Ok (replicate 31 0 @ [4] @ replicate 31 0 @ [4]), 6)"
    by code_simp
  ultimately show ?thesis
    by (simp add: new_with_protected_def map_to_empty_or_serialized_def sig_new_sign1_def header_new_def demo_empty_sign1_def)
qed

theorem empty_protected_header_unverifiable_witness:
  "\<exists>e. category e = Eof
    \<and> verify_signature reference_lib demo_hasher (demo_verifier ES256) demo_empty_sign1 0 = (Err (SerializationError e), 0)
    \<and> (\<exists>bs. sign1_as_bytes reference_lib demo_empty_sign1 True = Ok bs
           \<and> sign1_from_bytes reference_lib bs = Err (SerializationError e))"
  by (rule empty_protected_header_unverifiable [OF reference_laws demo_empty_sign1_new _ demo_verifier_parameters])
    (simp add: sign1_storable_def demo_empty_sign1_def)

text \<open>
  C39: \<open>new_with_protected\<close> stores the protected header exactly as it was
  given, without the key's algorithm: if the caller's header has no label 1, the document it signs
  verifies under no key.
\<close>

theorem new_with_protected_adds_no_algorithm:
  assumes laws: "serde_cbor L"
    and new: "new_with_protected L H K payload protected unprotected k = (Ok doc, k')"
    and "header_storable L protected" and "\<not> header_is_empty protected"
    and "header_get L protected (VInteger 1) = None"
    and params: "get_parameters P p = (Ok (alg, dig), p1)"
  shows "header_from_bytes L (sign1_protected doc) = Inr protected
    \<and> verify_signature L H P doc p =
        (Err (SpecificationError ''Protected Header does not contain a valid Signature Algorithm specification''), p1)"
proof -
  have doc: "header_from_bytes L (sign1_protected doc) = Inr protected"
    by (rule new_with_protected_Ok [OF new], rule serde_cbor.header_write [OF laws assms(3,4)]) auto
  with assms(5) params show ?thesis by (simp add: verify_signature_step)
qed

definition demo_unlabelled_sign1 :: cose_sign1 where
  "demo_unlabelled_sign1 =
     \<lparr>sign1_protected = [0xA1, 0x02, 0x26], sign1_unprotected = kid_header, sign1_payload = [1, 2, 3],
      sign1_signature = replicate 31 0 @ [4] @ replicate 31 0 @ [4]\<rparr>"

lemma demo_unlabelled_sign1_new:
  "new_with_protected reference_lib demo_hasher (demo_signer ES256) [1, 2, 3]
     (HeaderMap [(VInteger 2, VInteger (- 7))]) kid_header 5 = (Ok demo_unlabelled_sign1, 6)"
proof -
  have "reference_to_vec (VMap [(VInteger 2, VInteger (- 7))]) = Inr [0xA1, 0x02, 0x26]"
    by code_simp
  moreover have "reference_to_vec (signed_item [0xA1, 0x02, 0x26] [1, 2, 3]) = Inr [0x84, 0x6A, 0x53, 0x69, 0x67, 0x6E, 0x61, 0x74, 0x75, 0x72, 0x65, 0x31,
      0x43, 0xA1, 0x02, 0x26, 0x40, 0x43, 1, 2, 3]" (is "_ = Inr ?tbs")
    by code_simp
  moreover note demo_hasher_256 [of ?tbs]
  moreover have "sign (demo_signer ES256) (be_fixed 32 (checksum ?tbs)) 5 = (Ok (replicate 31 0 @ [4] @ replicate 31 0 @ [4]), 6)"
    by code_simp
  ultimately show ?thesis
    by (simp add: new_with_protected_def map_to_empty_or_serialized_def sig_new_sign1_def demo_unlabelled_sign1_def)
qed

theorem new_with_protected_adds_no_algorithm_witness:
  "header_from_bytes reference_lib (sign1_protected demo_unlabelled_sign1) = Inr (HeaderMap [(VInteger 2, VInteger (- 7))])
    \<and> verify_signature reference_lib demo_hasher (demo_verifier ES256) demo_unlabelled_sign1 0 =
        (Err (SpecificationError ''Protected Header does not contain a valid Signature Algorithm specification''), 0)"
proof (rule new_with_protected_adds_no_algorithm [OF reference_laws demo_unlabelled_sign1_new _ _ _ demo_verifier_parameters])
  show "header_get reference_lib (HeaderMap [(VInteger 2, VInteger (- 7))]) (VInteger 1) = None"
    by code_simp
qed (simp_all add: header_storable_def)

section \<open>Serialization\<close>

text \<open>
  C14: a document whose protected bytes are a header can be written and is read back
  as the same document by \<open>from_bytes\<close>, with the tag 18 or without it; \<open>from_bytes_tagged\<close> reads it
  if and only if it was written with the tag, and otherwise reports that the tag is missing.
\<close>

theorem sign1_serialization_roundtrip:
  assumes "serde_cbor L" and "sign1_storable L doc"
    and "header_from_bytes L (sign1_protected doc) = Inr m"
  shows "\<exists>bs. sign1_as_bytes L doc tagged = Ok bs \<and> sign1_from_bytes L bs = Ok doc
    \<and> sign1_from_bytes_tagged L bs = (if tagged then Ok doc else Err (TagError None))"
  by (rule serde_cbor.sign1_roundtrip [OF assms])

theorem sign1_serialization_roundtrip_witness:
  "\<exists>bs. sign1_as_bytes reference_lib demo_sign1 False = Ok bs \<and> sign1_from_bytes reference_lib bs = Ok demo_sign1
    \<and> sign1_from_bytes_tagged reference_lib bs = Err (TagError None)"
  using sign1_serialization_roundtrip [OF reference_laws demo_sign1_storable demo_sign1_header, of False] by simp

text \<open>
  C15: which bytes \<open>from_bytes\<close> accepts, and as which document.  They are one item whose
  outermost tag is 18 or absent and which is, under all its tags, an array of exactly four elements;
  the first, third and fourth are the byte strings of the protected header, the payload and the
  signature, in this order, and the second is a map without repeated labels, the unprotected header; and the
  protected bytes are one item again, a map without repeated labels.  \<open>from_bytes_tagged\<close> accepts
  the same documents, provided that the tag 18 is there.
\<close>

theorem sign1_from_bytes_accepts_iff:
  assumes laws: "serde_cbor L"
  shows "(sign1_from_bytes L bs = Ok doc \<longleftrightarrow>
      (\<exists>item p u pl s header m. parse L bs = Inr item \<and> outer_tag item \<in> {None, Some 18}
        \<and> strip_tags item = VArray [p, u, pl, s]
        \<and> bytebuf L p = Inr (sign1_protected doc)
        \<and> map_no_duplicates L u = Inr (entries (sign1_unprotected doc))
        \<and> bytebuf L pl = Inr (sign1_payload doc)
        \<and> bytebuf L s = Inr (sign1_signature doc)
        \<and> parse L (sign1_protected doc) = Inr header \<and> map_no_duplicates L header = Inr (entries m)))
   \<and> (sign1_from_bytes_tagged L bs = Ok doc \<longleftrightarrow>
      sign1_from_bytes L bs = Ok doc \<and> (\<exists>item. parse L bs = Inr item \<and> outer_tag item = Some 18))"
proof -
  note fields = tagged_from_slice_Inr serde_cbor.split_tag_eq [OF laws] serde_cbor.cose_sign1_deserialize_Inr [OF laws]
    header_deserialize_Inr header_from_bytes_Inr
  have "sign1_from_bytes L bs = Ok doc \<longleftrightarrow>
      (\<exists>item p u pl s header m. parse L bs = Inr item \<and> outer_tag item \<in> {None, Some 18}
        \<and> strip_tags item = VArray [p, u, pl, s]
        \<and> bytebuf L p = Inr (sign1_protected doc)
        \<and> map_no_duplicates L u = Inr (entries (sign1_unprotected doc))
        \<and> bytebuf L pl = Inr (sign1_payload doc)
        \<and> bytebuf L s = Inr (sign1_signature doc)
        \<and> parse L (sign1_protected doc) = Inr header \<and> map_no_duplicates L header = Inr (entries m))"
    by (simp add: sign1_from_bytes_def outcome_simps tag_check_Ok fields) blast
  moreover have "sign1_from_bytes_tagged L bs = Ok doc \<longleftrightarrow>
      sign1_from_bytes L bs = Ok doc \<and> (\<exists>item. parse L bs = Inr item \<and> outer_tag item = Some 18)"
    by (auto simp: sign1_from_bytes_def sign1_from_bytes_tagged_def outcome_simps tag_check_Ok tag_required_Ok
        tagged_from_slice_Inr serde_cbor.split_tag_eq [OF laws])
  ultimately show ?thesis by blast
qed

text \<open>The demonstration document under the tags 18 and 99, with the head of the tag 18 in two bytes too many.\<close>

definition demo_wire :: bytes where
  "demo_wire = [0xD9, 0x00, 0x12, 0xD8, 0x63, 0x84, 0x43, 0xA1, 0x01, 0x26, 0xA1, 0x04, 0x42, 0x31, 0x31,
     0x43, 1, 2, 3, 0x58, 0x40] @ replicate 31 0 @ [4] @ replicate 31 0 @ [3]"

theorem sign1_from_bytes_accepts_iff_witness:
  "sign1_from_bytes reference_lib demo_wire = Ok demo_sign1 \<and> sign1_from_bytes_tagged reference_lib demo_wire = Ok demo_sign1"
proof -
  let ?item = "VTag 18 (VTag 99 (cose_sign1_item demo_sign1))"
  have parse: "parse reference_lib demo_wire = Inr ?item"
    unfolding reference_lib_sel by code_simp
  have header: "\<exists>header m. parse reference_lib (sign1_protected demo_sign1) = Inr header
      \<and> map_no_duplicates reference_lib header = Inr (entries m)"
    using demo_sign1_header header_from_bytes_Inr by blast
  have unprotected: "map_no_duplicates reference_lib (header_item kid_header) = Inr (entries kid_header)"
    using serde_cbor.header_deserialize_item [OF reference_laws kid_header_storable] by (simp only: header_deserialize_Inr)
  have "\<exists>item p u pl s. parse reference_lib demo_wire = Inr item \<and> outer_tag item = Some 18
      \<and> strip_tags item = VArray [p, u, pl, s]
      \<and> bytebuf reference_lib p = Inr (sign1_protected demo_sign1)
      \<and> map_no_duplicates reference_lib u = Inr (entries (sign1_unprotected demo_sign1))
      \<and> bytebuf reference_lib pl = Inr (sign1_payload demo_sign1)
      \<and> bytebuf reference_lib s = Inr (sign1_signature demo_sign1)"
  proof (intro exI conjI)
    show "parse reference_lib demo_wire = Inr ?item" by (rule parse)
    show "strip_tags ?item = VArray [VBytes (sign1_protected demo_sign1), header_item kid_header,
        VBytes (sign1_payload demo_sign1), VBytes (sign1_signature demo_sign1)]"
      by (simp add: cose_sign1_item_def demo_sign1_def)
    show "map_no_duplicates reference_lib (header_item kid_header) = Inr (entries (sign1_unprotected demo_sign1))"
      using unprotected by (simp add: demo_sign1_def del: reference_map.simps)
  qed simp_all
  with header show ?thesis
    using sign1_from_bytes_accepts_iff [OF reference_laws, of demo_wire demo_sign1] by fast
qed

text \<open>
  A document under another tag than 18 is refused by both readers with that tag in the error,
  before its protected header is looked at.
\<close>

theorem sign1_wrong_tag:
  assumes laws: "serde_cbor L" and "sign1_storable L doc" and "t \<noteq> 18"
    and "to_vec L (VTag t (cose_sign1_item doc)) = Inr bs"
  shows "sign1_from_bytes L bs = Err (TagError (Some t)) \<and> sign1_from_bytes_tagged L bs = Err (TagError (Some t))"
proof -
  have "wf_value L (depth_limit L) (tagged_item (Some t) (cose_sign1_item doc))"
    using serde_cbor.wf_tagged_item [OF laws serde_cbor.wf_cose_sign1_item [OF laws assms(2)], of "Some t"]
    by (simp add: serde_cbor.header_depth_limit [OF laws])
  then have "parse L bs = Inr (tagged_item (Some t) (cose_sign1_item doc))"
    using serde_cbor.write_read_bytes [OF laws] assms(4) by auto
  then have "tagged_from_slice L (cose_sign1_deserialize L) bs =
      sbind (cose_sign1_deserialize L (cose_sign1_item doc)) (\<lambda>x. Inr (Some t, x))"
    by (rule serde_cbor.tagged_from_slice_item [OF laws _ serde_cbor.cose_sign1_not_tag [OF laws]])
  then have "tagged_from_slice L (cose_sign1_deserialize L) bs = Inr (Some t, doc)"
    by (simp add: serde_cbor.cose_sign1_deserialize_item [OF laws assms(2)])
  with assms(3) show ?thesis by (simp add: sign1_from_bytes_def sign1_from_bytes_tagged_def)
qed

text \<open>The tag 19 of the repository's own test of an invalid tag.\<close>

theorem sign1_wrong_tag_witness:
  "\<exists>bs. to_vec reference_lib (VTag 19 (cose_sign1_item demo_sign1)) = Inr bs
    \<and> sign1_from_bytes reference_lib bs = Err (TagError (Some 19))
    \<and> sign1_from_bytes_tagged reference_lib bs = Err (TagError (Some 19))"
proof -
  have "encodable (VTag 19 (cose_sign1_item demo_sign1))"
    by (simp add: cose_sign1_item_def demo_sign1_def kid_header_def)
  then obtain bs where bs: "to_vec reference_lib (VTag 19 (cose_sign1_item demo_sign1)) = Inr bs"
    by (simp add: reference_to_vec_def)
  show ?thesis
    using sign1_wrong_tag [OF reference_laws demo_sign1_storable _ bs] bs by simp
qed

end
