(* ===== verification/Encrypt_Properties.thy ===== *)
theory Encrypt_Properties
  imports Scenarios
begin

text \<open>
  The properties of \<open>COSE_Encrypt0\<close> (\<open>src/src/encrypt.rs\<close>), each with a run at a concrete input
  where it has hypotheses.
\<close>

lemmas demo_aead_laws = demo_openssl.aead_axioms
lemmas demo_entropy_laws = demo_openssl.entropy_source_axioms
lemmas demo_suite_laws = encrypt0_suite.intro [OF reference_laws demo_aead_laws demo_entropy_laws]

section \<open>Encrypting and decrypting\<close>

text \<open>
  C4: what \<open>CoseEncrypt0::new\<close> encrypts, \<open>decrypt\<close> under the same key returns, in
  every build profile, together with the two headers: the protected one names the algorithm that
  the length of the key selects.
\<close>

theorem encrypt_then_decrypt:
  assumes "serde_cbor L" and "aead E D" and "entropy_source R"
    and new: "cose_encrypt0_new L R E payload cfg key w = (Ok doc, w')"
    and "length (enc0_ciphertext doc) < 2 ^ 63"
  shows "\<exists>alg. cose_alg cfg key = Some alg \<and>
    decrypt oc L D doc key =
      Ok (HeaderMap [(VInteger 1, VInteger (int (alg_value alg)))], enc0_unprotected doc, payload)"
  unfolding alg_header_def [symmetric]
  by (rule encrypt0_suite.new_decrypts_self [OF encrypt0_suite.intro [OF assms(1-3)] new assms(5)])

lemma demo_ciphertext_length: "length (enc0_ciphertext demo_encrypt0) = 19"
  by (simp add: demo_encrypt0_def)

theorem encrypt_then_decrypt_witness:
  "cose_encrypt0_new reference_lib demo_source demo_enc [1, 2, 3] Gcm demo_key16 3 = (Ok demo_encrypt0, 4)
   \<and> decrypt True reference_lib demo_dec demo_encrypt0 demo_key16 =
      Ok (HeaderMap [(VInteger 1, VInteger 1)], enc0_unprotected demo_encrypt0, [1, 2, 3])"
  using encrypt_then_decrypt [OF reference_laws demo_aead_laws demo_entropy_laws demo_encrypt0_new, of True]
    demo_encrypt0_new
  by (simp add: demo_ciphertext_length)

text \<open>
  C13: a fresh document that is written, with or without the tag 16, and read back
  decrypts to the payload.
\<close>

theorem encrypt_transport_decrypt:
  assumes laws: "serde_cbor L" and "aead E D" and "entropy_source R"
    and new: "cose_encrypt0_new L R E payload cfg key w = (Ok doc, w')"
    and stored: "encrypt0_storable L doc"
  shows "\<exists>bs doc' headers. encrypt0_as_bytes L doc tagged = Ok bs \<and> encrypt0_from_bytes L bs = Ok doc'
    \<and> decrypt oc L D doc' key = Ok headers \<and> snd (snd headers) = payload"
proof -
  obtain headers where dec: "decrypt oc L D doc key = Ok headers" "snd (snd headers) = payload"
    using encrypt0_suite.new_decrypts_self [OF encrypt0_suite.intro [OF assms(1-3)] new, of oc] stored
    by (auto simp: encrypt0_storable_def)
  then obtain m where "header_from_bytes L (enc0_protected doc) = Inr m"
    by (auto simp: decrypt_def outcome_simps)
  then show ?thesis
    using serde_cbor.encrypt0_roundtrip [OF laws stored, of m tagged] dec by blast
qed

theorem encrypt_transport_decrypt_witness:
  "\<exists>bs doc' headers. encrypt0_as_bytes reference_lib demo_encrypt0 True = Ok bs
    \<and> encrypt0_from_bytes reference_lib bs = Ok doc'
    \<and> decrypt False reference_lib demo_dec doc' demo_key16 = Ok headers \<and> snd (snd headers) = [1, 2, 3]"
  by (rule encrypt_transport_decrypt [OF reference_laws demo_aead_laws demo_entropy_laws demo_encrypt0_new demo_encrypt0_storable])

text \<open>
  C16: \<open>decrypt\<close> returns a payload only if the AEAD accepted it: under the caller's
  key, for the algorithm that the protected header names, with the IV of the unprotected header, the
  last 16 bytes of the ciphertext as the tag and the written form of the protected header, as it was
  parsed, as the associated data; the two headers it returns are the document's.
\<close>

theorem plaintext_released_authentic:
  assumes "decrypt oc L D doc key = Ok (m, u, payload)" and "length (enc0_ciphertext doc) < 2 ^ 63"
  shows "\<exists>v alg iv c tag pb aad.
      header_from_bytes L (enc0_protected doc) = Inr m \<and> u = enc0_unprotected doc
    \<and> header_get L m (VInteger 1) = Some (VInteger v) \<and> alg_from_value (i128_as_i8 v) = Some alg
    \<and> header_get L u (VInteger 5) = Some (VBytes iv)
    \<and> enc0_ciphertext doc = c @ tag \<and> length tag = 16
    \<and> map_to_empty_or_serialized L m = Inr pb \<and> to_vec L (aead_item pb) = Inr aad
    \<and> decrypt_aead D (encryption_algorithm_from alg) key (Some iv) aad c tag = Ok payload"
  by (rule decrypt_Ok_accepted [OF assms]) blast

lemma demo_decrypts:
  "decrypt True reference_lib demo_dec demo_encrypt0 demo_key16 =
     Ok (alg_header AesGcm96_128_128, enc0_unprotected demo_encrypt0, [1, 2, 3])"
  using encrypt0_suite.new_decrypts_self [OF demo_suite_laws demo_encrypt0_new, of True]
  by (simp add: demo_ciphertext_length)

theorem plaintext_released_authentic_witness:
  "\<exists>alg iv c tag aad.
      header_get reference_lib (enc0_unprotected demo_encrypt0) (VInteger 5) = Some (VBytes iv)
    \<and> enc0_ciphertext demo_encrypt0 = c @ tag \<and> length tag = 16
    \<and> decrypt_aead demo_dec (encryption_algorithm_from alg) demo_key16 (Some iv) aad c tag = Ok [1, 2, 3]"
proof -
  have "length (enc0_ciphertext demo_encrypt0) < 2 ^ 63" by (simp add: demo_ciphertext_length)
  from plaintext_released_authentic [OF demo_decrypts this] show ?thesis by blast
qed

text \<open>
  C23: exactly when the operations on \<open>CoseEncrypt0\<close> panic.  Creation does exactly when the key has a supported
  length and the source of entropy panics, or the AEAD panics on what was drawn.  Decryption does exactly when the headers
  name a known algorithm and a byte string as the nonce and either the ciphertext is shorter than the
  16-byte tag or the AEAD itself panics on the split ciphertext; in every build profile, and nothing
  else in a document can make it panic.
\<close>

theorem encrypt0_panics_iff:
  assumes "length (enc0_ciphertext doc) < 2 ^ 63"
  shows "((\<exists>msg w'. cose_encrypt0_new L R E payload cfg key w = (Panic msg, w')) \<longleftrightarrow>
    (\<exists>alg. cose_alg cfg key = Some alg
      \<and> ((\<exists>msg iv w1. rand_bytes R (replicate 12 0) w = (Panic msg, iv, w1))
        \<or> (\<exists>iv w1 pb aad msg tag. rand_bytes R (replicate 12 0) w = (Ok (), iv, w1)
            \<and> map_to_empty_or_serialized L (alg_header alg) = Inr pb \<and> to_vec L (aead_item pb) = Inr aad
            \<and> encrypt_aead E (encryption_algorithm_from alg) key (Some iv) aad payload (replicate 16 0) = (Panic msg, tag)))))
   \<and> ((\<exists>msg. decrypt oc L D doc key = Panic msg) \<longleftrightarrow>
    (\<exists>m v alg pb iv. header_from_bytes L (enc0_protected doc) = Inr m
      \<and> header_get L m (VInteger 1) = Some (VInteger v)
      \<and> alg_from_value (i128_as_i8 v) = Some alg
      \<and> map_to_empty_or_serialized L m = Inr pb
      \<and> header_get L (enc0_unprotected doc) (VInteger 5) = Some (VBytes iv)
      \<and> (length (enc0_ciphertext doc) < 16
         \<or> (\<exists>aad c tag msg. to_vec L (aead_item pb) = Inr aad \<and> enc0_ciphertext doc = c @ tag \<and> length tag = 16
              \<and> decrypt_aead D (encryption_algorithm_from alg) key (Some iv) aad c tag = Panic msg))))"
  by (rule conjI [OF cose_encrypt0_new_Panic_iff decrypt_Panic_iff [OF assms]])

theorem encrypt0_panics_iff_witness:
  "\<exists>msg. decrypt False reference_lib demo_dec (demo_encrypt0\<lparr>enc0_ciphertext := [1, 2, 3]\<rparr>) demo_key16 = Panic msg"
proof -
  let ?doc = "demo_encrypt0\<lparr>enc0_ciphertext := [1, 2, 3]\<rparr>"
  have "length (enc0_ciphertext ?doc) < 2 ^ 63" by simp
  moreover have "header_from_bytes reference_lib (enc0_protected ?doc) = Inr (HeaderMap [(VInteger 1, VInteger 1)])"
    by (simp add: demo_encrypt0_def)
  moreover have "header_get reference_lib (HeaderMap [(VInteger 1, VInteger 1)]) (VInteger 1) = Some (VInteger 1)"
    by simp
  moreover have "alg_from_value (i128_as_i8 1) = Some AesGcm96_128_128"
    by (simp add: i128_as_i8_def)
  moreover have "map_to_empty_or_serialized reference_lib (HeaderMap [(VInteger 1, VInteger 1)]) = Inr [0xA1, 0x01, 0x01]"
    by (simp add: map_to_empty_or_serialized_def gcm128_header_bytes)
  moreover have "header_get reference_lib (enc0_unprotected ?doc) (VInteger 5) = Some (VBytes demo_iv)"
    by (simp add: demo_encrypt0_def iv_header_def)
  moreover have "length (enc0_ciphertext ?doc) < 16" by simp
  ultimately show ?thesis
    using encrypt0_panics_iff [of ?doc reference_lib demo_source demo_enc "[]" Gcm demo_key16 0 False demo_dec, THEN conjunct2]
    by blast
qed

text \<open>
  A document whose ciphertext is shorter than the 16-byte tag is read by \<open>from_bytes\<close>
  like any other, and decrypting it panics, with overflow checks (at the subtraction) and
  without them (at the split), under every key.
\<close>

theorem short_ciphertext_panics:
  assumes laws: "serde_cbor L" and stored: "encrypt0_storable L doc"
    and header: "header_from_bytes L (enc0_protected doc) = Inr m"
    and "header_get L m (VInteger 1) = Some (VInteger v)"
    and "alg_from_value (i128_as_i8 v) = Some alg"
    and "map_to_empty_or_serialized L m = Inr pb"
    and "header_get L (enc0_unprotected doc) (VInteger 5) = Some (VBytes iv)"
    and "length (enc0_ciphertext doc) < 16"
  shows "(\<exists>bs. encrypt0_as_bytes L doc True = Ok bs \<and> encrypt0_from_bytes L bs = Ok doc)
    \<and> (\<exists>msg. decrypt oc L D doc key = Panic msg)"
  using serde_cbor.encrypt0_roundtrip [OF laws stored header, of True] decrypt_short_panics [OF header assms(4-8)]
  by blast

theorem short_ciphertext_panics_witness:
  "(\<exists>bs. encrypt0_as_bytes reference_lib (demo_encrypt0\<lparr>enc0_ciphertext := [1, 2, 3]\<rparr>) True = Ok bs
      \<and> encrypt0_from_bytes reference_lib bs = Ok (demo_encrypt0\<lparr>enc0_ciphertext := [1, 2, 3]\<rparr>))
    \<and> (\<exists>msg. decrypt False reference_lib demo_dec (demo_encrypt0\<lparr>enc0_ciphertext := [1, 2, 3]\<rparr>) demo_key16 = Panic msg)"
  by (rule short_ciphertext_panics [OF reference_laws, where m = "HeaderMap [(VInteger 1, VInteger 1)]"
        and v = 1 and alg = AesGcm96_128_128 and pb = "[0xA1, 0x01, 0x01]" and iv = demo_iv])
    (use demo_encrypt0_storable demo_encrypt0_header gcm128_header_bytes in
      \<open>simp_all add: encrypt0_storable_def map_to_empty_or_serialized_def demo_encrypt0_def iv_header_def i128_as_i8_def\<close>)

section \<open>Algorithm, nonce and header\<close>

text \<open>
  The key alone selects the algorithm, 16, 24 and 32 bytes the identifiers 1, 2 and 3;
  under a key of any other length \<open>new\<close> fails before it draws any entropy.
\<close>

theorem algorithm_by_key_length:
  "(cose_alg cfg key = Some alg \<longleftrightarrow> length key = 8 * alg_value alg + 8)
   \<and> (length key \<notin> {16, 24, 32} \<longrightarrow>
        cose_encrypt0_new L R E payload cfg key w = (Err (UnsupportedError ''Unsupported encryption algorithm''), w))"
  by (cases cfg; cases alg) (simp_all add: cose_encrypt0_new_unsupported)

theorem algorithm_by_key_length_witness:
  "cose_encrypt0_new reference_lib demo_source demo_enc [1, 2, 3] Gcm [7, 7, 7] 3 =
     (Err (UnsupportedError ''Unsupported encryption algorithm''), 3)"
  using algorithm_by_key_length [of Gcm "[7, 7, 7]" AesGcm96_128_128 reference_lib demo_source demo_enc "[1, 2, 3]" 3]
  by simp

text \<open>
  A fresh document carries, under label 5 of its unprotected header, exactly the 12 bytes that one call
  of the entropy source filled in, and its ciphertext has room for the tag.
\<close>

theorem fresh_iv:
  assumes laws: "serde_cbor L" and "aead E D" and "entropy_source R"
    and new: "cose_encrypt0_new L R E payload cfg key w = (Ok doc, w')"
  shows "\<exists>iv. rand_bytes R (replicate 12 0) w = (Ok (), iv, w') \<and> length iv = 12
    \<and> header_get L (enc0_unprotected doc) (VInteger 5) = Some (VBytes iv) \<and> 16 \<le> length (enc0_ciphertext doc)"
  using encrypt0_suite.new_shape [OF encrypt0_suite.intro [OF assms(1-3)] new] serde_cbor.iv_header_get [OF laws]
  by auto

theorem fresh_iv_witness:
  "\<exists>iv. rand_bytes demo_source (replicate 12 0) 3 = (Ok (), iv, 4) \<and> length iv = 12
    \<and> header_get reference_lib (enc0_unprotected demo_encrypt0) (VInteger 5) = Some (VBytes iv)
    \<and> 16 \<le> length (enc0_ciphertext demo_encrypt0)"
  by (rule fresh_iv [OF reference_laws demo_aead_laws demo_entropy_laws demo_encrypt0_new])

text \<open>
  C34: what is authenticated is the protected header as it is written again, not the
  bytes that were transported: exchanging the protected bytes of a fresh document for any other
  encoding of the same header leaves decryption unchanged.
\<close>

theorem protected_bytes_exchangeable:
  assumes "serde_cbor L" and "aead E D" and "entropy_source R"
    and new: "cose_encrypt0_new L R E payload cfg key w = (Ok doc, w')"
    and len: "length (enc0_ciphertext doc) < 2 ^ 63"
    and pb: "header_from_bytes L pb = header_from_bytes L (enc0_protected doc)"
  shows "decrypt oc L D (doc\<lparr>enc0_protected := pb\<rparr>) key = decrypt oc L D doc key"
  using encrypt0_suite.new_decrypts [OF encrypt0_suite.intro [OF assms(1-3)] new pb len, of oc]
    encrypt0_suite.new_decrypts_self [OF encrypt0_suite.intro [OF assms(1-3)] new len, of oc]
  by auto

text \<open>The same header with its key in two bytes.\<close>

theorem protected_bytes_exchangeable_witness:
  "decrypt True reference_lib demo_dec (demo_encrypt0\<lparr>enc0_protected := [0xA1, 0x18, 0x01, 0x01]\<rparr>) demo_key16 =
   decrypt True reference_lib demo_dec demo_encrypt0 demo_key16"
proof -
  have "reference_parse [0xA1, 0x18, 0x01, 0x01] = Inr (VMap [(VInteger 1, VInteger 1)])"
    by code_simp
  then have "header_from_bytes reference_lib [0xA1, 0x18, 0x01, 0x01] = Inr (HeaderMap [(VInteger 1, VInteger 1)])"
    by (simp add: header_from_bytes_def header_deserialize_def single_entry_map del: reference_map.simps)
  then show ?thesis
    by (intro protected_bytes_exchangeable [OF reference_laws demo_aead_laws demo_entropy_laws demo_encrypt0_new])
      (simp_all add: demo_ciphertext_length demo_encrypt0_header)
qed

text \<open>
  C35: \<open>decrypt\<close> reads the algorithm identifier modulo 256: any integer that is
  congruent to an identifier selects its algorithm.
\<close>

theorem algorithm_identifier_mod_256:
  assumes "header_from_bytes L (enc0_protected doc) = Inr m"
    and "header_get L m (VInteger 1) = Some (VInteger v)" and "v mod 256 = int (alg_value alg)"
    and "map_to_empty_or_serialized L m = Inr pb" and "to_vec L (aead_item pb) = Inr aad"
    and "header_get L (enc0_unprotected doc) (VInteger 5) = Some (VBytes iv)"
    and "enc0_ciphertext doc = c @ tag" and "length tag = 16" and "length (enc0_ciphertext doc) < 2 ^ 63"
    and "decrypt_aead D (encryption_algorithm_from alg) key (Some iv) aad c tag = Ok payload"
  shows "decrypt oc L D doc key = Ok (m, enc0_unprotected doc, payload)"
proof -
  have "v mod 256 = int (alg_value alg) mod 256" using assms(3) by (cases alg) simp_all
  then have "i128_as_i8 v = i128_as_i8 (int (alg_value alg))" by (simp only: i128_as_i8_eq_iff)
  then have "alg_from_value (i128_as_i8 v) = Some alg" by simp
  then show ?thesis
    using decrypt_splits [OF assms(1,2) _ assms(4,6,5,7-9), where D = D and key = key and oc = oc] assms(10) by simp
qed

definition demo_encrypt0_257 :: cose_encrypt0 where
  "demo_encrypt0_257 =
     \<lparr>enc0_protected = [0xA1, 0x01, 0x19, 0x01, 0x01], enc0_unprotected = iv_header demo_iv,
      enc0_ciphertext = [47, 45, 51] @ (replicate 14 0 @ [49, 62])\<rparr>"

theorem algorithm_identifier_mod_256_witness:
  "decrypt True reference_lib demo_dec demo_encrypt0_257 demo_key16 =
     Ok (HeaderMap [(VInteger 1, VInteger 257)], iv_header demo_iv, [1, 2, 3])"
proof -
  have bytes: "reference_to_vec (VMap [(VInteger 1, VInteger 257)]) = Inr [0xA1, 0x01, 0x19, 0x01, 0x01]"
    by code_simp
  have read: "reference_parse [0xA1, 0x01, 0x19, 0x01, 0x01] = Inr (VMap [(VInteger 1, VInteger 257)])"
    by code_simp
  have aad: "reference_to_vec (aead_item [0xA1, 0x01, 0x19, 0x01, 0x01]) =
      Inr [0x83, 0x68, 0x45, 0x6E, 0x63, 0x72, 0x79, 0x70, 0x74, 0x30, 0x45, 0xA1, 0x01, 0x19, 0x01, 0x01, 0x40]"
    (is "_ = Inr ?aad")
    by code_simp
  have dec: "decrypt_aead demo_dec Aes128Gcm demo_key16 (Some demo_iv) ?aad [47, 45, 51] (replicate 14 0 @ [49, 62]) = Ok [1, 2, 3]"
    by code_simp
  show ?thesis
    using algorithm_identifier_mod_256 [where L = reference_lib and doc = demo_encrypt0_257 and v = 257
        and m = "HeaderMap [(VInteger 1, VInteger 257)]" and alg = AesGcm96_128_128
        and pb = "[0xA1, 0x01, 0x19, 0x01, 0x01]" and aad = ?aad and iv = demo_iv and c = "[47, 45, 51]"
        and tag = "replicate 14 0 @ [49, 62]" and D = demo_dec and key = demo_key16 and oc = True and payload = "[1, 2, 3]"]
      bytes read aad dec
    by (simp add: header_from_bytes_def header_deserialize_def single_entry_map demo_encrypt0_257_def
        map_to_empty_or_serialized_def iv_header_def del: reference_map.simps)
qed

text \<open>
  Without an integer under label 1, without a known algorithm there, or without a byte
  string under label 5 of the unprotected header, decryption ends in the error for it, before the
  AEAD is asked.
\<close>

theorem decrypt_header_errors:
  assumes "header_from_bytes L (enc0_protected doc) = Inr m"
  shows "((\<forall>v. header_get L m (VInteger 1) \<noteq> Some (VInteger v)) \<longrightarrow>
      decrypt oc L D doc key = Err (SpecificationError ''Protected Header contains invalid Encryption Algorithm specification''))
    \<and> (\<forall>v. header_get L m (VInteger 1) = Some (VInteger v) \<longrightarrow> alg_from_value (i128_as_i8 v) = None \<longrightarrow>
      decrypt oc L D doc key = Err (UnsupportedError ''Unsupported encryption algorithm''))
    \<and> (\<forall>v alg pb. header_get L m (VInteger 1) = Some (VInteger v) \<longrightarrow> alg_from_value (i128_as_i8 v) = Some alg \<longrightarrow>
      map_to_empty_or_serialized L m = Inr pb \<longrightarrow>
      (\<forall>iv. header_get L (enc0_unprotected doc) (VInteger 5) \<noteq> Some (VBytes iv)) \<longrightarrow>
      decrypt oc L D doc key = Err (SpecificationError ''Unprotected Header contains invalid IV specification''))"
proof (intro conjI allI impI)
  assume "\<forall>v. header_get L m (VInteger 1) \<noteq> Some (VInteger v)"
  then show "decrypt oc L D doc key = Err (SpecificationError ''Protected Header contains invalid Encryption Algorithm specification'')"
    using assms by (auto simp: decrypt_def split: option.splits cbor_value.splits)
next
  fix v
  assume "header_get L m (VInteger 1) = Some (VInteger v)" "alg_from_value (i128_as_i8 v) = None"
  then show "decrypt oc L D doc key = Err (UnsupportedError ''Unsupported encryption algorithm'')"
    using assms by (simp add: decrypt_def)
next
  fix v alg pb
  assume "header_get L m (VInteger 1) = Some (VInteger v)" "alg_from_value (i128_as_i8 v) = Some alg"
    "map_to_empty_or_serialized L m = Inr pb"
    "\<forall>iv. header_get L (enc0_unprotected doc) (VInteger 5) \<noteq> Some (VBytes iv)"
  then show "decrypt oc L D doc key = Err (SpecificationError ''Unprotected Header contains invalid IV specification'')"
    using assms by (auto simp: decrypt_def enc_new_encrypt0_def split: option.splits cbor_value.splits)
qed

theorem decrypt_header_errors_witness:
  "decrypt True reference_lib demo_dec (demo_encrypt0\<lparr>enc0_unprotected := header_new\<rparr>) demo_key16 =
     Err (SpecificationError ''Unprotected Header contains invalid IV specification'')"
proof -
  have "header_from_bytes reference_lib (enc0_protected (demo_encrypt0\<lparr>enc0_unprotected := header_new\<rparr>)) = Inr (HeaderMap [(VInteger 1, VInteger 1)])"
    by (simp add: demo_encrypt0_def)
  from decrypt_header_errors [OF this, THEN conjunct2, THEN conjunct2, rule_format, of 1 AesGcm96_128_128 "[0xA1, 0x01, 0x01]" True demo_dec demo_key16]
  show ?thesis
    by (simp add: gcm128_header_bytes map_to_empty_or_serialized_def i128_as_i8_def header_new_def)
qed

section \<open>Serialization\<close>

text \<open>
  C32: a document whose protected bytes are a header is read back as it was
  written, with the tag 16 or without it.
\<close>

theorem encrypt0_serialization_roundtrip:
  assumes "serde_cbor L" and "encrypt0_storable L doc" and "header_from_bytes L (enc0_protected doc) = Inr m"
  shows "\<exists>bs. encrypt0_as_bytes L doc tagged = Ok bs \<and> encrypt0_from_bytes L bs = Ok doc"
  by (rule serde_cbor.encrypt0_roundtrip [OF assms])

theorem encrypt0_serialization_roundtrip_witness:
  "\<exists>bs. encrypt0_as_bytes reference_lib demo_encrypt0 False = Ok bs \<and> encrypt0_from_bytes reference_lib bs = Ok demo_encrypt0"
  by (rule encrypt0_serialization_roundtrip [OF reference_laws demo_encrypt0_storable demo_encrypt0_header])

text \<open>
  C33: which bytes \<open>from_bytes\<close> accepts, and as which document.  They are one item whose
  outermost tag is 16 or absent and which is, under this one tag, an array of exactly three elements
  or a map with exactly the three named fields; the first and the third are the byte strings of the protected
  header and the ciphertext, in this order, and the second is a map without repeated labels, the
  unprotected header; and the protected bytes are one item again, a map without repeated labels.  Unlike for
  signed documents, further tags are not skipped.
\<close>

theorem encrypt0_from_bytes_accepts_iff:
  assumes laws: "serde_cbor L"
  shows "(encrypt0_from_bytes L bs = Ok doc \<longleftrightarrow>
      (\<exists>item p u c header m. parse L bs = Inr item \<and> outer_tag item \<in> {None, Some 16}
        \<and> (under_tag item = VArray [p, u, c]
          \<or> (\<exists>es. under_tag item = VMap es
              \<and> struct_fields L [''protected'', ''unprotected'', ''ciphertext''] es = Inr [p, u, c]))
        \<and> bytebuf L p = Inr (enc0_protected doc)
        \<and> map_no_duplicates L u = Inr (entries (enc0_unprotected doc))
        \<and> bytebuf L c = Inr (enc0_ciphertext doc)
        \<and> parse L (enc0_protected doc) = Inr header \<and> map_no_duplicates L header = Inr (entries m)))"
proof -
  note fields = tagged_from_slice_Inr serde_cbor.split_tag_eq [OF laws] serde_cbor.cose_encrypt0_deserialize_Inr [OF laws]
    header_deserialize_Inr header_from_bytes_Inr
  show ?thesis
    by (simp add: encrypt0_from_bytes_def outcome_simps tag_check_Ok fields) blast
qed

definition map_form :: bytes where
  "map_form =
     [0xA3, 0x6A] @ bytes_of_string ''ciphertext'' @ [0x53, 47, 45, 51] @ replicate 14 0 @ [24, 187]
     @ [0x69] @ bytes_of_string ''protected'' @ [0x43, 0xA1, 0x01, 0x01]
     @ [0x6B] @ bytes_of_string ''unprotected'' @ [0xA1, 0x05, 0x4C] @ demo_iv"

lemma map_form_fields:
  obtains es where "parse reference_lib map_form = Inr (VMap es)"
    and "struct_fields reference_lib [''protected'', ''unprotected'', ''ciphertext''] es =
      Inr [VBytes (enc0_protected demo_encrypt0), header_item (enc0_unprotected demo_encrypt0), VBytes (enc0_ciphertext demo_encrypt0)]"
proof -
  let ?es = "[(VText ''ciphertext'', VBytes (enc0_ciphertext demo_encrypt0)),
    (VText ''protected'', VBytes [0xA1, 0x01, 0x01]), (VText ''unprotected'', header_item (iv_header demo_iv))]"
  have "reference_parse map_form = Inr (VMap ?es)" by code_simp
  moreover have "reference_fields [''protected'', ''unprotected'', ''ciphertext''] ?es =
      Inr [VBytes (enc0_protected demo_encrypt0), header_item (enc0_unprotected demo_encrypt0), VBytes (enc0_ciphertext demo_encrypt0)]"
    by (simp add: demo_encrypt0_def)
  ultimately show thesis by (intro that [of ?es]) (simp_all del: reference_fields.simps)
qed

text \<open>The demonstration document as a map, with its fields in another order.\<close>

theorem encrypt0_from_bytes_accepts_iff_witness:
  "encrypt0_from_bytes reference_lib map_form = Ok demo_encrypt0"
proof (rule map_form_fields)
  fix es
  assume form: "parse reference_lib map_form = Inr (VMap es)"
    "struct_fields reference_lib [''protected'', ''unprotected'', ''ciphertext''] es =
      Inr [VBytes (enc0_protected demo_encrypt0), header_item (enc0_unprotected demo_encrypt0), VBytes (enc0_ciphertext demo_encrypt0)]"
  have header: "\<exists>header m. parse reference_lib (enc0_protected demo_encrypt0) = Inr header
      \<and> map_no_duplicates reference_lib header = Inr (entries m)"
    using demo_encrypt0_header header_from_bytes_Inr by blast
  have unprotected: "map_no_duplicates reference_lib (header_item (enc0_unprotected demo_encrypt0)) =
      Inr (entries (enc0_unprotected demo_encrypt0))"
    using serde_cbor.header_deserialize_item [OF reference_laws, of "enc0_unprotected demo_encrypt0"] demo_encrypt0_storable
    by (simp only: header_deserialize_Inr encrypt0_storable_def)
  show ?thesis
    unfolding encrypt0_from_bytes_accepts_iff [OF reference_laws]
    using form header unprotected serde_cbor.bytebuf_bytes [OF reference_laws] by fastforce
qed

end
