(* ===== verification/Header_Properties.thy ===== *)
theory Header_Properties
  imports Scenarios
begin

text \<open>
  The properties of \<open>HeaderMap\<close> (\<open>src/src/header_map.rs\<close>) and of the algorithm names
  (\<open>src/src/crypto/mod.rs\<close>), each with a run at a concrete input where it has hypotheses.
\<close>

text \<open>
  C27: a header behaves as a map under the keys' comparison: \<open>insert\<close> returns what \<open>get\<close> found
  before, \<open>get\<close> afterwards finds the new value under every key that compares equal and the old one
  under every other, and the entries stay in strict key order.
\<close>

theorem header_map_contract:
  assumes laws: "serde_cbor L" and sorted: "header_sorted L m" and "header_insert L m k v = (old, m')"
  shows "header_sorted L m' \<and> old = header_get L m k \<and> \<not> header_is_empty m'
    \<and> (\<forall>k'. header_get L m' k' = (if key_cmp L k' k = Equal then Some v else header_get L m k'))"
  using serde_cbor.header_sorted_insert [OF laws sorted, of k v] serde_cbor.header_insert_old [OF laws, of m k v]
    serde_cbor.header_get_insert [OF laws sorted, of k v] serde_cbor.header_insert_empty [OF laws, of m k v] assms(3)
  by simp

theorem header_map_contract_witness:
  "header_insert reference_lib kid_header (VInteger 1) (VInteger (- 7)) =
     (None, HeaderMap [(VInteger 1, VInteger (- 7)), (VInteger 4, VBytes [0x31, 0x31])])
   \<and> header_get reference_lib (HeaderMap [(VInteger 1, VInteger (- 7)), (VInteger 4, VBytes [0x31, 0x31])]) (VInteger 4) =
       Some (VBytes [0x31, 0x31])"
proof -
  have run: "header_insert reference_lib kid_header (VInteger 1) (VInteger (- 7)) =
     (None, HeaderMap [(VInteger 1, VInteger (- 7)), (VInteger 4, VBytes [0x31, 0x31])])"
    by code_simp
  have "header_get reference_lib (HeaderMap [(VInteger 1, VInteger (- 7)), (VInteger 4, VBytes [0x31, 0x31])]) (VInteger 4) =
      (if key_cmp reference_lib (VInteger 4) (VInteger 1) = Equal then Some (VInteger (- 7))
       else header_get reference_lib kid_header (VInteger 4))"
    using header_map_contract [OF reference_laws header_storable_sorted [OF kid_header_storable] run] by blast
  moreover have "key_cmp reference_lib (VInteger 4) (VInteger 1) \<noteq> Equal" by code_simp
  ultimately show ?thesis using run by (simp add: kid_header_def)
qed

text \<open>
  C26: the recipient of a signed document finds under every label what was inserted there last.  Both
  headers are built with \<open>insert\<close>, label by label, in any order and with labels overwritten
  at will; the document is signed with \<open>new_with_protected\<close>, written and read; then the
  protected header that \<open>get_protected_and_payload\<close> returns under the public key, and the unprotected header of
  the document that was read, map each label to the value of its last insertion, and every other
  label to nothing.
\<close>

theorem labels_delivered:
  assumes laws: "serde_cbor L" and keys: "key_pair K P valid_priv valid_pub alg dig"
    and k: "valid_priv k" and p: "valid_pub p"
    and new: "new_with_protected L H K payload (header_of L es) (header_of L fs) k = (Ok doc, k')"
    and names_alg: "last_value (key_cmp L) es (VInteger 1) = Some (VInteger (sint (sig_alg_i8 alg)))"
    and wf: "wf_entries (key_cmp L) n es" "wf_entries (key_cmp L) n fs" "n \<le> header_depth L"
      "length es < 2 ^ 63" "length fs < 2 ^ 63"
    and fits: "fits_memory (sign1_protected doc)" "fits_memory payload" "fits_memory (sign1_signature doc)"
  shows "\<exists>bs received m p'. sign1_as_bytes L doc tagged = Ok bs \<and> sign1_from_bytes L bs = Ok received
    \<and> get_protected_and_payload L H (Some P) received p = (Ok (m, payload), p')
    \<and> (\<forall>key. header_get L m key = last_value (key_cmp L) es key)
    \<and> (\<forall>key. header_get L (get_unprotected received) key = last_value (key_cmp L) fs key)"
proof -
  note get = serde_cbor.header_of_get [OF laws]
  have stored: "header_storable L (header_of L es)" "header_storable L (header_of L fs)"
    using wf by (auto intro: serde_cbor.header_of_storable [OF laws])
  have "\<not> header_is_empty (header_of L es)"
    using names_alg get [of es "VInteger 1"] by (auto simp: header_is_empty_iff serde_cbor.header_get_new [OF laws])
  then have shape: "header_from_bytes L (sign1_protected doc) = Inr (header_of L es)"
    "sign1_payload doc = payload" "sign1_unprotected doc = header_of L fs"
    using new stored by (auto elim!: new_with_protected_Ok dest: serde_cbor.header_written [OF laws])
  have "sign1_storable L doc"
    using shape stored fits by (simp add: sign1_storable_def fits_memory_def)
  then obtain bs where "sign1_as_bytes L doc tagged = Ok bs" "sign1_from_bytes L bs = Ok doc"
    using serde_cbor.sign1_roundtrip [OF laws _ shape(1), of tagged] by blast
  moreover obtain p' where "verify_signature L H P doc p = (Ok True, p')"
    using key_pair.new_with_protected_verifies [OF keys k p new shape(1)] names_alg get by auto
  ultimately show ?thesis
    using shape get by (auto simp: get_protected_and_payload_Some_Ok get_unprotected_def)
qed

text \<open>Label 1 is first given the wrong algorithm and label 4 another key identifier; both are overwritten.\<close>

theorem labels_delivered_witness:
  "\<exists>bs received m p'. sign1_as_bytes reference_lib demo_sign1 True = Ok bs
    \<and> sign1_from_bytes reference_lib bs = Ok received
    \<and> get_protected_and_payload reference_lib demo_hasher (Some (demo_verifier ES256)) received 0 = (Ok (m, [1, 2, 3]), p')
    \<and> header_get reference_lib m (VInteger 1) = Some (VInteger (- 7))
    \<and> header_get reference_lib (get_unprotected received) (VInteger 4) = Some (VBytes [0x31, 0x31])
    \<and> header_get reference_lib (get_unprotected received) (VInteger 1) = None"
proof -
  let ?es = "[(VInteger 1, VInteger 5), (VInteger 1, VInteger (- 7))]"
  let ?fs = "[(VInteger 4, VBytes [0]), (VInteger 4, VBytes [0x31, 0x31])]"
  have headers: "header_of reference_lib ?es = HeaderMap [(VInteger 1, VInteger (- 7))]"
    "header_of reference_lib ?fs = kid_header"
    by (simp_all add: header_of_def header_new_def kid_header_def)
  have run: "new_with_protected reference_lib demo_hasher (demo_signer ES256) [1, 2, 3]
      (header_of reference_lib ?es) (header_of reference_lib ?fs) 5 = (Ok demo_sign1, 6)"
    unfolding headers by (rule demo_sign1_signed)
  have "\<exists>bs received m p'. sign1_as_bytes reference_lib demo_sign1 True = Ok bs
      \<and> sign1_from_bytes reference_lib bs = Ok received
      \<and> get_protected_and_payload reference_lib demo_hasher (Some (demo_verifier ES256)) received 0 = (Ok (m, [1, 2, 3]), p')
      \<and> (\<forall>key. header_get reference_lib m key = last_value (key_cmp reference_lib) ?es key)
      \<and> (\<forall>key. header_get reference_lib (get_unprotected received) key = last_value (key_cmp reference_lib) ?fs key)"
    by (rule labels_delivered [OF reference_laws demo_pair _ _ run, where n = 0])
      (simp_all add: last_value_def fits_memory_def demo_sign1_def)
  moreover have "last_value (key_cmp reference_lib) ?es (VInteger 1) = Some (VInteger (- 7))"
    "last_value (key_cmp reference_lib) ?fs (VInteger 4) = Some (VBytes [0x31, 0x31])"
    "last_value (key_cmp reference_lib) ?fs (VInteger 1) = None"
    by code_simp+
  ultimately show ?thesis by metis
qed

text \<open>
  C28: the protected form of a header is the empty string for the empty header, which
  \<open>from_bytes\<close> does not read, and otherwise non-empty bytes that \<open>from_bytes\<close> reads back as the
  same header.
\<close>

theorem header_bytes_roundtrip:
  assumes laws: "serde_cbor L" and stored: "header_storable L m"
  shows "if header_is_empty m
    then map_to_empty_or_serialized L m = Inr [] \<and> (\<exists>e. header_from_bytes L [] = Inl e)
    else \<exists>bs. bs \<noteq> [] \<and> map_to_empty_or_serialized L m = Inr bs \<and> header_from_bytes L bs = Inr m"
proof (cases "header_is_empty m")
  case True
  then show ?thesis
    using serde_cbor.header_from_bytes_empty [OF laws] by (auto simp: map_to_empty_or_serialized_def)
next
  case False
  then obtain bs where "map_to_empty_or_serialized L m = Inr bs" "header_from_bytes L bs = Inr m"
    by (rule serde_cbor.header_write [OF laws stored])
  with False show ?thesis
    using serde_cbor.header_bytes_nonempty [OF laws stored False] by auto
qed

theorem header_bytes_roundtrip_witness:
  "\<exists>bs. bs \<noteq> [] \<and> map_to_empty_or_serialized reference_lib kid_header = Inr bs
    \<and> header_from_bytes reference_lib bs = Inr kid_header"
  using header_bytes_roundtrip [OF reference_laws kid_header_storable] by (simp add: kid_header_def)

text \<open>
  C29: a header in which a label occurs twice is refused wherever the crate meets it.  If
  the protected bytes of a document are such a map, then the written document is read back neither by
  the reader of signed documents, with the tag or without it, nor by that of encrypted ones; and on such
  a document, however it was obtained, verification, both accessors, that of the protected header even where no key is
  given, and decryption release nothing, and the key is asked for its parameters only.  The same map as an unprotected header is refused by all three readers.
\<close>

theorem repeated_labels_refused:
  assumes laws: "serde_cbor L"
    and es: "wf_entries (key_cmp L) n es" "n \<le> depth_limit L" "\<not> distinct_keys (key_cmp L) es"
    and protected: "parse L (sign1_protected doc) = Inr (VMap es)" "parse L (enc0_protected enc) = Inr (VMap es)"
    and stored: "sign1_storable L doc" "encrypt0_storable L enc"
    and params: "get_parameters P p = (Ok (alg, dig), p1)"
    and sign1_item: "parse L bs = Inr (VTag 18 (VArray [VBytes a, VMap es, VBytes b, VBytes c]))"
    and encrypt0_item: "parse L bs' = Inr (VTag 16 (VArray [VBytes a, VMap es, VBytes b]))"
  shows "\<exists>e. (\<exists>w. sign1_as_bytes L doc True = Ok w \<and> sign1_from_bytes L w = Err (SerializationError e)
        \<and> sign1_from_bytes_tagged L w = Err (SerializationError e))
    \<and> (\<exists>w. encrypt0_as_bytes L enc True = Ok w \<and> encrypt0_from_bytes L w = Err (SerializationError e))
    \<and> verify_signature L H P doc p = (Err (SerializationError e), p1)
    \<and> get_payload L H (Some P) doc p = (Err (SerializationError e), p1)
    \<and> get_protected_and_payload L H (Some P) doc p = (Err (SerializationError e), p1)
    \<and> get_protected_and_payload L H None doc p = (Err (SerializationError e), p)
    \<and> decrypt oc L D enc key = Err (SerializationError e)
    \<and> sign1_from_bytes L bs = Err (SerializationError e) \<and> sign1_from_bytes_tagged L bs = Err (SerializationError e)
    \<and> encrypt0_from_bytes L bs' = Err (SerializationError e)"
proof -
  obtain e where e: "map_no_duplicates L (VMap es) = Inl e"
    using serde_cbor.map_duplicate [OF laws es] by blast
  then have refused: "header_from_bytes L (sign1_protected doc) = Inl e" "header_from_bytes L (enc0_protected enc) = Inl e"
    using protected by (simp_all add: header_from_bytes_def header_deserialize_def)
  have "\<exists>w. sign1_as_bytes L doc True = Ok w \<and> sign1_from_bytes L w = Err (SerializationError e)
      \<and> sign1_from_bytes_tagged L w = Err (SerializationError e)"
    using serde_cbor.sign1_unreadable [OF laws stored(1) refused(1), of True] by simp
  moreover have "\<exists>w. encrypt0_as_bytes L enc True = Ok w \<and> encrypt0_from_bytes L w = Err (SerializationError e)"
    by (rule serde_cbor.encrypt0_unreadable [OF laws stored(2) refused(2)])
  moreover have "verify_signature L H P doc p = (Err (SerializationError e), p1)"
    using params refused(1) by (simp add: verify_signature_def)
  moreover have "sign1_from_bytes L bs = Err (SerializationError e)" "sign1_from_bytes_tagged L bs = Err (SerializationError e)"
    "encrypt0_from_bytes L bs' = Err (SerializationError e)"
    using sign1_item encrypt0_item e
    by (simp_all add: sign1_from_bytes_def sign1_from_bytes_tagged_def encrypt0_from_bytes_def tagged_from_slice_def
        serde_cbor.split_tag_tag [OF laws] serde_cbor.bytebuf_bytes [OF laws] sign1_visit_seq_def header_deserialize_def)
  ultimately show ?thesis
    using refused by (intro exI [of _ e]) (simp add: get_payload_def get_protected_and_payload_def decrypt_def)
qed

text \<open>The map \<open>{1: 42, 2: 42, 1: 43}\<close> of the repository's own test, in the documents of either kind.\<close>

definition repeated_labels :: bytes where
  "repeated_labels = [0xA3, 0x01, 0x18, 0x2A, 0x02, 0x18, 0x2A, 0x01, 0x18, 0x2B]"

theorem repeated_labels_refused_witness:
  "\<exists>e. verify_signature reference_lib demo_hasher (demo_verifier ES256) (demo_sign1\<lparr>sign1_protected := repeated_labels\<rparr>) 0 =
      (Err (SerializationError e), 0)
    \<and> decrypt True reference_lib demo_dec (demo_encrypt0\<lparr>enc0_protected := repeated_labels\<rparr>) demo_key16 = Err (SerializationError e)
    \<and> sign1_from_bytes reference_lib ([0xD2, 0x84, 0x40] @ repeated_labels @ [0x40, 0x40]) = Err (SerializationError e)
    \<and> encrypt0_from_bytes reference_lib ([0xD0, 0x83, 0x40] @ repeated_labels @ [0x40]) = Err (SerializationError e)"
proof -
  let ?es = "[(VInteger 1, VInteger 42), (VInteger 2, VInteger 42), (VInteger 1, VInteger 43)]"
  have es: "wf_entries (key_cmp reference_lib) 0 ?es" "\<not> distinct_keys (key_cmp reference_lib) ?es"
    by (simp_all add: distinct_keys_def)
  have parse: "parse reference_lib repeated_labels = Inr (VMap ?es)"
    "parse reference_lib ([0xD2, 0x84, 0x40] @ repeated_labels @ [0x40, 0x40]) =
      Inr (VTag 18 (VArray [VBytes [], VMap ?es, VBytes [], VBytes []]))"
    "parse reference_lib ([0xD0, 0x83, 0x40] @ repeated_labels @ [0x40]) = Inr (VTag 16 (VArray [VBytes [], VMap ?es, VBytes []]))"
    unfolding reference_lib_sel by code_simp+
  have stored: "sign1_storable reference_lib (demo_sign1\<lparr>sign1_protected := repeated_labels\<rparr>)"
    "encrypt0_storable reference_lib (demo_encrypt0\<lparr>enc0_protected := repeated_labels\<rparr>)"
    using demo_sign1_storable demo_encrypt0_storable
    by (simp_all add: sign1_storable_def encrypt0_storable_def repeated_labels_def)
  show ?thesis
    using repeated_labels_refused [OF reference_laws es(1) le0 es(2) _ _ stored demo_verifier_parameters parse(2,3),
        where H = demo_hasher and oc = True and D = demo_dec and key = demo_key16] parse(1) by fastforce
qed

text \<open>
  \<open>FromStr\<close> accepts exactly the names that \<open>Display\<close> writes and returns the
  algorithm they were written for; every other string is unsupported.
\<close>

theorem algorithm_names_roundtrip:
  "(sig_alg_from_str s = Ok alg \<longleftrightarrow> s = sig_alg_display alg)
   \<and> ((\<exists>e. sig_alg_from_str s = Err (UnsupportedError e)) \<longleftrightarrow> s \<notin> range sig_alg_display)"
proof -
  have "range sig_alg_display = {''ES256'', ''ES384'', ''ES512''}"
    using signature_algorithm.nchotomy by (auto simp: image_iff) (metis sig_alg_display.simps)+
  then show ?thesis by (cases alg) (auto simp: sig_alg_from_str_def)
qed

end
