(* ===== verification/Key_Properties.thy ===== *)
theory Key_Properties
  imports Scenarios
begin

text \<open>
  The properties of the key implementations (\<open>src/src/crypto/openssl_pkey.rs\<close>, \<open>kms.rs\<close> and
  \<open>tpm.rs\<close>) and of the signature encoding they share, each with a run at a concrete input where it
  has hypotheses.
\<close>

section \<open>Signatures and their encoding\<close>

text \<open>
  C30: if both factors fit, the encoding of a signature has twice the key's width and
  splitting it at the width gives back both numbers; otherwise encoding panics.  The copy of the
  encoding in \<open>KmsKey::sign\<close> computes the same.
\<close>

theorem signature_encoding_roundtrip:
  "(length r \<le> n \<and> length s \<le> n \<longrightarrow>
      (\<exists>bs a b. merge_ec_signature r s n = Ok bs \<and> length bs = 2 * n
         \<and> split_at n bs = (Ok (a, b) :: (bytes \<times> bytes) cose_result) \<and> be_nat a = be_nat r \<and> be_nat b = be_nat s))
   \<and> (n < length r \<or> n < length s \<longrightarrow> (\<exists>msg. merge_ec_signature r s n = Panic msg))
   \<and> kms_signature_bytes r s n = merge_ec_signature r s n"
proof (intro conjI impI)
  assume fits: "length r \<le> n \<and> length s \<le> n"
  obtain bs where "merge_ec_signature r s n = Ok bs" "length bs = 2 * n"
    and "split_at n bs = (Ok (replicate (n - length r) 0 @ r, replicate (n - length s) 0 @ s) :: (bytes \<times> bytes) cose_result)"
    using fits by (auto elim: split_merged)
  then show "\<exists>bs a b. merge_ec_signature r s n = Ok bs \<and> length bs = 2 * n
         \<and> split_at n bs = (Ok (a, b) :: (bytes \<times> bytes) cose_result) \<and> be_nat a = be_nat r \<and> be_nat b = be_nat s"
    by auto
qed (simp_all add: merge_ec_signature_panics)

theorem signature_encoding_roundtrip_witness:
  "\<exists>bs a b. merge_ec_signature [5] [1, 6] 32 = Ok bs \<and> length bs = 64
     \<and> split_at 32 bs = (Ok (a, b) :: (bytes \<times> bytes) cose_result) \<and> be_nat a = 5 \<and> be_nat b = 262"
  using signature_encoding_roundtrip [of "[5]" 32 "[1, 6]"] by (simp add: be_nat_def)

text \<open>
  C17: a signature that an OpenSSL private key on one of the supported curves makes has twice
  the width of its algorithm and verifies, for the same digest, under the public key.
\<close>

theorem pkey_signatures_verify:
  assumes "openssl_ec PL priv pub priv_ec pub_ec alg"
    and "pkeyref_sign PL priv digest w = (Ok bs, w')"
  shows "length bs = 2 * key_length alg \<and> pkeyref_verify PL pub digest bs = Ok True"
  using openssl_ec.pkey_sign_verify [OF assms] openssl_ec.pkey_sign_length [OF assms] by blast

lemmas demo_ec_laws = demo_ec.openssl_ec_axioms

lemma demo_pkey_signs:
  "pkeyref_sign demo_pkey (Demo_Key (demo_priv_ec ES256)) demo_digest 5 = (Ok (sign1_signature demo_sign1), 6)"
  using demo_digest_signature by (simp add: pkey_private_def demo_sign1_def)

theorem pkey_signatures_verify_witness:
  "length (sign1_signature demo_sign1) = 64
   \<and> pkeyref_verify demo_pkey (Demo_Key (demo_pub_ec ES256)) demo_digest (sign1_signature demo_sign1) = Ok True"
  using pkey_signatures_verify [OF demo_ec_laws [of ES256] demo_pkey_signs] by simp

text \<open>
  C18: a signature that KMS makes for a digest verifies through every handle on the same key,
  with a local public key or by the service.
\<close>

theorem kms_signatures_verify:
  assumes "kms_service PL KL connected key_id alg pub pub_ec"
    and "kms_usable connected key_id alg pub k" and "kms_usable connected key_id alg pub k2"
    and "kms_sign PL KL digest k = (Ok bs, k')"
  shows "fst (kms_verify PL KL digest bs k2) = Ok True"
  by (rule kms_service.kms_sign_verify [OF assms(1,2,4,3)])

lemma demo_kms_signs:
  "kms_sign demo_pkey demo_kms demo_digest demo_kms_handle =
     (Ok (sign1_signature demo_sign1), demo_kms_handle\<lparr>kms_client := \<lparr>client_tokio = True, client_nonce = 6\<rparr>\<rparr>)"
  by code_simp

theorem kms_signatures_verify_witness:
  "fst (kms_verify demo_pkey demo_kms demo_digest (sign1_signature demo_sign1) demo_kms_handle) = Ok True
   \<and> fst (kms_verify demo_pkey demo_kms demo_digest (sign1_signature demo_sign1)
        (demo_kms_handle\<lparr>kms_public_key := Some (Demo_Key (demo_pub_ec ES256))\<rparr>)) = Ok True"
proof -
  have "kms_usable client_tokio demo_key_id ES256 (Demo_Key (demo_pub_ec ES256))
      (demo_kms_handle\<lparr>kms_public_key := Some (Demo_Key (demo_pub_ec ES256))\<rparr>)"
    using demo_kms_usable by (simp add: kms_usable_def)
  then show ?thesis
    using kms_signatures_verify [OF demo_kms.kms_service_axioms demo_kms_usable _ demo_kms_signs] demo_kms_usable by blast
qed

text \<open>
  C19: a signature that the TPM makes for a digest verifies through every handle on the same
  key, although signing strips the factors' leading zeros, \<open>sign\<close> pads them and \<open>verify\<close> passes
  the padded factors on.
\<close>

theorem tpm_signatures_verify:
  assumes "tpm_device TL ready handle ha alg"
    and "tpm_usable ready handle ha alg dig k" and "tpm_usable ready handle ha alg dig k2"
    and "tpm_sign TL digest k = (Ok bs, k')"
  shows "fst (tpm_verify TL digest bs k2) = Ok True"
  by (rule tpm_device.tpm_sign_verify [OF assms(1,2,4,3)])

lemma demo_tpm_signs:
  "tpm_sign demo_tss demo_digest demo_tpm_handle =
     (Ok (sign1_signature demo_sign1), demo_tpm_handle\<lparr>tpm_context := 6\<rparr>)"
  by code_simp

theorem tpm_signatures_verify_witness:
  "fst (tpm_verify demo_tss demo_digest (sign1_signature demo_sign1) demo_tpm_handle) = Ok True"
  by (rule tpm_signatures_verify [OF demo_tpm.tpm_device_axioms demo_tpm_usable demo_tpm_usable demo_tpm_signs])

section \<open>Parameters\<close>

text \<open>
  Exactly the three curves that RFC 8152 recommends are accepted, each with its algorithm, the
  digest of that algorithm and the width of its factors; a key reports the algorithm and the
  digest of its curve.
\<close>

theorem curve_parameters:
  "(ec_curve_to_parameters PL curve = Ok (alg, dig, n) \<longleftrightarrow>
      curve = curve_of alg \<and> dig = suggested_message_digest alg \<and> n = key_length alg)
   \<and> (pkeyref_get_parameters PL pk = Ok (alg, dig) \<longleftrightarrow>
      (\<exists>key. ec_key PL pk = Inr key \<and> curve_name PL key = Some (curve_of alg) \<and> dig = suggested_message_digest alg))"
  by (auto simp: ec_curve_to_parameters_Ok pkeyref_get_parameters_def outcome_simps)

text \<open>
  C38: a TPM key takes its algorithm and the width of its factors from the curve and its digest from
  the scheme's hash, independently of each other; the width is always that of the algorithm.
\<close>

theorem tpm_key_parameters:
  assumes "tpm_new TL handle ctx = (Ok k, ctx')"
  shows "\<exists>key_public public. context_read_public TL handle ctx = (Inr key_public, ctx') \<and> public = public_into TL key_public
    \<and> (fst (tpm_parameters k), ecc_curve_id public)
        \<in> {(ES256, TPM2_ECC_NIST_P256 TL), (ES384, TPM2_ECC_NIST_P384 TL), (ES512, TPM2_ECC_NIST_P521 TL)}
    \<and> (snd (tpm_parameters k), ecdsa_hash_alg public)
        \<in> {(Sha256, TPM2_ALG_SHA256 TL), (Sha384, TPM2_ALG_SHA384 TL), (Sha512, TPM2_ALG_SHA512 TL)}
    \<and> tpm_key_length k = key_length (fst (tpm_parameters k))
    \<and> tpm_key_handle k = handle \<and> tpm_context k = ctx'"
proof (rule tpm_new_Ok [OF assms])
  fix key_public
  assume read: "context_read_public TL handle ctx = (Inr key_public, ctx')"
    and params: "public_to_parameters TL (public_into TL key_public) = Ok (tpm_parameters k, tpm_hash_alg k, tpm_key_length k)"
    and rest: "tpm_context k = ctx'" "tpm_key_handle k = handle"
  have "public_to_parameters TL (public_into TL key_public) =
      Ok ((fst (tpm_parameters k), snd (tpm_parameters k)), tpm_hash_alg k, tpm_key_length k)"
    using params by simp
  from public_to_parameters_Ok [OF this] read rest show ?thesis by blast
qed

text \<open>A key on P-256 whose scheme hashes with SHA-384 is accepted, as ES256 with SHA-384.\<close>

definition demo_tss_384 :: "(nat, nat, 16 word, tpmt_sig_scheme, tpmt_tk_hashcheck, 16 word \<times> 16 word) tss_lib" where
  "demo_tss_384 = demo_tss\<lparr>context_read_public := \<lambda>h c. (Inr (3, 0x0C), c)\<rparr>"

theorem tpm_key_parameters_witness:
  "tpm_new demo_tss_384 1 5 =
     (Ok \<lparr>tpm_context = 5, tpm_key_handle = 1, tpm_parameters = (ES256, Sha384), tpm_hash_alg = 0x0C, tpm_key_length = 32\<rparr>, 5)
   \<and> (\<exists>public. context_read_public demo_tss_384 1 5 = (Inr (3, 0x0C), 5) \<and> public = public_into demo_tss_384 (3, 0x0C)
      \<and> ecc_curve_id public = 3 \<and> ecdsa_hash_alg public = 0x0C)"
proof -
  have run: "tpm_new demo_tss_384 1 5 =
     (Ok \<lparr>tpm_context = 5, tpm_key_handle = 1, tpm_parameters = (ES256, Sha384), tpm_hash_alg = 0x0C, tpm_key_length = 32\<rparr>, 5)"
    by (simp add: tpm_new_def demo_tss_384_def demo_tss_def demo_public_into_def public_to_parameters_def)
  show ?thesis
    using tpm_key_parameters [OF run] run by (auto simp: demo_tss_384_def demo_tss_def demo_public_into_def)
qed

section \<open>Replies\<close>

text \<open>
  The TPM's reply decides: success is a valid signature, the response code
  \<open>RC_SIGNATURE + RC_2 + RC_P\<close> is an invalid one, and every other error of the TPM is returned as such.
\<close>

theorem tpm_verify_replies:
  assumes "split_at (tpm_key_length k) bs = (Ok (a, b) :: (bytes \<times> bytes) cose_result)"
    and "ecc_parameter TL a = Some r" and "ecc_parameter TL b = Some s"
    and "ecc_signature TL (tpm_hash_alg k) r s = Some (h, r', s')" and "tpm_digest TL digest = Some d"
    and "context_verify_signature TL (tpm_key_handle k) d (EcDsa h r' s') (tpm_context k) = (reply, ctx')"
  shows "tpm_verify TL digest bs k =
    (case reply of
       Inr _ \<Rightarrow> Ok True
     | Inl e \<Rightarrow> if \<exists>msg. e = Tss2_Format_One (TPM2_RC_SIGNATURE TL OR TPM2_RC_2 TL OR TPM2_RC_P TL) msg
                then Ok False else Err (TpmError e),
     k\<lparr>tpm_context := ctx'\<rparr>)"
  using assms
  by (auto simp: tpm_verify_def TSS2_RC_SIGNATURE_def or.assoc Let_def split: sum.splits tpm_error.splits)

text \<open>A signature whose first factor is the point of no nonce.\<close>

theorem tpm_verify_replies_witness:
  "tpm_verify demo_tss demo_digest (replicate 31 0 @ [2] @ replicate 31 0 @ [4]) demo_tpm_handle = (Ok False, demo_tpm_handle)"
proof -
  let ?a = "replicate 31 0 @ [2]" and ?b = "replicate 31 0 @ [4]"
  have split: "split_at (tpm_key_length demo_tpm_handle) (?a @ ?b) = (Ok (?a, ?b) :: (bytes \<times> bytes) cose_result)"
    using split_at_append [of ?a ?b] by (simp add: demo_tpm_handle_def)
  have reply: "context_verify_signature demo_tss (tpm_key_handle demo_tpm_handle) demo_digest (EcDsa 0x0B ?a ?b) (tpm_context demo_tpm_handle) =
      (Inl (Tss2_Format_One 0x2DB ''the signature is not valid''), 5)"
    by code_simp
  show ?thesis
    using tpm_verify_replies [where r = ?a and s = ?b and digest = demo_digest, OF split _ _ _ _ reply]
    by (simp add: demo_tss_def demo_tpm_handle_def demo_digest_def)
qed

text \<open>
  Without a local public key the service's reply decides: its answer is returned, its
  invalid-signature exception is an invalid signature, and every other error is returned as an
  \<open>AwsVerifyError\<close>.
\<close>

theorem kms_verify_replies:
  assumes "kms_public_key k = None"
    and "split_at (key_length (kms_sig_alg k)) bs = (Ok (a, b) :: (bytes \<times> bytes) cose_result)"
    and "bn_from_slice PL a = Inr r" and "bn_from_slice PL b = Inr s" and "sig_components PL r s = Inr sig"
    and "sig_to_der PL sig = Inr der" and "in_tokio KL (kms_client k)"
    and "send_verify KL (kms_digest_request (kms_key_id k) (kms_sig_alg k) digest) der (kms_client k) = (reply, c')"
  shows "kms_verify PL KL digest bs k =
    (case reply of
       Ok valid \<Rightarrow> Ok valid
     | Err e \<Rightarrow> if \<exists>msg. e = Service_Error True msg then Ok False else Err (AwsVerifyError e)
     | Panic msg \<Rightarrow> Panic msg,
     k\<lparr>kms_client := c'\<rparr>)"
  using assms
  by (auto simp: kms_verify_def handle_current_def kms_request_of_def get_sig_alg_spec_def kms_digest_request_def
      Let_def split: outcome.splits sdk_error.splits bool.splits)

theorem kms_verify_replies_witness:
  "kms_verify demo_pkey demo_kms demo_digest (replicate 31 0 @ [2] @ replicate 31 0 @ [4]) demo_kms_handle = (Ok False, demo_kms_handle)"
proof -
  let ?a = "replicate 31 0 @ [2]" and ?b = "replicate 31 0 @ [4]" and ?der = "[0x30, 6, 2, 1, 2, 2, 1, 4]"
  have split: "split_at (key_length (kms_sig_alg demo_kms_handle)) (?a @ ?b) = (Ok (?a, ?b) :: (bytes \<times> bytes) cose_result)"
    using split_at_append [of ?a ?b] by (simp add: demo_kms_handle_def)
  have reply: "send_verify demo_kms (kms_digest_request (kms_key_id demo_kms_handle) (kms_sig_alg demo_kms_handle) demo_digest) ?der (kms_client demo_kms_handle) =
      (Err (Service_Error True ''KMSInvalidSignatureException''), \<lparr>client_tokio = True, client_nonce = 5\<rparr>)"
    by code_simp
  have num: "be_nat ?a = 2" "be_nat ?b = 4" by code_simp+
  have "kms_public_key demo_kms_handle = None" "in_tokio demo_kms (kms_client demo_kms_handle)"
    by (simp_all add: demo_kms_handle_def demo_kms_def)
  moreover have "bn_from_slice demo_pkey ?a = Inr 2" "bn_from_slice demo_pkey ?b = Inr 4"
    "sig_components demo_pkey 2 4 = Inr \<lparr>sig_r = 2, sig_s = 4\<rparr>" "sig_to_der demo_pkey \<lparr>sig_r = 2, sig_s = 4\<rparr> = Inr ?der"
    using num by (simp_all add: demo_pkey_def demo_to_der_def)
  ultimately show ?thesis
    using kms_verify_replies [OF _ split _ _ _ _ _ reply] by (simp add: demo_kms_handle_def)
qed

text \<open>
  A handle with a local public key verifies with it alone: the client is not used, so it
  also verifies outside of Tokio, where signing and fetching the public key panic.
\<close>

theorem kms_local_verification:
  assumes "kms_public_key k = Some pk" and "\<not> in_tokio KL (kms_client k)"
  shows "kms_verify PL KL digest bs k = (pkeyref_verify PL pk digest bs, k)
    \<and> kms_sign PL KL digest k = (Panic ''there is no reactor running'', k)
    \<and> kms_new_with_public_key PL KL (kms_key_id k) (Some pk) (kms_client k) = (Panic ''there is no reactor running'', kms_client k)"
  using assms by (simp add: kms_verify_local kms_sign_outside_tokio kms_new_with_public_key_outside_tokio)

theorem kms_local_verification_witness:
  "kms_verify demo_pkey demo_kms demo_digest (sign1_signature demo_sign1)
     (demo_kms_handle\<lparr>kms_client := \<lparr>client_tokio = False, client_nonce = 0\<rparr>,
        kms_public_key := Some (Demo_Key (demo_pub_ec ES256))\<rparr>) =
   (Ok True, demo_kms_handle\<lparr>kms_client := \<lparr>client_tokio = False, client_nonce = 0\<rparr>,
        kms_public_key := Some (Demo_Key (demo_pub_ec ES256))\<rparr>)"
proof -
  let ?k = "demo_kms_handle\<lparr>kms_client := \<lparr>client_tokio = False, client_nonce = 0\<rparr>,
        kms_public_key := Some (Demo_Key (demo_pub_ec ES256))\<rparr>"
  have "kms_public_key ?k = Some (Demo_Key (demo_pub_ec ES256))" "\<not> in_tokio demo_kms (kms_client ?k)"
    by (simp_all add: demo_kms_def)
  from kms_local_verification [OF this, where PL = demo_pkey and digest = demo_digest and bs = "sign1_signature demo_sign1"]
  show ?thesis using demo_ec.pkey_sign_verify [OF demo_pkey_signs] by simp
qed

text \<open>
  A document whose signature is shorter than one factor is not refused: once its
  algorithm matches, verifying it under an OpenSSL key panics in the split of the signature, and so
  does every accessor that verifies; the TPM key and the KMS key without a local public key panic
  likewise.
\<close>

theorem short_signature_panics:
  assumes key: "ec_key PL pk = Inr key" "curve_name PL key = Some (curve_of alg)"
    and header: "header_from_bytes L (sign1_protected doc) = Inr m"
      "header_get L m (VInteger 1) = Some (VInteger (sint (sig_alg_i8 alg)))"
    and digest: "to_vec L (signed_item (sign1_protected doc) (sign1_payload doc)) = Inr tbs"
      "hash_of H (suggested_message_digest alg) tbs = Ok d"
    and short: "length (sign1_signature doc) < key_length alg"
    and "tpm_key_length tk = key_length alg" and "kms_sig_alg kk = alg" and "kms_public_key kk = None"
  shows "verify_signature L H (pkey_public PL pk) doc w = (Panic ''mid > len'', w)
    \<and> get_payload L H (Some (pkey_public PL pk)) doc w = (Panic ''mid > len'', w)
    \<and> tpm_verify TL d (sign1_signature doc) tk = (Panic ''mid > len'', tk)
    \<and> kms_verify PL KL d (sign1_signature doc) kk = (Panic ''mid > len'', kk)"
proof -
  have params: "get_parameters (pkey_public PL pk) w = (Ok (alg, suggested_message_digest alg), w)"
    using key by (simp add: pkey_public_def pkeyref_get_parameters_def)
  have "verify_signature L H (pkey_public PL pk) doc w = (Panic ''mid > len'', w)"
    unfolding verify_signature_step [OF params header(1)]
    using header(2) digest pkeyref_verify_short_panics [OF key short, of d] by (simp add: pkey_public_def)
  then show ?thesis
    using short assms(8-10) by (simp add: get_payload_def tpm_verify_short_panics kms_verify_def split_at_panics)
qed

theorem short_signature_panics_witness:
  "get_payload reference_lib demo_hasher (Some (demo_verifier ES256)) (demo_sign1\<lparr>sign1_signature := [1, 2, 3]\<rparr>) 0 =
     (Panic ''mid > len'', 0)"
  by (rule short_signature_panics [where key = "demo_pub_ec ES256" and alg = ES256
        and m = "HeaderMap [(VInteger 1, VInteger (- 7))]" and tbs = demo_tbs and d = demo_digest
        and tk = demo_tpm_handle and kk = demo_kms_handle and TL = demo_tss and KL = demo_kms, THEN conjunct2, THEN conjunct1])
    (simp_all add: demo_pkey_def demo_pub_ec_def demo_sign1_def demo_tbs_bytes demo_digest_hash
      demo_tpm_handle_def demo_kms_handle_def)

section \<open>Panics and padding\<close>

text \<open>
  C21: exactly when \<open>get_payload\<close> panics, for every kind of key.  It never panics before the key is asked:
  the protected bytes must be a header that names the key's algorithm, and the signed bytes written
  and hashed.  Then an OpenSSL key panics exactly if the signature is shorter than one factor on its
  curve, and a TPM key if it is shorter than one factor of the handle; a KMS key with a local public key
  panics where that does, and one without if the signature is too short, if both factors were encoded but no Tokio
  context is entered, or if the call of the service panics.  Whatever else the document holds, nothing panics, as
  long as signatures are shorter than the 2 GiB beyond which \<open>BigNum::from_slice\<close> asserts.
\<close>

theorem verification_panics_iff:
  "((\<exists>msg w'. get_payload L (openssl_hasher OL) (Some (pkey_public PL pk)) doc w = (Panic msg, w')) \<longleftrightarrow>
     (\<exists>key alg d. ec_key PL pk = Inr key \<and> curve_name PL key = Some (curve_of alg)
       \<and> digest_asked L (openssl_hasher OL) alg (suggested_message_digest alg) doc = Some d
       \<and> length (sign1_signature doc) < key_length alg))
   \<and> ((\<exists>msg k'. get_payload L (openssl_hasher OL) (Some (tpm_signer TL)) doc tk = (Panic msg, k')) \<longleftrightarrow>
     (\<exists>alg dig d. tpm_parameters tk = (alg, dig) \<and> digest_asked L (openssl_hasher OL) alg dig doc = Some d
       \<and> length (sign1_signature doc) < tpm_key_length tk))
   \<and> ((\<exists>msg k'. get_payload L (openssl_hasher OL) (Some (kms_signer PL KL)) doc kk = (Panic msg, k')) \<longleftrightarrow>
     (\<exists>d. digest_asked L (openssl_hasher OL) (kms_sig_alg kk) (suggested_message_digest (kms_sig_alg kk)) doc = Some d
       \<and> (case kms_public_key kk of
            Some pk \<Rightarrow> \<exists>key alg. ec_key PL pk = Inr key \<and> curve_name PL key = Some (curve_of alg)
              \<and> length (sign1_signature doc) < key_length alg
          | None \<Rightarrow> length (sign1_signature doc) < key_length (kms_sig_alg kk)
              \<or> (\<exists>r s sig der. bn_from_slice PL (take (key_length (kms_sig_alg kk)) (sign1_signature doc)) = Inr r
                  \<and> bn_from_slice PL (drop (key_length (kms_sig_alg kk)) (sign1_signature doc)) = Inr s
                  \<and> sig_components PL r s = Inr sig \<and> sig_to_der PL sig = Inr der
                  \<and> (if in_tokio KL (kms_client kk)
                      then \<exists>p. fst (send_verify KL (kms_request_of kk d) der (kms_client kk)) = Panic p
                      else True)))))"
  (is "?pkey \<and> ?tpm \<and> ?kms")
proof (intro conjI)
  show ?pkey
  proof (cases "pkeyref_get_parameters PL pk")
    case (Ok x)
    then obtain alg dig where "pkeyref_get_parameters PL pk = Ok (alg, dig)" by (cases x) simp
    moreover then have "get_parameters (pkey_public PL pk) w = (Ok (alg, dig), w)" by (simp add: pkey_public_def)
    ultimately show ?thesis
      unfolding get_payload_Some_Panic
      by (subst verify_signature_asks_Panic)
        (auto simp: openssl_hasher_no_panic pkey_public_def pkeyref_get_parameters_Ok pkeyref_verify_Panic)
  qed (auto simp: get_payload_Some_Panic verify_signature_Panic pkey_public_def pkeyref_get_parameters_def
      outcome_simps ec_curve_to_parameters_Ok)
  show ?tpm
    unfolding get_payload_Some_Panic
    by (cases "tpm_parameters tk", subst verify_signature_asks_Panic [of _ _ "fst (tpm_parameters tk)" "snd (tpm_parameters tk)" tk])
      (auto simp: openssl_hasher_no_panic tpm_signer_def tpm_get_parameters_def tpm_verify_Panic)
  have kms: "(\<exists>msg k'. get_payload L (openssl_hasher OL) (Some (kms_signer PL KL)) doc kk = (Panic msg, k')) \<longleftrightarrow>
     (\<exists>d. digest_asked L (openssl_hasher OL) (kms_sig_alg kk) (suggested_message_digest (kms_sig_alg kk)) doc = Some d
       \<and> (\<exists>msg k'. kms_verify PL KL d (sign1_signature doc) kk = (Panic msg, k')))"
    unfolding get_payload_Some_Panic
    by (subst verify_signature_asks_Panic [of _ _ "kms_sig_alg kk" "suggested_message_digest (kms_sig_alg kk)" kk])
      (auto simp: openssl_hasher_no_panic kms_signer_def kms_get_parameters_def)
  show ?kms unfolding kms kms_verify_Panic ..
qed

text \<open>
  C22: exactly when \<open>CoseSign1::new\<close> panics, for every kind of key.  It never panics before the key is asked to sign.
  Then an OpenSSL key panics exactly if a number of the signature it gets is longer than the width of its curve; a TPM
  key if a factor is longer than the width of the handle, or if the empty validation ticket cannot be converted, which
  the code expects never to happen; a KMS key outside a Tokio context, if the call of the service panics, or if the service
  returns a number that is too long.
\<close>

theorem signing_panics_iff:
  "((\<exists>msg w'. cose_sign1_new L (openssl_hasher OL) (pkey_private PL pk) payload unprotected w = (Panic msg, w')) \<longleftrightarrow>
     (\<exists>key alg d sig w1. ec_key PL pk = Inr key \<and> curve_name PL key = Some (curve_of alg)
       \<and> digest_submitted L (openssl_hasher OL) alg (suggested_message_digest alg) payload = Some d
       \<and> ecdsa_sign PL d key w = (Inr sig, w1)
       \<and> (key_length alg < length (bn_to_vec PL (sig_r sig)) \<or> key_length alg < length (bn_to_vec PL (sig_s sig)))))
   \<and> ((\<exists>msg k'. cose_sign1_new L (openssl_hasher OL) (tpm_signer TL) payload unprotected tk = (Panic msg, k')) \<longleftrightarrow>
     (\<exists>alg dig digest d sc. tpm_parameters tk = (alg, dig)
       \<and> digest_submitted L (openssl_hasher OL) alg dig payload = Some digest
       \<and> tpm_digest TL digest = Some d \<and> signature_scheme TL \<lparr>sig_scheme = TPM2_ALG_NULL TL\<rparr> = Some sc
       \<and> (case hashcheck_ticket TL \<lparr>hashcheck_tag = TPM2_ST_HASHCHECK TL, hashcheck_hierarchy = TPM2_RH_NULL TL\<rparr> of
            None \<Rightarrow> True
          | Some ticket \<Rightarrow> \<exists>h r s c'. context_sign TL (tpm_key_handle tk) d sc ticket (tpm_context tk) = (Inr (EcDsa h r s), c')
              \<and> (tpm_key_length tk < length r \<or> tpm_key_length tk < length s))))
   \<and> ((\<exists>msg k'. cose_sign1_new L (openssl_hasher OL) (kms_signer PL KL) payload unprotected kk = (Panic msg, k')) \<longleftrightarrow>
     (\<exists>d. digest_submitted L (openssl_hasher OL) (kms_sig_alg kk) (suggested_message_digest (kms_sig_alg kk)) payload = Some d
       \<and> (if in_tokio KL (kms_client kk)
          then (\<exists>p. fst (send_sign KL (kms_request_of kk d) (kms_client kk)) = Panic p)
            \<or> (\<exists>der sig. fst (send_sign KL (kms_request_of kk d) (kms_client kk)) = Ok (Some der)
                \<and> sig_from_der PL der = Inr sig
                \<and> (key_length (kms_sig_alg kk) < length (bn_to_vec PL (sig_r sig))
                   \<or> key_length (kms_sig_alg kk) < length (bn_to_vec PL (sig_s sig))))
          else True)))"
  (is "?pkey \<and> ?tpm \<and> ?kms")
proof (intro conjI)
  note new = cose_sign1_new_Panic [OF _ _ openssl_hasher_no_panic]
  show ?pkey
  proof (cases "pkeyref_get_parameters PL pk")
    case (Ok x)
    then obtain alg dig where params: "pkeyref_get_parameters PL pk = Ok (alg, dig)" by (cases x) simp
    then have "get_parameters (pkey_private PL pk) w = (Ok (alg, dig), w)" by (simp add: pkey_private_def)
    note new = new [OF this this]
    have "(\<exists>msg w'. cose_sign1_new L (openssl_hasher OL) (pkey_private PL pk) payload unprotected w = (Panic msg, w')) \<longleftrightarrow>
        (\<exists>d. digest_submitted L (openssl_hasher OL) alg dig payload = Some d \<and> (\<exists>m w'. pkeyref_sign PL pk d w = (Panic m, w')))"
      unfolding new by (auto simp: pkey_private_def)
    then show ?thesis
      unfolding pkeyref_sign_Panic using params by (auto simp: pkeyref_get_parameters_Ok)
  qed (auto simp: cose_sign1_new_def pkey_private_def pkeyref_get_parameters_def outcome_simps ec_curve_to_parameters_Ok)
  have "get_parameters (tpm_signer TL) tk = (Ok (fst (tpm_parameters tk), snd (tpm_parameters tk)), tk)"
    by (simp add: tpm_signer_def tpm_get_parameters_def)
  note tpm = new [OF this this]
  have "(\<exists>msg k'. cose_sign1_new L (openssl_hasher OL) (tpm_signer TL) payload unprotected tk = (Panic msg, k')) \<longleftrightarrow>
      (\<exists>d. digest_submitted L (openssl_hasher OL) (fst (tpm_parameters tk)) (snd (tpm_parameters tk)) payload = Some d
         \<and> (\<exists>m k'. tpm_sign TL d tk = (Panic m, k')))"
    unfolding tpm by (auto simp: tpm_signer_def)
  then show ?tpm
    unfolding tpm_sign_Panic by (cases "tpm_parameters tk") auto
  have "get_parameters (kms_signer PL KL) kk = (Ok (kms_sig_alg kk, suggested_message_digest (kms_sig_alg kk)), kk)"
    by (simp add: kms_signer_def kms_get_parameters_def)
  note kms = new [OF this this]
  have "(\<exists>msg k'. cose_sign1_new L (openssl_hasher OL) (kms_signer PL KL) payload unprotected kk = (Panic msg, k')) \<longleftrightarrow>
      (\<exists>d. digest_submitted L (openssl_hasher OL) (kms_sig_alg kk) (suggested_message_digest (kms_sig_alg kk)) payload = Some d
         \<and> (\<exists>m k'. kms_sign PL KL d kk = (Panic m, k')))"
    unfolding kms by (auto simp: kms_signer_def)
  then show ?kms unfolding kms_sign_Panic .
qed

text \<open>
  C31: the length of a signature is not checked: zero bytes inserted between the two
  factors do not change the outcome of verification under an OpenSSL key or by the KMS service, so a
  document that was signed has other signatures, of any greater length, that verify as well.
\<close>

theorem padded_signatures_accepted:
  assumes bn: "openssl_bn PL"
    and key: "ec_key PL pk = Inr key" "curve_name PL key = Some (curve_of alg)"
    and len: "length r = key_length alg" and "kms_sig_alg kk = alg" and "kms_public_key kk = None"
  shows "pkeyref_verify PL pk d (r @ replicate n 0 @ s) = pkeyref_verify PL pk d (r @ s)
    \<and> verify_signature L H (pkey_public PL pk) (doc\<lparr>sign1_signature := r @ replicate n 0 @ s\<rparr>) w =
        verify_signature L H (pkey_public PL pk) (doc\<lparr>sign1_signature := r @ s\<rparr>) w
    \<and> kms_verify PL KL d (r @ replicate n 0 @ s) kk = kms_verify PL KL d (r @ s) kk"
proof (intro conjI)
  have same: "pkeyref_verify PL pk d (r @ replicate n 0 @ s) = pkeyref_verify PL pk d (r @ s)" for d
    by (rule openssl_bn.pkeyref_verify_padded [OF bn key len])
  show "pkeyref_verify PL pk d (r @ replicate n 0 @ s) = pkeyref_verify PL pk d (r @ s)" by (rule same)
  show "verify_signature L H (pkey_public PL pk) (doc\<lparr>sign1_signature := r @ replicate n 0 @ s\<rparr>) w =
      verify_signature L H (pkey_public PL pk) (doc\<lparr>sign1_signature := r @ s\<rparr>) w"
    by (rule verify_signature_cong) (simp add: pkey_public_def same)
  show "kms_verify PL KL d (r @ replicate n 0 @ s) kk = kms_verify PL KL d (r @ s) kk"
    using openssl_bn.kms_verify_padded [OF bn assms(6), of r] len assms(5) by simp
qed

theorem padded_signatures_accepted_witness:
  "fst (verify_signature reference_lib demo_hasher (demo_verifier ES256)
     (demo_sign1\<lparr>sign1_signature := (replicate 31 0 @ [4]) @ replicate 3 0 @ (replicate 31 0 @ [3])\<rparr>) 0) = Ok True"
proof -
  have "length (replicate 31 0 @ [4 :: byte]) = key_length ES256" by simp
  from padded_signatures_accepted [OF demo_bn.openssl_bn_axioms _ _ this, of "Demo_Key (demo_pub_ec ES256)" "demo_pub_ec ES256"
      demo_kms_handle demo_digest 3 "replicate 31 0 @ [3]" reference_lib demo_hasher demo_sign1 0]
  have "verify_signature reference_lib demo_hasher (demo_verifier ES256)
      (demo_sign1\<lparr>sign1_signature := (replicate 31 0 @ [4]) @ replicate 3 0 @ (replicate 31 0 @ [3])\<rparr>) 0
    = verify_signature reference_lib demo_hasher (demo_verifier ES256)
      (demo_sign1\<lparr>sign1_signature := (replicate 31 0 @ [4]) @ (replicate 31 0 @ [3])\<rparr>) 0"
    by (simp add: demo_pkey_def demo_pub_ec_def demo_kms_handle_def)
  also have "demo_sign1\<lparr>sign1_signature := (replicate 31 0 @ [4]) @ (replicate 31 0 @ [3])\<rparr> = demo_sign1"
    by (simp add: demo_sign1_def)
  also have "fst (verify_signature reference_lib demo_hasher (demo_verifier ES256) demo_sign1 0) = Ok True"
    using sign1_suite.new_verifies [OF sign1_suite.intro [OF reference_laws demo_pair] _ _ demo_sign1_new, of 0] by auto
  finally show ?thesis .
qed

end
