(* ===== verification/Ideal_Log.thy ===== *)
theory Ideal_Log
  imports Main
begin

text \<open>
  The abstract specification that sessions of both kinds of document refine: a log in which entries
  are made, and which gives out only what has been entered before.  A history is a list of events,
  the latest first; what an event enters and what it gives out are functions of the event.
\<close>

datatype 's log_event = Enter 's | Give_Out 's

fun log_accepts :: "'s log_event list \<Rightarrow> bool" where
  "log_accepts [] = True"
| "log_accepts (Enter s # es) = log_accepts es"
| "log_accepts (Give_Out s # es) = (Enter s \<in> set es \<and> log_accepts es)"

fun event_log :: "('e \<Rightarrow> 's option) \<Rightarrow> ('e \<Rightarrow> 's option) \<Rightarrow> 'e list \<Rightarrow> 's log_event list" where
  "event_log enter give [] = []"
| "event_log enter give (e # h) =
     (case enter e of Some s \<Rightarrow> [Enter s] | None \<Rightarrow> [])
     @ (case give e of Some s \<Rightarrow> [Give_Out s] | None \<Rightarrow> [])
     @ event_log enter give h"

text \<open>What has been entered.\<close>

definition entered :: "('e \<Rightarrow> 's option) \<Rightarrow> 'e list \<Rightarrow> 's set" where
  "entered enter h = {s. \<exists>e \<in> set h. enter e = Some s}"

lemma entered_Nil [simp]: "entered enter [] = {}"
  by (simp add: entered_def)

lemma entered_Cons: "s \<in> entered enter (e # h) \<longleftrightarrow> enter e = Some s \<or> s \<in> entered enter h"
  by (auto simp: entered_def)

lemma Enter_event_log: "Enter s \<in> set (event_log enter give h) \<longleftrightarrow> s \<in> entered enter h"
  by (induction enter give h rule: event_log.induct) (auto simp: entered_Cons split: option.splits)

text \<open>An event that gives something out enters nothing, so that it cannot vouch for itself.\<close>

lemma event_log_accepts_Cons:
  assumes "\<And>s t. enter e = Some s \<Longrightarrow> give e \<noteq> Some t"
  shows "log_accepts (event_log enter give (e # h)) \<longleftrightarrow>
    (\<forall>s. give e = Some s \<longrightarrow> s \<in> entered enter h) \<and> log_accepts (event_log enter give h)"
  using assms by (cases "enter e"; cases "give e") (auto simp: Enter_event_log)

end
