(* ===== verification/Session.thy ===== *)
theory Session
  imports Sign Ideal_Log
begin

text \<open>
  A session: the methods of \<open>CoseSign1\<close> (\<open>src/src/sign.rs\<close>) called one after the other, in any
  order, on any arguments, by anyone, over one shared world of keys.  A call and its reply make an
  event; a history is the list of the events, the latest first.  The keys are a family: the world
  may be a random source, a TPM, or the clients of a remote service, and every call may change it.
\<close>

section \<open>Calls and histories\<close>

datatype 'i call =
    New 'i bytes header_map
  | New_With_Protected 'i bytes header_map header_map
  | Verify_Signature 'i cose_sign1
  | Get_Protected_And_Payload "'i option" cose_sign1
  | Get_Payload "'i option" cose_sign1

datatype reply =
    Document "cose_sign1 cose_result"
  | Verdict "bool cose_result"
  | Header_And_Payload "(header_map \<times> bytes) cose_result"
  | Payload "bytes cose_result"

fun perform :: "cbor_lib \<Rightarrow> hash \<Rightarrow> ('i \<Rightarrow> ('w, 'm) signing_private_key_scheme)
    \<Rightarrow> ('i \<Rightarrow> ('w, 'n) signing_public_key_scheme) \<Rightarrow> 'i call \<Rightarrow> 'w \<Rightarrow> reply \<times> 'w" where
  "perform L H K P (New i payload unprotected) w =
     map_prod Document id (cose_sign1_new L H (K i) payload unprotected w)"
| "perform L H K P (New_With_Protected i payload protected unprotected) w =
     map_prod Document id (new_with_protected L H (K i) payload protected unprotected w)"
| "perform L H K P (Verify_Signature i doc) w =
     map_prod Verdict id (verify_signature L H (P i) doc w)"
| "perform L H K P (Get_Protected_And_Payload i doc) w =
     map_prod Header_And_Payload id (get_protected_and_payload L H (map_option P i) doc w)"
| "perform L H K P (Get_Payload i doc) w =
     map_prod Payload id (get_payload L H (map_option P i) doc w)"

type_synonym 'i history = "('i call \<times> reply) list"

text \<open>
  The histories that a world can go through, and the world after them.  Errors and panics are
  replies like any other: the session goes on from the state they leave.
\<close>

inductive session :: "cbor_lib \<Rightarrow> hash \<Rightarrow> ('i \<Rightarrow> ('w, 'm) signing_private_key_scheme)
    \<Rightarrow> ('i \<Rightarrow> ('w, 'n) signing_public_key_scheme) \<Rightarrow> 'w \<Rightarrow> 'i history \<Rightarrow> 'w \<Rightarrow> bool"
  for L H K P w0 where
  start: "session L H K P w0 [] w0"
| call: "session L H K P w0 h w \<Longrightarrow> perform L H K P c w = (r, w') \<Longrightarrow> session L H K P w0 ((c, r) # h) w'"

inductive_cases session_ConsE: "session L H K P w0 (e # h) w"

inductive_simps session_Nil [simp]: "session L H K P w0 [] w"
inductive_simps session_Cons: "session L H K P w0 ((c, r) # h) w"

lemma session_event:
  assumes "session L H K P w0 (later @ (c, r) # earlier) w"
  obtains w1 w2 where "session L H K P w0 earlier w1" and "perform L H K P c w1 = (r, w2)"
  using assms
proof (induction later arbitrary: w)
  case Nil
  then show ?case by (auto elim: session_ConsE)
next
  case (Cons e later)
  then show ?case by (auto elim: session_ConsE)
qed

section \<open>What a history submitted\<close>

text \<open>
  The protected bytes and the payload that a call hands to a key for signing.
\<close>

fun submission :: "cbor_lib \<Rightarrow> ('i \<Rightarrow> signature_algorithm) \<Rightarrow> 'i call \<Rightarrow> ('i \<times> bytes \<times> bytes) option" where
  "submission L alg (New i payload _) =
     (case map_to_empty_or_serialized L (header_from_sig_alg L (alg i)) of
        Inr pb \<Rightarrow> Some (i, pb, payload) | Inl _ \<Rightarrow> None)"
| "submission L alg (New_With_Protected i payload protected _) =
     (case map_to_empty_or_serialized L protected of Inr pb \<Rightarrow> Some (i, pb, payload) | Inl _ \<Rightarrow> None)"
| "submission L alg _ = None"

definition submissions :: "cbor_lib \<Rightarrow> ('i \<Rightarrow> signature_algorithm) \<Rightarrow> 'i history \<Rightarrow> ('i \<times> bytes \<times> bytes) set" where
  "submissions L alg h = {s. \<exists>e \<in> set h. submission L alg (fst e) = Some s}"

lemma submissions_Nil [simp]: "submissions L alg [] = {}"
  by (simp add: submissions_def)

lemma submissions_Cons:
  "s \<in> submissions L alg ((c, r) # h) \<longleftrightarrow> submission L alg c = Some s \<or> s \<in> submissions L alg h"
  by (auto simp: submissions_def)

text \<open>What a reply gives out as authentic, and under which key.\<close>

fun release :: "'i call \<Rightarrow> reply \<Rightarrow> ('i \<times> bytes \<times> bytes) option" where
  "release (Get_Payload (Some i) doc) (Payload (Ok payload)) = Some (i, sign1_protected doc, payload)"
| "release (Get_Protected_And_Payload (Some i) doc) (Header_And_Payload (Ok (_, payload))) =
     Some (i, sign1_protected doc, payload)"
| "release (Verify_Signature i doc) (Verdict (Ok True)) = Some (i, sign1_protected doc, sign1_payload doc)"
| "release _ _ = None"

section \<open>The ideal log\<close>

text \<open>
  The abstract specification of the signing side: a log (theory \<open>Ideal_Log\<close>) in which keys enter
  what they are asked to sign, and which gives out, under a key, only what that key has entered
  before.
\<close>

definition log_events :: "cbor_lib \<Rightarrow> ('i \<Rightarrow> signature_algorithm) \<Rightarrow> 'i history
    \<Rightarrow> ('i \<times> bytes \<times> bytes) log_event list" where
  "log_events L alg = event_log (\<lambda>(c, r). submission L alg c) (\<lambda>(c, r). release c r)"

lemma log_events_simps [simp]:
  "log_events L alg [] = []"
  "log_events L alg ((c, r) # h) =
     (case submission L alg c of Some s \<Rightarrow> [Enter s] | None \<Rightarrow> [])
     @ (case release c r of Some s \<Rightarrow> [Give_Out s] | None \<Rightarrow> [])
     @ log_events L alg h"
  by (simp_all add: log_events_def)

lemma submission_not_released: "submission L alg c = Some s \<Longrightarrow> release c r = None"
  by (cases c) auto

lemma entered_submissions: "entered (\<lambda>(c, r). submission L alg c) h = submissions L alg h"
  by (auto simp: entered_def submissions_def case_prod_unfold)

lemma log_accepts_Cons:
  "log_accepts (log_events L alg ((c, r) # h)) \<longleftrightarrow>
   (\<forall>s. release c r = Some s \<longrightarrow> s \<in> submissions L alg h) \<and> log_accepts (log_events L alg h)"
  unfolding log_events_def
  by (subst event_log_accepts_Cons) (auto simp: submission_not_released entered_submissions)

section \<open>Forgeries and collisions\<close>

text \<open>
  The two ways in which the cryptography below can fail a session at a call that checks a document:
  the key accepts the document's signature for a digest that it was not asked to sign before
  (\<open>forged\<close>), or the hash gives the document the digest of something else that was submitted
  (\<open>collides\<close>).
\<close>

fun checked :: "'i call \<Rightarrow> ('i \<times> cose_sign1) option" where
  "checked (Verify_Signature i doc) = Some (i, doc)"
| "checked (Get_Protected_And_Payload (Some i) doc) = Some (i, doc)"
| "checked (Get_Payload (Some i) doc) = Some (i, doc)"
| "checked _ = None"

definition asked_digests :: "cbor_lib \<Rightarrow> hash \<Rightarrow> ('i \<Rightarrow> signature_algorithm) \<Rightarrow> ('i \<Rightarrow> message_digest)
    \<Rightarrow> 'i \<Rightarrow> 'i history \<Rightarrow> bytes set" where
  "asked_digests L H alg dig i h =
     {d. \<exists>pb pl. (i, pb, pl) \<in> submissions L alg h \<and> signing_digest L H (dig i) pb pl = Some d}"

definition document_digest :: "cbor_lib \<Rightarrow> hash \<Rightarrow> message_digest \<Rightarrow> cose_sign1 \<Rightarrow> bytes option" where
  "document_digest L H dig doc = signing_digest L H dig (sign1_protected doc) (sign1_payload doc)"

definition forged :: "cbor_lib \<Rightarrow> hash \<Rightarrow> ('i \<Rightarrow> ('w, 'n) signing_public_key_scheme)
    \<Rightarrow> ('i \<Rightarrow> signature_algorithm) \<Rightarrow> ('i \<Rightarrow> message_digest) \<Rightarrow> 'i \<Rightarrow> cose_sign1 \<Rightarrow> 'i history \<Rightarrow> bool" where
  "forged L H P alg dig i doc h \<longleftrightarrow>
     (\<exists>d w w'. document_digest L H (dig i) doc = Some d
        \<and> verify (P i) d (sign1_signature doc) w = (Ok True, w')
        \<and> d \<notin> asked_digests L H alg dig i h)"

definition collides :: "cbor_lib \<Rightarrow> hash \<Rightarrow> ('i \<Rightarrow> signature_algorithm) \<Rightarrow> ('i \<Rightarrow> message_digest)
    \<Rightarrow> 'i \<Rightarrow> cose_sign1 \<Rightarrow> 'i history \<Rightarrow> bool" where
  "collides L H alg dig i doc h \<longleftrightarrow>
     (\<exists>pb pl x y d. (i, pb, pl) \<in> submissions L alg h
        \<and> to_vec L (signed_item pb pl) = Inr x
        \<and> to_vec L (signed_item (sign1_protected doc) (sign1_payload doc)) = Inr y
        \<and> x \<noteq> y \<and> hash_of H (dig i) x = Ok d \<and> hash_of H (dig i) y = Ok d)"

fun secure :: "cbor_lib \<Rightarrow> hash \<Rightarrow> ('i \<Rightarrow> ('w, 'n) signing_public_key_scheme)
    \<Rightarrow> ('i \<Rightarrow> signature_algorithm) \<Rightarrow> ('i \<Rightarrow> message_digest) \<Rightarrow> 'i history \<Rightarrow> bool" where
  "secure L H P alg dig [] = True"
| "secure L H P alg dig ((c, r) # h) =
     (secure L H P alg dig h
      \<and> (case checked c of None \<Rightarrow> True
         | Some (i, doc) \<Rightarrow> \<not> forged L H P alg dig i doc h \<and> \<not> collides L H alg dig i doc h))"

text \<open>Every byte string of a call fits in memory.\<close>

definition call_fits :: "cbor_lib \<Rightarrow> ('i \<Rightarrow> signature_algorithm) \<Rightarrow> 'i call \<Rightarrow> bool" where
  "call_fits L alg c \<longleftrightarrow>
     (case submission L alg c of None \<Rightarrow> True | Some (_, pb, pl) \<Rightarrow> fits_memory pb \<and> fits_memory pl)
     \<and> (case checked c of None \<Rightarrow> True
        | Some (_, doc) \<Rightarrow> fits_memory (sign1_protected doc) \<and> fits_memory (sign1_payload doc))"

definition history_fits :: "cbor_lib \<Rightarrow> ('i \<Rightarrow> signature_algorithm) \<Rightarrow> 'i history \<Rightarrow> bool" where
  "history_fits L alg h \<longleftrightarrow> list_all (\<lambda>(c, _). call_fits L alg c) h"

lemma history_fits_Nil [simp]: "history_fits L alg []"
  by (simp add: history_fits_def)

lemma history_fits_Cons [simp]:
  "history_fits L alg ((c, r) # h) \<longleftrightarrow> call_fits L alg c \<and> history_fits L alg h"
  by (simp add: history_fits_def)

lemma history_fits_append [simp]:
  "history_fits L alg (h @ h') \<longleftrightarrow> history_fits L alg h \<and> history_fits L alg h'"
  by (simp add: history_fits_def)

lemma submissions_fit:
  "history_fits L alg h \<Longrightarrow> (i, pb, pl) \<in> submissions L alg h \<Longrightarrow> fits_memory pb \<and> fits_memory pl"
  by (force simp: history_fits_def submissions_def list_all_iff call_fits_def split: option.splits)

lemma release_checked:
  assumes "release c r = Some (i, pb, pl)"
  obtains doc where "checked c = Some (i, doc)" and "pb = sign1_protected doc"
  using assms by (induction c r rule: release.induct) auto

text \<open>
  A call asks its key for nothing else: two keys that agree on the digest of what the call submits
  give it the same reply and leave the same state.
\<close>

lemma new_with_protected_asks:
  assumes "get_parameters K k = (Ok (a, dg), k1)" and "get_parameters K' k = (Ok (a, dg), k1)"
    and "\<And>pb d. map_to_empty_or_serialized L protected = Inr pb \<Longrightarrow> signing_digest L H dg pb payload = Some d \<Longrightarrow>
           sign K d k1 = sign K' d k1"
  shows "new_with_protected L H K payload protected unprotected k
    = new_with_protected L H K' payload protected unprotected k"
proof (cases "map_to_empty_or_serialized L protected")
  case (Inr pb)
  show ?thesis
  proof (cases "to_vec L (signed_item pb payload)")
    case (Inr tbs)
    then show ?thesis
      using assms \<open>map_to_empty_or_serialized L protected = Inr pb\<close>
      by (cases "hash_of H dg tbs") (simp_all add: new_with_protected_def sig_new_sign1_def signing_digest_Some)
  qed (use assms(1,2) Inr in \<open>simp add: new_with_protected_def sig_new_sign1_def\<close>)
qed (use assms(1,2) in \<open>simp add: new_with_protected_def\<close>)

section \<open>A ring of keys\<close>

text \<open>
  A family of key pairs over one world: the operations of every key keep the world valid for all
  of them.
\<close>

locale key_ring =
  fixes K :: "'i \<Rightarrow> ('w, 'm) signing_private_key_scheme"
    and P :: "'i \<Rightarrow> ('w, 'n) signing_public_key_scheme"
    and valid :: "'w \<Rightarrow> bool"
    and alg :: "'i \<Rightarrow> signature_algorithm"
    and dig :: "'i \<Rightarrow> message_digest"
  assumes pair: "key_pair (K i) (P i) valid valid (alg i) (dig i)"
begin

lemma parameters_keep:
  "valid w \<Longrightarrow> \<exists>w'. get_parameters (K i) w = (Ok (alg i, dig i), w') \<and> valid w'"
  "valid w \<Longrightarrow> \<exists>w'. get_parameters (P i) w = (Ok (alg i, dig i), w') \<and> valid w'"
  by (rule key_pair.priv_parameters [OF pair] key_pair.pub_parameters [OF pair], assumption)+

lemma parameters_snd:
  "valid w \<Longrightarrow> valid (snd (get_parameters (K i) w))" "valid w \<Longrightarrow> valid (snd (get_parameters (P i) w))"
  using parameters_keep [of w i] by auto

lemmas keeps = after_snd_invariant [where I = valid]

lemma new_with_protected_keeps:
  "valid w \<Longrightarrow> valid (snd (new_with_protected L H (K i) payload protected unprotected w))"
proof -
  assume "valid w"
  then obtain w1 where w1: "get_parameters (K i) w = (Ok (alg i, dig i), w1)" "valid w1"
    using parameters_keep by blast
  then show ?thesis
    unfolding new_with_protected_def w1(1) after.simps prod.case
    by (intro keeps key_pair.sign_keeps [OF pair]) simp_all
qed

lemma cose_sign1_new_keeps:
  "valid w \<Longrightarrow> valid (snd (cose_sign1_new L H (K i) payload unprotected w))"
  unfolding cose_sign1_new_def
  by (rule keeps) (auto simp: parameters_snd Let_def new_with_protected_keeps)

lemma verify_signature_keeps: "valid w \<Longrightarrow> valid (snd (verify_signature L H (P i) doc w))"
proof -
  assume "valid w"
  then obtain w1 where w1: "get_parameters (P i) w = (Ok (alg i, dig i), w1)" "valid w1"
    using parameters_keep by blast
  show ?thesis
  proof (cases "header_from_bytes L (sign1_protected doc)")
    case (Inl e)
    with w1 show ?thesis by (simp add: verify_signature_def)
  next
    case (Inr m)
    have "valid (snd (after (try_map SerializationError (to_vec L (signed_item (sign1_protected doc) (sign1_payload doc))), w1)
        (\<lambda>tbs w. after (map_err (\<lambda>e. SignatureError (Dyn_Cose e)) (hash_of H (dig i) tbs), w)
           (\<lambda>d w. verify (P i) d (sign1_signature doc) w))))"
      using w1 by (intro keeps key_pair.verify_keeps [OF pair]) simp_all
    with w1(2) show ?thesis
      unfolding verify_signature_step [OF w1(1) Inr]
      by (auto split: option.split cbor_value.split)
  qed
qed

lemma checked_keeps:
  "valid w \<Longrightarrow> valid (snd (case key of None \<Rightarrow> (Ok True, w) | Some i \<Rightarrow> verify_signature L H (P i) doc w))"
  by (cases key) (auto simp: verify_signature_keeps)

lemma get_payload_keeps:
  "valid w \<Longrightarrow> valid (snd (get_payload L H (map_option P i) doc w))"
  unfolding get_payload_def by (cases i) (auto intro!: keeps simp: verify_signature_keeps)

lemma get_protected_and_payload_keeps:
  "valid w \<Longrightarrow> valid (snd (get_protected_and_payload L H (map_option P i) doc w))"
  unfolding get_protected_and_payload_def
  by (cases i) (auto intro!: keeps simp: verify_signature_keeps)

lemma perform_keeps: "valid w \<Longrightarrow> valid (snd (perform L H K P c w))"
  by (cases c) (simp_all add: cose_sign1_new_keeps new_with_protected_keeps verify_signature_keeps
      get_payload_keeps get_protected_and_payload_keeps)

lemma session_valid: "session L H K P w0 h w \<Longrightarrow> valid w0 \<Longrightarrow> valid w"
proof (induction rule: session.induct)
  case (call h w c r w')
  then show ?case using perform_keeps [of w L H c] by simp
qed

end

section \<open>What a session promises\<close>

lemma released_check:
  assumes "perform L H K P c w = (r, w')" and "release c r = Some (i, pb, pl)"
  obtains doc w1 w2 where "checked c = Some (i, doc)" and "pb = sign1_protected doc" and "pl = sign1_payload doc"
    and "verify_signature L H (P i) doc w1 = (Ok True, w2)" and "w1 = w"
proof (cases c)
  case (Verify_Signature j doc)
  obtain v w2 where v: "verify_signature L H (P j) doc w = (v, w2)" by fastforce
  have r: "r = Verdict v" using assms(1) Verify_Signature v by simp
  have "v = Ok True \<and> j = i \<and> pb = sign1_protected doc \<and> pl = sign1_payload doc"
  proof (cases v)
    case (Ok b)
    with assms(2) Verify_Signature r show ?thesis by (cases b) auto
  qed (use assms(2) Verify_Signature r in auto)
  with v Verify_Signature show thesis by (auto intro!: that [of doc w w2])
next
  case (Get_Protected_And_Payload k doc)
  then obtain j where k: "k = Some j" using assms by (cases k) (auto split: reply.splits)
  obtain v w2 where v: "get_protected_and_payload L H (Some (P j)) doc w = (v, w2)" by fastforce
  with assms Get_Protected_And_Payload k obtain m where "v = Ok (m, pl)" "j = i" "pb = sign1_protected doc"
    by (cases v) auto
  with v Get_Protected_And_Payload k show thesis
    by (auto intro!: that [of doc w w2] simp: get_protected_and_payload_Some_Ok)
next
  case (Get_Payload k doc)
  then obtain j where k: "k = Some j" using assms by (cases k) (auto split: reply.splits)
  obtain v w2 where v: "get_payload L H (Some (P j)) doc w = (v, w2)" by fastforce
  with assms Get_Payload k have "v = Ok pl" "j = i" "pb = sign1_protected doc"
    by (cases v; auto)+
  with v Get_Payload k show thesis
    by (auto intro!: that [of doc w w2] simp: get_payload_Some_Ok)
qed (use assms in auto)

locale session_suite = serde_cbor L + key_ring K P valid alg dig
  for L :: cbor_lib
    and K :: "'i \<Rightarrow> ('w, 'm) signing_private_key_scheme"
    and P :: "'i \<Rightarrow> ('w, 'n) signing_public_key_scheme"
    and valid :: "'w \<Rightarrow> bool"
    and alg :: "'i \<Rightarrow> signature_algorithm"
    and dig :: "'i \<Rightarrow> message_digest"
begin

text \<open>
  The reduction: what a key gives out was entered under that key before, or the key accepted a
  signature it had not been asked for, or the hash collided.
\<close>

lemma release_reduction:
  assumes "valid w" and "perform L H K P c w = (r, w')" and "release c r = Some (i, pb, pl)"
    and "call_fits L alg c" and "history_fits L alg h"
  shows "\<exists>doc. checked c = Some (i, doc) \<and> sign1_protected doc = pb \<and> sign1_payload doc = pl
    \<and> ((i, pb, pl) \<in> submissions L alg h \<or> forged L H P alg dig i doc h \<or> collides L H alg dig i doc h)"
proof (rule released_check [OF assms(2,3)])
  fix doc w1 w2
  assume doc: "checked c = Some (i, doc)" "pb = sign1_protected doc" "pl = sign1_payload doc"
    and run: "verify_signature L H (P i) doc w1 = (Ok True, w2)" and "w1 = w"
  obtain tbs d p1 where tbs: "to_vec L (signed_item pb pl) = Inr tbs" "hash_of H (dig i) tbs = Ok d"
    and accepted: "verify (P i) d (sign1_signature doc) p1 = (Ok True, w2)"
    using run parameters_keep(2) [OF assms(1), of i] doc \<open>w1 = w\<close> unfolding verify_signature_Ok_True by auto
  have digest: "document_digest L H (dig i) doc = Some d"
    using tbs doc by (auto simp: document_digest_def signing_digest_Some)
  have fits: "fits_memory pb" "fits_memory pl"
    using assms(4) doc by (auto simp: call_fits_def)
  have "(i, pb, pl) \<in> submissions L alg h \<or> collides L H alg dig i doc h" if "\<not> forged L H P alg dig i doc h"
  proof -
    have "d \<in> asked_digests L H alg dig i h"
      using that digest accepted unfolding forged_def by blast
    then obtain pb' pl' tbs' where asked: "(i, pb', pl') \<in> submissions L alg h"
      "to_vec L (signed_item pb' pl') = Inr tbs'" "hash_of H (dig i) tbs' = Ok d"
      by (auto simp: asked_digests_def signing_digest_Some)
    show ?thesis
    proof (cases "tbs' = tbs")
      case True
      have fits': "fits_memory pb'" "fits_memory pl'"
        using submissions_fit [OF assms(5) asked(1)] by auto
      have "signed_item pb pl = signed_item pb' pl'"
        using to_vec_inj [OF tbs(1) _ wf_signed_item [of pb pl _ 0] wf_signed_item [of pb' pl' _ 0]]
          asked(2) True fits fits' depth_limit
        by (simp add: fits_memory_def)
      with asked(1) show ?thesis by simp
    next
      case False
      with asked tbs doc show ?thesis unfolding collides_def by blast
    qed
  qed
  with doc show ?thesis by blast
qed

text \<open>A session in which the cryptography holds is a session of the ideal log.\<close>

lemma session_refines:
  assumes "session L H K P w0 h w" and "valid w0" and "history_fits L alg h"
    and "secure L H P alg dig h"
  shows "log_accepts (log_events L alg h)"
  using assms
proof (induction rule: session.induct)
  case (call h w c r w')
  have "s \<in> submissions L alg h" if "release c r = Some s" for s
  proof -
    obtain i pb pl where s: "s = (i, pb, pl)" by (rule prod_cases3)
    have "valid w" using session_valid [OF call.hyps(1)] call.prems(1) .
    from release_reduction [OF this call.hyps(2) that [unfolded s], of h] call.prems s
    show ?thesis by auto
  qed
  moreover have "log_accepts (log_events L alg h)" using call by simp
  ultimately show ?case unfolding log_accepts_Cons by blast
qed simp

text \<open>Nothing that happens in a session makes a signed document unreadable.\<close>

lemma new_stays_verifiable:
  assumes "session L H K P w0 h w" and "valid w0" and "(New i payload unprotected, Document (Ok doc)) \<in> set h"
    and "valid w2"
  shows "\<exists>w3. verify_signature L H (P i) doc w2 = (Ok True, w3)
    \<and> header_from_bytes L (sign1_protected doc) = Inr (header_from_sig_alg L (alg i))
    \<and> sign1_payload doc = payload \<and> sign1_unprotected doc = unprotected"
  using assms
proof (induction rule: session.induct)
  case (call h w c r w')
  show ?case
  proof (cases "(New i payload unprotected, Document (Ok doc)) = (c, r)")
    case True
    then have new: "cose_sign1_new L H (K i) payload unprotected w = (Ok doc, w')"
      using call.hyps(2) by (auto simp: map_prod_def split: prod.splits)
    have "valid w" using session_valid [OF call.hyps(1)] call.prems(1) .
    then show ?thesis
      using sign1_suite.new_verifies [OF sign1_suite.intro [OF serde_cbor_axioms pair] _ call.prems(3) new]
        sign1_suite.new_shape [OF sign1_suite.intro [OF serde_cbor_axioms pair] _ new]
      by blast
  qed (use call in auto)
qed simp

end

end
