(* ===== verification/Session_Properties.thy ===== *)
theory Session_Properties
  imports Session Scenarios
begin

text \<open>
  The properties of \<open>COSE_Sign1\<close> over whole sessions, in which the methods are called in any order, on
  documents from anywhere, with their runs at a concrete history.
\<close>

section \<open>The keys of the model in a session\<close>

text \<open>
  OpenSSL keys of every algorithm over one random source, a KMS key and a TPM key make rings of keys.
\<close>

lemma openssl_keys_ring:
  assumes "\<And>i. openssl_ec PL (priv i) (pub i) (priv_ec i) (pub_ec i) (alg i)"
  shows "key_ring (\<lambda>i. pkey_private PL (priv i)) (\<lambda>i. pkey_public PL (pub i)) (\<lambda>_. True) alg
    (\<lambda>i. suggested_message_digest (alg i))"
  by (rule key_ring.intro) (rule openssl_ec.pkey_pair [OF assms])

interpretation demo_session: session_suite reference_lib demo_signer demo_verifier "\<lambda>_. True" "\<lambda>a. a"
    suggested_message_digest
  by unfold_locales

interpretation kms_session: session_suite reference_lib "\<lambda>_::unit. kms_signer demo_pkey demo_kms"
    "\<lambda>_. kms_signer demo_pkey demo_kms" "kms_usable client_tokio demo_key_id ES256 (Demo_Key (demo_pub_ec ES256))"
    "\<lambda>_. ES256" "\<lambda>_. Sha256"
  by unfold_locales

interpretation tpm_session: session_suite reference_lib "\<lambda>_::unit. tpm_signer demo_tss"
    "\<lambda>_. tpm_signer demo_tss" "tpm_usable (\<lambda>_. True) 1 0x0B ES256 Sha256" "\<lambda>_. ES256" "\<lambda>_. Sha256"
  by unfold_locales

lemmas demo_ring = demo_session.key_ring_axioms

text \<open>A history: a document is created, and then its payload is read.\<close>

definition demo_creation :: "signature_algorithm history" where
  "demo_creation = [(New ES256 [1, 2, 3] kid_header, Document (Ok demo_sign1))]"

definition demo_history :: "signature_algorithm history" where
  "demo_history = (Get_Payload (Some ES256) demo_sign1, Payload (Ok [1, 2, 3])) # demo_creation"

lemma demo_creation_session: "session reference_lib demo_hasher demo_signer demo_verifier 5 demo_creation 6"
  by (simp add: demo_creation_def session_Cons demo_sign1_new)

lemma demo_digest_accepted: "verify (demo_verifier ES256) demo_digest (sign1_signature demo_sign1) w = (Ok True, w)"
proof -
  have "pkeyref_verify demo_pkey (Demo_Key (demo_pub_ec ES256)) demo_digest (sign1_signature demo_sign1) = Ok True"
    by code_simp
  then show ?thesis by (simp add: pkey_public_def)
qed

lemma demo_payload_read:
  "perform reference_lib demo_hasher demo_signer demo_verifier (Get_Payload (Some ES256) demo_sign1) w =
     (Payload (Ok [1, 2, 3]), w)"
proof -
  have "verify_signature reference_lib demo_hasher (demo_verifier ES256) demo_sign1 w = (Ok True, w)"
    unfolding verify_signature_step [OF demo_verifier_parameters demo_sign1_header]
    using demo_digest_accepted [of w]
    by (simp add: demo_sign1_def demo_tbs_bytes demo_digest_hash)
  then show ?thesis by (simp add: get_payload_def demo_sign1_def)
qed

lemma demo_history_session: "session reference_lib demo_hasher demo_signer demo_verifier 5 demo_history 6"
  unfolding demo_history_def by (rule session.call [OF demo_creation_session demo_payload_read])

lemma demo_submission:
  "submission reference_lib (\<lambda>a. a) (New ES256 [1, 2, 3] kid_header) = Some (ES256, [0xA1, 0x01, 0x26], [1, 2, 3])"
  by (simp add: serde_cbor.header_from_sig_alg_eq [OF reference_laws] map_to_empty_or_serialized_def
      i8_into_def ES256_header_bytes)

lemma demo_creation_submissions:
  "submissions reference_lib (\<lambda>a. a) demo_creation = {(ES256, [0xA1, 0x01, 0x26], [1, 2, 3])}"
  unfolding demo_creation_def submissions_def by (simp add: demo_submission del: submission.simps)

lemma demo_history_fits: "history_fits reference_lib (\<lambda>a. a) demo_history"
  unfolding demo_history_def demo_creation_def
  by (simp add: call_fits_def demo_submission fits_memory_def demo_sign1_def del: submission.simps(1))

lemma demo_document_digest: "document_digest reference_lib demo_hasher Sha256 demo_sign1 = Some demo_digest"
  by (simp add: document_digest_def signing_digest_Some demo_sign1_def demo_tbs_bytes demo_digest_hash)

lemma demo_history_secure: "secure reference_lib demo_hasher demo_verifier (\<lambda>a. a) suggested_message_digest demo_history"
proof -
  have "demo_digest \<in> asked_digests reference_lib demo_hasher (\<lambda>a. a) suggested_message_digest ES256 demo_creation"
    by (simp add: asked_digests_def demo_creation_submissions signing_digest_Some demo_tbs_bytes demo_digest_hash)
  then have "\<not> forged reference_lib demo_hasher demo_verifier (\<lambda>a. a) suggested_message_digest ES256 demo_sign1 demo_creation"
    by (simp add: forged_def demo_document_digest)
  moreover have "\<not> collides reference_lib demo_hasher (\<lambda>a. a) suggested_message_digest ES256 demo_sign1 demo_creation"
    by (auto simp: collides_def demo_creation_submissions demo_sign1_def)
  ultimately show ?thesis by (simp add: demo_history_def demo_creation_def)
qed

section \<open>Authenticity\<close>

text \<open>
  C2: a session refines the ideal log.  Map every call that creates a document to entering its
  protected header and payload under its key, and every successful verification and every payload
  that is given out to giving out a protected header and payload under that key: then in every session from a
  valid world, as long as no key accepts a signature for a digest it was not asked to sign and no two
  signed structures share a digest, everything given out was entered under the same key before.
\<close>

theorem session_refines_log:
  assumes "serde_cbor L" and "key_ring K P valid alg dig" and "valid w0"
    and "session L H K P w0 h w" and "history_fits L alg h" and "secure L H P alg dig h"
  shows "log_accepts (log_events L alg h)"
  by (rule session_suite.session_refines [OF session_suite.intro [OF assms(1,2)] assms(4,3,5,6)])

theorem session_refines_log_witness:
  "log_accepts (log_events reference_lib (\<lambda>a. a) demo_history)
   \<and> log_events reference_lib (\<lambda>a. a) demo_history =
       [Give_Out (ES256, [0xA1, 0x01, 0x26], [1, 2, 3]), Enter (ES256, [0xA1, 0x01, 0x26], [1, 2, 3])]"
proof
  show "log_accepts (log_events reference_lib (\<lambda>a. a) demo_history)"
    by (rule session_refines_log [OF reference_laws demo_ring _ demo_history_session demo_history_fits demo_history_secure]) simp
  show "log_events reference_lib (\<lambda>a. a) demo_history =
      [Give_Out (ES256, [0xA1, 0x01, 0x26], [1, 2, 3]), Enter (ES256, [0xA1, 0x01, 0x26], [1, 2, 3])]"
    unfolding demo_history_def demo_creation_def
    by (simp add: demo_submission demo_sign1_def del: submission.simps(1))
qed

text \<open>
  C5: with no assumption on the cryptography: whenever \<open>get_payload\<close> gives a payload out
  under a key, at any point of any session, then that key was asked before, in the same session, to
  sign this payload under these protected bytes, or the key has just accepted a signature for a digest it
  was never asked to sign, or the hash gives two different signed structures the same digest.
\<close>

theorem forged_payload_breaks_crypto:
  assumes "serde_cbor L" and "key_ring K P valid alg dig" and "valid w0"
    and "session L H K P w0 (later @ (Get_Payload (Some i) doc, Payload (Ok payload)) # earlier) w"
    and "history_fits L alg (later @ (Get_Payload (Some i) doc, Payload (Ok payload)) # earlier)"
  shows "(i, sign1_protected doc, payload) \<in> submissions L alg earlier
    \<or> forged L H P alg dig i doc earlier \<or> collides L H alg dig i doc earlier"
proof -
  note suite = session_suite.intro [OF assms(1,2)]
  obtain w1 w2 where run: "session L H K P w0 earlier w1"
    "perform L H K P (Get_Payload (Some i) doc) w1 = (Payload (Ok payload), w2)"
    by (rule session_event [OF assms(4)])
  have "valid w1" using key_ring.session_valid [OF assms(2) run(1)] assms(3) .
  from session_suite.release_reduction [OF suite this run(2), of i "sign1_protected doc" payload earlier] assms(5)
  show ?thesis by auto
qed

theorem forged_payload_breaks_crypto_witness:
  "session reference_lib demo_hasher demo_signer demo_verifier 5 demo_history 6
   \<and> (ES256, sign1_protected demo_sign1, [1, 2, 3]) \<in> submissions reference_lib (\<lambda>a. a) demo_creation
   \<and> \<not> forged reference_lib demo_hasher demo_verifier (\<lambda>a. a) suggested_message_digest ES256 demo_sign1 demo_creation
   \<and> \<not> collides reference_lib demo_hasher (\<lambda>a. a) suggested_message_digest ES256 demo_sign1 demo_creation"
proof -
  have secure: "\<not> forged reference_lib demo_hasher demo_verifier (\<lambda>a. a) suggested_message_digest ES256 demo_sign1 demo_creation"
    "\<not> collides reference_lib demo_hasher (\<lambda>a. a) suggested_message_digest ES256 demo_sign1 demo_creation"
    using demo_history_secure by (simp_all add: demo_history_def)
  have run: "session reference_lib demo_hasher demo_signer demo_verifier 5
      ([] @ (Get_Payload (Some ES256) demo_sign1, Payload (Ok [1, 2, 3])) # demo_creation) 6"
    using demo_history_session by (simp add: demo_history_def)
  have fits: "history_fits reference_lib (\<lambda>a. a)
      ([] @ (Get_Payload (Some ES256) demo_sign1, Payload (Ok [1, 2, 3])) # demo_creation)"
    using demo_history_fits by (simp add: demo_history_def)
  from forged_payload_breaks_crypto [OF reference_laws demo_ring _ run fits] secure demo_history_session
  show ?thesis by simp
qed

section \<open>Availability\<close>

text \<open>
  C11: whatever happens in a session, a document that was created in it with \<open>new\<close>
  can be read at every later point: \<open>get_payload\<close> under its key extends the session and
  replies with the payload, the protected header names the key's algorithm, and the
  world stays valid, so that this holds again afterwards.
\<close>

theorem signed_documents_stay_readable:
  assumes "serde_cbor L" and "key_ring K P valid alg dig" and "valid w0"
    and "session L H K P w0 h w" and "(New i payload unprotected, Document (Ok doc)) \<in> set h"
  shows "\<exists>w'. session L H K P w0 ((Get_Payload (Some i) doc, Payload (Ok payload)) # h) w' \<and> valid w'
    \<and> header_from_bytes L (sign1_protected doc) = Inr (HeaderMap [(VInteger 1, VInteger (sint (sig_alg_i8 (alg i))))])
    \<and> get_unprotected doc = unprotected"
proof -
  note suite = session_suite.intro [OF assms(1,2)]
  have "valid w" using key_ring.session_valid [OF assms(2,4)] assms(3) .
  then obtain w' where w': "verify_signature L H (P i) doc w = (Ok True, w')"
    "header_from_bytes L (sign1_protected doc) = Inr (header_from_sig_alg L (alg i))"
    "sign1_payload doc = payload" "sign1_unprotected doc = unprotected"
    using session_suite.new_stays_verifiable [OF suite assms(4,3,5)] by blast
  have "perform L H K P (Get_Payload (Some i) doc) w = (Payload (Ok payload), w')"
    using w'(1,3) by (simp add: get_payload_def)
  with assms(4) have "session L H K P w0 ((Get_Payload (Some i) doc, Payload (Ok payload)) # h) w'"
    by (rule session.call)
  moreover have "valid w'"
    using key_ring.session_valid [OF assms(2) calculation assms(3)] .
  ultimately show ?thesis
    using w'(2,4) by (auto simp: serde_cbor.header_from_sig_alg_eq [OF assms(1)] i8_into_def get_unprotected_def)
qed

theorem signed_documents_stay_readable_witness:
  "\<exists>w'. session reference_lib demo_hasher demo_signer demo_verifier 5
      ((Get_Payload (Some ES256) demo_sign1, Payload (Ok [1, 2, 3])) # demo_history) w'
    \<and> header_from_bytes reference_lib (sign1_protected demo_sign1) = Inr (HeaderMap [(VInteger 1, VInteger (- 7))])
    \<and> get_unprotected demo_sign1 = kid_header"
proof -
  have "(New ES256 [1, 2, 3] kid_header, Document (Ok demo_sign1)) \<in> set demo_history"
    by (simp add: demo_history_def demo_creation_def)
  from signed_documents_stay_readable [OF reference_laws demo_ring _ demo_history_session this]
  show ?thesis by auto
qed

end
