(* ===== verification/Wire.thy ===== *)
theory Wire
  imports Sign Encrypt Cbor_Reference
begin

text \<open>
  The bytes of the documents.  \<open>serde_cbor\<close> writes every item that holds no floating-point number in
  the one way of RFC 7049 that has definite lengths and shortest heads, which is \<open>encode\<close> of the
  reference codec; under this further law of the library the layout of RFC 8152 is exact.
\<close>

section \<open>The law\<close>

fun float_free :: "cbor_value \<Rightarrow> bool" where
  "float_free (VFloat w) \<longleftrightarrow> False"
| "float_free (VArray xs) \<longleftrightarrow> list_all float_free xs"
| "float_free (VMap es) \<longleftrightarrow> list_all (\<lambda>(k, v). float_free k \<and> float_free v) es"
| "float_free (VTag t v) \<longleftrightarrow> float_free v"
| "float_free v \<longleftrightarrow> True"

locale cbor_wire = serde_cbor +
  assumes shortest_form: "wf_value L n v \<Longrightarrow> n \<le> depth_limit L \<Longrightarrow> float_free v \<Longrightarrow> to_vec L v = Inr (encode v)"

interpretation reference_wire: cbor_wire reference_lib
  by unfold_locales (use reference_write_read in simp)

section \<open>The layout of RFC 8152\<close>

text \<open>\<open>bstr\<close>, the two signed or authenticated structures, and the two documents.\<close>

definition bstr :: "bytes \<Rightarrow> bytes" where
  "bstr b = head 2 (length b) @ b"

definition rfc8152_sig_structure :: "bytes \<Rightarrow> bytes \<Rightarrow> bytes" where
  "rfc8152_sig_structure protected payload =
     [0x84, 0x6A] @ bytes_of_string ''Signature1'' @ bstr protected @ [0x40] @ bstr payload"

definition rfc8152_enc_structure :: "bytes \<Rightarrow> bytes" where
  "rfc8152_enc_structure protected = [0x83, 0x68] @ bytes_of_string ''Encrypt0'' @ bstr protected @ [0x40]"

definition rfc8152_sign1 :: "bool \<Rightarrow> cose_sign1 \<Rightarrow> bytes" where
  "rfc8152_sign1 tagged doc =
     (if tagged then [0xD2] else []) @ [0x84] @ bstr (sign1_protected doc)
     @ encode (header_item (sign1_unprotected doc)) @ bstr (sign1_payload doc) @ bstr (sign1_signature doc)"

definition rfc8152_encrypt0 :: "bool \<Rightarrow> cose_encrypt0 \<Rightarrow> bytes" where
  "rfc8152_encrypt0 tagged doc =
     (if tagged then [0xD0] else []) @ [0x83] @ bstr (enc0_protected doc)
     @ encode (header_item (enc0_unprotected doc)) @ bstr (enc0_ciphertext doc)"

lemma encode_layouts:
  "encode (signed_item protected payload) = rfc8152_sig_structure protected payload"
  "encode (aead_item protected) = rfc8152_enc_structure protected"
  "encode (cose_sign1_item doc) = rfc8152_sign1 False doc"
  "encode (VTag 18 (cose_sign1_item doc)) = rfc8152_sign1 True doc"
  "encode (cose_encrypt0_item enc) = rfc8152_encrypt0 False enc"
  "encode (VTag 16 (cose_encrypt0_item enc)) = rfc8152_encrypt0 True enc"
  by (simp_all add: signed_item_def aead_item_def cose_sign1_item_def cose_encrypt0_item_def
      rfc8152_sig_structure_def rfc8152_enc_structure_def rfc8152_sign1_def rfc8152_encrypt0_def bstr_def
      head_def initial_byte_def)

lemma float_free_items:
  "float_free (signed_item protected payload)" "float_free (aead_item protected)"
  "float_free (cose_sign1_item doc) \<longleftrightarrow> float_free (header_item (sign1_unprotected doc))"
  "float_free (cose_encrypt0_item enc) \<longleftrightarrow> float_free (header_item (enc0_unprotected enc))"
  by (simp_all add: signed_item_def aead_item_def cose_sign1_item_def cose_encrypt0_item_def)

context cbor_wire
begin

lemma sig_structure_bytes:
  assumes "length protected < 2 ^ 63" and "length payload < 2 ^ 63"
  shows "to_vec L (signed_item protected payload) = Inr (rfc8152_sig_structure protected payload)"
  using shortest_form [OF wf_signed_item [OF assms, of _ 0]] depth_limit
  by (simp add: float_free_items encode_layouts)

lemma enc_structure_bytes:
  assumes "length protected < 2 ^ 63"
  shows "to_vec L (aead_item protected) = Inr (rfc8152_enc_structure protected)"
  using shortest_form [OF wf_aead_item [OF assms, of _ 0]] depth_limit
  by (simp add: float_free_items encode_layouts)

lemma sign1_bytes:
  assumes "sign1_storable L doc" and "float_free (header_item (sign1_unprotected doc))"
  shows "sign1_as_bytes L doc tagged = Ok (rfc8152_sign1 tagged doc)"
proof -
  let ?tag = "if tagged then Some 18 else None"
  have "to_vec L (tagged_item ?tag (cose_sign1_item doc)) = Inr (encode (tagged_item ?tag (cose_sign1_item doc)))"
    using shortest_form [OF wf_tagged_item [OF wf_cose_sign1_item [OF assms(1)], of ?tag]] assms(2)
    by (cases tagged) (simp_all add: float_free_items)
  then show ?thesis
    by (cases tagged) (simp_all add: sign1_as_bytes_def encode_layouts del: encode.simps)
qed

lemma encrypt0_bytes:
  assumes "encrypt0_storable L doc" and "float_free (header_item (enc0_unprotected doc))"
  shows "encrypt0_as_bytes L doc tagged = Ok (rfc8152_encrypt0 tagged doc)"
proof -
  let ?tag = "if tagged then Some 16 else None"
  have "to_vec L (tagged_item ?tag (cose_encrypt0_item doc)) = Inr (encode (tagged_item ?tag (cose_encrypt0_item doc)))"
    using shortest_form [OF wf_tagged_item [OF wf_cose_encrypt0_item [OF assms(1)], of ?tag]] assms(2)
    by (cases tagged) (simp_all add: float_free_items)
  then show ?thesis
    by (cases tagged) (simp_all add: encrypt0_as_bytes_def encode_layouts del: encode.simps)
qed

end

end
