(* ===== verification/Repository_Tests.thy ===== *)
theory Repository_Tests
  imports Wire Openssl Kms Tpm Session
begin

text \<open>
  The tests of the repository that sign, verify, encrypt and decrypt (the modules \<open>tests\<close> of
  \<open>src/src/sign.rs\<close> and \<open>src/src/encrypt.rs\<close>), as programs over any library and any keys: the keys
  a test generates, the TPM context and the KMS client it connects to, and the library behind
  \<open>Openssl\<close> are arguments.  A test is its outcome, \<open>Ok ()\<close> when it passes and a panic when an
  \<open>unwrap\<close> or an assertion fails.  The lemmas say for which arguments the tests pass.
\<close>

section \<open>What a test is made of\<close>

text \<open>\<open>r.unwrap()\<close>, \<open>r.unwrap_err()\<close> and \<open>xs[i]\<close>.\<close>

fun unwrap :: "'a cose_result \<Rightarrow> 'a cose_result" where
  "unwrap (Ok a) = Ok a"
| "unwrap (Err e) = Panic ''called Result::unwrap() on an Err value''"
| "unwrap (Panic p) = Panic p"

fun unwrap_err :: "'a cose_result \<Rightarrow> cose_error cose_result" where
  "unwrap_err (Ok a) = Panic ''called Result::unwrap_err() on an Ok value''"
| "unwrap_err (Err e) = Ok e"
| "unwrap_err (Panic p) = Panic p"

fun index :: "'a list \<Rightarrow> nat \<Rightarrow> 'a cose_result" where
  "index [] i = Panic ''index out of bounds''"
| "index (x # xs) 0 = Ok x"
| "index (x # xs) (Suc i) = index xs i"

definition assert_eq :: "'a \<Rightarrow> 'a \<Rightarrow> unit cose_result" where
  "assert_eq a b = rust_assert (a = b) ''left == right''"

definition assert_ne :: "'a \<Rightarrow> 'a \<Rightarrow> unit cose_result" where
  "assert_ne a b = rust_assert (a \<noteq> b) ''left != right''"

definition is_err :: "'a cose_result \<Rightarrow> bool cose_result" where
  "is_err r = (case r of Ok _ \<Rightarrow> Ok False | Err _ \<Rightarrow> Ok True | Panic p \<Rightarrow> Panic p)"

definition TEXT :: bytes where
  "TEXT = bytes_of_string
     ''It is a truth universally acknowledged, that a single man in possession of a good fortune, must be in want of a wife.''"

text \<open>The unprotected header \<open>{4: '11'}\<close>, built as the tests build it.\<close>

definition text_header :: "cbor_lib \<Rightarrow> header_map" where
  "text_header L = snd (header_insert L header_new (VInteger 4) (VBytes [0x31, 0x31]))"

section \<open>Signing with a generated key\<close>

definition cose_sign1_ec256_text :: "cbor_lib \<Rightarrow> hash \<Rightarrow> ('k, 'm) signing_private_key_scheme
    \<Rightarrow> ('p, 'n) signing_public_key_scheme \<Rightarrow> 'k \<Rightarrow> 'p \<Rightarrow> unit cose_result" where
  "cose_sign1_ec256_text L H ec_private ec_public k p =
     (case cose_sign1_new L H ec_private TEXT (text_header L) k of (r, k) \<Rightarrow>
     obind (unwrap r) (\<lambda>cose_doc1.
     obind (unwrap (sign1_as_bytes L cose_doc1 False)) (\<lambda>bytes.
     obind (unwrap (sign1_from_bytes L bytes)) (\<lambda>cose_doc2.
     case get_payload L H (None :: ('p, 'n) signing_public_key_scheme option) cose_doc1 p of (payload1, p) \<Rightarrow>
     obind (unwrap payload1) (\<lambda>payload1.
     case get_payload L H (Some ec_public) cose_doc2 p of (payload2, p) \<Rightarrow>
     obind (unwrap payload2) (\<lambda>payload2.
     obind (assert_eq payload1 payload2) (\<lambda>_.
     obind (rust_assert (\<not> header_is_empty (get_unprotected cose_doc2)) ''!cose_doc2.get_unprotected().is_empty()'') (\<lambda>_.
     assert_eq (header_get L (get_unprotected cose_doc2) (VInteger 4)) (Some (VBytes [0x31, 0x31]))))))))))"

definition cose_sign1_ec256_text_tagged :: "cbor_lib \<Rightarrow> hash \<Rightarrow> ('k, 'm) signing_private_key_scheme
    \<Rightarrow> ('p, 'n) signing_public_key_scheme \<Rightarrow> 'k \<Rightarrow> 'p \<Rightarrow> unit cose_result" where
  "cose_sign1_ec256_text_tagged L H ec_private ec_public k p =
     (case cose_sign1_new L H ec_private TEXT (text_header L) k of (r, k) \<Rightarrow>
     obind (unwrap r) (\<lambda>cose_doc1.
     obind (unwrap (sign1_as_bytes L cose_doc1 True)) (\<lambda>tagged_bytes.
     obind (index tagged_bytes 0) (\<lambda>b0.
     obind (assert_eq b0 (or (push_bit 5 6) 18)) (\<lambda>_.
     obind (index tagged_bytes 1) (\<lambda>b1.
     obind (assert_eq b1 (or (push_bit 5 4) 4)) (\<lambda>_.
     obind (unwrap (sign1_from_bytes L tagged_bytes)) (\<lambda>cose_doc2.
     case get_payload L H (None :: ('p, 'n) signing_public_key_scheme option) cose_doc1 p of (payload1, p) \<Rightarrow>
     obind (unwrap payload1) (\<lambda>payload1.
     case get_payload L H (Some ec_public) cose_doc2 p of (payload2, p) \<Rightarrow>
     obind (unwrap payload2) (\<lambda>payload2.
     assert_eq payload1 payload2))))))))))"

text \<open>This one reads the tagged bytes with \<open>serde_cbor::from_slice\<close> into a \<open>CoseSign1\<close>.\<close>

definition cose_sign1_ec256_text_tagged_serde :: "cbor_lib \<Rightarrow> hash \<Rightarrow> ('k, 'm) signing_private_key_scheme
    \<Rightarrow> ('p, 'n) signing_public_key_scheme \<Rightarrow> 'k \<Rightarrow> 'p \<Rightarrow> unit cose_result" where
  "cose_sign1_ec256_text_tagged_serde L H ec_private ec_public k p =
     (case cose_sign1_new L H ec_private TEXT (text_header L) k of (r, k) \<Rightarrow>
     obind (unwrap r) (\<lambda>cose_doc1.
     obind (unwrap (sign1_as_bytes L cose_doc1 True)) (\<lambda>tagged_bytes.
     obind (index tagged_bytes 0) (\<lambda>b0.
     obind (assert_eq b0 (or (push_bit 5 6) 18)) (\<lambda>_.
     obind (unwrap (try_map SerializationError (sbind (parse L tagged_bytes) (cose_sign1_deserialize L)))) (\<lambda>cose_doc2.
     case get_payload L H (None :: ('p, 'n) signing_public_key_scheme option) cose_doc1 p of (payload1, p) \<Rightarrow>
     obind (unwrap payload1) (\<lambda>payload1.
     case get_payload L H (Some ec_public) cose_doc2 p of (payload2, p) \<Rightarrow>
     obind (unwrap payload2) (\<lambda>payload2.
     assert_eq payload1 payload2))))))))"

definition cose_sign1_ec256_text_with_extra_protected :: "cbor_lib \<Rightarrow> hash \<Rightarrow> ('k, 'm) signing_private_key_scheme
    \<Rightarrow> ('p, 'n) signing_public_key_scheme \<Rightarrow> 'k \<Rightarrow> 'p \<Rightarrow> unit cose_result" where
  "cose_sign1_ec256_text_with_extra_protected L H ec_private ec_public k p =
     (let protected = snd (header_insert L header_new (VInteger 1) (i8_into (sig_alg_i8 ES256)));
          protected = snd (header_insert L protected (VInteger 15) (VBytes [0x31, 0x32]));
          unprotected = snd (header_insert L header_new (VInteger 4) (VBytes [0x31, 0x31])) in
     case new_with_protected L H ec_private TEXT protected unprotected k of (r, k) \<Rightarrow>
     obind (unwrap r) (\<lambda>cose_doc1.
     obind (unwrap (sign1_as_bytes L cose_doc1 False)) (\<lambda>bytes.
     obind (unwrap (sign1_from_bytes L bytes)) (\<lambda>cose_doc2.
     case get_protected_and_payload L H (Some ec_public) cose_doc2 p of (r, p) \<Rightarrow>
     obind (unwrap r) (\<lambda>(protected, payload).
     obind (assert_eq (header_get L protected (VInteger 1)) (Some (VInteger (- 7)))) (\<lambda>_.
     obind (assert_eq (header_get L protected (VInteger 15)) (Some (VBytes [0x31, 0x32]))) (\<lambda>_.
     assert_eq payload TEXT)))))))"

definition cose_sign1_ec384_text :: "cbor_lib \<Rightarrow> hash \<Rightarrow> ('k, 'm) signing_private_key_scheme
    \<Rightarrow> ('p, 'n) signing_public_key_scheme \<Rightarrow> 'k \<Rightarrow> 'p \<Rightarrow> unit cose_result" where
  "cose_sign1_ec384_text L H ec_private ec_public k p =
     (case cose_sign1_new L H ec_private TEXT (text_header L) k of (r, k) \<Rightarrow>
     obind (unwrap r) (\<lambda>cose_doc1.
     obind (unwrap (sign1_as_bytes L cose_doc1 False)) (\<lambda>bytes.
     obind (unwrap (sign1_from_bytes L bytes)) (\<lambda>cose_doc2.
     case get_payload L H (None :: ('p, 'n) signing_public_key_scheme option) cose_doc1 p of (payload1, p) \<Rightarrow>
     obind (unwrap payload1) (\<lambda>payload1.
     case get_payload L H (Some ec_public) cose_doc2 p of (payload2, p) \<Rightarrow>
     obind (unwrap payload2) (\<lambda>payload2.
     assert_eq payload1 payload2))))))"

definition cose_sign1_ec512_text :: "cbor_lib \<Rightarrow> hash \<Rightarrow> ('k, 'm) signing_private_key_scheme
    \<Rightarrow> ('p, 'n) signing_public_key_scheme \<Rightarrow> 'k \<Rightarrow> 'p \<Rightarrow> unit cose_result" where
  "cose_sign1_ec512_text L H ec_private ec_public k p =
     (case cose_sign1_new L H ec_private TEXT (text_header L) k of (r, k) \<Rightarrow>
     obind (unwrap r) (\<lambda>cose_doc1.
     obind (unwrap (sign1_as_bytes L cose_doc1 False)) (\<lambda>bytes.
     obind (unwrap (sign1_from_bytes L bytes)) (\<lambda>cose_doc2.
     case get_payload L H (Some ec_public) cose_doc1 p of (payload, p) \<Rightarrow>
     obind (unwrap payload) (\<lambda>payload.
     obind (assert_eq payload TEXT) (\<lambda>_.
     case get_payload L H (None :: ('p, 'n) signing_public_key_scheme option) cose_doc1 p of (payload1, p) \<Rightarrow>
     obind (unwrap payload1) (\<lambda>payload1.
     case get_payload L H (Some ec_public) cose_doc2 p of (payload2, p) \<Rightarrow>
     obind (unwrap payload2) (\<lambda>payload2.
     assert_eq payload1 payload2))))))))"

definition unknown_curve :: "cbor_lib \<Rightarrow> hash \<Rightarrow> ('k, 'm) signing_private_key_scheme \<Rightarrow> 'k \<Rightarrow> unit cose_result" where
  "unknown_curve L H ec_private k =
     (case cose_sign1_new L H ec_private TEXT header_new k of (result, k) \<Rightarrow>
     obind (is_err result) (\<lambda>e. rust_assert e ''result.is_err()''))"

definition validate_with_wrong_key :: "cbor_lib \<Rightarrow> hash \<Rightarrow> ('k, 'm) signing_private_key_scheme
    \<Rightarrow> ('p, 'n) signing_public_key_scheme \<Rightarrow> ('q, 'o) signing_public_key_scheme \<Rightarrow> 'k \<Rightarrow> 'p \<Rightarrow> 'q \<Rightarrow> unit cose_result" where
  "validate_with_wrong_key L H ec_private ec_public ec_public_other k p q =
     (case cose_sign1_new L H ec_private TEXT (text_header L) k of (r, k) \<Rightarrow>
     obind (unwrap r) (\<lambda>cose_doc1.
     case verify_signature L H ec_public cose_doc1 p of (v, p) \<Rightarrow>
     obind (unwrap v) (\<lambda>v.
     obind (rust_assert v ''verify_signature(&ec_public)'') (\<lambda>_.
     case verify_signature L H ec_public_other cose_doc1 q of (v, q) \<Rightarrow>
     obind (unwrap v) (\<lambda>v.
     rust_assert (\<not> v) ''!verify_signature(&ec_public_other)'')))))"

definition validate_with_wrong_key_type :: "cbor_lib \<Rightarrow> hash \<Rightarrow> ('k, 'm) signing_private_key_scheme
    \<Rightarrow> ('p, 'n) signing_public_key_scheme \<Rightarrow> ('q, 'o) signing_public_key_scheme \<Rightarrow> 'k \<Rightarrow> 'p \<Rightarrow> 'q \<Rightarrow> unit cose_result" where
  "validate_with_wrong_key_type L H ec_private ec_public ec_public_other k p q =
     (case cose_sign1_new L H ec_private TEXT (text_header L) k of (r, k) \<Rightarrow>
     obind (unwrap r) (\<lambda>cose_doc1.
     case verify_signature L H ec_public cose_doc1 p of (v, p) \<Rightarrow>
     obind (unwrap v) (\<lambda>v.
     obind (rust_assert v ''verify_signature(&ec_public)'') (\<lambda>_.
     case verify_signature L H ec_public_other cose_doc1 q of (v, q) \<Rightarrow>
     obind (unwrap v) (\<lambda>v.
     rust_assert (\<not> v) ''!verify_signature(&ec_public_other)'')))))"

section \<open>Signing with a device\<close>

text \<open>\<open>r.expect(msg)\<close>, \<open>xs[i] = v\<close>, and the end of the tests with a mangled signature.\<close>

fun expect :: "string \<Rightarrow> 'a cose_result \<Rightarrow> 'a cose_result" where
  "expect msg (Ok a) = Ok a"
| "expect msg (Err e) = Panic msg"
| "expect msg (Panic p) = Panic p"

definition index_set :: "'a list \<Rightarrow> nat \<Rightarrow> 'a \<Rightarrow> 'a list cose_result" where
  "index_set xs i v = (if i < length xs then Ok (xs[i := v]) else Panic ''index out of bounds'')"

fun must_be_unverified :: "'a cose_result \<Rightarrow> unit cose_result" where
  "must_be_unverified (Ok _) = Panic ''Did not fail''"
| "must_be_unverified (Err UnverifiedSignature) = Ok ()"
| "must_be_unverified (Err e) = Panic ''Unexpected error''"
| "must_be_unverified (Panic p) = Panic p"

text \<open>The TPM tests, from the context with its session and the primary key that they have created.\<close>

definition cose_sign_tpm :: "cbor_lib \<Rightarrow> hash \<Rightarrow> ('ctx, 'h, 'ha, 'sc, 'tk, 'pub) tss_lib \<Rightarrow> 'ctx \<Rightarrow> 'h \<Rightarrow> unit cose_result" where
  "cose_sign_tpm L H TL context prim_key =
     obind (expect ''Error creating TpmKey'' (fst (tpm_new TL prim_key context))) (\<lambda>tpm_key.
     case cose_sign1_new L H (tpm_signer TL) TEXT (text_header L) tpm_key of (r, tpm_key) \<Rightarrow>
     obind (unwrap r) (\<lambda>cose_doc1.
     obind (unwrap (sign1_as_bytes L cose_doc1 True)) (\<lambda>tagged_bytes.
     obind (index tagged_bytes 0) (\<lambda>b0.
     obind (assert_eq b0 (or (push_bit 5 6) 18)) (\<lambda>_.
     obind (unwrap (sign1_from_bytes L tagged_bytes)) (\<lambda>cose_doc2.
     case get_payload L H (None :: (('ctx, 'h, 'ha) tpm_key) signing_private_key option) cose_doc1 tpm_key of (payload1, tpm_key) \<Rightarrow>
     obind (unwrap payload1) (\<lambda>payload1.
     case get_payload L H (Some (tpm_signer TL)) cose_doc2 tpm_key of (payload2, tpm_key) \<Rightarrow>
     obind (unwrap payload2) (\<lambda>payload2.
     assert_eq payload1 payload2))))))))"

definition cose_sign_tpm_invalid_signature :: "cbor_lib \<Rightarrow> hash \<Rightarrow> ('ctx, 'h, 'ha, 'sc, 'tk, 'pub) tss_lib \<Rightarrow> 'ctx \<Rightarrow> 'h \<Rightarrow> unit cose_result" where
  "cose_sign_tpm_invalid_signature L H TL context prim_key =
     obind (expect ''Error creating TpmKey'' (fst (tpm_new TL prim_key context))) (\<lambda>tpm_key.
     case cose_sign1_new L H (tpm_signer TL) TEXT (text_header L) tpm_key of (r, tpm_key) \<Rightarrow>
     obind (unwrap r) (\<lambda>cose_doc1.
     obind (index_set (sign1_signature cose_doc1) 0 0) (\<lambda>mangled.
     let cose_doc1 = cose_doc1\<lparr>sign1_signature := mangled\<rparr> in
     obind (unwrap (sign1_as_bytes L cose_doc1 True)) (\<lambda>tagged_bytes.
     obind (unwrap (sign1_from_bytes L tagged_bytes)) (\<lambda>cose_doc2.
     must_be_unverified (fst (get_payload L H (Some (tpm_signer TL)) cose_doc2 tpm_key)))))))"

text \<open>The KMS tests, inside the blocking task, with the key's identifier and algorithm from the environment.\<close>

definition cose_sign_kms :: "cbor_lib \<Rightarrow> hash \<Rightarrow> ('pk, 'ec, 'w) pkey_lib \<Rightarrow> 'c kms_lib \<Rightarrow> 'c \<Rightarrow> string \<Rightarrow> string \<Rightarrow> unit cose_result" where
  "cose_sign_kms L H PL KL client key_id sig_alg =
     obind (expect ''Invalid TEST_KEY_SIG_ALG'' (sig_alg_from_str sig_alg)) (\<lambda>sig_alg.
     obind (expect ''Error building kms_key'' (kms_new client key_id sig_alg)) (\<lambda>kms_key.
     case cose_sign1_new L H (kms_signer PL KL) TEXT (text_header L) kms_key of (r, kms_key) \<Rightarrow>
     obind (unwrap r) (\<lambda>cose_doc1.
     obind (unwrap (sign1_as_bytes L cose_doc1 True)) (\<lambda>tagged_bytes.
     obind (index tagged_bytes 0) (\<lambda>b0.
     obind (assert_eq b0 (or (push_bit 5 6) 18)) (\<lambda>_.
     obind (unwrap (sign1_from_bytes L tagged_bytes)) (\<lambda>cose_doc2.
     case get_payload L H (None :: (('c, 'pk) kms_key) signing_private_key option) cose_doc1 kms_key of (payload1, kms_key) \<Rightarrow>
     obind (unwrap payload1) (\<lambda>payload1.
     case get_payload L H (Some (kms_signer PL KL)) cose_doc2 kms_key of (payload2, kms_key) \<Rightarrow>
     obind (unwrap payload2) (\<lambda>payload2.
     assert_eq payload1 payload2)))))))))"

definition cose_sign_kms_invalid_signature :: "cbor_lib \<Rightarrow> hash \<Rightarrow> ('pk, 'ec, 'w) pkey_lib \<Rightarrow> 'c kms_lib \<Rightarrow> 'c \<Rightarrow> string \<Rightarrow> string \<Rightarrow> unit cose_result" where
  "cose_sign_kms_invalid_signature L H PL KL client key_id sig_alg =
     obind (expect ''Invalid TEST_KEY_SIG_ALG'' (sig_alg_from_str sig_alg)) (\<lambda>sig_alg.
     obind (expect ''Error building kms_key'' (kms_new client key_id sig_alg)) (\<lambda>kms_key.
     case cose_sign1_new L H (kms_signer PL KL) TEXT (text_header L) kms_key of (r, kms_key) \<Rightarrow>
     obind (unwrap r) (\<lambda>cose_doc1.
     obind (index (sign1_signature cose_doc1) 0) (\<lambda>b0.
     obind (index_set (sign1_signature cose_doc1) 0 (xor b0 0xFF)) (\<lambda>mangled.
     let cose_doc1 = cose_doc1\<lparr>sign1_signature := mangled\<rparr> in
     obind (unwrap (sign1_as_bytes L cose_doc1 True)) (\<lambda>tagged_bytes.
     obind (unwrap (sign1_from_bytes L tagged_bytes)) (\<lambda>cose_doc2.
     must_be_unverified (fst (get_payload L H (Some (kms_signer PL KL)) cose_doc2 kms_key)))))))))"

definition cose_sign_kms_public_key :: "cbor_lib \<Rightarrow> hash \<Rightarrow> ('pk, 'ec, 'w) pkey_lib \<Rightarrow> 'c kms_lib \<Rightarrow> 'c \<Rightarrow> string \<Rightarrow> unit cose_result" where
  "cose_sign_kms_public_key L H PL KL client key_id =
     obind (expect ''Error building kms_key'' (fst (kms_new_with_public_key PL KL key_id None client))) (\<lambda>kms_key.
     case cose_sign1_new L H (kms_signer PL KL) TEXT (text_header L) kms_key of (r, kms_key) \<Rightarrow>
     obind (unwrap r) (\<lambda>cose_doc1.
     obind (unwrap (sign1_as_bytes L cose_doc1 True)) (\<lambda>tagged_bytes.
     obind (index tagged_bytes 0) (\<lambda>b0.
     obind (assert_eq b0 (or (push_bit 5 6) 18)) (\<lambda>_.
     obind (unwrap (sign1_from_bytes L tagged_bytes)) (\<lambda>cose_doc2.
     case get_payload L H (None :: (('c, 'pk) kms_key) signing_private_key option) cose_doc1 kms_key of (payload1, kms_key) \<Rightarrow>
     obind (unwrap payload1) (\<lambda>payload1.
     case get_payload L H (Some (kms_signer PL KL)) cose_doc2 kms_key of (payload2, kms_key) \<Rightarrow>
     obind (unwrap payload2) (\<lambda>payload2.
     assert_eq payload1 payload2))))))))"

definition cose_sign_kms_public_key_invalid_signature :: "cbor_lib \<Rightarrow> hash \<Rightarrow> ('pk, 'ec, 'w) pkey_lib \<Rightarrow> 'c kms_lib \<Rightarrow> 'c \<Rightarrow> string \<Rightarrow> unit cose_result" where
  "cose_sign_kms_public_key_invalid_signature L H PL KL client key_id =
     obind (expect ''Error building kms_key'' (fst (kms_new_with_public_key PL KL key_id None client))) (\<lambda>kms_key.
     case cose_sign1_new L H (kms_signer PL KL) TEXT (text_header L) kms_key of (r, kms_key) \<Rightarrow>
     obind (unwrap r) (\<lambda>cose_doc1.
     obind (index (sign1_signature cose_doc1) 0) (\<lambda>b0.
     obind (index_set (sign1_signature cose_doc1) 0 (xor b0 0xFF)) (\<lambda>mangled.
     let cose_doc1 = cose_doc1\<lparr>sign1_signature := mangled\<rparr> in
     obind (unwrap (sign1_as_bytes L cose_doc1 True)) (\<lambda>tagged_bytes.
     obind (unwrap (sign1_from_bytes L tagged_bytes)) (\<lambda>cose_doc2.
     must_be_unverified (fst (get_payload L H (Some (kms_signer PL KL)) cose_doc2 kms_key))))))))"

section \<open>Encryption\<close>

definition test_key :: bytes where
  "test_key = [0x00, 0x01, 0x02, 0x03, 0x04, 0x05, 0x06, 0x07, 0x08, 0x09, 0x0A, 0x0B, 0x0C, 0x0D, 0x0E, 0x0F]"

definition test_plaintext :: bytes where
  "test_plaintext = [0x12, 0x34, 0x56, 0x78, 0x90, 0x12, 0x34, 0x56, 0x12, 0x34, 0x56, 0x78, 0x90, 0x12, 0x34, 0x56]"

definition test_encrypt_decrypt :: "bool \<Rightarrow> cbor_lib \<Rightarrow> ('w, 'r) entropy_scheme \<Rightarrow> 'e encryption_scheme
    \<Rightarrow> 'd decryption_scheme \<Rightarrow> 'w \<Rightarrow> unit cose_result" where
  "test_encrypt_decrypt overflow_checks L R E D w =
     obind (unwrap (fst (cose_encrypt0_new L R E test_plaintext Gcm test_key w))) (\<lambda>cencrypt0.
     obind (unwrap (decrypt overflow_checks L D cencrypt0 test_key)) (\<lambda>(_, _, dec).
     obind (assert_eq dec test_plaintext) (\<lambda>_.
     obind (unwrap (try_map SerializationError (to_vec L (VBytes (enc0_ciphertext cencrypt0))))) (\<lambda>written.
     obind (assert_ne test_plaintext written) (\<lambda>_.
     obind (unwrap (encrypt0_as_bytes L cencrypt0 True)) (\<lambda>bytes.
     obind (unwrap (encrypt0_from_bytes L bytes)) (\<lambda>fromb.
     obind (unwrap (decrypt overflow_checks L D fromb test_key)) (\<lambda>(_, _, dec).
     obind (assert_eq dec test_plaintext) (\<lambda>_.
     obind (unwrap (try_map SerializationError (to_vec L (VBytes (enc0_ciphertext fromb))))) (\<lambda>written.
     assert_ne test_plaintext written))))))))))"

definition test_encrypt_unsupported_alg :: "cbor_lib \<Rightarrow> ('w, 'r) entropy_scheme \<Rightarrow> 'e encryption_scheme \<Rightarrow> 'w \<Rightarrow> unit cose_result" where
  "test_encrypt_unsupported_alg L R E w =
     (let key = test_key @ [0x56, 0x56] in
     obind (unwrap_err (fst (cose_encrypt0_new L R E test_plaintext Gcm key w))) (\<lambda>e.
     case e of UnsupportedError _ \<Rightarrow> Ok () | _ \<Rightarrow> Panic ''explicit panic''))"

definition test_decrypt_invalid_alg_spec :: "bool \<Rightarrow> cbor_lib \<Rightarrow> ('w, 'r) entropy_scheme \<Rightarrow> 'e encryption_scheme
    \<Rightarrow> 'd decryption_scheme \<Rightarrow> 'w \<Rightarrow> unit cose_result" where
  "test_decrypt_invalid_alg_spec overflow_checks L R E D w =
     obind (unwrap (fst (cose_encrypt0_new L R E test_plaintext Gcm test_key w))) (\<lambda>cencrypt0.
     let protected = snd (header_insert L header_new (i8_into KTY) (VText ''invalid'')) in
     obind (unwrap (try_map SerializationError (map_to_empty_or_serialized L protected))) (\<lambda>protected_bytes.
     let cencrypt0 = cencrypt0\<lparr>enc0_protected := protected_bytes\<rparr> in
     obind (unwrap_err (decrypt overflow_checks L D cencrypt0 test_key)) (\<lambda>e.
     case e of SpecificationError _ \<Rightarrow> Ok () | _ \<Rightarrow> Panic ''explicit panic'')))"

definition test_decrypt_unsupported_openssl_cipher :: "bool \<Rightarrow> cbor_lib \<Rightarrow> ('w, 'r) entropy_scheme \<Rightarrow> 'e encryption_scheme
    \<Rightarrow> 'd decryption_scheme \<Rightarrow> 'w \<Rightarrow> unit cose_result" where
  "test_decrypt_unsupported_openssl_cipher overflow_checks L R E D w =
     obind (unwrap (fst (cose_encrypt0_new L R E test_plaintext Gcm test_key w))) (\<lambda>cencrypt0.
     let protected = snd (header_insert L header_new (i8_into KTY) (VInteger 42)) in
     obind (unwrap (try_map SerializationError (map_to_empty_or_serialized L protected))) (\<lambda>protected_bytes.
     let cencrypt0 = cencrypt0\<lparr>enc0_protected := protected_bytes\<rparr> in
     obind (unwrap_err (decrypt overflow_checks L D cencrypt0 test_key)) (\<lambda>e.
     case e of UnsupportedError _ \<Rightarrow> Ok () | _ \<Rightarrow> Panic ''explicit panic'')))"

definition test_decrypt_invalid_iv :: "bool \<Rightarrow> cbor_lib \<Rightarrow> ('w, 'r) entropy_scheme \<Rightarrow> 'e encryption_scheme
    \<Rightarrow> 'd decryption_scheme \<Rightarrow> 'w \<Rightarrow> unit cose_result" where
  "test_decrypt_invalid_iv overflow_checks L R E D w =
     obind (unwrap (fst (cose_encrypt0_new L R E test_plaintext Gcm test_key w))) (\<lambda>cencrypt0.
     let unprotected = snd (header_insert L header_new (i8_into IV) (VInteger 42));
         cencrypt0 = cencrypt0\<lparr>enc0_unprotected := unprotected\<rparr> in
     obind (unwrap_err (decrypt overflow_checks L D cencrypt0 test_key)) (\<lambda>e.
     case e of SpecificationError _ \<Rightarrow> Ok () | _ \<Rightarrow> Panic ''explicit panic''))"

section \<open>The signing tests pass\<close>

lemma assert_eq_refl [simp]: "assert_eq a a = Ok ()"
  by (simp add: assert_eq_def)

lemma length_TEXT [simp]: "length TEXT = 117"
  by (simp add: TEXT_def)

lemma text_header_eq: "text_header L = HeaderMap [(VInteger 4, VBytes [0x31, 0x31])]"
  by (simp add: text_header_def header_single)

lemma get_payload_None [simp]: "get_payload L H None doc p = (Ok (sign1_payload doc), p)"
  by (simp add: get_payload_def)

lemma rfc8152_sign1_tagged: "\<exists>rest. rfc8152_sign1 True doc = 0xD2 # 0x84 # rest"
  by (simp add: rfc8152_sign1_def)

context cbor_wire
begin

lemma text_header_storable: "header_storable L (text_header L)"
  unfolding text_header_eq by (rule header_single_storable [of 0]) simp_all

lemma text_header_get: "header_get L (text_header L) (VInteger 4) = Some (VBytes [0x31, 0x31])"
  by (simp add: text_header_eq)

lemma sig_alg_header_short:
  assumes "map_to_empty_or_serialized L (header_from_sig_alg L a) = Inr pb"
  shows "length pb < 2 ^ 63"
proof -
  have wf: "wf_value L (Suc (header_depth L)) (VMap [(VInteger 1, i8_into (sig_alg_i8 a))])"
    using header_from_sig_alg_storable [of a] by (simp add: header_from_sig_alg_eq header_storable_def)
  have "to_vec L (VMap [(VInteger 1, i8_into (sig_alg_i8 a))]) = Inr (encode (VMap [(VInteger 1, i8_into (sig_alg_i8 a))]))"
    by (rule shortest_form [OF wf header_depth_le]) (simp add: i8_into_def)
  then show ?thesis
    using assms by (cases a) (auto simp: header_from_sig_alg_eq map_to_empty_or_serialized_def i8_into_def head_def)
qed

text \<open>Read without \<open>Tagged\<close>, a document loses its tag in \<open>visit_newtype_struct\<close>.\<close>

lemma from_slice_skips_tag:
  assumes "tagged_from_slice L (cose_sign1_deserialize L) bs = Inr (tag, doc)"
  shows "sbind (parse L bs) (cose_sign1_deserialize L) = Inr doc"
proof -
  obtain item inner where item: "parse L bs = Inr item" "split_tag L item = (tag, inner)"
    "cose_sign1_deserialize L inner = Inr doc"
    using assms by (auto simp: tagged_from_slice_Inr)
  have "cose_sign1_deserialize L item = Inr doc"
  proof (cases "\<exists>t v. item = VTag t v")
    case True
    with item split_tag_tag show ?thesis by auto
  next
    case False
    with item split_tag_none [of item] show ?thesis by auto
  qed
  with item(1) show ?thesis by simp
qed

lemma tagged_starts:
  assumes "sign1_storable L doc" and "float_free (header_item (sign1_unprotected doc))"
    and "sign1_as_bytes L doc True = Ok bs"
  shows "index bs 0 = Ok 0xD2" and "index bs (Suc 0) = Ok 0x84"
  using assms(3) rfc8152_sign1_tagged [of doc] unfolding sign1_bytes [OF assms(1,2)] by auto

end

text \<open>The library and a key pair: what a signed text is to its verifier.\<close>

locale signing_tests = cbor_wire L + key_pair K P valid_priv valid_pub alg dig
  for L :: cbor_lib
    and K :: "('k, 'm) signing_private_key_scheme" and P :: "('p, 'n) signing_public_key_scheme"
    and valid_priv :: "'k \<Rightarrow> bool" and valid_pub :: "'p \<Rightarrow> bool"
    and alg :: signature_algorithm and dig :: message_digest
begin

sublocale suite: sign1_suite L K P valid_priv valid_pub alg dig
  by unfold_locales

lemma signed_text:
  assumes "valid_priv k" and "valid_pub p"
    and new: "cose_sign1_new L H K TEXT (text_header L) k = (Ok doc, k')" and "fits_memory (sign1_signature doc)"
  obtains bs p' where "sign1_as_bytes L doc tagged = Ok bs" and "sign1_from_bytes L bs = Ok doc"
    and "sbind (parse L bs) (cose_sign1_deserialize L) = Inr doc"
    and "tagged \<longrightarrow> index bs 0 = Ok 0xD2 \<and> index bs (Suc 0) = Ok 0x84"
    and "sign1_payload doc = TEXT" and "sign1_unprotected doc = text_header L"
    and "get_payload L H (Some P) doc p = (Ok TEXT, p')" and "valid_pub p'"
proof -
  note shape = suite.new_shape [OF assms(1) new]
  have stored: "sign1_storable L doc"
    using shape assms(4) text_header_storable new
    by (auto simp: sign1_storable_def fits_memory_def elim!: cose_sign1_new_Ok new_with_protected_Ok dest: sig_alg_header_short)
  obtain bs where bs: "sign1_as_bytes L doc tagged = Ok bs" "sign1_from_bytes L bs = Ok doc"
    "tagged_from_slice L (cose_sign1_deserialize L) bs = Inr (if tagged then Some 18 else None, doc)"
    using sign1_roundtrip [OF stored, of _ tagged] sign1_write_read [OF stored, of tagged] shape by fastforce
  obtain p' where "verify_signature L H P doc p = (Ok True, p')" "valid_pub p'"
    using suite.new_verifies [OF assms(1,2) new] by blast
  then have payload: "get_payload L H (Some P) doc p = (Ok TEXT, p')" "valid_pub p'"
    using shape by (simp_all add: get_payload_Some_Ok)
  have "float_free (header_item (sign1_unprotected doc))"
    using shape by (simp add: text_header_eq)
  then have "tagged \<longrightarrow> index bs 0 = Ok 0xD2 \<and> index bs (Suc 0) = Ok 0x84"
    using tagged_starts [OF stored, of bs] bs(1) by (cases tagged) simp_all
  moreover have "sbind (parse L bs) (cose_sign1_deserialize L) = Inr doc"
    using bs(3) by (rule from_slice_skips_tag)
  ultimately show thesis
    using that [OF bs(1,2) _ _ _ _ payload] shape by blast
qed

lemma ec256_text_passes:
  assumes "valid_priv k" and "valid_pub p" and "cose_sign1_new L H K TEXT (text_header L) k = (Ok doc, k')"
    and "fits_memory (sign1_signature doc)"
  shows "cose_sign1_ec256_text L H K P k p = Ok ()" and "cose_sign1_ec384_text L H K P k p = Ok ()"
proof -
  obtain bs p' where run: "sign1_as_bytes L doc False = Ok bs" "sign1_from_bytes L bs = Ok doc"
    "sign1_payload doc = TEXT" "sign1_unprotected doc = text_header L" "get_payload L H (Some P) doc p = (Ok TEXT, p')"
    by (rule signed_text [OF assms, of False])
  show "cose_sign1_ec256_text L H K P k p = Ok ()"
    by (simp add: cose_sign1_ec256_text_def assms(3) run get_unprotected_def) (simp add: text_header_eq)
  show "cose_sign1_ec384_text L H K P k p = Ok ()"
    by (simp add: cose_sign1_ec384_text_def assms(3) run)
qed

lemma ec512_text_passes:
  assumes "valid_priv k" and "valid_pub p" and "cose_sign1_new L H K TEXT (text_header L) k = (Ok doc, k')"
    and "fits_memory (sign1_signature doc)"
  shows "cose_sign1_ec512_text L H K P k p = Ok ()"
proof (rule signed_text [OF assms, of False])
  fix bs p1
  assume first: "sign1_as_bytes L doc False = Ok bs" "sign1_from_bytes L bs = Ok doc" "sign1_payload doc = TEXT"
    "get_payload L H (Some P) doc p = (Ok TEXT, p1)" and "valid_pub p1"
  obtain p2 where "get_payload L H (Some P) doc p1 = (Ok TEXT, p2)"
    by (rule signed_text [OF assms(1) \<open>valid_pub p1\<close> assms(3,4), of False])
  with first show ?thesis by (simp add: cose_sign1_ec512_text_def assms(3))
qed

lemma tagged_tests_pass:
  assumes "valid_priv k" and "valid_pub p" and "cose_sign1_new L H K TEXT (text_header L) k = (Ok doc, k')"
    and "fits_memory (sign1_signature doc)"
  shows "cose_sign1_ec256_text_tagged L H K P k p = Ok ()"
    and "cose_sign1_ec256_text_tagged_serde L H K P k p = Ok ()"
proof -
  obtain bs p' where run: "sign1_as_bytes L doc True = Ok bs" "sign1_from_bytes L bs = Ok doc"
    "sbind (parse L bs) (cose_sign1_deserialize L) = Inr doc"
    "True \<longrightarrow> index bs 0 = Ok 0xD2 \<and> index bs (Suc 0) = Ok 0x84"
    "sign1_payload doc = TEXT" "get_payload L H (Some P) doc p = (Ok TEXT, p')"
    by (rule signed_text [OF assms, of True])
  show "cose_sign1_ec256_text_tagged L H K P k p = Ok ()"
    using run(4) by (simp add: cose_sign1_ec256_text_tagged_def assms(3) run(1,2,5,6))
  show "cose_sign1_ec256_text_tagged_serde L H K P k p = Ok ()"
    using run(4) by (simp add: cose_sign1_ec256_text_tagged_serde_def assms(3) run(1,3,5,6))
qed

lemma extra_protected_passes:
  assumes "alg = ES256" and "valid_priv k" and "valid_pub p"
    and new: "new_with_protected L H K TEXT (header_of L [(VInteger 1, VInteger (- 7)), (VInteger 15, VBytes [0x31, 0x32])])
      (text_header L) k = (Ok doc, k')"
    and fits: "fits_memory (sign1_protected doc)" "fits_memory (sign1_signature doc)"
  shows "cose_sign1_ec256_text_with_extra_protected L H K P k p = Ok ()"
proof -
  let ?es = "[(VInteger 1, VInteger (- 7)), (VInteger 15, VBytes [0x31, 0x32])]"
  let ?h = "header_of L ?es"
  have h: "?h = snd (header_insert L (snd (header_insert L header_new (VInteger 1) (VInteger (- 7)))) (VInteger 15) (VBytes [0x31, 0x32]))"
    by (simp add: header_of_def del: header_insert.simps)
  have other: "key_cmp L (VInteger 1) (VInteger 15) \<noteq> Equal"
    by (subst get_integer_key) simp_all
  have sorted: "header_sorted L (snd (header_insert L header_new (VInteger 1) (VInteger (- 7))))"
    by (intro header_sorted_insert header_sorted_new)
  have get: "header_get L ?h (VInteger 1) = Some (VInteger (- 7))" "header_get L ?h (VInteger 15) = Some (VBytes [0x31, 0x32])"
    unfolding h header_get_insert [OF sorted] using other by (simp_all add: header_get_insert)
  have stored_h: "header_storable L ?h"
    by (rule header_of_storable [of 0]) (use other in simp_all)
  have nonempty: "\<not> header_is_empty ?h"
    unfolding h by (rule header_insert_empty)
  have shape: "header_from_bytes L (sign1_protected doc) = Inr ?h" "sign1_payload doc = TEXT" "sign1_unprotected doc = text_header L"
    using new by (auto elim!: new_with_protected_Ok dest: header_written [OF stored_h nonempty])
  have stored: "sign1_storable L doc"
    using fits shape(2,3) text_header_storable by (simp add: sign1_storable_def fits_memory_def)
  obtain bs where bs: "sign1_as_bytes L doc False = Ok bs" "sign1_from_bytes L bs = Ok doc"
    using sign1_roundtrip [OF stored shape(1), of False] by blast
  obtain p' where "verify_signature L H P doc p = (Ok True, p')"
    using new_with_protected_verifies [OF assms(2,3) new shape(1)] get(1) assms(1) by auto
  then have "get_protected_and_payload L H (Some P) doc p = (Ok (?h, TEXT), p')"
    using shape by (simp add: get_protected_and_payload_Some_Ok)
  then show ?thesis
    using new bs get
    by (simp add: cose_sign1_ec256_text_with_extra_protected_def i8_into_def text_header_def h del: header_insert.simps)
qed

lemma wrong_key_type_passes:
  assumes "valid_priv k" and "valid_pub p" and "cose_sign1_new L H K TEXT (text_header L) k = (Ok doc, k')"
    and other: "get_parameters Q q = (Ok (alg', dig'), q')" "alg' \<noteq> alg"
  shows "validate_with_wrong_key_type L H K P Q k p q = Ok ()"
proof -
  obtain p' where "verify_signature L H P doc p = (Ok True, p')"
    using suite.new_verifies [OF assms(1-3)] by blast
  moreover have "verify_signature L H Q doc q = (Ok False, q')"
    using suite.new_shape [OF assms(1,3)] other by (simp add: verify_signature_step header_from_sig_alg_get)
  ultimately show ?thesis by (simp add: validate_with_wrong_key_type_def assms(3))
qed

text \<open>With another key of the same type the test passes if and only if that key refuses the signature.\<close>

lemma wrong_key_passes_iff:
  assumes "valid_priv k" and "valid_pub p" and "cose_sign1_new L H K TEXT (text_header L) k = (Ok doc, k')"
  shows "validate_with_wrong_key L H K P Q k p q = Ok () \<longleftrightarrow> fst (verify_signature L H Q doc q) = Ok False"
proof -
  obtain p' where "verify_signature L H P doc p = (Ok True, p')"
    using suite.new_verifies [OF assms] by blast
  moreover obtain v q' where "verify_signature L H Q doc q = (v, q')" by fastforce
  ultimately show ?thesis
    by (cases v) (simp_all add: validate_with_wrong_key_def assms(3) rust_assert_def)
qed

end

text \<open>A key on a curve that the crate does not support signs nothing.\<close>

lemma unknown_curve_passes:
  assumes "ec_key PL pk = Inr key" and "curve_name PL key = Some curve" and "curve \<notin> range curve_of"
  shows "unknown_curve L H (pkey_private PL pk) w = Ok ()"
proof -
  have "ec_curve_to_parameters PL curve = Err (UnsupportedError (''Curve name '' @ nid_debug PL curve @ '' is not supported''))"
  proof (cases curve)
    case X9_62_PRIME256V1
    then have "curve = curve_of ES256" by simp
    then show ?thesis using assms(3) by blast
  next
    case SECP384R1
    then have "curve = curve_of ES384" by simp
    then show ?thesis using assms(3) by blast
  next
    case SECP521R1
    then have "curve = curve_of ES512" by simp
    then show ?thesis using assms(3) by blast
  qed (simp add: ec_curve_to_parameters_def)
  then show ?thesis
    using assms(1,2)
    by (simp add: unknown_curve_def cose_sign1_new_def pkey_private_def pkeyref_get_parameters_def is_err_def rust_assert_def)
qed

section \<open>The device tests pass\<close>

text \<open>
  A device signs and verifies through one handle, whose state goes from the signing into the
  verification.
\<close>

lemma device_keeps:
  assumes "key_pair K K valid valid alg dig" and "valid k" and "cose_sign1_new L H K payload unprotected k = (r, k')"
  shows "valid k'"
proof -
  have "key_ring (\<lambda>_::unit. K) (\<lambda>_. K) valid (\<lambda>_. alg) (\<lambda>_. dig)"
    using assms(1) by (rule key_ring.intro)
  from key_ring.cose_sign1_new_keeps [OF this assms(2), of L H payload unprotected] assms(3)
  show ?thesis by simp
qed

lemma device_round_trip:
  assumes "cbor_wire L" and pair: "key_pair K K valid valid alg dig" and k: "valid k"
    and new: "cose_sign1_new L H K TEXT (text_header L) k = (Ok doc, k')" and fits: "fits_memory (sign1_signature doc)"
  obtains bs k2 where "sign1_as_bytes L doc True = Ok bs" and "sign1_from_bytes L bs = Ok doc"
    and "index bs 0 = Ok 0xD2" and "sign1_payload doc = TEXT" and "get_payload L H (Some K) doc k' = (Ok TEXT, k2)"
proof -
  have tests: "signing_tests L K K valid valid alg dig"
    using assms(1) pair by (rule signing_tests.intro)
  obtain bs k2 where run: "sign1_as_bytes L doc True = Ok bs" "sign1_from_bytes L bs = Ok doc"
    "True \<longrightarrow> index bs 0 = Ok 0xD2 \<and> index bs (Suc 0) = Ok 0x84" "sign1_payload doc = TEXT"
    "get_payload L H (Some K) doc k' = (Ok TEXT, k2)"
    by (rule signing_tests.signed_text [OF tests k device_keeps [OF pair k new] new fits, of True])
  show thesis using run(3) by (intro that [OF run(1,2) _ run(4,5)]) simp
qed

lemma tpm_test_passes:
  assumes "cbor_wire L" and device: "tpm_device TL ready handle ha alg"
    and key: "tpm_new TL handle context = (Ok key, context')" "tpm_usable ready handle ha alg dig key"
    and new: "cose_sign1_new L H (tpm_signer TL) TEXT (text_header L) key = (Ok doc, key')"
    and fits: "fits_memory (sign1_signature doc)"
  shows "cose_sign_tpm L H TL context handle = Ok ()"
  by (rule device_round_trip [OF assms(1) tpm_device.signer_key_pair [OF device] key(2) new fits])
    (simp add: cose_sign_tpm_def key(1) new)

text \<open>
  The test with a mangled signature overwrites the first byte with zero: where the signature starts
  with a zero byte already, nothing is mangled and the test fails.
\<close>

lemma tpm_mangled_test_may_fail:
  assumes "cbor_wire L" and device: "tpm_device TL ready handle ha alg"
    and key: "tpm_new TL handle context = (Ok key, context')" "tpm_usable ready handle ha alg dig key"
    and new: "cose_sign1_new L H (tpm_signer TL) TEXT (text_header L) key = (Ok doc, key')"
    and fits: "fits_memory (sign1_signature doc)"
    and zero: "sign1_signature doc = 0 # rest"
  shows "cose_sign_tpm_invalid_signature L H TL context handle = Panic ''Did not fail''"
proof -
  have same: "doc\<lparr>sign1_signature := 0 # rest\<rparr> = doc"
    using zero by (cases doc) simp
  show ?thesis
    by (rule device_round_trip [OF assms(1) tpm_device.signer_key_pair [OF device] key(2) new fits])
      (simp add: cose_sign_tpm_invalid_signature_def key(1) new zero index_set_def same)
qed

lemma kms_test_passes:
  assumes "cbor_wire L" and service: "kms_service PL KL connected key_id alg pub pub_ec" and "connected client"
    and "sig_alg_from_str name = Ok alg"
    and new: "cose_sign1_new L H (kms_signer PL KL) TEXT (text_header L)
      \<lparr>kms_client = client, kms_key_id = key_id, kms_sig_alg = alg, kms_public_key = None\<rparr> = (Ok doc, key')"
    and fits: "fits_memory (sign1_signature doc)"
  shows "cose_sign_kms L H PL KL client key_id name = Ok ()"
proof -
  have usable: "kms_usable connected key_id alg pub
      \<lparr>kms_client = client, kms_key_id = key_id, kms_sig_alg = alg, kms_public_key = None\<rparr>"
    using assms(3) by (simp add: kms_usable_def)
  show ?thesis
    by (rule device_round_trip [OF assms(1) kms_service.signer_key_pair [OF service] usable new fits])
      (simp add: cose_sign_kms_def assms(4) kms_new_def new)
qed

lemma kms_public_key_test_passes:
  assumes "cbor_wire L" and service: "kms_service PL KL connected key_id alg pub pub_ec"
    and key: "kms_new_with_public_key PL KL key_id None client = (Ok key, client')" "kms_usable connected key_id alg pub key"
    and new: "cose_sign1_new L H (kms_signer PL KL) TEXT (text_header L) key = (Ok doc, key')"
    and fits: "fits_memory (sign1_signature doc)"
  shows "cose_sign_kms_public_key L H PL KL client key_id = Ok ()"
  by (rule device_round_trip [OF assms(1) kms_service.signer_key_pair [OF service] key(2) new fits])
    (simp add: cose_sign_kms_public_key_def key(1) new)

text \<open>
  The tests with a mangled signature pass exactly when the device refuses the mangled document, for
  which they have no other evidence than its answer.
\<close>

lemma must_be_unverified_Ok:
  "must_be_unverified (fst (get_payload L H (Some K) doc p)) = Ok () \<longleftrightarrow>
   fst (verify_signature L H K doc p) \<in> {Ok False, Err UnverifiedSignature}"
proof -
  obtain v p' where v: "verify_signature L H K doc p = (v, p')" by fastforce
  show ?thesis
  proof (cases v)
    case (Ok b)
    with v show ?thesis by (cases b) (simp_all add: get_payload_def)
  next
    case (Err e)
    with v show ?thesis by (cases e) (simp_all add: get_payload_def)
  qed (simp add: v get_payload_def)
qed

lemma device_mangled:
  assumes "cbor_wire L" and pair: "key_pair K K valid valid alg dig" and k: "valid k"
    and new: "cose_sign1_new L H K TEXT (text_header L) k = (Ok doc, k')"
    and fits: "fits_memory sig"
  obtains bs where "sign1_as_bytes L (doc\<lparr>sign1_signature := sig\<rparr>) True = Ok bs"
    and "sign1_from_bytes L bs = Ok (doc\<lparr>sign1_signature := sig\<rparr>)"
proof -
  have L: "serde_cbor L" using assms(1) by (rule cbor_wire.axioms)
  note shape = sign1_suite.new_shape [OF sign1_suite.intro [OF L pair] k new]
  obtain a pb where pb: "map_to_empty_or_serialized L (header_from_sig_alg L a) = Inr pb" "sign1_protected doc = pb"
    using new by (auto elim!: cose_sign1_new_Ok new_with_protected_Ok)
  have "sign1_storable L (doc\<lparr>sign1_signature := sig\<rparr>)"
    using shape pb fits cbor_wire.sig_alg_header_short [OF assms(1) pb(1)] cbor_wire.text_header_storable [OF assms(1)]
    by (simp add: sign1_storable_def fits_memory_def)
  moreover have "header_from_bytes L (sign1_protected (doc\<lparr>sign1_signature := sig\<rparr>)) = Inr (header_from_sig_alg L alg)"
    using shape by simp
  ultimately show thesis
    using serde_cbor.sign1_roundtrip [OF L, of _ _ True] that by blast
qed

lemma tpm_mangled_test_passes_iff:
  assumes "cbor_wire L" and device: "tpm_device TL ready handle ha alg"
    and key: "tpm_new TL handle context = (Ok key, context')" "tpm_usable ready handle ha alg dig key"
    and new: "cose_sign1_new L H (tpm_signer TL) TEXT (text_header L) key = (Ok doc, key')"
    and sig: "sign1_signature doc = b # rest" "fits_memory (b # rest)"
  shows "cose_sign_tpm_invalid_signature L H TL context handle = Ok () \<longleftrightarrow>
    fst (verify_signature L H (tpm_signer TL) (doc\<lparr>sign1_signature := 0 # rest\<rparr>) key') \<in> {Ok False, Err UnverifiedSignature}"
proof -
  have "fits_memory (0 # rest)" using sig(2) by (simp add: fits_memory_def)
  then obtain bs where "sign1_as_bytes L (doc\<lparr>sign1_signature := 0 # rest\<rparr>) True = Ok bs"
    "sign1_from_bytes L bs = Ok (doc\<lparr>sign1_signature := 0 # rest\<rparr>)"
    by (rule device_mangled [OF assms(1) tpm_device.signer_key_pair [OF device] key(2) new])
  then show ?thesis
    by (simp add: cose_sign_tpm_invalid_signature_def key(1) new sig(1) index_set_def must_be_unverified_Ok
        del: insert_iff)
qed

lemma kms_mangled_test_passes_iff:
  assumes "cbor_wire L" and service: "kms_service PL KL connected key_id alg pub pub_ec" and "connected client"
    and "sig_alg_from_str name = Ok alg"
    and new: "cose_sign1_new L H (kms_signer PL KL) TEXT (text_header L)
      \<lparr>kms_client = client, kms_key_id = key_id, kms_sig_alg = alg, kms_public_key = None\<rparr> = (Ok doc, key')"
    and sig: "sign1_signature doc = b # rest" "fits_memory (b # rest)"
  shows "cose_sign_kms_invalid_signature L H PL KL client key_id name = Ok () \<longleftrightarrow>
    fst (verify_signature L H (kms_signer PL KL) (doc\<lparr>sign1_signature := xor b 0xFF # rest\<rparr>) key') \<in> {Ok False, Err UnverifiedSignature}"
proof -
  have usable: "kms_usable connected key_id alg pub
      \<lparr>kms_client = client, kms_key_id = key_id, kms_sig_alg = alg, kms_public_key = None\<rparr>"
    using assms(3) by (simp add: kms_usable_def)
  have "fits_memory (xor b 0xFF # rest)" using sig(2) by (simp add: fits_memory_def)
  then obtain bs where "sign1_as_bytes L (doc\<lparr>sign1_signature := xor b 0xFF # rest\<rparr>) True = Ok bs"
    "sign1_from_bytes L bs = Ok (doc\<lparr>sign1_signature := xor b 0xFF # rest\<rparr>)"
    by (rule device_mangled [OF assms(1) kms_service.signer_key_pair [OF service] usable new])
  then show ?thesis
    by (simp add: cose_sign_kms_invalid_signature_def assms(4) kms_new_def new sig(1) index_set_def must_be_unverified_Ok
        del: insert_iff)
qed

lemma kms_public_key_mangled_test_passes_iff:
  assumes "cbor_wire L" and service: "kms_service PL KL connected key_id alg pub pub_ec"
    and key: "kms_new_with_public_key PL KL key_id None client = (Ok key, client')" "kms_usable connected key_id alg pub key"
    and new: "cose_sign1_new L H (kms_signer PL KL) TEXT (text_header L) key = (Ok doc, key')"
    and sig: "sign1_signature doc = b # rest" "fits_memory (b # rest)"
  shows "cose_sign_kms_public_key_invalid_signature L H PL KL client key_id = Ok () \<longleftrightarrow>
    fst (verify_signature L H (kms_signer PL KL) (doc\<lparr>sign1_signature := xor b 0xFF # rest\<rparr>) key') \<in> {Ok False, Err UnverifiedSignature}"
proof -
  have "fits_memory (xor b 0xFF # rest)" using sig(2) by (simp add: fits_memory_def)
  then obtain bs where "sign1_as_bytes L (doc\<lparr>sign1_signature := xor b 0xFF # rest\<rparr>) True = Ok bs"
    "sign1_from_bytes L bs = Ok (doc\<lparr>sign1_signature := xor b 0xFF # rest\<rparr>)"
    by (rule device_mangled [OF assms(1) kms_service.signer_key_pair [OF service] key(2) new])
  then show ?thesis
    by (simp add: cose_sign_kms_public_key_invalid_signature_def key(1) new sig(1) index_set_def must_be_unverified_Ok
        del: insert_iff)
qed

section \<open>The encryption tests pass\<close>

locale encryption_tests = cbor_wire L + encrypt0_suite L E D R
  for L :: cbor_lib and E :: "'e encryption_scheme" and D :: "'d decryption_scheme" and R :: "('w, 'r) entropy_scheme"
begin

lemma test_key_alg: "cose_alg Gcm test_key = Some AesGcm96_128_128"
  by (simp add: test_key_def)

lemma written_ciphertext:
  assumes "length ct < 2 ^ 63"
  obtains bs where "to_vec L (VBytes ct) = Inr bs" and "bs \<noteq> test_plaintext"
proof -
  have bs: "to_vec L (VBytes ct) = Inr (head 2 (length ct) @ ct)"
    using shortest_form [of 0 "VBytes ct"] assms by simp
  have "unat (hd (head 2 (length ct) @ ct)) \<noteq> unat (hd test_plaintext)"
    by (simp add: head_def test_plaintext_def)
  with bs show thesis by (intro that [of "head 2 (length ct) @ ct"]) auto
qed

lemma fresh_storable:
  assumes new: "cose_encrypt0_new L R E payload cfg key w = (Ok doc, w')" and "fits_memory (enc0_protected doc)"
    and "fits_memory (enc0_ciphertext doc)"
  shows "encrypt0_storable L doc" and "\<exists>m. header_from_bytes L (enc0_protected doc) = Inr m"
proof -
  show "encrypt0_storable L doc"
    using new_shape [OF new] assms(2,3) iv_header_storable
    by (auto simp: encrypt0_storable_def fits_memory_def)
  show "\<exists>m. header_from_bytes L (enc0_protected doc) = Inr m"
    using new by (auto elim!: cose_encrypt0_new_Ok dest: alg_header_bytes)
qed

lemma encrypt_decrypt_passes:
  assumes new: "cose_encrypt0_new L R E test_plaintext Gcm test_key w = (Ok doc, w')"
    and fits: "fits_memory (enc0_protected doc)" "fits_memory (enc0_ciphertext doc)"
  shows "test_encrypt_decrypt oc L R E D w = Ok ()"
proof -
  have len: "length (enc0_ciphertext doc) < 2 ^ 63" using fits(2) by (simp add: fits_memory_def)
  obtain a where dec: "decrypt oc L D doc test_key = Ok (alg_header a, enc0_unprotected doc, test_plaintext)"
    using new_decrypts_self [OF new len, of oc] by blast
  obtain bs where bs: "encrypt0_as_bytes L doc True = Ok bs" "encrypt0_from_bytes L bs = Ok doc"
    using encrypt0_roundtrip [OF fresh_storable(1) [OF new fits], of _ True] fresh_storable(2) [OF new fits] by blast
  obtain ct where ct: "to_vec L (VBytes (enc0_ciphertext doc)) = Inr ct" "ct \<noteq> test_plaintext"
    by (rule written_ciphertext [OF len])
  from ct(2) show ?thesis
    by (simp add: test_encrypt_decrypt_def new dec bs ct(1) assert_ne_def)
qed

lemma unsupported_alg_passes: "test_encrypt_unsupported_alg L R E w = Ok ()"
  by (simp add: test_encrypt_unsupported_alg_def Let_def cose_encrypt0_new_unsupported test_key_def)

lemma label_header:
  assumes "wf_value L 0 v"
  obtains pb where "map_to_empty_or_serialized L (HeaderMap [(VInteger 1, v)]) = Inr pb"
    and "header_from_bytes L pb = Inr (HeaderMap [(VInteger 1, v)])"
proof -
  have "header_storable L (HeaderMap [(VInteger 1, v)])"
    using assms by (intro header_single_storable [of 0]) simp_all
  then show thesis
    by (rule header_write) (use that in simp_all)
qed

lemma invalid_alg_spec_passes:
  assumes "cose_encrypt0_new L R E test_plaintext Gcm test_key w = (Ok doc, w')"
  shows "test_decrypt_invalid_alg_spec oc L R E D w = Ok ()"
proof -
  obtain pb where pb: "map_to_empty_or_serialized L (HeaderMap [(VInteger 1, VText ''invalid'')]) = Inr pb"
    "header_from_bytes L pb = Inr (HeaderMap [(VInteger 1, VText ''invalid'')])"
    by (rule label_header [of "VText ''invalid''"]) (simp add: rust_string_def)
  have "decrypt oc L D (doc\<lparr>enc0_protected := pb\<rparr>) test_key =
      Err (SpecificationError ''Protected Header contains invalid Encryption Algorithm specification'')"
    by (rule decrypt_no_algorithm [where m = "HeaderMap [(VInteger 1, VText ''invalid'')]"]) (simp_all add: pb(2))
  then show ?thesis
    by (simp add: test_decrypt_invalid_alg_spec_def assms header_single pb(1))
qed

lemma unsupported_cipher_passes:
  assumes "cose_encrypt0_new L R E test_plaintext Gcm test_key w = (Ok doc, w')"
  shows "test_decrypt_unsupported_openssl_cipher oc L R E D w = Ok ()"
proof -
  obtain pb where pb: "map_to_empty_or_serialized L (HeaderMap [(VInteger 1, VInteger 42)]) = Inr pb"
    "header_from_bytes L pb = Inr (HeaderMap [(VInteger 1, VInteger 42)])"
    by (rule label_header [of "VInteger 42"]) simp
  have "decrypt oc L D (doc\<lparr>enc0_protected := pb\<rparr>) test_key = Err (UnsupportedError ''Unsupported encryption algorithm'')"
    by (rule decrypt_unknown_algorithm [where m = "HeaderMap [(VInteger 1, VInteger 42)]" and v = 42])
      (simp_all add: pb(2) i128_as_i8_def alg_from_value_def)
  then show ?thesis
    by (simp add: test_decrypt_unsupported_openssl_cipher_def assms header_single pb(1))
qed

lemma invalid_iv_passes:
  assumes new: "cose_encrypt0_new L R E test_plaintext Gcm test_key w = (Ok doc, w')"
  shows "test_decrypt_invalid_iv oc L R E D w = Ok ()"
proof -
  obtain alg pb where alg: "map_to_empty_or_serialized L (alg_header alg) = Inr pb" "enc0_protected doc = pb"
    using new by (auto elim!: cose_encrypt0_new_Ok)
  have "decrypt oc L D (doc\<lparr>enc0_unprotected := HeaderMap [(VInteger 5, VInteger 42)]\<rparr>) test_key =
      Err (SpecificationError ''Unprotected Header contains invalid IV specification'')"
    using alg alg_header_bytes [OF alg(1)]
    by (intro decrypt_no_iv [OF _ alg_header_get _ alg(1)]) simp_all
  then show ?thesis
    by (simp add: test_decrypt_invalid_iv_def new header_single)
qed

end

end
