(* ===== verification/Test_Keys.thy ===== *)
theory Test_Keys
  imports Repository_Tests
begin

text \<open>
  The keys of the tests in \<open>src/src/sign.rs\<close>: the functions that build the fixed and the
  generated OpenSSL keys, over the parameter \<open>key_lib\<close>, and the tests with the keys they
  generate.  The fixed points are shown to lie on their curves.
\<close>

section \<open>What is called of the crate\<close>

text \<open>
  Groups of type \<open>'g\<close> and points of type \<open>'pt\<close>; keys and randomness as in \<open>pkey_lib\<close>.
  \<^item> \<open>from_curve_name\<close>: \<open>EcGroup::from_curve_name\<close>;
  \<^item> \<open>from_hex_str\<close>: \<open>BigNum::from_hex_str\<close>;
  \<^item> \<open>from_affine\<close>: \<open>EcKey::from_public_key_affine_coordinates\<close>;
  \<^item> \<open>public_point\<close>: \<open>EcKeyRef::public_key\<close>;
  \<^item> \<open>from_private_components\<close>, \<open>generate\<close>, \<open>from_public_key\<close>: the constructors of \<open>EcKey\<close>;
  \<^item> \<open>from_ec_key\<close>: \<open>PKey::from_ec_key\<close>.
\<close>

record ('g, 'pt, 'ec, 'pk, 'w) key_lib =
  from_curve_name :: "nid \<Rightarrow> ext_error + 'g"
  from_hex_str :: "string \<Rightarrow> ext_error + nat"
  from_affine :: "'g \<Rightarrow> nat \<Rightarrow> nat \<Rightarrow> ext_error + 'ec"
  public_point :: "'ec \<Rightarrow> 'pt"
  from_private_components :: "'g \<Rightarrow> nat \<Rightarrow> 'pt \<Rightarrow> ext_error + 'ec"
  generate :: "'g \<Rightarrow> 'w \<Rightarrow> (ext_error + 'ec) \<times> 'w"
  from_public_key :: "'g \<Rightarrow> 'pt \<Rightarrow> ext_error + 'ec"
  from_ec_key :: "'ec \<Rightarrow> ext_error + 'pk"

fun unwrap_ext :: "ext_error + 'a \<Rightarrow> 'a cose_result" where
  "unwrap_ext (Inr a) = Ok a"
| "unwrap_ext (Inl e) = Panic ''called Result::unwrap() on an Err value''"

lemma unwrap_ext_Ok [outcome_simps]: "unwrap_ext r = Ok a \<longleftrightarrow> r = Inr a"
  by (cases r) simp_all

section \<open>Keys\<close>

text \<open>
  The three functions for fixed keys have one body, over the curve and the digits of the
  coordinates and of the private value; so have the three that generate keys.
\<close>

definition static_test_key :: "('g, 'pt, 'ec, 'pk, 'w) key_lib \<Rightarrow> nid \<Rightarrow> string \<Rightarrow> string \<Rightarrow> string
    \<Rightarrow> ('pk \<times> 'pk) cose_result" where
  "static_test_key KB curve x y d =
     obind (unwrap_ext (from_curve_name KB curve)) (\<lambda>alg.
     obind (unwrap_ext (from_hex_str KB x)) (\<lambda>x.
     obind (unwrap_ext (from_hex_str KB y)) (\<lambda>y.
     obind (unwrap_ext (from_hex_str KB d)) (\<lambda>d.
     obind (unwrap_ext (from_affine KB alg x y)) (\<lambda>ec_public.
     obind (unwrap_ext (from_private_components KB alg d (public_point KB ec_public))) (\<lambda>ec_private.
     obind (unwrap_ext (from_ec_key KB ec_private)) (\<lambda>priv.
     obind (unwrap_ext (from_ec_key KB ec_public)) (\<lambda>pub.
     Ok (priv, pub)))))))))"

definition get_ec256_test_key :: "('g, 'pt, 'ec, 'pk, 'w) key_lib \<Rightarrow> ('pk \<times> 'pk) cose_result" where
  "get_ec256_test_key KB = static_test_key KB X9_62_PRIME256V1
     ''9ff7423a1aace5f3e33dfaeda2c7744e3d15c2a4f6382386c93fa60c1bdb260c''
     ''3489e6b132f36e5ece948e73bd44231a1c3d0dacf566712a44fe8a9835d5b6fe''
     ''8e21d79fb6955dbe7bb592d92de4690f8bf75dc1495b2433ba78d5828e1f933f''"

definition get_ec384_test_key :: "('g, 'pt, 'ec, 'pk, 'w) key_lib \<Rightarrow> ('pk \<times> 'pk) cose_result" where
  "get_ec384_test_key KB = static_test_key KB SECP384R1
     ''5a829f62f2f4f095c0e922719285b4b981c677912870a413137a5d7319916fa8584a6036951d06ffeae99ca73ab1a2dc''
     ''e1b76e08cb20d6afcea7423f8b49ec841dde6f210a6174750bf8136a315494224df153184557a6c29a1d7994804f604c''
     ''55c6aa815a31741bc37f0ffddea73af2397bad640816ef22bfb689efc1b6cc682a73f7e5a657248e3abad500e46d5afc''"

definition get_ec512_test_key :: "('g, 'pt, 'ec, 'pk, 'w) key_lib \<Rightarrow> ('pk \<times> 'pk) cose_result" where
  "get_ec512_test_key KB = static_test_key KB SECP521R1
     ''004365ee31a93b6e69b2c895890aaae14194cd84601bbb59587ad08ab59605227dc7b34288e6471b0f06050763b88b4fb017f279c86030b0069100401e4016a3be8a''
     ''00792d772bf93cd965027df2df02d3f99ea1c4ecd18c20738ebae66854fd3afcd2ea4e902bcd37a4d2a5c639caee71513acaf7d8f7ffa11042257c5d8c6974095713''
     ''007c6fd88271bcd6c5d6bada258691a27700abeff0ad86891a27f93a73f009477c53b4e069db544429ad8220d18813f5f3ab90946ebdf4f41ca929999709f7c489e8''"

definition generate_test_key :: "('g, 'pt, 'ec, 'pk, 'w) key_lib \<Rightarrow> nid \<Rightarrow> 'w \<Rightarrow> ('pk \<times> 'pk) cose_result \<times> 'w" where
  "generate_test_key KB curve w =
     after (unwrap_ext (from_curve_name KB curve), w) (\<lambda>alg w.
     case generate KB alg w of (r, w) \<Rightarrow>
     (obind (unwrap_ext r) (\<lambda>ec_private.
      obind (unwrap_ext (from_public_key KB alg (public_point KB ec_private))) (\<lambda>ec_public.
      obind (unwrap_ext (from_ec_key KB ec_private)) (\<lambda>priv.
      obind (unwrap_ext (from_ec_key KB ec_public)) (\<lambda>pub.
      Ok (priv, pub))))), w))"

definition generate_ec256_test_key :: "('g, 'pt, 'ec, 'pk, 'w) key_lib \<Rightarrow> 'w \<Rightarrow> ('pk \<times> 'pk) cose_result \<times> 'w" where
  "generate_ec256_test_key KB = generate_test_key KB X9_62_PRIME256V1"

definition generate_ec384_test_key :: "('g, 'pt, 'ec, 'pk, 'w) key_lib \<Rightarrow> 'w \<Rightarrow> ('pk \<times> 'pk) cose_result \<times> 'w" where
  "generate_ec384_test_key KB = generate_test_key KB SECP384R1"

definition generate_ec512_test_key :: "('g, 'pt, 'ec, 'pk, 'w) key_lib \<Rightarrow> 'w \<Rightarrow> ('pk \<times> 'pk) cose_result \<times> 'w" where
  "generate_ec512_test_key KB = generate_test_key KB SECP521R1"

text \<open>The key of \<open>unknown_curve\<close>, on \<open>SECP256K1\<close>, which is 714 in OpenSSL's numbering.\<close>

definition unknown_curve_key :: "('g, 'pt, 'ec, 'pk, 'w) key_lib \<Rightarrow> 'w \<Rightarrow> 'pk cose_result \<times> 'w" where
  "unknown_curve_key KB w =
     after (unwrap_ext (from_curve_name KB (Other_Nid 714)), w) (\<lambda>alg w.
     case generate KB alg w of (r, w) \<Rightarrow>
     (obind (unwrap_ext r) (\<lambda>ec_private. unwrap_ext (from_ec_key KB ec_private)), w))"

definition rfc_8152_key_kid_11 :: "('g, 'pt, 'ec, 'pk, 'w) key_lib \<Rightarrow> 'pk cose_result" where
  "rfc_8152_key_kid_11 KB =
     obind (unwrap_ext (from_curve_name KB X9_62_PRIME256V1)) (\<lambda>alg.
     obind (unwrap_ext (from_hex_str KB ''bac5b11cad8f99f9c72b05cf4b9e26d244dc189f745228255a219a86d6a09eff'')) (\<lambda>x.
     obind (unwrap_ext (from_hex_str KB ''20138bf82dc1b6d562be0fa54ab7804a3a64b6d72ccfed6b6fb6ed28bbfc117e'')) (\<lambda>y.
     obind (unwrap_ext (from_affine KB alg x y)) (\<lambda>ec_public.
     unwrap_ext (from_ec_key KB ec_public)))))"

section \<open>Tests with the keys they make\<close>

definition with_generated_key :: "('pk, 'ec, 'w) pkey_lib \<Rightarrow> ('pk \<times> 'pk) cose_result \<times> 'w
    \<Rightarrow> ('w signing_private_key \<Rightarrow> 'w signing_public_key \<Rightarrow> 'w \<Rightarrow> 'w \<Rightarrow> unit cose_result) \<Rightarrow> unit cose_result" where
  "with_generated_key PL key test =
     (case key of (r, w) \<Rightarrow>
      obind r (\<lambda>(ec_private, ec_public). test (pkey_private PL ec_private) (pkey_public PL ec_public) w w))"

definition with_two_keys :: "('pk, 'ec, 'w) pkey_lib \<Rightarrow> ('pk \<times> 'pk) cose_result \<times> 'w
    \<Rightarrow> ('w \<Rightarrow> ('pk \<times> 'pk) cose_result \<times> 'w)
    \<Rightarrow> ('w signing_private_key \<Rightarrow> 'w signing_public_key \<Rightarrow> 'w signing_public_key \<Rightarrow> 'w \<Rightarrow> 'w \<Rightarrow> 'w \<Rightarrow> unit cose_result)
    \<Rightarrow> unit cose_result" where
  "with_two_keys PL key other test =
     (case key of (r, w) \<Rightarrow>
      obind r (\<lambda>(ec_private, ec_public).
      case other w of (r, w) \<Rightarrow>
      obind r (\<lambda>(_, ec_public_other).
      test (pkey_private PL ec_private) (pkey_public PL ec_public) (pkey_public PL ec_public_other) w w w)))"

definition with_unknown_curve :: "('pk, 'ec, 'w) pkey_lib \<Rightarrow> 'pk cose_result \<times> 'w
    \<Rightarrow> ('w signing_private_key \<Rightarrow> 'w \<Rightarrow> unit cose_result) \<Rightarrow> unit cose_result" where
  "with_unknown_curve PL key test = (case key of (r, w) \<Rightarrow> obind r (\<lambda>pk. test (pkey_private PL pk) w))"

definition with_static_key :: "('pk, 'ec, 'w) pkey_lib \<Rightarrow> ('pk \<times> 'pk) cose_result
    \<Rightarrow> ('w signing_public_key \<Rightarrow> 'w \<Rightarrow> unit cose_result) \<Rightarrow> 'w \<Rightarrow> unit cose_result" where
  "with_static_key PL key test w = obind key (\<lambda>(_, ec_public). test (pkey_public PL ec_public) w)"

section \<open>The curves\<close>

text \<open>
  The prime, the coefficient \<open>b\<close> and the order of the three curves, as FIPS 186-4 gives them; the
  curves are \<open>y\<^sup>2 = x\<^sup>3 - 3 x + b\<close> modulo the prime.
\<close>

fun curve_prime :: "signature_algorithm \<Rightarrow> nat" where
  "curve_prime ES256 = 0xffffffff00000001000000000000000000000000ffffffffffffffffffffffff"
| "curve_prime ES384 = 0xfffffffffffffffffffffffffffffffffffffffffffffffffffffffffffffffeffffffff0000000000000000ffffffff"
| "curve_prime ES512 = 0x1ffffffffffffffffffffffffffffffffffffffffffffffffffffffffffffffffffffffffffffffffffffffffffffffffffffffffffffffffffffffffffffffffff"

fun curve_b :: "signature_algorithm \<Rightarrow> nat" where
  "curve_b ES256 = 0x5ac635d8aa3a93e7b3ebbd55769886bc651d06b0cc53b0f63bce3c3e27d2604b"
| "curve_b ES384 = 0xb3312fa7e23ee7e4988e056be3f82d19181d9c6efe8141120314088f5013875ac656398d8a2ed19d2a85c8edd3ec2aef"
| "curve_b ES512 = 0x51953eb9618e1c9a1f929a21a0b68540eea2da725b99b315f3b8b489918ef109e156193951ec7e937b1652c0bd3bb1bf073573df883d2c34f1ef451fd46b503f00"

fun curve_order :: "signature_algorithm \<Rightarrow> nat" where
  "curve_order ES256 = 0xffffffff00000000ffffffffffffffffbce6faada7179e84f3b9cac2fc632551"
| "curve_order ES384 = 0xffffffffffffffffffffffffffffffffffffffffffffffffc7634d81f4372ddf581a0db248b0a77aecec196accc52973"
| "curve_order ES512 = 0x1fffffffffffffffffffffffffffffffffffffffffffffffffffffffffffffffffffa51868783bf2f966b7fcc0148f709a5d03bb5c9b8899c47aebb6fb71e91386409"

definition on_curve :: "signature_algorithm \<Rightarrow> nat \<Rightarrow> nat \<Rightarrow> bool" where
  "on_curve alg x y \<longleftrightarrow> x < curve_prime alg \<and> y < curve_prime alg
     \<and> (y * y + 3 * x) mod curve_prime alg = (x * x * x + curve_b alg) mod curve_prime alg"

lemma on_curveI:
  assumes "x < curve_prime alg" and "y < curve_prime alg"
    and "x * x * x + curve_b alg = y * y + 3 * x + curve_prime alg * q"
  shows "on_curve alg x y"
  by (simp add: on_curve_def assms)

text \<open>The number a string of hexadecimal digits stands for.\<close>

definition hex_digit :: "char \<Rightarrow> nat" where
  "hex_digit c = (if 97 \<le> (of_char c :: nat) then of_char c - 87 else of_char c - 48)"

definition hex_nat :: "string \<Rightarrow> nat" where
  "hex_nat = foldl (\<lambda>n c. 16 * n + hex_digit c) 0"

definition is_hex :: "string \<Rightarrow> bool" where
  "is_hex s \<longleftrightarrow> s \<noteq> [] \<and> list_all (\<lambda>c. (48 \<le> (of_char c :: nat) \<and> (of_char c :: nat) \<le> 57) \<or> (97 \<le> (of_char c :: nat) \<and> (of_char c :: nat) \<le> 102)) s"

lemma hex_digits:
  "hex_digit (CHR ''0'') = 0"
  "hex_digit (CHR ''1'') = 1"
  "hex_digit (CHR ''2'') = 2"
  "hex_digit (CHR ''3'') = 3"
  "hex_digit (CHR ''4'') = 4"
  "hex_digit (CHR ''5'') = 5"
  "hex_digit (CHR ''6'') = 6"
  "hex_digit (CHR ''7'') = 7"
  "hex_digit (CHR ''8'') = 8"
  "hex_digit (CHR ''9'') = 9"
  "hex_digit (CHR ''a'') = 10"
  "hex_digit (CHR ''b'') = 11"
  "hex_digit (CHR ''c'') = 12"
  "hex_digit (CHR ''d'') = 13"
  "hex_digit (CHR ''e'') = 14"
  "hex_digit (CHR ''f'') = 15"
  by (simp_all add: hex_digit_def)

lemmas hex_nat_simps = hex_nat_def hex_digits foldl_Nil foldl_Cons arith_simps numeral_times_numeral
  numeral_plus_numeral add_0_left add_0_right mult_zero_right mult_1_right numeral_One [symmetric]

lemmas curve_arith = curve_prime.simps curve_b.simps arith_simps rel_simps numeral_times_numeral numeral_plus_numeral
  numeral_less_iff

lemma ec256_point_value:
  "hex_nat ''9ff7423a1aace5f3e33dfaeda2c7744e3d15c2a4f6382386c93fa60c1bdb260c'' = 0x9ff7423a1aace5f3e33dfaeda2c7744e3d15c2a4f6382386c93fa60c1bdb260c"
  "hex_nat ''3489e6b132f36e5ece948e73bd44231a1c3d0dacf566712a44fe8a9835d5b6fe'' = 0x3489e6b132f36e5ece948e73bd44231a1c3d0dacf566712a44fe8a9835d5b6fe"
  "hex_nat ''8e21d79fb6955dbe7bb592d92de4690f8bf75dc1495b2433ba78d5828e1f933f'' = 0x8e21d79fb6955dbe7bb592d92de4690f8bf75dc1495b2433ba78d5828e1f933f"
  by (simp_all only: hex_nat_simps)

lemma ec256_point: "on_curve ES256 (hex_nat ''9ff7423a1aace5f3e33dfaeda2c7744e3d15c2a4f6382386c93fa60c1bdb260c'') (hex_nat ''3489e6b132f36e5ece948e73bd44231a1c3d0dacf566712a44fe8a9835d5b6fe'')"
  unfolding ec256_point_value
  by (rule on_curveI [where q = "0x3e75c22b981333ddd95c2e2a096a59202afe4548ee5539481cf886a6fb753c91742d83ebe37245d2730d24af1cc5ca4d8b27497cf67714c35d5b0c52a8590f1d"]) (simp_all only: curve_arith)

lemma ec384_point_value:
  "hex_nat ''5a829f62f2f4f095c0e922719285b4b981c677912870a413137a5d7319916fa8584a6036951d06ffeae99ca73ab1a2dc'' = 0x5a829f62f2f4f095c0e922719285b4b981c677912870a413137a5d7319916fa8584a6036951d06ffeae99ca73ab1a2dc"
  "hex_nat ''e1b76e08cb20d6afcea7423f8b49ec841dde6f210a6174750bf8136a315494224df153184557a6c29a1d7994804f604c'' = 0xe1b76e08cb20d6afcea7423f8b49ec841dde6f210a6174750bf8136a315494224df153184557a6c29a1d7994804f604c"
  "hex_nat ''55c6aa815a31741bc37f0ffddea73af2397bad640816ef22bfb689efc1b6cc682a73f7e5a657248e3abad500e46d5afc'' = 0x55c6aa815a31741bc37f0ffddea73af2397bad640816ef22bfb689efc1b6cc682a73f7e5a657248e3abad500e46d5afc"
  by (simp_all only: hex_nat_simps)

lemma ec384_point: "on_curve ES384 (hex_nat ''5a829f62f2f4f095c0e922719285b4b981c677912870a413137a5d7319916fa8584a6036951d06ffeae99ca73ab1a2dc'') (hex_nat ''e1b76e08cb20d6afcea7423f8b49ec841dde6f210a6174750bf8136a315494224df153184557a6c29a1d7994804f604c'')"
  unfolding ec384_point_value
  by (rule on_curveI [where q = "0xb505d5ea1ca5e3594f0c6258b647e7a131aee81f843332ce351bf4e02eeffdda1203a3a70ce3f6b26efbc7e1d718db58fced73de72051fe539078842574475701fe4b5b3fbe12c94fd2fa6d3e9a73423ea1480f7d43a88af43ee678db3afa75"]) (simp_all only: curve_arith)

lemma ec512_point_value:
  "hex_nat ''004365ee31a93b6e69b2c895890aaae14194cd84601bbb59587ad08ab59605227dc7b34288e6471b0f06050763b88b4fb017f279c86030b0069100401e4016a3be8a'' = 0x4365ee31a93b6e69b2c895890aaae14194cd84601bbb59587ad08ab59605227dc7b34288e6471b0f06050763b88b4fb017f279c86030b0069100401e4016a3be8a"
  "hex_nat ''00792d772bf93cd965027df2df02d3f99ea1c4ecd18c20738ebae66854fd3afcd2ea4e902bcd37a4d2a5c639caee71513acaf7d8f7ffa11042257c5d8c6974095713'' = 0x792d772bf93cd965027df2df02d3f99ea1c4ecd18c20738ebae66854fd3afcd2ea4e902bcd37a4d2a5c639caee71513acaf7d8f7ffa11042257c5d8c6974095713"
  "hex_nat ''007c6fd88271bcd6c5d6bada258691a27700abeff0ad86891a27f93a73f009477c53b4e069db544429ad8220d18813f5f3ab90946ebdf4f41ca929999709f7c489e8'' = 0x7c6fd88271bcd6c5d6bada258691a27700abeff0ad86891a27f93a73f009477c53b4e069db544429ad8220d18813f5f3ab90946ebdf4f41ca929999709f7c489e8"
  by (simp_all only: hex_nat_simps)

lemma ec512_point: "on_curve ES512 (hex_nat ''004365ee31a93b6e69b2c895890aaae14194cd84601bbb59587ad08ab59605227dc7b34288e6471b0f06050763b88b4fb017f279c86030b0069100401e4016a3be8a'') (hex_nat ''00792d772bf93cd965027df2df02d3f99ea1c4ecd18c20738ebae66854fd3afcd2ea4e902bcd37a4d2a5c639caee71513acaf7d8f7ffa11042257c5d8c6974095713'')"
  unfolding ec512_point_value
  by (rule on_curveI [where q = "0x255f6838c21a895860b5964223e12a171866324ab198f9e4dc8e7c5eb39c12828da452dd10d434a8bd26f3efe67229125067429a3fd8549ef2cff86de9c19ee786179021fbe8bf2dba97e2190cd11ea296840bd32d4d2089229938da35cdcfc45c14891fd30fc05babf8b9cf2fda86d401a659679e5a4b330ec8c90e2ce2a48261f"]) (simp_all only: curve_arith)

lemma kid_11_point_value:
  "hex_nat ''bac5b11cad8f99f9c72b05cf4b9e26d244dc189f745228255a219a86d6a09eff'' = 0xbac5b11cad8f99f9c72b05cf4b9e26d244dc189f745228255a219a86d6a09eff"
  "hex_nat ''20138bf82dc1b6d562be0fa54ab7804a3a64b6d72ccfed6b6fb6ed28bbfc117e'' = 0x20138bf82dc1b6d562be0fa54ab7804a3a64b6d72ccfed6b6fb6ed28bbfc117e"
  by (simp_all only: hex_nat_simps)

lemma kid_11_point: "on_curve ES256 (hex_nat ''bac5b11cad8f99f9c72b05cf4b9e26d244dc189f745228255a219a86d6a09eff'') (hex_nat ''20138bf82dc1b6d562be0fa54ab7804a3a64b6d72ccfed6b6fb6ed28bbfc117e'')"
  unfolding kid_11_point_value
  by (rule on_curveI [where q = "0x636a89d20eebe79cf121faa8b5a1b2f26cde8d4c4f984ed61a64c886acffec192669f4b848d3fd1111cfca3265ab20e2b5187c8cd8b3bb13776f7f7de6b299b7"]) (simp_all only: curve_arith)

lemma private_values:
  "0 < hex_nat ''8e21d79fb6955dbe7bb592d92de4690f8bf75dc1495b2433ba78d5828e1f933f''" "hex_nat ''8e21d79fb6955dbe7bb592d92de4690f8bf75dc1495b2433ba78d5828e1f933f'' < curve_order ES256"
  "0 < hex_nat ''55c6aa815a31741bc37f0ffddea73af2397bad640816ef22bfb689efc1b6cc682a73f7e5a657248e3abad500e46d5afc''" "hex_nat ''55c6aa815a31741bc37f0ffddea73af2397bad640816ef22bfb689efc1b6cc682a73f7e5a657248e3abad500e46d5afc'' < curve_order ES384"
  "0 < hex_nat ''007c6fd88271bcd6c5d6bada258691a27700abeff0ad86891a27f93a73f009477c53b4e069db544429ad8220d18813f5f3ab90946ebdf4f41ca929999709f7c489e8''" "hex_nat ''007c6fd88271bcd6c5d6bada258691a27700abeff0ad86891a27f93a73f009477c53b4e069db544429ad8220d18813f5f3ab90946ebdf4f41ca929999709f7c489e8'' < curve_order ES512"
  unfolding ec256_point_value ec384_point_value ec512_point_value
  by (simp_all only: curve_order.simps rel_simps)

lemma hex_strings:
  "is_hex ''9ff7423a1aace5f3e33dfaeda2c7744e3d15c2a4f6382386c93fa60c1bdb260c''"
  "is_hex ''3489e6b132f36e5ece948e73bd44231a1c3d0dacf566712a44fe8a9835d5b6fe''"
  "is_hex ''8e21d79fb6955dbe7bb592d92de4690f8bf75dc1495b2433ba78d5828e1f933f''"
  "is_hex ''5a829f62f2f4f095c0e922719285b4b981c677912870a413137a5d7319916fa8584a6036951d06ffeae99ca73ab1a2dc''"
  "is_hex ''e1b76e08cb20d6afcea7423f8b49ec841dde6f210a6174750bf8136a315494224df153184557a6c29a1d7994804f604c''"
  "is_hex ''55c6aa815a31741bc37f0ffddea73af2397bad640816ef22bfb689efc1b6cc682a73f7e5a657248e3abad500e46d5afc''"
  "is_hex ''004365ee31a93b6e69b2c895890aaae14194cd84601bbb59587ad08ab59605227dc7b34288e6471b0f06050763b88b4fb017f279c86030b0069100401e4016a3be8a''"
  "is_hex ''00792d772bf93cd965027df2df02d3f99ea1c4ecd18c20738ebae66854fd3afcd2ea4e902bcd37a4d2a5c639caee71513acaf7d8f7ffa11042257c5d8c6974095713''"
  "is_hex ''007c6fd88271bcd6c5d6bada258691a27700abeff0ad86891a27f93a73f009477c53b4e069db544429ad8220d18813f5f3ab90946ebdf4f41ca929999709f7c489e8''"
  "is_hex ''bac5b11cad8f99f9c72b05cf4b9e26d244dc189f745228255a219a86d6a09eff''"
  "is_hex ''20138bf82dc1b6d562be0fa54ab7804a3a64b6d72ccfed6b6fb6ed28bbfc117e''"
  by (simp_all add: is_hex_def)

section \<open>What is relied on\<close>

text \<open>
  The four curves have groups; strings of hexadecimal digits are read; the coordinates of a point of
  a curve make a public key on it, and a private value below the order of the curve a private key.  A
  generated key is on the curve it was generated for; its public half is a key with the same point; and any
  key on the curve with that point accepts what the generated key has signed.
\<close>

locale test_keys = openssl_bn PL
  for PL :: "('pk, 'ec, 'w) pkey_lib" +
  fixes KB :: "('g, 'pt, 'ec, 'pk, 'w) key_lib"
  assumes named_group: "curve \<in> insert (Other_Nid 714) (range curve_of) \<Longrightarrow> \<exists>g. from_curve_name KB curve = Inr g"
    and hex_read: "is_hex s \<Longrightarrow> from_hex_str KB s = Inr (hex_nat s)"
    and affine_point: "from_curve_name KB (curve_of alg) = Inr g \<Longrightarrow> on_curve alg x y \<Longrightarrow>
      \<exists>ec. from_affine KB g x y = Inr ec \<and> curve_name PL ec = Some (curve_of alg)"
    and private_value: "from_curve_name KB (curve_of alg) = Inr g \<Longrightarrow> curve_name PL ec = Some (curve_of alg) \<Longrightarrow>
      0 < d \<Longrightarrow> d < curve_order alg \<Longrightarrow>
      \<exists>ec'. from_private_components KB g d (public_point KB ec) = Inr ec' \<and> curve_name PL ec' = Some (curve_of alg)"
    and wrapped: "\<exists>pk. from_ec_key KB ec = Inr pk \<and> ec_key PL pk = Inr ec"
    and generated_curve: "from_curve_name KB curve = Inr g \<Longrightarrow> generate KB g w = (Inr ec, w') \<Longrightarrow> curve_name PL ec = Some curve"
    and public_half: "from_curve_name KB curve = Inr g \<Longrightarrow> generate KB g w = (Inr ec, w') \<Longrightarrow>
      \<exists>ec'. from_public_key KB g (public_point KB ec) = Inr ec' \<and> curve_name PL ec' = Some curve
        \<and> public_point KB ec' = public_point KB ec"
    and generated_signs: "from_curve_name KB (curve_of alg) = Inr g \<Longrightarrow> generate KB g w = (Inr ec, w') \<Longrightarrow>
      curve_name PL ec' = Some (curve_of alg) \<Longrightarrow> public_point KB ec' = public_point KB ec \<Longrightarrow>
      ecdsa_sign PL digest ec u = (Inr sig, u') \<Longrightarrow>
      fits_algorithm alg sig \<and> ecdsa_verify PL sig digest ec' = Inr True"
begin

lemma curve_group: obtains g where "from_curve_name KB (curve_of alg) = Inr g"
  using named_group by blast

lemma generated_pair:
  assumes "from_curve_name KB (curve_of alg) = Inr g" and "generate KB g w = (Inr ec, w')"
  obtains priv pub pub_ec where "generate_test_key KB (curve_of alg) w = (Ok (priv, pub), w')"
    and "openssl_ec PL priv pub ec pub_ec alg"
proof -
  obtain ec' where half: "from_public_key KB g (public_point KB ec) = Inr ec'" "curve_name PL ec' = Some (curve_of alg)"
    "public_point KB ec' = public_point KB ec"
    using public_half [OF assms] by blast
  obtain priv pub where keys: "from_ec_key KB ec = Inr priv" "ec_key PL priv = Inr ec"
    "from_ec_key KB ec' = Inr pub" "ec_key PL pub = Inr ec'"
    using wrapped by blast
  have "openssl_ec PL priv pub ec ec' alg"
    by unfold_locales
      (use keys half generated_curve [OF assms] generated_signs [OF assms half(2,3)] in simp_all)
  then show thesis
    using that assms half(1) keys(1,3) by (simp add: generate_test_key_def)
qed

text \<open>The fixed keys can be built, and their public halves belong to the algorithm of their curve.\<close>

lemma static_pair:
  assumes "is_hex x" and "is_hex y" and "is_hex d" and "on_curve alg (hex_nat x) (hex_nat y)"
    and "0 < hex_nat d" and "hex_nat d < curve_order alg"
  shows "\<exists>priv pub. static_test_key KB (curve_of alg) x y d = Ok (priv, pub)
    \<and> pkeyref_get_parameters PL pub = Ok (alg, suggested_message_digest alg)"
proof -
  obtain g where g: "from_curve_name KB (curve_of alg) = Inr g" by (rule curve_group)
  obtain ec where ec: "from_affine KB g (hex_nat x) (hex_nat y) = Inr ec" "curve_name PL ec = Some (curve_of alg)"
    using affine_point [OF g assms(4)] by blast
  obtain ec' where ec': "from_private_components KB g (hex_nat d) (public_point KB ec) = Inr ec'"
    using private_value [OF g ec(2) assms(5,6)] by blast
  obtain priv pub where keys: "from_ec_key KB ec' = Inr priv" "from_ec_key KB ec = Inr pub" "ec_key PL pub = Inr ec"
    using wrapped by blast
  then show ?thesis
    using g ec ec' assms(1-3)
    by (simp add: static_test_key_def hex_read pkeyref_get_parameters_Ok)
qed

lemma fixed_keys:
  "\<exists>priv pub. get_ec256_test_key KB = Ok (priv, pub) \<and> pkeyref_get_parameters PL pub = Ok (ES256, Sha256)"
  "\<exists>priv pub. get_ec384_test_key KB = Ok (priv, pub) \<and> pkeyref_get_parameters PL pub = Ok (ES384, Sha384)"
  "\<exists>priv pub. get_ec512_test_key KB = Ok (priv, pub) \<and> pkeyref_get_parameters PL pub = Ok (ES512, Sha512)"
  unfolding get_ec256_test_key_def get_ec384_test_key_def get_ec512_test_key_def
  using static_pair [of _ _ _ ES256] static_pair [of _ _ _ ES384] static_pair [of _ _ _ ES512]
    ec256_point ec384_point ec512_point private_values hex_strings by simp_all

lemma kid_11_key: "\<exists>pub. rfc_8152_key_kid_11 KB = Ok pub \<and> pkeyref_get_parameters PL pub = Ok (ES256, Sha256)"
proof -
  obtain g where g: "from_curve_name KB (curve_of ES256) = Inr g" by (rule curve_group)
  from affine_point [OF g kid_11_point] obtain ec where
    ec: "from_affine KB g
        (hex_nat ''bac5b11cad8f99f9c72b05cf4b9e26d244dc189f745228255a219a86d6a09eff'')
        (hex_nat ''20138bf82dc1b6d562be0fa54ab7804a3a64b6d72ccfed6b6fb6ed28bbfc117e'') = Inr ec"
      "curve_name PL ec = Some (curve_of ES256)" by blast
  obtain pub where "from_ec_key KB ec = Inr pub" "ec_key PL pub = Inr ec"
    using wrapped by blast
  then show ?thesis
    using g ec by (simp add: rfc_8152_key_kid_11_def hex_read hex_strings pkeyref_get_parameters_Ok del: hex_nat_simps)
qed

end

section \<open>Signing never fails\<close>

context openssl_ec
begin

lemma pkey_sign_total:
  assumes "\<exists>sig w'. ecdsa_sign PL digest priv_ec w = (Inr sig, w')"
  shows "\<exists>bs w'. pkeyref_sign PL priv digest w = (Ok bs, w')"
proof -
  obtain sig w' where s: "ecdsa_sign PL digest priv_ec w = (Inr sig, w')" using assms by blast
  obtain bs where
    "merge_ec_signature (bn_to_vec PL (sig_r sig)) (bn_to_vec PL (sig_s sig)) (key_length alg) = Ok bs"
    by (rule encoded_signature [OF ecdsa_fits [OF s]])
  then show ?thesis by (simp add: pkeyref_sign_def priv_key s Let_def)
qed

end

context cbor_wire
begin

lemma sig_alg_header_written:
  obtains pb where "map_to_empty_or_serialized L (header_from_sig_alg L a) = Inr pb" and "length pb < 2 ^ 63"
proof -
  obtain pb where pb: "map_to_empty_or_serialized L (header_from_sig_alg L a) = Inr pb"
    by (rule header_write [OF header_from_sig_alg_storable [of a]]) (auto simp: header_from_sig_alg_eq)
  then show thesis by (rule that [OF _ sig_alg_header_short [OF pb]])
qed

text \<open>The header \<open>{1: -7, 15: '12'}\<close> of the test with an extra protected entry.\<close>

lemma extra_header_written:
  obtains pb where
    "map_to_empty_or_serialized L (header_of L [(VInteger 1, VInteger (- 7)), (VInteger 15, VBytes [0x31, 0x32])]) = Inr pb"
    and "length pb < 2 ^ 63"
proof -
  let ?h = "header_of L [(VInteger 1, VInteger (- 7)), (VInteger 15, VBytes [0x31, 0x32])]"
  have other: "key_cmp L (VInteger 1) (VInteger 15) \<noteq> Equal"
    by (subst get_integer_key) simp_all
  have stored: "header_storable L ?h"
    by (rule header_of_storable [of 0]) (use other in simp_all)
  have shape: "?h = HeaderMap [(VInteger 1, VInteger (- 7)), (VInteger 15, VBytes [0x31, 0x32])]
    \<or> ?h = HeaderMap [(VInteger 15, VBytes [0x31, 0x32]), (VInteger 1, VInteger (- 7))]
    \<or> ?h = HeaderMap [(VInteger 1, VBytes [0x31, 0x32])]"
    by (auto simp: header_of_btree btree_of_def split: ordering.splits)
  then have "float_free (header_item ?h)" and "length (encode (header_item ?h)) < 2 ^ 63" and "\<not> header_is_empty ?h"
    by (auto simp: head_def initial_byte_def)
  moreover have "to_vec L (header_item ?h) = Inr (encode (header_item ?h))"
    using shortest_form [of "Suc (header_depth L)" "header_item ?h"] stored header_depth_le calculation(1)
    by (cases ?h) (simp add: header_storable_def del: encode.simps)
  ultimately show thesis
    using that by (cases ?h) (simp add: map_to_empty_or_serialized_def)
qed

end

text \<open>A key that signs every digest, with a signature of a length that fits into memory.\<close>

definition always_signs :: "('k, 'm) signing_private_key_scheme \<Rightarrow> bool" where
  "always_signs K \<longleftrightarrow> (\<forall>d k. \<exists>bs k'. sign K d k = (Ok bs, k') \<and> fits_memory bs)"

lemma always_signsD: "always_signs K \<Longrightarrow> \<exists>bs k'. sign K d k = (Ok bs, k')"
  unfolding always_signs_def by blast

lemma always_signs_fits: "always_signs K \<Longrightarrow> sign K d k = (Ok bs, k') \<Longrightarrow> fits_memory bs"
  unfolding always_signs_def by (metis outcome.inject(1) prod.inject)

locale test_environment = test_keys PL KB + cbor_wire L
  for PL :: "('pk, 'ec, 'w) pkey_lib" and KB :: "('g, 'pt, 'ec, 'pk, 'w) key_lib" and L :: cbor_lib +
  fixes H :: hash
  assumes hash_total: "\<exists>d. hash_of H dig data = Ok d"
    and generate_total: "\<exists>ec w'. generate KB g w = (Inr ec, w')"
    and sign_total: "from_curve_name KB curve = Inr g \<Longrightarrow> generate KB g w = (Inr ec, w') \<Longrightarrow>
      \<exists>sig u'. ecdsa_sign PL digest ec u = (Inr sig, u')"
begin

text \<open>
  A generated key of any of the three curves signs the text.
\<close>

lemma generated_key:
  obtains priv pub w' where "generate_test_key KB (curve_of alg) w = (Ok (priv, pub), w')"
    and "signing_tests L (pkey_private PL priv) (pkey_public PL pub) (\<lambda>_. True) (\<lambda>_. True) alg (suggested_message_digest alg)"
    and "always_signs (pkey_private PL priv)"
proof -
  obtain g where g: "from_curve_name KB (curve_of alg) = Inr g" by (rule curve_group)
  obtain ec w' where ec: "generate KB g w = (Inr ec, w')" using generate_total by blast
  obtain priv pub pub_ec where keys: "generate_test_key KB (curve_of alg) w = (Ok (priv, pub), w')"
    and pair: "openssl_ec PL priv pub ec pub_ec alg"
    by (rule generated_pair [OF g ec])
  have "\<exists>bs u'. sign (pkey_private PL priv) d u = (Ok bs, u') \<and> fits_memory bs" for d u
  proof -
    obtain bs u' where bs: "pkeyref_sign PL priv d u = (Ok bs, u')"
      using openssl_ec.pkey_sign_total [OF pair sign_total [OF g ec]] by blast
    have "fits_memory bs"
      using openssl_ec.pkey_sign_length [OF pair bs] by (cases alg) (simp_all add: fits_memory_def)
    with bs show ?thesis by (simp add: pkey_private_def)
  qed
  then have signs: "always_signs (pkey_private PL priv)" by (simp add: always_signs_def)
  show thesis
    by (rule that [OF keys signing_tests.intro [OF cbor_wire_axioms openssl_ec.pkey_pair [OF pair]] signs])
qed

lemma signs_text:
  assumes "signing_tests L K P (\<lambda>_. True) (\<lambda>_. True) alg dig"
    and signs: "always_signs K"
  obtains doc k' where "cose_sign1_new L H K TEXT (text_header L) k = (Ok doc, k')" and "fits_memory (sign1_signature doc)"
proof -
  obtain pb where pb: "map_to_empty_or_serialized L (header_from_sig_alg L alg) = Inr pb" "length pb < 2 ^ 63"
    by (rule sig_alg_header_written)
  have suite: "sign1_suite L K P (\<lambda>_. True) (\<lambda>_. True) alg dig"
    using assms(1) by (intro sign1_suite.intro [OF serde_cbor_axioms]) (rule signing_tests.axioms)
  obtain doc k' where new: "cose_sign1_new L H K TEXT (text_header L) k = (Ok doc, k')"
    using sign1_suite.new_succeeds [OF suite _ _ pb hash_total _, where payload = TEXT and k = k and unprotected = "text_header L"]
      always_signsD [OF signs] by (simp add: fits_memory_def) blast
  moreover have "fits_memory (sign1_signature doc)"
    using new by (auto elim!: cose_sign1_new_Ok new_with_protected_Ok dest: always_signs_fits [OF signs])
  ultimately show thesis by (rule that)
qed

lemma text_tests_pass:
  assumes "curve = curve_of alg"
  shows "with_generated_key PL (generate_test_key KB curve w) (cose_sign1_ec256_text L H) = Ok ()"
    and "with_generated_key PL (generate_test_key KB curve w) (cose_sign1_ec256_text_tagged L H) = Ok ()"
    and "with_generated_key PL (generate_test_key KB curve w) (cose_sign1_ec256_text_tagged_serde L H) = Ok ()"
    and "with_generated_key PL (generate_test_key KB curve w) (cose_sign1_ec384_text L H) = Ok ()"
    and "with_generated_key PL (generate_test_key KB curve w) (cose_sign1_ec512_text L H) = Ok ()"
proof -
  obtain priv pub w' where key: "generate_test_key KB (curve_of alg) w = (Ok (priv, pub), w')"
    and tests: "signing_tests L (pkey_private PL priv) (pkey_public PL pub) (\<lambda>_. True) (\<lambda>_. True) alg (suggested_message_digest alg)"
    and signs: "always_signs (pkey_private PL priv)"
    by (rule generated_key [of alg w])
  obtain doc k' where doc: "cose_sign1_new L H (pkey_private PL priv) TEXT (text_header L) w' = (Ok doc, k')"
    "fits_memory (sign1_signature doc)"
    by (rule signs_text [OF tests signs])
  note pass = signing_tests.ec256_text_passes [OF tests _ _ doc] signing_tests.ec512_text_passes [OF tests _ _ doc]
    signing_tests.tagged_tests_pass [OF tests _ _ doc]
  show "with_generated_key PL (generate_test_key KB curve w) (cose_sign1_ec256_text L H) = Ok ()"
    and "with_generated_key PL (generate_test_key KB curve w) (cose_sign1_ec256_text_tagged L H) = Ok ()"
    and "with_generated_key PL (generate_test_key KB curve w) (cose_sign1_ec256_text_tagged_serde L H) = Ok ()"
    and "with_generated_key PL (generate_test_key KB curve w) (cose_sign1_ec384_text L H) = Ok ()"
    and "with_generated_key PL (generate_test_key KB curve w) (cose_sign1_ec512_text L H) = Ok ()"
    by (simp_all add: with_generated_key_def assms key pass)
qed

lemma extra_protected_test_passes:
  "with_generated_key PL (generate_ec256_test_key KB w) (cose_sign1_ec256_text_with_extra_protected L H) = Ok ()"
proof -
  obtain priv pub w' where key: "generate_test_key KB (curve_of ES256) w = (Ok (priv, pub), w')"
    and tests: "signing_tests L (pkey_private PL priv) (pkey_public PL pub) (\<lambda>_. True) (\<lambda>_. True) ES256 (suggested_message_digest ES256)"
    and signs: "always_signs (pkey_private PL priv)"
    by (rule generated_key [of ES256 w])
  obtain pb where pb:
    "map_to_empty_or_serialized L (header_of L [(VInteger 1, VInteger (- 7)), (VInteger 15, VBytes [0x31, 0x32])]) = Inr pb"
    "length pb < 2 ^ 63"
    by (rule extra_header_written)
  obtain tbs where tbs: "to_vec L (signed_item pb TEXT) = Inr tbs"
    using sig_structure_bytes [OF pb(2), of TEXT] by auto
  obtain d where d: "hash_of H (suggested_message_digest ES256) tbs = Ok d" using hash_total by blast
  obtain doc k' where new: "new_with_protected L H (pkey_private PL priv) TEXT
      (header_of L [(VInteger 1, VInteger (- 7)), (VInteger 15, VBytes [0x31, 0x32])]) (text_header L) w' = (Ok doc, k')"
    using key_pair.new_with_protected_succeeds [OF signing_tests.axioms(2) [OF tests] _ pb(1) tbs d always_signsD [OF signs]] by blast
  have "fits_memory (sign1_protected doc)" "fits_memory (sign1_signature doc)"
    using new pb by (auto simp: fits_memory_def elim!: new_with_protected_Ok dest: always_signs_fits [OF signs, unfolded fits_memory_def])
  from signing_tests.extra_protected_passes [OF tests refl _ _ new this] key show ?thesis
    by (simp add: with_generated_key_def generate_ec256_test_key_def)
qed

lemma wrong_key_type_test_passes:
  "with_two_keys PL (generate_ec512_test_key KB w) (generate_ec384_test_key KB) (validate_with_wrong_key_type L H) = Ok ()"
proof -
  obtain priv pub w1 where key: "generate_test_key KB (curve_of ES512) w = (Ok (priv, pub), w1)"
    and tests: "signing_tests L (pkey_private PL priv) (pkey_public PL pub) (\<lambda>_. True) (\<lambda>_. True) ES512 (suggested_message_digest ES512)"
    and signs: "always_signs (pkey_private PL priv)"
    by (rule generated_key [of ES512 w])
  obtain priv' other w2 where key': "generate_test_key KB (curve_of ES384) w1 = (Ok (priv', other), w2)"
    and tests': "signing_tests L (pkey_private PL priv') (pkey_public PL other) (\<lambda>_. True) (\<lambda>_. True) ES384 (suggested_message_digest ES384)"
    by (rule generated_key [of ES384 w1])
  obtain doc k' where doc: "cose_sign1_new L H (pkey_private PL priv) TEXT (text_header L) w2 = (Ok doc, k')"
    by (rule signs_text [OF tests signs])
  obtain q' where "get_parameters (pkey_public PL other) w2 = (Ok (ES384, suggested_message_digest ES384), q')"
    using key_pair.pub_parameters [OF signing_tests.axioms(2) [OF tests']] by blast
  from signing_tests.wrong_key_type_passes [OF tests _ _ doc this] key key' show ?thesis
    by (simp add: with_two_keys_def generate_ec512_test_key_def generate_ec384_test_key_def)
qed

text \<open>
  The test with a second key of the same curve rests on that key: it passes if and only if the second
  public key refuses the signature of the first.
\<close>

lemma wrong_key_test_passes_iff:
  "with_two_keys PL (generate_ec512_test_key KB w) (generate_ec512_test_key KB) (validate_with_wrong_key L H) = Ok () \<longleftrightarrow>
   (\<exists>priv pub w1 priv' other w2 doc k'. generate_ec512_test_key KB w = (Ok (priv, pub), w1)
      \<and> generate_ec512_test_key KB w1 = (Ok (priv', other), w2)
      \<and> cose_sign1_new L H (pkey_private PL priv) TEXT (text_header L) w2 = (Ok doc, k')
      \<and> fst (verify_signature L H (pkey_public PL other) doc w2) = Ok False)"
proof -
  obtain priv pub w1 where key: "generate_test_key KB (curve_of ES512) w = (Ok (priv, pub), w1)"
    and tests: "signing_tests L (pkey_private PL priv) (pkey_public PL pub) (\<lambda>_. True) (\<lambda>_. True) ES512 (suggested_message_digest ES512)"
    and signs: "always_signs (pkey_private PL priv)"
    by (rule generated_key [of ES512 w])
  obtain priv' other w2 where key': "generate_test_key KB (curve_of ES512) w1 = (Ok (priv', other), w2)"
    by (rule generated_key [of ES512 w1])
  obtain doc k' where doc: "cose_sign1_new L H (pkey_private PL priv) TEXT (text_header L) w2 = (Ok doc, k')"
    by (rule signs_text [OF tests signs])
  show ?thesis
    using signing_tests.wrong_key_passes_iff [OF tests _ _ doc, of "pkey_public PL other" w2 w2] key key' doc
    by (simp add: with_two_keys_def generate_ec512_test_key_def)
qed

lemma unknown_curve_test_passes:
  "with_unknown_curve PL (unknown_curve_key KB w) (unknown_curve L H) = Ok ()"
proof -
  obtain g where g: "from_curve_name KB (Other_Nid 714) = Inr g" using named_group by blast
  obtain ec w' where ec: "generate KB g w = (Inr ec, w')" using generate_total by blast
  obtain pk where pk: "from_ec_key KB ec = Inr pk" "ec_key PL pk = Inr ec" using wrapped by blast
  have "Other_Nid 714 \<noteq> curve_of a" for a by (cases a) simp_all
  then have "Other_Nid 714 \<notin> range curve_of" by blast
  from unknown_curve_passes [OF pk(2) generated_curve [OF g ec] this, of L H w'] show ?thesis
    by (simp add: with_unknown_curve_def unknown_curve_key_def g ec pk(1))
qed

end

end
