(* ===== verification/Test_Devices.thy ===== *)
theory Test_Devices
  imports Test_Keys
begin

text \<open>
  The TPM and KMS tests of \<open>src/src/sign.rs\<close> as a whole: the TPM context with its session and
  primary key, the KMS client and the environment variables that they set up, and the test on top
  (theory \<open>Repository_Tests\<close>).
\<close>

section \<open>The TPM set-up\<close>

text \<open>The names of \<open>tss-esapi\<close> that the tests use, and the parts of the crate that they call.\<close>

datatype session_type = Hmac

datatype symmetric_definition = AES_128_CFB

datatype hashing_interface = Hashing_Sha256

datatype ecc_scheme_algorithm = Ecc_EcDsa

datatype ecc_curve = NistP256

datatype hierarchy = Owner

record 'h create_primary_result =
  key_handle :: 'h

text \<open>
  \<^item> \<open>tcti_from_environment\<close>: \<open>Tcti::from_environment_variable\<close>; \<open>context_new\<close>: \<open>Context::new\<close>;
  \<^item> \<open>start_auth_session\<close>, \<open>tr_sess_set_attributes\<close>, \<open>set_sessions\<close>, \<open>create_primary\<close>: the methods of
    \<open>Context\<close>, on the context they act on, without the optional arguments that are \<open>None\<close>;
  \<^item> \<open>attributes_new\<close>, \<open>with_decrypt\<close>, \<open>with_encrypt\<close>, \<open>attributes_build\<close>:
    \<open>SessionAttributesBuilder\<close>;
  \<^item> \<open>ecc_scheme_create\<close>: \<open>EccScheme::create\<close>; \<open>signing_ecc_public\<close>:
    \<open>create_unrestricted_signing_ecc_public\<close>.
\<close>

record ('ctx, 'h, 'tcti, 'sess, 'ab, 'attrs, 'mask, 'ecc, 'public) tss_setup =
  tcti_from_environment :: "tpm_error + 'tcti"
  context_new :: "'tcti \<Rightarrow> tpm_error + 'ctx"
  start_auth_session :: "session_type \<Rightarrow> symmetric_definition \<Rightarrow> hashing_interface \<Rightarrow> 'ctx
    \<Rightarrow> (tpm_error + 'sess option) \<times> 'ctx"
  attributes_new :: 'ab
  with_decrypt :: "bool \<Rightarrow> 'ab \<Rightarrow> 'ab"
  with_encrypt :: "bool \<Rightarrow> 'ab \<Rightarrow> 'ab"
  attributes_build :: "'ab \<Rightarrow> 'attrs \<times> 'mask"
  tr_sess_set_attributes :: "'sess \<Rightarrow> 'attrs \<Rightarrow> 'mask \<Rightarrow> 'ctx \<Rightarrow> (tpm_error + unit) \<times> 'ctx"
  set_sessions :: "'sess option \<times> 'sess option \<times> 'sess option \<Rightarrow> 'ctx \<Rightarrow> 'ctx"
  ecc_scheme_create :: "ecc_scheme_algorithm \<Rightarrow> hashing_interface option \<Rightarrow> tpm_error + 'ecc"
  signing_ecc_public :: "'ecc \<Rightarrow> ecc_curve \<Rightarrow> tpm_error + 'public"
  create_primary :: "hierarchy \<Rightarrow> 'public \<Rightarrow> 'ctx \<Rightarrow> (tpm_error + 'h create_primary_result) \<times> 'ctx"

text \<open>\<open>expect\<close> on a result of the library and on an option.\<close>

fun expect_tpm :: "string \<Rightarrow> tpm_error + 'a \<Rightarrow> 'a cose_result" where
  "expect_tpm msg (Inr a) = Ok a"
| "expect_tpm msg (Inl e) = Panic msg"

fun expect_some :: "string \<Rightarrow> 'a option \<Rightarrow> 'a cose_result" where
  "expect_some msg (Some a) = Ok a"
| "expect_some msg None = Panic msg"

lemma expect_tpm_Ok [outcome_simps]: "expect_tpm msg r = Ok a \<longleftrightarrow> r = Inr a"
  by (cases r) simp_all

lemma expect_some_Ok [outcome_simps]: "expect_some msg r = Ok a \<longleftrightarrow> r = Some a"
  by (cases r) simp_all

text \<open>Both TPM tests begin with the same steps, up to the handle of the primary key.\<close>

definition tpm_test_setup :: "('ctx, 'h, 'tcti, 'sess, 'ab, 'attrs, 'mask, 'ecc, 'public) tss_setup \<Rightarrow> ('ctx \<times> 'h) cose_result" where
  "tpm_test_setup TS =
     obind (expect_tpm ''Failed to get TCTI'' (tcti_from_environment TS)) (\<lambda>tcti.
     obind (expect_tpm ''Failed to create context'' (context_new TS tcti)) (\<lambda>tpm_context.
     case start_auth_session TS Hmac AES_128_CFB Hashing_Sha256 tpm_context of (started, tpm_context) \<Rightarrow>
     obind (expect_tpm ''Error creating TPM session'' started) (\<lambda>started.
     obind (expect_some ''Expected AuthSession'' started) (\<lambda>tpm_session.
     case attributes_build TS (with_encrypt TS True (with_decrypt TS True (attributes_new TS))) of
       (session_attrs, session_attrs_mask) \<Rightarrow>
     case tr_sess_set_attributes TS tpm_session session_attrs session_attrs_mask tpm_context of (attrs_set, tpm_context) \<Rightarrow>
     obind (expect_tpm ''Error setting session attributes'' attrs_set) (\<lambda>_.
     let tpm_context = set_sessions TS (Some tpm_session, None, None) tpm_context in
     obind (expect_tpm ''Error creating ECC scheme'' (ecc_scheme_create TS Ecc_EcDsa (Some Hashing_Sha256))) (\<lambda>ecc.
     obind (expect_tpm ''Error creating TPM2B_PUBLIC'' (signing_ecc_public TS ecc NistP256)) (\<lambda>public.
     case create_primary TS Owner public tpm_context of (primary, tpm_context) \<Rightarrow>
     obind (expect_tpm ''Unable to create primary key'' primary) (\<lambda>primary.
     Ok (tpm_context, key_handle primary)))))))))"

definition run_cose_sign_tpm :: "('ctx, 'h, 'tcti, 'sess, 'ab, 'attrs, 'mask, 'ecc, 'public) tss_setup \<Rightarrow> cbor_lib \<Rightarrow> hash
    \<Rightarrow> ('ctx, 'h, 'ha, 'sc, 'tk, 'pub) tss_lib \<Rightarrow> unit cose_result" where
  "run_cose_sign_tpm TS L H TL =
     obind (tpm_test_setup TS) (\<lambda>(tpm_context, prim_key). cose_sign_tpm L H TL tpm_context prim_key)"

definition run_cose_sign_tpm_invalid_signature ::
    "('ctx, 'h, 'tcti, 'sess, 'ab, 'attrs, 'mask, 'ecc, 'public) tss_setup \<Rightarrow> cbor_lib \<Rightarrow> hash
    \<Rightarrow> ('ctx, 'h, 'ha, 'sc, 'tk, 'pub) tss_lib \<Rightarrow> unit cose_result" where
  "run_cose_sign_tpm_invalid_signature TS L H TL =
     obind (tpm_test_setup TS) (\<lambda>(tpm_context, prim_key). cose_sign_tpm_invalid_signature L H TL tpm_context prim_key)"

section \<open>The KMS set-up\<close>

text \<open>
  \<open>load_defaults\<close> is \<open>aws_config::defaults(BehaviorVersion::latest()).load().await\<close>,
  \<open>client_new\<close> is \<open>Client::new\<close> and \<open>env_var\<close> is \<open>env::var\<close>, \<open>None\<close> where it fails.
\<close>

record ('c, 'cfg) aws_setup =
  load_defaults :: 'cfg
  client_new :: "'cfg \<Rightarrow> 'c"
  env_var :: "string \<Rightarrow> string option"

text \<open>
  \<open>spawn_blocking(f).await.unwrap()\<close>: the task catches a panic of \<open>f\<close> and returns it as a
  \<open>JoinError\<close>, on which the \<open>unwrap\<close> panics.
\<close>

fun await_blocking :: "unit cose_result \<Rightarrow> unit cose_result" where
  "await_blocking (Ok u) = Ok u"
| "await_blocking (Err e) = Err e"
| "await_blocking (Panic p) = Panic ''called Result::unwrap() on an Err value''"

lemma await_blocking_Ok [outcome_simps]: "await_blocking r = Ok u \<longleftrightarrow> r = Ok u"
  by (cases r) simp_all

definition run_cose_sign_kms :: "('c, 'cfg) aws_setup \<Rightarrow> cbor_lib \<Rightarrow> hash \<Rightarrow> ('pk, 'ec, 'w) pkey_lib \<Rightarrow> 'c kms_lib \<Rightarrow> unit cose_result" where
  "run_cose_sign_kms AS L H PL KL =
     (let config = load_defaults AS; kms_client = client_new AS config in
      await_blocking
       (obind (expect_some ''Please set AWS_KMS_TEST_KEY_ARN'' (env_var AS ''AWS_KMS_TEST_KEY_ARN'')) (\<lambda>key_id.
        obind (expect_some ''Please set TEST_KEY_SIG_ALG'' (env_var AS ''TEST_KEY_SIG_ALG'')) (\<lambda>sig_alg.
        cose_sign_kms L H PL KL kms_client key_id sig_alg))))"

definition run_cose_sign_kms_invalid_signature :: "('c, 'cfg) aws_setup \<Rightarrow> cbor_lib \<Rightarrow> hash \<Rightarrow> ('pk, 'ec, 'w) pkey_lib
    \<Rightarrow> 'c kms_lib \<Rightarrow> unit cose_result" where
  "run_cose_sign_kms_invalid_signature AS L H PL KL =
     (let config = load_defaults AS; kms_client = client_new AS config in
      await_blocking
       (obind (expect_some ''Please set AWS_KMS_TEST_KEY_ARN'' (env_var AS ''AWS_KMS_TEST_KEY_ARN'')) (\<lambda>key_id.
        obind (expect_some ''Please set TEST_KEY_SIG_ALG'' (env_var AS ''TEST_KEY_SIG_ALG'')) (\<lambda>sig_alg.
        cose_sign_kms_invalid_signature L H PL KL kms_client key_id sig_alg))))"

definition run_cose_sign_kms_public_key :: "('c, 'cfg) aws_setup \<Rightarrow> cbor_lib \<Rightarrow> hash \<Rightarrow> ('pk, 'ec, 'w) pkey_lib
    \<Rightarrow> 'c kms_lib \<Rightarrow> unit cose_result" where
  "run_cose_sign_kms_public_key AS L H PL KL =
     (let config = load_defaults AS; kms_client = client_new AS config in
      obind (expect_some ''Please set AWS_KMS_TEST_KEY_ARN'' (env_var AS ''AWS_KMS_TEST_KEY_ARN'')) (\<lambda>key_id.
      await_blocking (cose_sign_kms_public_key L H PL KL kms_client key_id)))"

definition run_cose_sign_kms_public_key_invalid_signature :: "('c, 'cfg) aws_setup \<Rightarrow> cbor_lib \<Rightarrow> hash
    \<Rightarrow> ('pk, 'ec, 'w) pkey_lib \<Rightarrow> 'c kms_lib \<Rightarrow> unit cose_result" where
  "run_cose_sign_kms_public_key_invalid_signature AS L H PL KL =
     (let config = load_defaults AS; kms_client = client_new AS config in
      obind (expect_some ''Please set AWS_KMS_TEST_KEY_ARN'' (env_var AS ''AWS_KMS_TEST_KEY_ARN'')) (\<lambda>key_id.
      await_blocking (cose_sign_kms_public_key_invalid_signature L H PL KL kms_client key_id)))"

section \<open>The tests pass\<close>

text \<open>
  A device under test: a lawful key that is its own public half, which signs every digest the hash
  gives.
\<close>

locale device_bench = cbor_wire L + pair: key_pair K K valid valid alg dig
  for L :: cbor_lib and K :: "'k signing_private_key" and valid alg dig +
  fixes H :: hash
  assumes hash_total: "\<exists>d. hash_of H dig data = Ok d"
    and signs: "hash_of H dig data = Ok d \<Longrightarrow> valid k \<Longrightarrow> \<exists>bs k'. sign K d k = (Ok bs, k') \<and> fits_memory bs"
begin

lemma signs_text:
  assumes "valid k"
  obtains doc k' where "cose_sign1_new L H K TEXT (text_header L) k = (Ok doc, k')" and "fits_memory (sign1_signature doc)"
proof -
  obtain pb where pb: "map_to_empty_or_serialized L (header_from_sig_alg L alg) = Inr pb" "length pb < 2 ^ 63"
    by (rule sig_alg_header_written)
  have suite: "sign1_suite L K K valid valid alg dig"
    by unfold_locales
  have "\<exists>doc k'. cose_sign1_new L H K TEXT (text_header L) k = (Ok doc, k')"
    by (rule sign1_suite.new_succeeds [OF suite assms _ pb hash_total]) (use signs in \<open>simp, blast\<close>)
  then obtain doc k' where new: "cose_sign1_new L H K TEXT (text_header L) k = (Ok doc, k')" by blast
  have "fits_memory (sign1_signature doc)"
  proof (rule cose_sign1_new_Ok [OF new])
    fix a g k1
    assume params: "get_parameters K k = (Ok (a, g), k1)"
      and "new_with_protected L H K TEXT (header_from_sig_alg L a) (text_header L) k1 = (Ok doc, k')"
    then show ?thesis
    proof (elim new_with_protected_Ok)
      fix a' g' k2 pb' tbs d sig
      assume run: "get_parameters K k1 = (Ok (a', g'), k2)" "hash_of H g' tbs = Ok d" "sign K d k2 = (Ok sig, k')"
        "doc = \<lparr>sign1_protected = pb', sign1_unprotected = text_header L, sign1_payload = TEXT, sign1_signature = sig\<rparr>"
      have "valid k1" using pair.priv_parameters [OF assms] params by auto
      then have "valid k2" "g' = dig" using pair.priv_parameters [of k1] run(1) by auto
      with signs [of tbs d k2] run(2-4) show ?thesis by auto
    qed
  qed
  with new show thesis by (rule that)
qed

end

text \<open>
  The TPM test passes once the set-up has given a context and a primary key, and the KMS tests once
  the environment names the key and its algorithm.
\<close>

lemma run_tpm_test_passes:
  assumes bench: "device_bench L (tpm_signer TL) (tpm_usable ready handle ha alg dig) alg dig H"
    and device: "tpm_device TL ready handle ha alg"
    and start: "tpm_test_setup TS = Ok (context, handle)"
    and key: "tpm_new TL handle context = (Ok key, context')" "tpm_usable ready handle ha alg dig key"
  shows "run_cose_sign_tpm TS L H TL = Ok ()"
proof -
  obtain doc k' where "cose_sign1_new L H (tpm_signer TL) TEXT (text_header L) key = (Ok doc, k')"
    "fits_memory (sign1_signature doc)"
    by (rule device_bench.signs_text [OF bench key(2)])
  from tpm_test_passes [OF device_bench.axioms(1) [OF bench] device key this] start
  show ?thesis by (simp add: run_cose_sign_tpm_def)
qed

lemma run_kms_tests_pass:
  assumes bench: "device_bench L (kms_signer PL KL) (kms_usable connected key_id alg pub) alg (suggested_message_digest alg) H"
    and service: "kms_service PL KL connected key_id alg pub pub_ec"
    and client: "connected (client_new AS (load_defaults AS))"
    and env: "env_var AS ''AWS_KMS_TEST_KEY_ARN'' = Some key_id" "env_var AS ''TEST_KEY_SIG_ALG'' = Some name"
      "sig_alg_from_str name = Ok alg"
    and key: "kms_new_with_public_key PL KL key_id None (client_new AS (load_defaults AS)) = (Ok key, client')"
      "kms_usable connected key_id alg pub key"
  shows "run_cose_sign_kms AS L H PL KL = Ok () \<and> run_cose_sign_kms_public_key AS L H PL KL = Ok ()"
proof -
  note wire = device_bench.axioms(1) [OF bench]
  let ?handle = "\<lparr>kms_client = client_new AS (load_defaults AS), kms_key_id = key_id, kms_sig_alg = alg, kms_public_key = None\<rparr>"
  have "kms_usable connected key_id alg pub ?handle" using client by (simp add: kms_usable_def)
  then obtain doc k' where "cose_sign1_new L H (kms_signer PL KL) TEXT (text_header L) ?handle = (Ok doc, k')"
    "fits_memory (sign1_signature doc)"
    by (rule device_bench.signs_text [OF bench])
  moreover obtain doc' k'' where "cose_sign1_new L H (kms_signer PL KL) TEXT (text_header L) key = (Ok doc', k'')"
    "fits_memory (sign1_signature doc')"
    by (rule device_bench.signs_text [OF bench key(2)])
  ultimately show ?thesis
    using kms_test_passes [OF wire service client env(3)] kms_public_key_test_passes [OF wire service key] env
    by (simp add: run_cose_sign_kms_def run_cose_sign_kms_public_key_def)
qed

text \<open>
  A step of the set-up that fails, or a missing variable, fails the test with the message the test
  gives for it; inside the blocking task the message is lost to the one of the \<open>unwrap\<close>.
\<close>

lemma tpm_setup_Ok_iff:
  "tpm_test_setup TS = Ok (context, handle) \<longleftrightarrow>
   (\<exists>tcti c0 tpm_session c1 attrs mask c2 ecc public primary.
      tcti_from_environment TS = Inr tcti \<and> context_new TS tcti = Inr c0
    \<and> start_auth_session TS Hmac AES_128_CFB Hashing_Sha256 c0 = (Inr (Some tpm_session), c1)
    \<and> attributes_build TS (with_encrypt TS True (with_decrypt TS True (attributes_new TS))) = (attrs, mask)
    \<and> tr_sess_set_attributes TS tpm_session attrs mask c1 = (Inr (), c2)
    \<and> ecc_scheme_create TS Ecc_EcDsa (Some Hashing_Sha256) = Inr ecc \<and> signing_ecc_public TS ecc NistP256 = Inr public
    \<and> create_primary TS Owner public (set_sessions TS (Some tpm_session, None, None) c2) = (Inr primary, context)
    \<and> handle = key_handle primary)"
  unfolding tpm_test_setup_def Let_def
  by (auto simp: outcome_simps case_prod_unfold prod_eq_iff)

lemma device_tests_without_environment:
  "tcti_from_environment TS = Inl e \<Longrightarrow> run_cose_sign_tpm TS L H TL = Panic ''Failed to get TCTI''"
  "env_var AS ''AWS_KMS_TEST_KEY_ARN'' = None \<Longrightarrow>
     run_cose_sign_kms AS L H PL KL = Panic ''called Result::unwrap() on an Err value''
     \<and> run_cose_sign_kms_public_key AS L H PL KL = Panic ''Please set AWS_KMS_TEST_KEY_ARN''"
  by (simp_all add: run_cose_sign_tpm_def tpm_test_setup_def run_cose_sign_kms_def run_cose_sign_kms_public_key_def)

end
