(* ===== verification/Test_Vectors.thy ===== *)
theory Test_Vectors
  imports Scenarios Repository_Tests
begin

text \<open>
  The byte-level tests of the repository (\<open>src/src/sign.rs\<close>, module \<open>tests\<close>), as definitions with
  the bytes they contain and run through the model over the reference codec: the serialized
  algorithm headers, the headers with repeated labels, the two \<open>Sig_structure\<close> texts, and the
  documents that were validated against another implementation, were tampered with, or carry a wrong
  tag or none, and the example of RFC 8152.  The real ECDSA is a parameter of the model: a test that
  verifies a document is shown to pass exactly when the key accepts its signature for the bytes of
  the \<open>Sig_structure\<close>, which the lemmas write out.
\<close>

section \<open>Headers\<close>

definition map_serialization :: "cbor_lib \<Rightarrow> unit cose_result" where
  "map_serialization L =
     obind (unwrap (try_map SerializationError (map_to_empty_or_serialized L header_new))) (\<lambda>bytes.
     obind (assert_eq bytes []) (\<lambda>_.
     obind (unwrap (try_map SerializationError (map_to_empty_or_serialized L (header_from_sig_alg L ES256)))) (\<lambda>bytes.
     obind (assert_eq bytes [0xA1, 0x01, 0x26]) (\<lambda>_.
     obind (unwrap (try_map SerializationError (map_to_empty_or_serialized L (header_from_sig_alg L ES384)))) (\<lambda>bytes.
     obind (assert_eq bytes [0xA1, 0x01, 0x38, 0x22]) (\<lambda>_.
     obind (unwrap (try_map SerializationError (map_to_empty_or_serialized L (header_from_sig_alg L ES512)))) (\<lambda>bytes.
     assert_eq bytes [0xA1, 0x01, 0x38, 0x23])))))))"

text \<open>The three byte strings are \<open>{1: 42, 2: 42}\<close>, \<open>{1: 42, 2: 42, 1: 43}\<close> and \<open>{1: 42, 2: 42, 2: 42}\<close>.\<close>

definition map_with_duplicates :: "cbor_lib \<Rightarrow> unit cose_result" where
  "map_with_duplicates L =
     obind (unwrap (try_map SerializationError
       (header_from_bytes L [0xA2, 0x01, 0x18, 0x2A, 0x02, 0x18, 0x2A]))) (\<lambda>map.
     obind (assert_eq (header_get L map (VInteger 1)) (Some (VInteger 42))) (\<lambda>_.
     obind (assert_eq (header_get L map (VInteger 2)) (Some (VInteger 42))) (\<lambda>_.
     obind (is_err (try_map SerializationError
       (header_from_bytes L [0xA3, 0x01, 0x18, 0x2A, 0x02, 0x18, 0x2A, 0x01, 0x18, 0x2B]))) (\<lambda>e.
     obind (rust_assert e ''map.is_err()'') (\<lambda>_.
     obind (is_err (try_map SerializationError
       (header_from_bytes L [0xA3, 0x01, 0x18, 0x2A, 0x02, 0x18, 0x2A, 0x02, 0x18, 0x2A]))) (\<lambda>e.
     rust_assert e ''map.is_err()''))))))"

lemma map_serialization_test: "map_serialization reference_lib = Ok ()"
  by code_simp

lemma map_with_duplicates_test: "map_with_duplicates reference_lib = Ok ()"
  by code_simp

section \<open>The signed structure\<close>

definition text_tbs :: "bytes \<Rightarrow> bytes" where
  "text_tbs protected =
     [0x84, 0x6A, 0x53, 0x69, 0x67, 0x6E, 0x61, 0x74, 0x75, 0x72, 0x65, 0x31]
     @ protected @ [0x40] @ [0x58, 0x75] @ TEXT"

definition sig_structure_text :: "cbor_lib \<Rightarrow> unit cose_result" where
  "sig_structure_text L =
     obind (unwrap (try_map SerializationError (map_to_empty_or_serialized L header_new))) (\<lambda>map_serialized.
     obind (unwrap (try_map SerializationError (sig_new_sign1 map_serialized TEXT))) (\<lambda>sig_structure.
     obind (unwrap (try_map SerializationError (sig_structure_as_bytes L sig_structure))) (\<lambda>bytes.
     obind (assert_eq (text_tbs [0x40]) bytes) (\<lambda>_.
     obind (unwrap (try_map SerializationError (map_to_empty_or_serialized L (header_from_sig_alg L ES256)))) (\<lambda>map_serialized.
     obind (unwrap (try_map SerializationError (sig_new_sign1 map_serialized TEXT))) (\<lambda>sig_structure.
     obind (unwrap (try_map SerializationError (sig_structure_as_bytes L sig_structure))) (\<lambda>bytes.
     assert_eq (text_tbs [0x43, 0xA1, 0x01, 0x26]) bytes)))))))"

lemma sig_structure_text_test: "sig_structure_text reference_lib = Ok ()"
  by code_simp

section \<open>Documents\<close>

text \<open>A validated ES256 document, tag 18 in its long form.\<close>

definition validate_es256 :: bytes where
  "validate_es256 =
    [0xD9, 0x00, 0x12, 0x84, 0x43, 0xA1, 0x01, 0x26, 0xA1, 0x04, 0x42, 0x31, 0x31, 0x58,
     0x75, 0x49, 0x74, 0x20, 0x69, 0x73, 0x20, 0x61, 0x20, 0x74, 0x72, 0x75, 0x74, 0x68,
     0x20, 0x75, 0x6E, 0x69, 0x76, 0x65, 0x72, 0x73, 0x61, 0x6C, 0x6C, 0x79, 0x20, 0x61,
     0x63, 0x6B, 0x6E, 0x6F, 0x77, 0x6C, 0x65, 0x64, 0x67, 0x65, 0x64, 0x2C, 0x20, 0x74,
     0x68, 0x61, 0x74, 0x20, 0x61, 0x20, 0x73, 0x69, 0x6E, 0x67, 0x6C, 0x65, 0x20, 0x6D,
     0x61, 0x6E, 0x20, 0x69, 0x6E, 0x20, 0x70, 0x6F, 0x73, 0x73, 0x65, 0x73, 0x73, 0x69,
     0x6F, 0x6E, 0x20, 0x6F, 0x66, 0x20, 0x61, 0x20, 0x67, 0x6F, 0x6F, 0x64, 0x20, 0x66,
     0x6F, 0x72, 0x74, 0x75, 0x6E, 0x65, 0x2C, 0x20, 0x6D, 0x75, 0x73, 0x74, 0x20, 0x62,
     0x65, 0x20, 0x69, 0x6E, 0x20, 0x77, 0x61, 0x6E, 0x74, 0x20, 0x6F, 0x66, 0x20, 0x61,
     0x20, 0x77, 0x69, 0x66, 0x65, 0x2E, 0x58, 0x40, 0x6E, 0x6D, 0xF6, 0x54, 0x89, 0xEA,
     0x3B, 0x01, 0x88, 0x33, 0xF5, 0xFC, 0x4F, 0x84, 0xF8, 0x1B, 0x4D, 0x5E, 0xFD, 0x5A,
     0x09, 0xD5, 0xC6, 0x2F, 0x2E, 0x92, 0x38, 0x5D, 0xCE, 0x31, 0xE2, 0xD1, 0x5A, 0x53,
     0xA9, 0xF0, 0x75, 0xE8, 0xFB, 0x39, 0x66, 0x9F, 0xCD, 0x4E, 0xB5, 0x22, 0xC8, 0x5C,
     0x92, 0x77, 0x45, 0x2F, 0xA8, 0x57, 0xF5, 0xFE, 0x37, 0x9E, 0xDD, 0xEF, 0x0F, 0xAB,
     0x3C, 0xDD]"

text \<open>A validated ES384 document, untagged.\<close>

definition validate_es384 :: bytes where
  "validate_es384 =
    [0x84, 0x44, 0xA1, 0x01, 0x38, 0x22, 0xA1, 0x04, 0x42, 0x31, 0x31, 0x58, 0x75, 0x49,
     0x74, 0x20, 0x69, 0x73, 0x20, 0x61, 0x20, 0x74, 0x72, 0x75, 0x74, 0x68, 0x20, 0x75,
     0x6E, 0x69, 0x76, 0x65, 0x72, 0x73, 0x61, 0x6C, 0x6C, 0x79, 0x20, 0x61, 0x63, 0x6B,
     0x6E, 0x6F, 0x77, 0x6C, 0x65, 0x64, 0x67, 0x65, 0x64, 0x2C, 0x20, 0x74, 0x68, 0x61,
     0x74, 0x20, 0x61, 0x20, 0x73, 0x69, 0x6E, 0x67, 0x6C, 0x65, 0x20, 0x6D, 0x61, 0x6E,
     0x20, 0x69, 0x6E, 0x20, 0x70, 0x6F, 0x73, 0x73, 0x65, 0x73, 0x73, 0x69, 0x6F, 0x6E,
     0x20, 0x6F, 0x66, 0x20, 0x61, 0x20, 0x67, 0x6F, 0x6F, 0x64, 0x20, 0x66, 0x6F, 0x72,
     0x74, 0x75, 0x6E, 0x65, 0x2C, 0x20, 0x6D, 0x75, 0x73, 0x74, 0x20, 0x62, 0x65, 0x20,
     0x69, 0x6E, 0x20, 0x77, 0x61, 0x6E, 0x74, 0x20, 0x6F, 0x66, 0x20, 0x61, 0x20, 0x77,
     0x69, 0x66, 0x65, 0x2E, 0x58, 0x60, 0xCD, 0x42, 0xD2, 0x76, 0x32, 0xD5, 0x41, 0x4E,
     0x4B, 0x54, 0x5C, 0x95, 0xFD, 0xE6, 0xE3, 0x50, 0x5B, 0x93, 0x58, 0x0F, 0x4B, 0x77,
     0x31, 0xD1, 0x4A, 0x86, 0x52, 0x31, 0x75, 0x26, 0x6C, 0xDE, 0xB2, 0x4A, 0xFF, 0x2D,
     0xE3, 0x36, 0x4E, 0x9C, 0xEE, 0xE9, 0xF9, 0xF7, 0x95, 0xA0, 0x15, 0x15, 0x5B, 0xC7,
     0x12, 0xAA, 0x28, 0x63, 0xE2, 0xAA, 0xF6, 0x07, 0x8A, 0x81, 0x90, 0x93, 0xFD, 0xFC,
     0x70, 0x59, 0xA3, 0xF1, 0x46, 0x7F, 0x64, 0xEC, 0x7E, 0x22, 0x1F, 0xD1, 0x63, 0xD8,
     0x0B, 0x3B, 0x55, 0x26, 0x25, 0xCF, 0x37, 0x9D, 0x1C, 0xBB, 0x9E, 0x51, 0x38, 0xCC,
     0xD0, 0x7A, 0x19, 0x31]"

text \<open>A validated ES512 document, untagged.\<close>

definition validate_es512 :: bytes where
  "validate_es512 =
    [0x84, 0x44, 0xA1, 0x01, 0x38, 0x23, 0xA1, 0x04, 0x42, 0x31, 0x31, 0x58, 0x75, 0x49,
     0x74, 0x20, 0x69, 0x73, 0x20, 0x61, 0x20, 0x74, 0x72, 0x75, 0x74, 0x68, 0x20, 0x75,
     0x6E, 0x69, 0x76, 0x65, 0x72, 0x73, 0x61, 0x6C, 0x6C, 0x79, 0x20, 0x61, 0x63, 0x6B,
     0x6E, 0x6F, 0x77, 0x6C, 0x65, 0x64, 0x67, 0x65, 0x64, 0x2C, 0x20, 0x74, 0x68, 0x61,
     0x74, 0x20, 0x61, 0x20, 0x73, 0x69, 0x6E, 0x67, 0x6C, 0x65, 0x20, 0x6D, 0x61, 0x6E,
     0x20, 0x69, 0x6E, 0x20, 0x70, 0x6F, 0x73, 0x73, 0x65, 0x73, 0x73, 0x69, 0x6F, 0x6E,
     0x20, 0x6F, 0x66, 0x20, 0x61, 0x20, 0x67, 0x6F, 0x6F, 0x64, 0x20, 0x66, 0x6F, 0x72,
     0x74, 0x75, 0x6E, 0x65, 0x2C, 0x20, 0x6D, 0x75, 0x73, 0x74, 0x20, 0x62, 0x65, 0x20,
     0x69, 0x6E, 0x20, 0x77, 0x61, 0x6E, 0x74, 0x20, 0x6F, 0x66, 0x20, 0x61, 0x20, 0x77,
     0x69, 0x66, 0x65, 0x2E, 0x58, 0x84, 0x01, 0xE5, 0xAE, 0x6A, 0xE6, 0xE2, 0xE3, 0xC0,
     0xB5, 0x1D, 0xD1, 0x62, 0x74, 0x1C, 0xF9, 0x9D, 0xA6, 0x88, 0x19, 0x5C, 0xD9, 0x0E,
     0x65, 0xFB, 0xBE, 0xE2, 0x38, 0x83, 0x81, 0x32, 0x3C, 0xAE, 0xC9, 0x1B, 0x3D, 0x0E,
     0x3A, 0xC1, 0x4D, 0x0B, 0x8B, 0x29, 0xA8, 0x56, 0x2E, 0xB2, 0x17, 0x65, 0x9F, 0x27,
     0xBE, 0xB4, 0x30, 0xA1, 0xD7, 0x4F, 0x42, 0x35, 0x3A, 0x2C, 0x0A, 0xC5, 0x1F, 0xC2,
     0x36, 0x48, 0x00, 0x00, 0x89, 0xEA, 0xF7, 0x09, 0x50, 0xF8, 0x45, 0x83, 0xA7, 0xC4,
     0x79, 0x2F, 0xAD, 0xC6, 0x96, 0xC3, 0x03, 0x33, 0xF2, 0xDF, 0x19, 0x48, 0x83, 0x93,
     0xAB, 0xAE, 0x31, 0x6A, 0x2E, 0x17, 0x1D, 0x58, 0x87, 0x65, 0xC4, 0x36, 0xA2, 0xA2,
     0x05, 0xAD, 0x81, 0x51, 0xF3, 0x97, 0x3E, 0xC0, 0xB4, 0xA7, 0xB8, 0x97, 0xE4, 0x90,
     0x8C, 0x79, 0x6F, 0x85, 0x24, 0x84, 0xAE, 0x39, 0x26, 0xB3, 0xB8, 0x1B]"

text \<open>A ES256 document under the tag 19.\<close>

definition invalid_tag :: bytes where
  "invalid_tag =
    [0xD3, 0x84, 0x43, 0xA1, 0x01, 0x26, 0xA1, 0x04, 0x42, 0x31, 0x31, 0x58, 0x75, 0x49,
     0x74, 0x20, 0x69, 0x73, 0x20, 0x61, 0x20, 0x74, 0x72, 0x75, 0x74, 0x68, 0x20, 0x75,
     0x6E, 0x69, 0x76, 0x65, 0x72, 0x73, 0x61, 0x6C, 0x6C, 0x79, 0x20, 0x61, 0x63, 0x6B,
     0x6E, 0x6F, 0x77, 0x6C, 0x65, 0x64, 0x67, 0x65, 0x64, 0x2C, 0x20, 0x74, 0x68, 0x61,
     0x74, 0x20, 0x61, 0x20, 0x73, 0x69, 0x6E, 0x67, 0x6C, 0x65, 0x20, 0x6D, 0x61, 0x6E,
     0x20, 0x69, 0x6E, 0x20, 0x70, 0x6F, 0x73, 0x73, 0x65, 0x73, 0x73, 0x69, 0x6F, 0x6E,
     0x20, 0x6F, 0x66, 0x20, 0x61, 0x20, 0x67, 0x6F, 0x6F, 0x64, 0x20, 0x66, 0x6F, 0x72,
     0x74, 0x75, 0x6E, 0x65, 0x2C, 0x20, 0x6D, 0x75, 0x73, 0x74, 0x20, 0x62, 0x65, 0x20,
     0x69, 0x6E, 0x20, 0x77, 0x61, 0x6E, 0x74, 0x20, 0x6F, 0x66, 0x20, 0x61, 0x20, 0x77,
     0x69, 0x66, 0x65, 0x2E, 0x58, 0x40, 0x6E, 0x6D, 0xF6, 0x54, 0x89, 0xEA, 0x3B, 0x01,
     0x88, 0x33, 0xF5, 0xFC, 0x4F, 0x84, 0xF8, 0x1B, 0x4D, 0x5E, 0xFD, 0x5A, 0x09, 0xD5,
     0xC6, 0x2F, 0x2E, 0x92, 0x38, 0x5D, 0xCE, 0x31, 0xE2, 0xD1, 0x5A, 0x53, 0xA9, 0xF0,
     0x75, 0xE8, 0xFB, 0x39, 0x66, 0x9F, 0xCD, 0x4E, 0xB5, 0x22, 0xC8, 0x5C, 0x92, 0x77,
     0x45, 0x2F, 0xA8, 0x57, 0xF5, 0xFE, 0x37, 0x9E, 0xDD, 0xEF, 0x0F, 0xAB, 0x3C, 0xDD]"

text \<open>A ES256 document without a tag.\<close>

definition missing_tag :: bytes where
  "missing_tag =
    [0x84, 0x43, 0xA1, 0x01, 0x26, 0xA1, 0x04, 0x42, 0x31, 0x31, 0x58, 0x75, 0x49, 0x74,
     0x20, 0x69, 0x73, 0x20, 0x61, 0x20, 0x74, 0x72, 0x75, 0x74, 0x68, 0x20, 0x75, 0x6E,
     0x69, 0x76, 0x65, 0x72, 0x73, 0x61, 0x6C, 0x6C, 0x79, 0x20, 0x61, 0x63, 0x6B, 0x6E,
     0x6F, 0x77, 0x6C, 0x65, 0x64, 0x67, 0x65, 0x64, 0x2C, 0x20, 0x74, 0x68, 0x61, 0x74,
     0x20, 0x61, 0x20, 0x73, 0x69, 0x6E, 0x67, 0x6C, 0x65, 0x20, 0x6D, 0x61, 0x6E, 0x20,
     0x69, 0x6E, 0x20, 0x70, 0x6F, 0x73, 0x73, 0x65, 0x73, 0x73, 0x69, 0x6F, 0x6E, 0x20,
     0x6F, 0x66, 0x20, 0x61, 0x20, 0x67, 0x6F, 0x6F, 0x64, 0x20, 0x66, 0x6F, 0x72, 0x74,
     0x75, 0x6E, 0x65, 0x2C, 0x20, 0x6D, 0x75, 0x73, 0x74, 0x20, 0x62, 0x65, 0x20, 0x69,
     0x6E, 0x20, 0x77, 0x61, 0x6E, 0x74, 0x20, 0x6F, 0x66, 0x20, 0x61, 0x20, 0x77, 0x69,
     0x66, 0x65, 0x2E, 0x58, 0x40, 0x6E, 0x6D, 0xF6, 0x54, 0x89, 0xEA, 0x3B, 0x01, 0x88,
     0x33, 0xF5, 0xFC, 0x4F, 0x84, 0xF8, 0x1B, 0x4D, 0x5E, 0xFD, 0x5A, 0x09, 0xD5, 0xC6,
     0x2F, 0x2E, 0x92, 0x38, 0x5D, 0xCE, 0x31, 0xE2, 0xD1, 0x5A, 0x53, 0xA9, 0xF0, 0x75,
     0xE8, 0xFB, 0x39, 0x66, 0x9F, 0xCD, 0x4E, 0xB5, 0x22, 0xC8, 0x5C, 0x92, 0x77, 0x45,
     0x2F, 0xA8, 0x57, 0xF5, 0xFE, 0x37, 0x9E, 0xDD, 0xEF, 0x0F, 0xAB, 0x3C, 0xDD]"

text \<open>A ES256 document with a changed byte in its payload.\<close>

definition tampered_content :: bytes where
  "tampered_content =
    [0x84, 0x43, 0xA1, 0x01, 0x26, 0xA1, 0x04, 0x42, 0x31, 0x31, 0x58, 0x75, 0x49, 0x74,
     0x20, 0x69, 0x73, 0x20, 0x61, 0x20, 0x74, 0x72, 0x75, 0x74, 0x68, 0x20, 0x75, 0x6F,
     0x69, 0x76, 0x65, 0x72, 0x73, 0x61, 0x6C, 0x6C, 0x79, 0x20, 0x61, 0x63, 0x6B, 0x6E,
     0x6F, 0x77, 0x6C, 0x65, 0x64, 0x67, 0x65, 0x64, 0x2C, 0x20, 0x74, 0x68, 0x61, 0x74,
     0x20, 0x61, 0x20, 0x73, 0x69, 0x6E, 0x67, 0x6C, 0x65, 0x20, 0x6D, 0x61, 0x6E, 0x20,
     0x69, 0x6E, 0x20, 0x70, 0x6F, 0x73, 0x73, 0x65, 0x73, 0x73, 0x69, 0x6F, 0x6E, 0x20,
     0x6F, 0x66, 0x20, 0x61, 0x20, 0x67, 0x6F, 0x6F, 0x64, 0x20, 0x66, 0x6F, 0x72, 0x74,
     0x75, 0x6E, 0x65, 0x2C, 0x20, 0x6D, 0x75, 0x73, 0x74, 0x20, 0x62, 0x65, 0x20, 0x69,
     0x6E, 0x20, 0x77, 0x61, 0x6E, 0x74, 0x20, 0x6F, 0x66, 0x20, 0x61, 0x20, 0x77, 0x69,
     0x66, 0x65, 0x2E, 0x58, 0x40, 0x6E, 0x6D, 0xF6, 0x54, 0x89, 0xEA, 0x3B, 0x01, 0x88,
     0x33, 0xF5, 0xFC, 0x4F, 0x84, 0xF8, 0x1B, 0x4D, 0x5E, 0xFD, 0x5A, 0x09, 0xD5, 0xC6,
     0x2F, 0x2E, 0x92, 0x38, 0x5D, 0xCE, 0x31, 0xE2, 0xD1, 0x5A, 0x53, 0xA9, 0xF0, 0x75,
     0xE8, 0xFB, 0x39, 0x66, 0x9F, 0xCD, 0x4E, 0xB5, 0x22, 0xC8, 0x5C, 0x92, 0x77, 0x45,
     0x2F, 0xA8, 0x57, 0xF5, 0xFE, 0x37, 0x9E, 0xDD, 0xEF, 0x0F, 0xAB, 0x3C, 0xDD]"

text \<open>A ES256 document with a changed byte in its signature.\<close>

definition tampered_signature :: bytes where
  "tampered_signature =
    [0x84, 0x43, 0xA1, 0x01, 0x26, 0xA1, 0x04, 0x42, 0x31, 0x31, 0x58, 0x75, 0x49, 0x74,
     0x20, 0x69, 0x73, 0x20, 0x61, 0x20, 0x74, 0x72, 0x75, 0x74, 0x68, 0x20, 0x75, 0x6E,
     0x69, 0x76, 0x65, 0x72, 0x73, 0x61, 0x6C, 0x6C, 0x79, 0x20, 0x61, 0x63, 0x6B, 0x6E,
     0x6F, 0x77, 0x6C, 0x65, 0x64, 0x67, 0x65, 0x64, 0x2C, 0x20, 0x74, 0x68, 0x61, 0x74,
     0x20, 0x61, 0x20, 0x73, 0x69, 0x6E, 0x67, 0x6C, 0x65, 0x20, 0x6D, 0x61, 0x6E, 0x20,
     0x69, 0x6E, 0x20, 0x70, 0x6F, 0x73, 0x73, 0x65, 0x73, 0x73, 0x69, 0x6F, 0x6E, 0x20,
     0x6F, 0x66, 0x20, 0x61, 0x20, 0x67, 0x6F, 0x6F, 0x64, 0x20, 0x66, 0x6F, 0x72, 0x74,
     0x75, 0x6E, 0x65, 0x2C, 0x20, 0x6D, 0x75, 0x73, 0x74, 0x20, 0x62, 0x65, 0x20, 0x69,
     0x6E, 0x20, 0x77, 0x61, 0x6E, 0x74, 0x20, 0x6F, 0x66, 0x20, 0x61, 0x20, 0x77, 0x69,
     0x66, 0x65, 0x2E, 0x58, 0x40, 0x6E, 0x6D, 0xF6, 0x54, 0x89, 0xEA, 0x3B, 0x01, 0x88,
     0x33, 0xF5, 0xFC, 0x4F, 0x84, 0xF8, 0x1B, 0x4D, 0x5E, 0xFD, 0x5B, 0x09, 0xD5, 0xC6,
     0x2F, 0x2E, 0x92, 0x38, 0x5D, 0xCE, 0x31, 0xE2, 0xD1, 0x5A, 0x53, 0xA9, 0xF0, 0x75,
     0xE8, 0xFB, 0x39, 0x66, 0x9F, 0xCD, 0x4E, 0xB5, 0x22, 0xC8, 0x5C, 0x92, 0x77, 0x45,
     0x2F, 0xA8, 0x57, 0xF5, 0xFE, 0x37, 0x9E, 0xDD, 0xEF, 0x0F, 0xAB, 0x3C, 0xDD]"

definition text_document :: "bytes \<Rightarrow> bytes \<Rightarrow> cose_sign1" where
  "text_document protected signature =
     \<lparr>sign1_protected = protected, sign1_unprotected = kid_header, sign1_payload = TEXT, sign1_signature = signature\<rparr>"

lemma text_document_sel [simp]:
  "sign1_protected (text_document p s) = p" "sign1_unprotected (text_document p s) = kid_header"
  "sign1_payload (text_document p s) = TEXT" "sign1_signature (text_document p s) = s"
  by (simp_all add: text_document_def)

lemma text_items:
  "reference_parse validate_es256 = Inr (VTag 18 (cose_sign1_item (text_document [0xA1, 0x01, 0x26] (drop 134 validate_es256))))"
  "reference_parse validate_es384 = Inr (cose_sign1_item (text_document [0xA1, 0x01, 0x38, 0x22] (drop 132 validate_es384)))"
  "reference_parse validate_es512 = Inr (cose_sign1_item (text_document [0xA1, 0x01, 0x38, 0x23] (drop 132 validate_es512)))"
  "reference_parse invalid_tag = Inr (VTag 19 (cose_sign1_item (text_document [0xA1, 0x01, 0x26] (drop 132 invalid_tag))))"
  "reference_parse missing_tag = Inr (cose_sign1_item (text_document [0xA1, 0x01, 0x26] (drop 131 missing_tag)))"
  "reference_parse tampered_content = Inr (cose_sign1_item
     (text_document [0xA1, 0x01, 0x26] (drop 131 tampered_content)\<lparr>sign1_payload := TEXT[15 := 0x6F]\<rparr>))"
  "reference_parse tampered_signature = Inr (cose_sign1_item (text_document [0xA1, 0x01, 0x26] (drop 131 tampered_signature)))"
  by code_simp+

lemma text_headers:
  "header_from_bytes reference_lib [0xA1, 0x01, 0x38, 0x22] = Inr (HeaderMap [(VInteger 1, VInteger (- 35))])"
  "header_from_bytes reference_lib [0xA1, 0x01, 0x38, 0x23] = Inr (HeaderMap [(VInteger 1, VInteger (- 36))])"
  by code_simp+

lemma text_document_storable: "length p < 2 ^ 63 \<Longrightarrow> length s < 2 ^ 63 \<Longrightarrow> sign1_storable reference_lib (text_document p s)"
  by (simp add: sign1_storable_def text_document_def length_TEXT)

lemma text_deserialize:
  "length p < 2 ^ 63 \<Longrightarrow> length s < 2 ^ 63 \<Longrightarrow>
   cose_sign1_deserialize reference_lib (cose_sign1_item (text_document p s)) = Inr (text_document p s)"
  by (intro serde_cbor.cose_sign1_deserialize_item [OF reference_laws] text_document_storable)

lemma text_lengths [simp]:
  "length (drop 134 validate_es256) = 64" "length (drop 132 validate_es384) = 96"
  "length (drop 132 validate_es512) = 132" "length (drop 132 invalid_tag) = 64" "length (drop 131 missing_tag) = 64"
  "length (drop 131 tampered_content) = 64" "length (drop 131 tampered_signature) = 64"
  by (simp_all add: tampered_content_def tampered_signature_def validate_es256_def validate_es384_def validate_es512_def invalid_tag_def missing_tag_def)

lemma untagged_item: "reference_split_tag (cose_sign1_item doc) = (None, cose_sign1_item doc)"
  by (simp add: cose_sign1_item_def)

lemma validated_documents_test:
  "sign1_from_bytes reference_lib validate_es256 = Ok (text_document [0xA1, 0x01, 0x26] (drop 134 validate_es256))"
  "sign1_from_bytes reference_lib validate_es384 = Ok (text_document [0xA1, 0x01, 0x38, 0x22] (drop 132 validate_es384))"
  "sign1_from_bytes reference_lib validate_es512 = Ok (text_document [0xA1, 0x01, 0x38, 0x23] (drop 132 validate_es512))"
  by (simp_all add: sign1_from_bytes_def tagged_from_slice_def text_items untagged_item text_deserialize
      text_headers del: length_drop)

definition cose_sign1_ec256_invalid_tag :: "cbor_lib \<Rightarrow> unit cose_result" where
  "cose_sign1_ec256_invalid_tag L =
     obind (unwrap_err (sign1_from_bytes L invalid_tag)) (\<lambda>e.
     if e = TagError (Some 19) then Ok () else Panic ''explicit panic'')"

definition cose_sign1_ec256_missing_tag :: "cbor_lib \<Rightarrow> unit cose_result" where
  "cose_sign1_ec256_missing_tag L =
     obind (unwrap_err (sign1_from_bytes_tagged L missing_tag)) (\<lambda>e.
     if e = TagError None then Ok () else Panic ''explicit panic'')"

lemma wrong_tags_test:
  "sign1_from_bytes reference_lib invalid_tag = Err (TagError (Some 19))"
  "sign1_from_bytes_tagged reference_lib missing_tag = Err (TagError None)"
  by (simp_all add: sign1_from_bytes_def sign1_from_bytes_tagged_def tagged_from_slice_def text_items
      untagged_item text_deserialize del: length_drop)

lemma tag_tests_pass:
  "cose_sign1_ec256_invalid_tag reference_lib = Ok ()" "cose_sign1_ec256_missing_tag reference_lib = Ok ()"
  by (simp_all add: cose_sign1_ec256_invalid_tag_def cose_sign1_ec256_missing_tag_def wrong_tags_test)

lemma tampered_documents_test:
  "sign1_from_bytes reference_lib tampered_content =
     Ok (text_document [0xA1, 0x01, 0x26] (drop 131 tampered_content)\<lparr>sign1_payload := TEXT[15 := 0x6F]\<rparr>)"
  "sign1_from_bytes reference_lib tampered_signature = Ok (text_document [0xA1, 0x01, 0x26] (drop 131 tampered_signature))"
proof -
  let ?doc = "text_document [0xA1, 0x01, 0x26] (drop 131 tampered_content)\<lparr>sign1_payload := TEXT[15 := 0x6F]\<rparr>"
  have "sign1_storable reference_lib ?doc"
    by (simp add: sign1_storable_def text_document_def del: length_drop)
  then have "cose_sign1_deserialize reference_lib (cose_sign1_item ?doc) = Inr ?doc"
    by (rule serde_cbor.cose_sign1_deserialize_item [OF reference_laws])
  then show "sign1_from_bytes reference_lib tampered_content = Ok ?doc"
    by (simp add: sign1_from_bytes_def tagged_from_slice_def text_items untagged_item del: length_drop)
  show "sign1_from_bytes reference_lib tampered_signature = Ok (text_document [0xA1, 0x01, 0x26] (drop 131 tampered_signature))"
    by (simp add: sign1_from_bytes_def tagged_from_slice_def text_items untagged_item text_deserialize del: length_drop)
qed

section \<open>Verifying the documents\<close>

text \<open>What the tests do with a document: they want its text, or they want an error.\<close>

definition reads_text :: "hash \<Rightarrow> ('p, 'n) signing_public_key_scheme \<Rightarrow> bytes \<Rightarrow> 'p \<Rightarrow> unit cose_result" where
  "reads_text H ec_public bytes p =
     obind (unwrap (sign1_from_bytes reference_lib bytes)) (\<lambda>cose_doc.
     obind (unwrap (fst (get_payload reference_lib H (Some ec_public) cose_doc p))) (\<lambda>payload.
     assert_eq payload TEXT))"

definition refuses_payload :: "hash \<Rightarrow> ('p, 'n) signing_public_key_scheme \<Rightarrow> bytes \<Rightarrow> 'p \<Rightarrow> unit cose_result" where
  "refuses_payload H ec_public bytes p =
     obind (unwrap (sign1_from_bytes reference_lib bytes)) (\<lambda>cose_doc.
     obind (is_err (fst (get_payload reference_lib H (Some ec_public) cose_doc p))) (\<lambda>e.
     rust_assert e ''get_payload(Some(&ec_public)).is_err()''))"

definition cose_sign1_ec256_validate :: "hash \<Rightarrow> ('p, 'n) signing_public_key_scheme \<Rightarrow> 'p \<Rightarrow> unit cose_result" where
  "cose_sign1_ec256_validate H ec_public p = reads_text H ec_public validate_es256 p"

definition cose_sign1_ec384_validate :: "hash \<Rightarrow> ('p, 'n) signing_public_key_scheme \<Rightarrow> 'p \<Rightarrow> unit cose_result" where
  "cose_sign1_ec384_validate H ec_public p = reads_text H ec_public validate_es384 p"

definition cose_sign1_ec512_validate :: "hash \<Rightarrow> ('p, 'n) signing_public_key_scheme \<Rightarrow> 'p \<Rightarrow> unit cose_result" where
  "cose_sign1_ec512_validate H ec_public p = reads_text H ec_public validate_es512 p"

definition cose_sign1_ec256_tampered_content :: "hash \<Rightarrow> ('p, 'n) signing_public_key_scheme \<Rightarrow> 'p \<Rightarrow> unit cose_result" where
  "cose_sign1_ec256_tampered_content H ec_public p = refuses_payload H ec_public tampered_content p"

definition cose_sign1_ec256_tampered_signature :: "hash \<Rightarrow> ('p, 'n) signing_public_key_scheme \<Rightarrow> 'p \<Rightarrow> unit cose_result" where
  "cose_sign1_ec256_tampered_signature H ec_public p = refuses_payload H ec_public tampered_signature p"

text \<open>The example of RFC 8152, appendix C.2.1, built field by field.\<close>

definition rfc_8152_signature :: bytes where
  "rfc_8152_signature =
    [0x8E, 0xB3, 0x3E, 0x4C, 0xA3, 0x1D, 0x1C, 0x46, 0x5A, 0xB0, 0x5A, 0xAC, 0x34, 0xCC, 0x6B, 0x23,
     0xD5, 0x8F, 0xEF, 0x5C, 0x08, 0x31, 0x06, 0xC4, 0xD2, 0x5A, 0x91, 0xAE, 0xF0, 0xB0, 0x11, 0x7E,
     0x2A, 0xF9, 0xA2, 0x91, 0xAA, 0x32, 0xE1, 0x4A, 0xB8, 0x34, 0xDC, 0x56, 0xED, 0x2A, 0x22, 0x34,
     0x44, 0x54, 0x7E, 0x01, 0xF1, 0x1D, 0x3B, 0x09, 0x16, 0xE5, 0xA4, 0xC3, 0x45, 0xCA, 0xCB, 0x36]"

definition rfc_8152_c_2_1_sign1_validate :: "hash \<Rightarrow> ('p, 'n) signing_public_key_scheme \<Rightarrow> 'p \<Rightarrow> unit cose_result" where
  "rfc_8152_c_2_1_sign1_validate H ec_public p =
     (let payload = bytes_of_string ''This is the content.'';
          unprotected = snd (header_insert reference_lib header_new (VInteger 4) (VBytes (bytes_of_string ''11'')));
          cose_doc = \<lparr>sign1_protected = [0xA1, 0x01, 0x26], sign1_unprotected = unprotected,
            sign1_payload = payload, sign1_signature = rfc_8152_signature\<rparr> in
     obind (unwrap (fst (get_payload reference_lib H (Some ec_public) cose_doc p))) (\<lambda>read.
     assert_eq read payload))"

text \<open>Each of them comes down to the one question that the key is asked.\<close>

lemma get_payload_asks:
  assumes "get_parameters P p = (Ok (alg, dig), p1)"
    and "header_from_bytes reference_lib (sign1_protected doc) = Inr (HeaderMap [(VInteger 1, VInteger (sint (sig_alg_i8 alg)))])"
    and "reference_to_vec (signed_item (sign1_protected doc) (sign1_payload doc)) = Inr tbs"
    and "hash_of H dig tbs = Ok d" and "sign1_payload doc = t"
  shows "fst (get_payload reference_lib H (Some P) doc p) =
    obind (fst (verify P d (sign1_signature doc) p1)) (\<lambda>ok. if ok then Ok t else Err UnverifiedSignature)"
proof -
  have "verify_signature reference_lib H P doc p = verify P d (sign1_signature doc) p1"
    using assms(3,4) unfolding verify_signature_step [OF assms(1,2)] by simp
  moreover obtain v p2 where "verify P d (sign1_signature doc) p1 = (v, p2)" by fastforce
  ultimately show ?thesis using assms(5) by (cases v) (simp_all add: get_payload_def)
qed

lemma signed_text_bytes:
  "reference_to_vec (signed_item [0xA1, 0x01, 0x26] TEXT) = Inr (text_tbs [0x43, 0xA1, 0x01, 0x26])"
  "reference_to_vec (signed_item [0xA1, 0x01, 0x38, 0x22] TEXT) = Inr (text_tbs [0x44, 0xA1, 0x01, 0x38, 0x22])"
  "reference_to_vec (signed_item [0xA1, 0x01, 0x38, 0x23] TEXT) = Inr (text_tbs [0x44, 0xA1, 0x01, 0x38, 0x23])"
  by code_simp+

lemma unwrap_text_Ok:
  "obind (unwrap (obind r (\<lambda>ok. if ok then Ok t else Err e))) (\<lambda>x. assert_eq x t) = Ok () \<longleftrightarrow> r = Ok True"
proof (cases r)
  case (Ok b)
  then show ?thesis by (cases b) simp_all
qed simp_all

lemma validate_tests_pass_iff:
  assumes "get_parameters P p = (Ok (alg, suggested_message_digest alg), p1)"
    and "\<And>tbs. hash_of H (suggested_message_digest alg) tbs = Ok (h tbs)"
  shows "alg = ES256 \<Longrightarrow> cose_sign1_ec256_validate H P p = Ok () \<longleftrightarrow>
      fst (verify P (h (text_tbs [0x43, 0xA1, 0x01, 0x26])) (drop 134 validate_es256) p1) = Ok True"
    and "alg = ES384 \<Longrightarrow> cose_sign1_ec384_validate H P p = Ok () \<longleftrightarrow>
      fst (verify P (h (text_tbs [0x44, 0xA1, 0x01, 0x38, 0x22])) (drop 132 validate_es384) p1) = Ok True"
    and "alg = ES512 \<Longrightarrow> cose_sign1_ec512_validate H P p = Ok () \<longleftrightarrow>
      fst (verify P (h (text_tbs [0x44, 0xA1, 0x01, 0x38, 0x23])) (drop 132 validate_es512) p1) = Ok True"
proof -
  have run: "reads_text H P bs p = Ok () \<longleftrightarrow> fst (verify P (h tbs) s p1) = Ok True"
    if "sign1_from_bytes reference_lib bs = Ok (text_document pb s)"
      and "header_from_bytes reference_lib pb = Inr (HeaderMap [(VInteger 1, VInteger (sint (sig_alg_i8 alg)))])"
      and "reference_to_vec (signed_item pb TEXT) = Inr tbs" for bs pb s tbs
  proof -
    have "fst (get_payload reference_lib H (Some P) (text_document pb s) p) =
        obind (fst (verify P (h tbs) s p1)) (\<lambda>ok. if ok then Ok TEXT else Err UnverifiedSignature)"
      using get_payload_asks [OF assms(1), of "text_document pb s" tbs H "h tbs" TEXT] that(2,3) assms(2) by simp
    then show ?thesis by (simp add: reads_text_def that(1) unwrap_text_Ok)
  qed
  show "cose_sign1_ec256_validate H P p = Ok () \<longleftrightarrow>
      fst (verify P (h (text_tbs [0x43, 0xA1, 0x01, 0x26])) (drop 134 validate_es256) p1) = Ok True" if "alg = ES256"
    unfolding cose_sign1_ec256_validate_def
    by (rule run [OF validated_documents_test(1) _ signed_text_bytes(1)]) (simp add: that)
  show "cose_sign1_ec384_validate H P p = Ok () \<longleftrightarrow>
      fst (verify P (h (text_tbs [0x44, 0xA1, 0x01, 0x38, 0x22])) (drop 132 validate_es384) p1) = Ok True" if "alg = ES384"
    unfolding cose_sign1_ec384_validate_def
    by (rule run [OF validated_documents_test(2) _ signed_text_bytes(2)]) (simp add: that text_headers)
  show "cose_sign1_ec512_validate H P p = Ok () \<longleftrightarrow>
      fst (verify P (h (text_tbs [0x44, 0xA1, 0x01, 0x38, 0x23])) (drop 132 validate_es512) p1) = Ok True" if "alg = ES512"
    unfolding cose_sign1_ec512_validate_def
    by (rule run [OF validated_documents_test(3) _ signed_text_bytes(3)]) (simp add: that text_headers)
qed

lemma refuses_Ok:
  "obind (is_err (obind r (\<lambda>ok. if ok then Ok t else Err x))) (\<lambda>e. rust_assert e m) = Ok () \<longleftrightarrow>
   r \<noteq> Ok True \<and> (\<forall>q. r \<noteq> Panic q)"
proof (cases r)
  case (Ok b)
  then show ?thesis by (cases b) (simp_all add: is_err_def rust_assert_def)
qed (simp_all add: is_err_def)

lemma tampered_text_bytes:
  "reference_to_vec (signed_item [0xA1, 0x01, 0x26] (TEXT[15 := 0x6F])) =
     Inr ((text_tbs [0x43, 0xA1, 0x01, 0x26])[34 := 0x6F])"
  by code_simp

lemma tampered_tests_pass_iff:
  assumes "get_parameters P p = (Ok (ES256, Sha256), p1)" and "\<And>tbs. hash_of H Sha256 tbs = Ok (h tbs)"
  shows "cose_sign1_ec256_tampered_content H P p = Ok () \<longleftrightarrow>
      fst (verify P (h ((text_tbs [0x43, 0xA1, 0x01, 0x26])[34 := 0x6F])) (drop 131 tampered_content) p1)
        \<notin> insert (Ok True) (range Panic)"
    and "cose_sign1_ec256_tampered_signature H P p = Ok () \<longleftrightarrow>
      fst (verify P (h (text_tbs [0x43, 0xA1, 0x01, 0x26])) (drop 131 tampered_signature) p1)
        \<notin> insert (Ok True) (range Panic)"
proof -
  have run: "refuses_payload H P bs p = Ok () \<longleftrightarrow> fst (verify P (h tbs) (sign1_signature doc) p1) \<notin> insert (Ok True) (range Panic)"
    if "sign1_from_bytes reference_lib bs = Ok doc" and "sign1_protected doc = [0xA1, 0x01, 0x26]"
      and "reference_to_vec (signed_item [0xA1, 0x01, 0x26] (sign1_payload doc)) = Inr tbs" for bs doc tbs
  proof -
    have "fst (get_payload reference_lib H (Some P) doc p) =
        obind (fst (verify P (h tbs) (sign1_signature doc) p1)) (\<lambda>ok. if ok then Ok (sign1_payload doc) else Err UnverifiedSignature)"
      using get_payload_asks [OF assms(1), of doc tbs H "h tbs" "sign1_payload doc"] that(2,3) assms(2) by simp
    then show ?thesis by (auto simp: refuses_payload_def that(1) refuses_Ok)
  qed
  show "cose_sign1_ec256_tampered_content H P p = Ok () \<longleftrightarrow>
      fst (verify P (h ((text_tbs [0x43, 0xA1, 0x01, 0x26])[34 := 0x6F])) (drop 131 tampered_content) p1)
        \<notin> insert (Ok True) (range Panic)"
    unfolding cose_sign1_ec256_tampered_content_def
    using run [OF tampered_documents_test(1)] tampered_text_bytes by (simp del: length_drop)
  show "cose_sign1_ec256_tampered_signature H P p = Ok () \<longleftrightarrow>
      fst (verify P (h (text_tbs [0x43, 0xA1, 0x01, 0x26])) (drop 131 tampered_signature) p1)
        \<notin> insert (Ok True) (range Panic)"
    unfolding cose_sign1_ec256_tampered_signature_def
    using run [OF tampered_documents_test(2)] signed_text_bytes(1) by (simp del: length_drop)
qed

lemma rfc_8152_bytes:
  "reference_to_vec (signed_item [0xA1, 0x01, 0x26] (bytes_of_string ''This is the content.'')) =
   Inr ([0x84, 0x6A, 0x53, 0x69, 0x67, 0x6E, 0x61, 0x74, 0x75, 0x72, 0x65, 0x31, 0x43, 0xA1, 0x01, 0x26, 0x40, 0x54]
     @ bytes_of_string ''This is the content.'')"
  by code_simp

lemma rfc_8152_test_passes_iff:
  assumes "get_parameters P p = (Ok (ES256, Sha256), p1)" and "\<And>tbs. hash_of H Sha256 tbs = Ok (h tbs)"
  shows "rfc_8152_c_2_1_sign1_validate H P p = Ok () \<longleftrightarrow>
    fst (verify P (h ([0x84, 0x6A, 0x53, 0x69, 0x67, 0x6E, 0x61, 0x74, 0x75, 0x72, 0x65, 0x31, 0x43, 0xA1, 0x01, 0x26, 0x40, 0x54]
      @ bytes_of_string ''This is the content.'')) rfc_8152_signature p1) = Ok True"
proof -
  let ?doc = "\<lparr>sign1_protected = [0xA1, 0x01, 0x26],
      sign1_unprotected = snd (header_insert reference_lib header_new (VInteger 4) (VBytes (bytes_of_string ''11''))),
      sign1_payload = bytes_of_string ''This is the content.'', sign1_signature = rfc_8152_signature\<rparr>"
  have "header_from_bytes reference_lib (sign1_protected ?doc) = Inr (HeaderMap [(VInteger 1, VInteger (sint (sig_alg_i8 ES256)))])"
    by simp
  then have "fst (get_payload reference_lib H (Some P) ?doc p) =
      obind (fst (verify P (h ([0x84, 0x6A, 0x53, 0x69, 0x67, 0x6E, 0x61, 0x74, 0x75, 0x72, 0x65, 0x31, 0x43, 0xA1, 0x01, 0x26, 0x40, 0x54]
        @ bytes_of_string ''This is the content.'')) (sign1_signature ?doc) p1))
        (\<lambda>ok. if ok then Ok (bytes_of_string ''This is the content.'') else Err UnverifiedSignature)"
    by (rule get_payload_asks [OF assms(1) _ _ assms(2)]) (simp_all add: rfc_8152_bytes)
  then show ?thesis
    by (simp add: rfc_8152_c_2_1_sign1_validate_def Let_def unwrap_text_Ok del: header_insert.simps)
qed

text \<open>Without a key \<open>get_payload\<close> checks nothing.\<close>

lemma unverified_text:
  "get_payload reference_lib H None (text_document p s) k = (Ok TEXT, k)"
  by (simp add: get_payload_def)

end
