(* ===== verification/Test_Properties.thy ===== *)
theory Test_Properties
  imports Test_Devices Test_Vectors Scenarios
begin

text \<open>
  The bytes of the documents, and the tests of the repository over arbitrary back ends, with their
  runs over the reference codec and the small back ends.
\<close>

section \<open>Layout\<close>

text \<open>
  C12: over a library that writes items in their shortest form, the bytes that are signed, the
  bytes that are authenticated and the bytes of both kinds of document, with their tag and without
  it, are exactly those of RFC 8152: the array head, the context or the headers, and byte strings with
  shortest heads, under \<open>D2\<close> and \<open>D0\<close> where the document is tagged.
\<close>

theorem document_layout:
  assumes wire: "cbor_wire L"
    and "sign1_storable L doc" and "float_free (header_item (sign1_unprotected doc))"
    and "encrypt0_storable L enc" and "float_free (header_item (enc0_unprotected enc))"
    and "sig_new_sign1 (sign1_protected doc) (sign1_payload doc) = Inr s" and "enc_new_encrypt0 (enc0_protected enc) = Inr e"
  shows "sign1_as_bytes L doc tagged =
      Ok ((if tagged then [0xD2] else []) @ [0x84] @ bstr (sign1_protected doc)
        @ encode (header_item (sign1_unprotected doc)) @ bstr (sign1_payload doc) @ bstr (sign1_signature doc))
    \<and> encrypt0_as_bytes L enc tagged =
      Ok ((if tagged then [0xD0] else []) @ [0x83] @ bstr (enc0_protected enc)
        @ encode (header_item (enc0_unprotected enc)) @ bstr (enc0_ciphertext enc))
    \<and> sig_structure_as_bytes L s =
      Inr ([0x84, 0x6A] @ bytes_of_string ''Signature1'' @ bstr (sign1_protected doc) @ [0x40] @ bstr (sign1_payload doc))
    \<and> enc_structure_as_bytes L e =
      Inr ([0x83, 0x68] @ bytes_of_string ''Encrypt0'' @ bstr (enc0_protected enc) @ [0x40])"
proof -
  have "length (sign1_protected doc) < 2 ^ 63" "length (sign1_payload doc) < 2 ^ 63" "length (enc0_protected enc) < 2 ^ 63"
    using assms(2,4) by (simp_all add: sign1_storable_def encrypt0_storable_def)
  then show ?thesis
    using cbor_wire.sign1_bytes [OF wire assms(2,3), of tagged] cbor_wire.encrypt0_bytes [OF wire assms(4,5), of tagged]
      cbor_wire.sig_structure_bytes [OF wire] cbor_wire.enc_structure_bytes [OF wire] assms(6,7)
    by (simp add: rfc8152_sign1_def rfc8152_encrypt0_def rfc8152_sig_structure_def rfc8152_enc_structure_def
        del: append.simps)
qed

theorem document_layout_witness:
  "sign1_as_bytes reference_lib demo_sign1 True =
     Ok ([0xD2, 0x84, 0x43, 0xA1, 0x01, 0x26, 0xA1, 0x04, 0x42, 0x31, 0x31, 0x43, 1, 2, 3, 0x58, 0x40] @ sign1_signature demo_sign1)"
proof -
  have "float_free (header_item (sign1_unprotected demo_sign1))" "float_free (header_item (enc0_unprotected demo_encrypt0))"
    by (simp_all add: demo_sign1_def kid_header_def demo_encrypt0_def iv_header_def)
  from document_layout [OF reference_wire.cbor_wire_axioms demo_sign1_storable this(1) demo_encrypt0_storable this(2) _ _,
      of _ _ True, THEN conjunct1]
  show ?thesis
    by (simp add: sig_new_sign1_def enc_new_encrypt0_def demo_sign1_def kid_header_def bstr_def head_def initial_byte_def)
qed

section \<open>The signing tests\<close>

text \<open>The tests over the reference codec and the small back end, with a key of any algorithm.\<close>

interpretation demo_tests: signing_tests reference_lib "demo_signer alg" "demo_verifier alg" "\<lambda>_. True" "\<lambda>_. True" alg
    "suggested_message_digest alg"
  for alg
  by unfold_locales

text \<open>
  A small key library for the small back end: a group is its curve, every generated key has the
  private value 3 and the point 9, and a fixed key keeps its private value.
\<close>

definition demo_key_lib :: "(nid, nat, demo_ec, demo_key, nat) key_lib" where
  "demo_key_lib =
     \<lparr>from_curve_name = Inr,
      from_hex_str = (\<lambda>s. if is_hex s then Inr (hex_nat s) else Inl (demo_error ''bn lib'')),
      from_affine = (\<lambda>g x y. Inr (Demo_Ec (Some g) None 9)),
      public_point = (\<lambda>ec. case ec of Demo_Ec c x y \<Rightarrow> y),
      from_private_components = (\<lambda>g d pt. Inr (Demo_Ec (Some g) (Some d) pt)),
      generate = (\<lambda>g w. (Inr (Demo_Ec (Some g) (Some 3) 9), Suc w)),
      from_public_key = (\<lambda>g pt. Inr (Demo_Ec (Some g) None pt)),
      from_ec_key = (\<lambda>ec. Inr (Demo_Key ec))\<rparr>"

interpretation demo_keys: test_keys demo_pkey demo_key_lib
proof unfold_locales
  fix alg g w ec w' ec' digest u sig u'
  assume "from_curve_name demo_key_lib (curve_of alg) = Inr g" and ec: "generate demo_key_lib g w = (Inr ec, w')"
    and "curve_name demo_pkey ec' = Some (curve_of alg)" and point: "public_point demo_key_lib ec' = public_point demo_key_lib ec"
    and sign: "ecdsa_sign demo_pkey digest ec u = (Inr sig, u')"
  have "dsa_sign 3 digest u = (Inr sig, u')"
    using ec sign by (auto simp: demo_key_lib_def demo_pkey_def)
  moreover obtain c x where "ec' = Demo_Ec c x 9"
    using ec point by (cases ec') (auto simp: demo_key_lib_def)
  ultimately show "fits_algorithm alg sig \<and> ecdsa_verify demo_pkey sig digest ec' = Inr True"
    by (simp add: demo_pkey_def demo_fits dsa_sign_correct)
qed (auto simp: demo_key_lib_def demo_pkey_def)

interpretation demo_environment: test_environment demo_pkey demo_key_lib reference_lib demo_hasher
  by unfold_locales
    (auto simp: demo_key_lib_def demo_pkey_def dsa_sign_total openssl_hasher_def openssl_hash_def demo_openssl_def demo_hash_def)

text \<open>
  The repository's tests of signing with generated keys, from every state of the random source, over every OpenSSL
  that obeys the stated laws and every lawful library, whenever the generation of keys, signing and
  hashing succeed.  These pass: the untagged round trips for the three curves, the tagged ones, which are for P-256
  only, the extra protected entry, the key of another type and the unsupported curve.  The test with another key of
  the same type passes if and only if that key refuses the signature.
\<close>

theorem signing_tests_pass:
  assumes "test_environment PL KB L H"
  shows "with_generated_key PL (generate_ec256_test_key KB w) (cose_sign1_ec256_text L H) = Ok ()
    \<and> with_generated_key PL (generate_ec256_test_key KB w) (cose_sign1_ec256_text_tagged L H) = Ok ()
    \<and> with_generated_key PL (generate_ec256_test_key KB w) (cose_sign1_ec256_text_tagged_serde L H) = Ok ()
    \<and> with_generated_key PL (generate_ec256_test_key KB w) (cose_sign1_ec256_text_with_extra_protected L H) = Ok ()
    \<and> with_generated_key PL (generate_ec384_test_key KB w) (cose_sign1_ec384_text L H) = Ok ()
    \<and> with_generated_key PL (generate_ec512_test_key KB w) (cose_sign1_ec512_text L H) = Ok ()
    \<and> with_two_keys PL (generate_ec512_test_key KB w) (generate_ec384_test_key KB) (validate_with_wrong_key_type L H) = Ok ()
    \<and> with_unknown_curve PL (unknown_curve_key KB w) (unknown_curve L H) = Ok ()
    \<and> (with_two_keys PL (generate_ec512_test_key KB w) (generate_ec512_test_key KB) (validate_with_wrong_key L H) = Ok () \<longleftrightarrow>
        (\<exists>priv pub w1 priv' other w2 doc k'. generate_ec512_test_key KB w = (Ok (priv, pub), w1)
          \<and> generate_ec512_test_key KB w1 = (Ok (priv', other), w2)
          \<and> cose_sign1_new L H (pkey_private PL priv) TEXT (text_header L) w2 = (Ok doc, k')
          \<and> fst (verify_signature L H (pkey_public PL other) doc w2) = Ok False))"
  using test_environment.text_tests_pass [OF assms, of X9_62_PRIME256V1 ES256]
    test_environment.text_tests_pass [OF assms, of SECP384R1 ES384]
    test_environment.text_tests_pass [OF assms, of SECP521R1 ES512]
    test_environment.extra_protected_test_passes [OF assms] test_environment.wrong_key_type_test_passes [OF assms]
    test_environment.unknown_curve_test_passes [OF assms] test_environment.wrong_key_test_passes_iff [OF assms, of w]
  by (simp add: generate_ec256_test_key_def generate_ec384_test_key_def generate_ec512_test_key_def)

theorem signing_tests_pass_witness:
  "with_generated_key demo_pkey (generate_ec256_test_key demo_key_lib 5) (cose_sign1_ec256_text reference_lib demo_hasher) = Ok ()
    \<and> with_generated_key demo_pkey (generate_ec256_test_key demo_key_lib 5)
        (cose_sign1_ec256_text_with_extra_protected reference_lib demo_hasher) = Ok ()
    \<and> with_two_keys demo_pkey (generate_ec512_test_key demo_key_lib 5) (generate_ec384_test_key demo_key_lib)
        (validate_with_wrong_key_type reference_lib demo_hasher) = Ok ()
    \<and> with_unknown_curve demo_pkey (unknown_curve_key demo_key_lib 5) (unknown_curve reference_lib demo_hasher) = Ok ()"
  using signing_tests_pass [OF demo_environment.test_environment_axioms, of 5] by simp

text \<open>
  With the fixed keys, which can always be built, the tests that read the fixed documents pass if and
  only if the key accepts the signature.
\<close>

lemma fixed_key_tests_pass_iff:
  assumes "test_keys PL KB" and "\<And>alg tbs. hash_of H (suggested_message_digest alg) tbs = Ok (h alg tbs)"
  shows "with_static_key PL (get_ec256_test_key KB) (cose_sign1_ec256_validate H) w = Ok () \<longleftrightarrow>
      (\<exists>priv pub. get_ec256_test_key KB = Ok (priv, pub)
        \<and> pkeyref_verify PL pub (h ES256 (text_tbs [0x43, 0xA1, 0x01, 0x26])) (drop 134 validate_es256) = Ok True)"
    and "with_static_key PL (get_ec384_test_key KB) (cose_sign1_ec384_validate H) w = Ok () \<longleftrightarrow>
      (\<exists>priv pub. get_ec384_test_key KB = Ok (priv, pub)
        \<and> pkeyref_verify PL pub (h ES384 (text_tbs [0x44, 0xA1, 0x01, 0x38, 0x22])) (drop 132 validate_es384) = Ok True)"
    and "with_static_key PL (get_ec512_test_key KB) (cose_sign1_ec512_validate H) w = Ok () \<longleftrightarrow>
      (\<exists>priv pub. get_ec512_test_key KB = Ok (priv, pub)
        \<and> pkeyref_verify PL pub (h ES512 (text_tbs [0x44, 0xA1, 0x01, 0x38, 0x23])) (drop 132 validate_es512) = Ok True)"
proof -
  have params: "get_parameters (pkey_public PL pub) w = (Ok (alg, suggested_message_digest alg), w)"
    if "pkeyref_get_parameters PL pub = Ok (alg, suggested_message_digest alg)" for pub alg
    using that by (simp add: pkey_public_def)
  note keys = test_keys.fixed_keys [OF assms(1)]
  obtain priv pub where key: "get_ec256_test_key KB = Ok (priv, pub)" "pkeyref_get_parameters PL pub = Ok (ES256, Sha256)"
    using keys(1) by blast
  show "with_static_key PL (get_ec256_test_key KB) (cose_sign1_ec256_validate H) w = Ok () \<longleftrightarrow>
      (\<exists>priv pub. get_ec256_test_key KB = Ok (priv, pub)
        \<and> pkeyref_verify PL pub (h ES256 (text_tbs [0x43, 0xA1, 0x01, 0x26])) (drop 134 validate_es256) = Ok True)"
    using validate_tests_pass_iff(1) [OF params [of pub ES256] assms(2) refl] key
    by (simp add: with_static_key_def pkey_public_def del: length_drop)
  obtain priv pub where key: "get_ec384_test_key KB = Ok (priv, pub)" "pkeyref_get_parameters PL pub = Ok (ES384, Sha384)"
    using keys(2) by blast
  show "with_static_key PL (get_ec384_test_key KB) (cose_sign1_ec384_validate H) w = Ok () \<longleftrightarrow>
      (\<exists>priv pub. get_ec384_test_key KB = Ok (priv, pub)
        \<and> pkeyref_verify PL pub (h ES384 (text_tbs [0x44, 0xA1, 0x01, 0x38, 0x22])) (drop 132 validate_es384) = Ok True)"
    using validate_tests_pass_iff(2) [OF params [of pub ES384] assms(2) refl] key
    by (simp add: with_static_key_def pkey_public_def del: length_drop)
  obtain priv pub where key: "get_ec512_test_key KB = Ok (priv, pub)" "pkeyref_get_parameters PL pub = Ok (ES512, Sha512)"
    using keys(3) by blast
  show "with_static_key PL (get_ec512_test_key KB) (cose_sign1_ec512_validate H) w = Ok () \<longleftrightarrow>
      (\<exists>priv pub. get_ec512_test_key KB = Ok (priv, pub)
        \<and> pkeyref_verify PL pub (h ES512 (text_tbs [0x44, 0xA1, 0x01, 0x38, 0x23])) (drop 132 validate_es512) = Ok True)"
    using validate_tests_pass_iff(3) [OF params [of pub ES512] assms(2) refl] key
    by (simp add: with_static_key_def pkey_public_def del: length_drop)
qed

section \<open>The device tests\<close>

text \<open>The small TPM and the small service sign every digest that the hash gives.\<close>

lemma demo_hash_value: "hash_of demo_hasher Sha256 data = Ok d \<longleftrightarrow> d = be_fixed 32 (checksum data)"
  by (auto simp: demo_hasher_256)

lemma demo_tpm_sign_total:
  assumes "length d \<le> 64" and "tpm_usable (\<lambda>_. True) 1 0x0B ES256 Sha256 k"
  shows "\<exists>bs k'. sign (tpm_signer demo_tss) d k = (Ok bs, k') \<and> fits_memory bs"
proof -
  obtain sig w' where s: "dsa_sign 3 d (tpm_context k) = (Inr sig, w')" using dsa_sign_total by blast
  have len: "length (be_min (sig_r sig)) \<le> 32" "length (be_min (sig_s sig)) \<le> 32"
    using dsa_sign_correct [OF s] by (auto intro!: length_be_min)
  then show ?thesis
    using assms s merge_ec_signature_ok [OF len]
    by (simp add: tpm_signer_def tpm_sign_def demo_tss_def demo_tpm_sign_def tpm_usable_def Let_def fits_memory_def)
qed

lemma demo_kms_sign_total:
  assumes "kms_usable client_tokio demo_key_id ES256 (Demo_Key (demo_pub_ec ES256)) k"
  shows "\<exists>bs k'. sign (kms_signer demo_pkey demo_kms) d k = (Ok bs, k') \<and> fits_memory bs"
proof -
  obtain sig w' where s: "dsa_sign 3 d (client_nonce (kms_client k)) = (Inr sig, w')" using dsa_sign_total by blast
  note correct = dsa_sign_correct [OF s]
  have len: "length (be_min (sig_r sig)) \<le> 32" "length (be_min (sig_s sig)) \<le> 32"
    using correct by (auto intro!: length_be_min)
  obtain der where der: "demo_to_der sig = Inr der" using correct by (simp add: demo_to_der_def)
  have alg: "kms_sig_alg k = ES256" "client_tokio (kms_client k)" using assms by (simp_all add: kms_usable_def)
  have "demo_serves (kms_request_of k d)" "req_message (kms_request_of k d) = d"
    using assms by (simp_all add: demo_serves_def kms_request_of_def get_sig_alg_spec_def kms_usable_def)
  then have "send_sign demo_kms (kms_request_of k d) (kms_client k) = (Ok (Some der), (kms_client k)\<lparr>client_nonce := w'\<rparr>)"
    using s der by (simp add: demo_kms_def demo_kms_sign_def)
  moreover have "handle_current demo_kms (kms_client k) = (Ok () :: unit cose_result)"
    using alg by (simp add: handle_current_def demo_kms_def)
  moreover have "sig_from_der demo_pkey der = Inr sig" "bn_to_vec demo_pkey = be_min"
    using demo_der_inverse [OF der] by (simp_all add: demo_pkey_def)
  ultimately show ?thesis
    using alg len merge_ec_signature_ok [OF len]
    by (simp add: kms_signer_def kms_sign_def Let_def fits_memory_def)
qed

interpretation demo_tpm_bench: device_bench reference_lib "tpm_signer demo_tss" "tpm_usable (\<lambda>_. True) 1 0x0B ES256 Sha256"
    ES256 Sha256 demo_hasher
proof unfold_locales
  fix d data :: bytes and k :: "(nat, nat, 16 word) tpm_key"
  show "\<exists>d. hash_of demo_hasher Sha256 data = Ok d" by (simp add: demo_hasher_256)
  assume "hash_of demo_hasher Sha256 data = Ok d" and "tpm_usable (\<lambda>_. True) 1 0x0B ES256 Sha256 k"
  then show "\<exists>bs k'. sign (tpm_signer demo_tss) d k = (Ok bs, k') \<and> fits_memory bs"
    by (intro demo_tpm_sign_total) (auto simp: demo_hash_value)
qed

interpretation demo_kms_bench: device_bench reference_lib "kms_signer demo_pkey demo_kms"
    "kms_usable client_tokio demo_key_id ES256 (Demo_Key (demo_pub_ec ES256))" ES256 Sha256 demo_hasher
  by unfold_locales (simp add: demo_hasher_256, erule demo_kms_sign_total)

text \<open>A TPM whose sessions are numbers, and a client inside a runtime, with the two variables set.\<close>

definition demo_tss_setup :: "(nat, nat, unit, nat, bool \<times> bool, bool \<times> bool, unit, unit, unit) tss_setup" where
  "demo_tss_setup =
     \<lparr>tcti_from_environment = Inr (), context_new = (\<lambda>_. Inr 5),
      start_auth_session = (\<lambda>_ _ _ c. (Inr (Some 7), c)),
      attributes_new = (False, False), with_decrypt = (\<lambda>b (_, e). (b, e)), with_encrypt = (\<lambda>b (d, _). (d, b)),
      attributes_build = (\<lambda>a. (a, ())),
      tr_sess_set_attributes = (\<lambda>_ a _ c. (if a = (True, True) then Inr () else Inl (Tpm_Other ''attributes''), c)),
      set_sessions = (\<lambda>_ c. c), ecc_scheme_create = (\<lambda>_ _. Inr ()), signing_ecc_public = (\<lambda>_ _. Inr ()),
      create_primary = (\<lambda>_ _ c. (Inr \<lparr>key_handle = 1\<rparr>, c))\<rparr>"

definition demo_aws_setup :: "(demo_client, unit) aws_setup" where
  "demo_aws_setup =
     \<lparr>load_defaults = (), client_new = (\<lambda>_. \<lparr>client_tokio = True, client_nonce = 5\<rparr>),
      env_var = [''AWS_KMS_TEST_KEY_ARN'' \<mapsto> demo_key_id, ''TEST_KEY_SIG_ALG'' \<mapsto> ''ES256'']\<rparr>"

lemma demo_device_tests_pass:
  "run_cose_sign_tpm demo_tss_setup reference_lib demo_hasher demo_tss = Ok ()"
  "run_cose_sign_kms demo_aws_setup reference_lib demo_hasher demo_pkey demo_kms = Ok ()
   \<and> run_cose_sign_kms_public_key demo_aws_setup reference_lib demo_hasher demo_pkey demo_kms = Ok ()"
proof -
  have "tpm_test_setup demo_tss_setup = Ok (5, 1)"
    by (simp add: tpm_test_setup_def demo_tss_setup_def)
  moreover have "tpm_new demo_tss 1 5 = (Ok demo_tpm_handle, 5)"
    by (simp add: tpm_new_def demo_tss_def demo_tpm_public_def demo_public_into_def public_to_parameters_def demo_tpm_handle_def)
  ultimately show "run_cose_sign_tpm demo_tss_setup reference_lib demo_hasher demo_tss = Ok ()"
    by (rule run_tpm_test_passes [OF demo_tpm_bench.device_bench_axioms demo_tpm.tpm_device_axioms _ _ demo_tpm_usable])
  have "kms_new_with_public_key demo_pkey demo_kms demo_key_id None \<lparr>client_tokio = True, client_nonce = 5\<rparr> =
      (Ok (demo_kms_handle\<lparr>kms_public_key := Some (Demo_Key (demo_pub_ec ES256))\<rparr>), \<lparr>client_tokio = True, client_nonce = 5\<rparr>)"
    by code_simp
  then show "run_cose_sign_kms demo_aws_setup reference_lib demo_hasher demo_pkey demo_kms = Ok ()
      \<and> run_cose_sign_kms_public_key demo_aws_setup reference_lib demo_hasher demo_pkey demo_kms = Ok ()"
    by (intro run_kms_tests_pass [where connected = client_tokio and key_id = demo_key_id and alg = ES256
          and pub = "Demo_Key (demo_pub_ec ES256)"
          and key = "demo_kms_handle\<lparr>kms_public_key := Some (Demo_Key (demo_pub_ec ES256))\<rparr>"
          and client' = "\<lparr>client_tokio = True, client_nonce = 5\<rparr>", OF _ demo_kms.kms_service_axioms])
      (use demo_kms_bench.device_bench_axioms demo_kms_usable in
        \<open>simp_all add: demo_aws_setup_def sig_alg_from_str_def kms_usable_def\<close>)
qed

section \<open>The encryption tests\<close>

text \<open>The encryption tests over the reference codec and the small back end.\<close>

interpretation demo_encryption_tests: encryption_tests reference_lib demo_enc demo_dec demo_source
  by unfold_locales

section \<open>The encryption tests\<close>

text \<open>
  The repository's tests of encryption pass over every lawful library, AEAD and source of
  entropy, in every build profile, whenever encryption itself succeeds: the round trip, also through the
  bytes of the document, and the errors for a key of the wrong length, a text or an unknown number as
  the algorithm, and a number as the nonce.
\<close>

theorem encryption_tests_pass:
  assumes wire: "cbor_wire L" and suite: "encrypt0_suite L E D R"
    and new: "cose_encrypt0_new L R E test_plaintext Gcm test_key w = (Ok doc, w')"
    and fits: "fits_memory (enc0_protected doc)" "fits_memory (enc0_ciphertext doc)"
  shows "test_encrypt_decrypt oc L R E D w = Ok ()
    \<and> test_encrypt_unsupported_alg L R E w = Ok ()
    \<and> test_decrypt_invalid_alg_spec oc L R E D w = Ok ()
    \<and> test_decrypt_unsupported_openssl_cipher oc L R E D w = Ok ()
    \<and> test_decrypt_invalid_iv oc L R E D w = Ok ()"
proof -
  note tests = encryption_tests.intro [OF wire suite]
  show ?thesis
    using encryption_tests.encrypt_decrypt_passes [OF tests new fits] encryption_tests.unsupported_alg_passes [OF tests]
      encryption_tests.invalid_alg_spec_passes [OF tests new] encryption_tests.unsupported_cipher_passes [OF tests new]
      encryption_tests.invalid_iv_passes [OF tests new] by simp
qed

lemma demo_test_new:
  obtains doc w' where "cose_encrypt0_new reference_lib demo_source demo_enc test_plaintext Gcm test_key 3 = (Ok doc, w')"
    and "fits_memory (enc0_protected doc)" and "fits_memory (enc0_ciphertext doc)"
proof -
  have "length test_key = 16" by (simp add: test_key_def)
  then show thesis
  proof (rule demo_encrypts [of test_key test_plaintext])
    fix c tag :: bytes
    assume len: "length c = length test_plaintext" "length tag = 16"
      and new: "cose_encrypt0_new reference_lib demo_source demo_enc test_plaintext Gcm test_key 3 =
        (Ok \<lparr>enc0_protected = [0xA1, 0x01, 0x01], enc0_unprotected = iv_header demo_iv, enc0_ciphertext = c @ tag\<rparr>, 4)"
    show thesis
      by (rule that [OF new]) (simp_all add: fits_memory_def len, simp add: test_plaintext_def)
  qed
qed

theorem encryption_tests_pass_witness:
  "test_encrypt_decrypt True reference_lib demo_source demo_enc demo_dec 3 = Ok ()
    \<and> test_encrypt_unsupported_alg reference_lib demo_source demo_enc 3 = Ok ()
    \<and> test_decrypt_invalid_alg_spec True reference_lib demo_source demo_enc demo_dec 3 = Ok ()
    \<and> test_decrypt_unsupported_openssl_cipher True reference_lib demo_source demo_enc demo_dec 3 = Ok ()
    \<and> test_decrypt_invalid_iv True reference_lib demo_source demo_enc demo_dec 3 = Ok ()"
proof (rule demo_test_new)
  fix doc w'
  assume "cose_encrypt0_new reference_lib demo_source demo_enc test_plaintext Gcm test_key 3 = (Ok doc, w')"
    "fits_memory (enc0_protected doc)" "fits_memory (enc0_ciphertext doc)"
  then show ?thesis
    by (rule encryption_tests_pass [OF reference_wire.cbor_wire_axioms demo_suite.encrypt0_suite_axioms])
qed

end
