(* ===== verification/Encrypt_Session.thy ===== *)
theory Encrypt_Session
  imports Encrypt Ideal_Log "HOL-Library.Sublist"
begin

text \<open>
  A session of \<open>CoseEncrypt0\<close> (\<open>src/src/encrypt.rs\<close>): \<open>new\<close> and \<open>decrypt\<close> called one after the
  other, in any order, on any arguments, by anyone, over one shared source of entropy.  As in theory
  \<open>Session\<close>, a call and its reply make an event, and a history is the list of the events, the
  latest first.
\<close>

section \<open>Calls and histories\<close>

datatype encrypt_call =
    Encrypt bytes cipher_configuration bytes
  | Decrypt cose_encrypt0 bytes

datatype encrypt_reply =
    Encrypted "cose_encrypt0 cose_result"
  | Decrypted "(header_map \<times> header_map \<times> bytes) cose_result"

fun encrypt_perform :: "bool \<Rightarrow> cbor_lib \<Rightarrow> ('w, 'r) entropy_scheme \<Rightarrow> 'e encryption_scheme
    \<Rightarrow> 'd decryption_scheme \<Rightarrow> encrypt_call \<Rightarrow> 'w \<Rightarrow> encrypt_reply \<times> 'w" where
  "encrypt_perform oc L R E D (Encrypt payload cfg key) w =
     map_prod Encrypted id (cose_encrypt0_new L R E payload cfg key w)"
| "encrypt_perform oc L R E D (Decrypt doc key) w = (Decrypted (decrypt oc L D doc key), w)"

type_synonym encrypt_history = "(encrypt_call \<times> encrypt_reply) list"

inductive encrypt_session :: "bool \<Rightarrow> cbor_lib \<Rightarrow> ('w, 'r) entropy_scheme \<Rightarrow> 'e encryption_scheme
    \<Rightarrow> 'd decryption_scheme \<Rightarrow> 'w \<Rightarrow> encrypt_history \<Rightarrow> 'w \<Rightarrow> bool"
  for oc L R E D w0 where
  start: "encrypt_session oc L R E D w0 [] w0"
| call: "encrypt_session oc L R E D w0 h w \<Longrightarrow> encrypt_perform oc L R E D c w = (r, w') \<Longrightarrow>
    encrypt_session oc L R E D w0 ((c, r) # h) w'"

inductive_cases encrypt_session_ConsE: "encrypt_session oc L R E D w0 (e # h) w"

inductive_simps encrypt_session_Nil [simp]: "encrypt_session oc L R E D w0 [] w"
inductive_simps encrypt_session_Cons: "encrypt_session oc L R E D w0 ((c, r) # h) w"

lemma encrypt_session_event:
  assumes "encrypt_session oc L R E D w0 (later @ (c, r) # earlier) w"
  obtains w1 w2 where "encrypt_session oc L R E D w0 earlier w1"
    and "encrypt_perform oc L R E D c w1 = (r, w2)"
  using assms
proof (induction later arbitrary: w)
  case Nil
  then show ?case by (auto elim: encrypt_session_ConsE)
next
  case (Cons e later)
  then show ?case by (auto elim: encrypt_session_ConsE)
qed

lemma encrypt_perform_Encrypted:
  "encrypt_perform oc L R E D c w = (Encrypted r, w') \<longleftrightarrow>
   (\<exists>payload cfg key. c = Encrypt payload cfg key \<and> cose_encrypt0_new L R E payload cfg key w = (r, w'))"
  by (cases c) (auto simp: map_prod_def split: prod.splits)

section \<open>Queries of the AEAD\<close>

text \<open>
  What the AEAD is asked: the key, the algorithm, the nonce, the associated data and the
  ciphertext with its tag.  \<open>sealed\<close> is the query whose ciphertext a successful \<open>new\<close> gave out,
  \<open>opened\<close> the query with which \<open>decrypt\<close> asks for a payload.
\<close>

type_synonym aead_query = "bytes \<times> encryption_algorithm \<times> bytes \<times> bytes \<times> bytes"

fun sealed :: "cbor_lib \<Rightarrow> encrypt_call \<times> encrypt_reply \<Rightarrow> aead_query option" where
  "sealed L (Encrypt payload cfg key, Encrypted (Ok doc)) =
     (case (cose_alg cfg key, header_get L (enc0_unprotected doc) (VInteger 5),
            to_vec L (aead_item (enc0_protected doc))) of
        (Some alg, Some (VBytes iv), Inr aad) \<Rightarrow>
          Some (key, encryption_algorithm_from alg, iv, aad, enc0_ciphertext doc)
      | _ \<Rightarrow> None)"
| "sealed L _ = None"

definition rewritten_header :: "cbor_lib \<Rightarrow> cose_encrypt0 \<Rightarrow> bytes option" where
  "rewritten_header L doc =
     (case header_from_bytes L (enc0_protected doc) of
        Inl _ \<Rightarrow> None
      | Inr m \<Rightarrow> (case map_to_empty_or_serialized L m of Inl _ \<Rightarrow> None | Inr pb \<Rightarrow> Some pb))"

definition header_algorithm :: "cbor_lib \<Rightarrow> cose_encrypt0 \<Rightarrow> cose_algorithm option" where
  "header_algorithm L doc =
     (case header_from_bytes L (enc0_protected doc) of
        Inl _ \<Rightarrow> None
      | Inr m \<Rightarrow> (case header_get L m (VInteger 1) of
          Some (VInteger v) \<Rightarrow> alg_from_value (i128_as_i8 v) | _ \<Rightarrow> None))"

definition opened :: "cbor_lib \<Rightarrow> cose_encrypt0 \<Rightarrow> bytes \<Rightarrow> aead_query option" where
  "opened L doc key =
     (case (header_algorithm L doc, header_get L (enc0_unprotected doc) (VInteger 5),
            map_option (\<lambda>pb. to_vec L (aead_item pb)) (rewritten_header L doc)) of
        (Some alg, Some (VBytes iv), Some (Inr aad)) \<Rightarrow>
          Some (key, encryption_algorithm_from alg, iv, aad, enc0_ciphertext doc)
      | _ \<Rightarrow> None)"

definition sealed_queries :: "cbor_lib \<Rightarrow> encrypt_history \<Rightarrow> aead_query set" where
  "sealed_queries L h = {q. \<exists>e \<in> set h. sealed L e = Some q}"

text \<open>The AEAD accepts a query: the last 16 bytes of the ciphertext are the tag.\<close>

fun accepts :: "'d decryption_scheme \<Rightarrow> aead_query \<Rightarrow> bool" where
  "accepts D (key, alg, iv, aad, ct) \<longleftrightarrow>
     (case decrypt_aead D alg key (Some iv) aad (take (length ct - 16) ct) (drop (length ct - 16) ct) of
        Ok _ \<Rightarrow> True | _ \<Rightarrow> False)"

text \<open>
  The one way in which the AEAD can fail a session: it accepts, at a \<open>decrypt\<close>, a query that no
  \<open>new\<close> of the session has sealed.
\<close>

definition plaintext_forged :: "cbor_lib \<Rightarrow> 'd decryption_scheme \<Rightarrow> cose_encrypt0 \<Rightarrow> bytes
    \<Rightarrow> encrypt_history \<Rightarrow> bool" where
  "plaintext_forged L D doc key h \<longleftrightarrow>
     (case opened L doc key of None \<Rightarrow> False | Some q \<Rightarrow> accepts D q \<and> q \<notin> sealed_queries L h)"

fun encrypt_secure :: "cbor_lib \<Rightarrow> 'd decryption_scheme \<Rightarrow> encrypt_history \<Rightarrow> bool" where
  "encrypt_secure L D [] = True"
| "encrypt_secure L D ((Decrypt doc key, r) # h) =
     (\<not> plaintext_forged L D doc key h \<and> encrypt_secure L D h)"
| "encrypt_secure L D ((Encrypt _ _ _, r) # h) = encrypt_secure L D h"

section \<open>The ideal log\<close>

text \<open>
  A successful \<open>new\<close> enters its payload under the key and the protected header; a successful
  \<open>decrypt\<close> gives a payload out under the key and the protected header, as it is written again.
\<close>

fun encrypt_enters :: "encrypt_call \<times> encrypt_reply \<Rightarrow> (bytes \<times> bytes \<times> bytes) option" where
  "encrypt_enters (Encrypt payload _ key, Encrypted (Ok doc)) = Some (key, enc0_protected doc, payload)"
| "encrypt_enters _ = None"

fun decrypt_gives :: "cbor_lib \<Rightarrow> encrypt_call \<times> encrypt_reply \<Rightarrow> (bytes \<times> bytes \<times> bytes) option" where
  "decrypt_gives L (Decrypt doc key, Decrypted (Ok (m, _, payload))) =
     map_option (\<lambda>pb. (key, pb, payload)) (rewritten_header L doc)"
| "decrypt_gives L _ = None"

definition encrypt_log :: "cbor_lib \<Rightarrow> encrypt_history \<Rightarrow> (bytes \<times> bytes \<times> bytes) log_event list" where
  "encrypt_log L = event_log encrypt_enters (decrypt_gives L)"

lemma encrypt_log_simps [simp]:
  "encrypt_log L [] = []"
  "encrypt_log L (e # h) =
     (case encrypt_enters e of Some s \<Rightarrow> [Enter s] | None \<Rightarrow> [])
     @ (case decrypt_gives L e of Some s \<Rightarrow> [Give_Out s] | None \<Rightarrow> [])
     @ encrypt_log L h"
  by (simp_all add: encrypt_log_def)

lemma enters_gives_not: "encrypt_enters e = Some s \<Longrightarrow> decrypt_gives L e \<noteq> Some t"
  by (cases e rule: encrypt_enters.cases) auto

lemma decrypt_gives_Some:
  "decrypt_gives L e = Some (key, pb, payload) \<longleftrightarrow>
   (\<exists>doc m u. e = (Decrypt doc key, Decrypted (Ok (m, u, payload))) \<and> rewritten_header L doc = Some pb)"
  by (cases "(L, e)" rule: decrypt_gives.cases) auto

text \<open>Every byte string of an event fits in memory.\<close>

fun event_fits :: "cbor_lib \<Rightarrow> encrypt_call \<times> encrypt_reply \<Rightarrow> bool" where
  "event_fits L (Encrypt _ _ _, Encrypted (Ok doc)) = fits_memory (enc0_protected doc)"
| "event_fits L (Decrypt doc _, _) =
     (fits_memory (enc0_ciphertext doc) \<and> pred_option fits_memory (rewritten_header L doc))"
| "event_fits L _ = True"

definition events_fit :: "cbor_lib \<Rightarrow> encrypt_history \<Rightarrow> bool" where
  "events_fit L h = list_all (event_fits L) h"

lemma events_fit_simps [simp]:
  "events_fit L []" "events_fit L (e # h) \<longleftrightarrow> event_fits L e \<and> events_fit L h"
  "events_fit L (h @ h') \<longleftrightarrow> events_fit L h \<and> events_fit L h'"
  by (simp_all add: events_fit_def)

section \<open>Nonces\<close>

text \<open>
  The nonces of the documents that a history created, the latest first, and the number of its calls
  that ask for a nonce: every \<open>new\<close> under a key of a supported length.
\<close>

fun nonce_of :: "cbor_lib \<Rightarrow> encrypt_call \<times> encrypt_reply \<Rightarrow> bytes option" where
  "nonce_of L (Encrypt _ _ _, Encrypted (Ok doc)) =
     (case header_get L (enc0_unprotected doc) (VInteger 5) of Some (VBytes iv) \<Rightarrow> Some iv | _ \<Rightarrow> None)"
| "nonce_of L _ = None"

definition nonces :: "cbor_lib \<Rightarrow> encrypt_history \<Rightarrow> bytes list" where
  "nonces L h = List.map_filter (nonce_of L) h"

fun draws :: "encrypt_call \<times> encrypt_reply \<Rightarrow> bool" where
  "draws (Encrypt _ cfg key, _) \<longleftrightarrow> cose_alg cfg key \<noteq> None"
| "draws (Decrypt _ _, _) \<longleftrightarrow> False"

text \<open>What the source fills into \<open>n\<close> buffers of 12 zeros, one call after the other, the latest first.\<close>

fun entropy_after :: "('w, 'r) entropy_scheme \<Rightarrow> nat \<Rightarrow> 'w \<Rightarrow> bytes list \<times> 'w" where
  "entropy_after R 0 w = ([], w)"
| "entropy_after R (Suc n) w =
     (case entropy_after R n w of (ivs, w) \<Rightarrow>
      case rand_bytes R (replicate 12 0) w of (_, iv, w) \<Rightarrow> (iv # ivs, w))"

lemma nonces_simps [simp]:
  "nonces L [] = []"
  "nonces L (e # h) = (case nonce_of L e of Some iv \<Rightarrow> [iv] | None \<Rightarrow> []) @ nonces L h"
  by (simp_all add: nonces_def map_filter_def split: option.split)

lemma distinct_subseq: "subseq xs ys \<Longrightarrow> distinct ys \<Longrightarrow> distinct xs"
  by (auto simp: subseq_conv_nths distinct_nthsI)

text \<open>
  Creation calls the source at most once: not at all under a key of another length, and otherwise
  exactly once, whatever happens afterwards.
\<close>

lemma after_pure_snd: "(\<And>a. snd (k a s) = s) \<Longrightarrow> snd (after (r, s) k) = s"
  by (cases r) auto

lemma cose_encrypt0_new_world:
  "snd (cose_encrypt0_new L R E payload cfg key w) =
     (if cose_alg cfg key = None then w else snd (snd (rand_bytes R (replicate 12 0) w)))"
proof (cases "cose_alg cfg key")
  case (Some alg)
  obtain r iv w1 where "rand_bytes R (replicate 12 0) w = (r, iv, w1)" by (rule prod_cases3)
  with Some show ?thesis
    by (auto simp: cose_encrypt0_new_def Let_def case_prod_unfold intro!: after_pure_snd)
qed (simp add: cose_encrypt0_new_unsupported)

lemma encrypt_perform_world:
  assumes "encrypt_perform oc L R E D c w = (r, w')"
  shows "w' = (if draws (c, r) then snd (snd (rand_bytes R (replicate 12 0) w)) else w)"
proof (cases c)
  case (Encrypt payload cfg key)
  with assms cose_encrypt0_new_world [of L R E payload cfg key w] show ?thesis
    by (cases "cose_encrypt0_new L R E payload cfg key w") auto
qed (use assms in auto)

text \<open>
  The headers of a document, and what is drawn for it, do not depend on its payload: only the
  ciphertext tells anything of it.
\<close>

lemma new_hides_payload:
  assumes "cose_encrypt0_new L R E payload cfg key w = (Ok doc, w1)"
    and "cose_encrypt0_new L R E payload' cfg key w = (Ok doc', w2)"
  shows "enc0_protected doc = enc0_protected doc' \<and> enc0_unprotected doc = enc0_unprotected doc' \<and> w1 = w2"
  by (rule cose_encrypt0_new_Ok [OF assms(1)], rule cose_encrypt0_new_Ok [OF assms(2)]) auto

context serde_cbor
begin

lemma nonce_drawn:
  assumes "encrypt_perform oc L R E D c w = (r, w')" and "nonce_of L (c, r) = Some iv"
  shows "draws (c, r) \<and> rand_bytes R (replicate 12 0) w = (Ok (), iv, w')"
proof -
  obtain payload cfg key doc where c: "c = Encrypt payload cfg key" "r = Encrypted (Ok doc)"
    and get: "header_get L (enc0_unprotected doc) (VInteger 5) = Some (VBytes iv)"
    using assms(2) by (cases "(c, r)" rule: encrypt_enters.cases) (auto split: option.splits cbor_value.splits)
  then have new: "cose_encrypt0_new L R E payload cfg key w = (Ok doc, w')"
    using assms(1) by (auto simp: map_prod_def split: prod.splits)
  show ?thesis
    by (rule cose_encrypt0_new_Ok [OF new]) (use c get in \<open>simp add: iv_header_get\<close>)
qed

text \<open>
  The nonces of a session are drawn from the source: they are, in order and with none used twice,
  among what the source gives in as many calls as the session creates documents under keys of a
  supported length.
\<close>

lemma session_nonces:
  assumes "encrypt_session oc L R E D w0 h w"
  shows "\<exists>ivs. entropy_after R (length (filter draws h)) w0 = (ivs, w) \<and> subseq (nonces L h) ivs"
  using assms
proof (induction rule: encrypt_session.induct)
  case (call h w c r w')
  then obtain ivs where ivs: "entropy_after R (length (filter draws h)) w0 = (ivs, w)" "subseq (nonces L h) ivs"
    by blast
  show ?case
  proof (cases "nonce_of L (c, r)")
    case None
    then show ?thesis
      using ivs encrypt_perform_world [OF call.hyps(2)]
      by (cases "rand_bytes R (replicate 12 0) w") auto
  next
    case (Some iv)
    with nonce_drawn [OF call.hyps(2)] ivs show ?thesis by simp
  qed
qed simp

end

section \<open>What a session promises\<close>

lemma opened_accepted:
  assumes "decrypt oc L D doc key = Ok (m, u, payload)" and "fits_memory (enc0_ciphertext doc)"
  obtains alg iv c tag pb aad
  where "opened L doc key = Some (key, alg, iv, aad, c @ tag)" and "rewritten_header L doc = Some pb"
    and "to_vec L (aead_item pb) = Inr aad" and "enc0_ciphertext doc = c @ tag" and "length tag = 16"
    and "decrypt_aead D alg key (Some iv) aad c tag = Ok payload"
  using assms(2)
  by (rule decrypt_Ok_accepted [OF assms(1), unfolded fits_memory_def [symmetric]])
    (auto simp: opened_def header_algorithm_def rewritten_header_def simp del: alg_from_value_Some intro: that)

context encrypt0_suite
begin

text \<open>What a sealed query says of the call that sealed it: the AEAD encrypted the payload of the call.\<close>

lemma sealed_event:
  assumes "encrypt_perform oc L R E D c w = (r, w')" and "sealed L (c, r) = Some (key, alg, iv, aad, ct)"
  obtains payload cfg doc c' tag where "c = Encrypt payload cfg key" and "r = Encrypted (Ok doc)"
    and "to_vec L (aead_item (enc0_protected doc)) = Inr aad" and "ct = c' @ tag" and "length tag = 16"
    and "encrypt_aead E alg key (Some iv) aad payload (replicate 16 0) = (Ok c', tag)"
proof -
  obtain payload cfg doc calg where c: "c = Encrypt payload cfg key" "r = Encrypted (Ok doc)"
    "cose_alg cfg key = Some calg" "alg = encryption_algorithm_from calg"
    "header_get L (enc0_unprotected doc) (VInteger 5) = Some (VBytes iv)"
    "to_vec L (aead_item (enc0_protected doc)) = Inr aad" "ct = enc0_ciphertext doc"
    using assms(2) by (cases "(c, r)" rule: encrypt_enters.cases)
      (auto split: option.splits cbor_value.splits sum.splits)
  then have new: "cose_encrypt0_new L R E payload cfg key w = (Ok doc, w')"
    using assms(1) by (auto simp: map_prod_def split: prod.splits)
  show thesis
  proof (rule cose_encrypt0_new_Ok [OF new])
    fix alg' iv' pb aad' c' tag
    assume "cose_alg cfg key = Some alg'" "to_vec L (aead_item pb) = Inr aad'"
      "doc = \<lparr>enc0_protected = pb, enc0_unprotected = iv_header iv', enc0_ciphertext = c' @ tag\<rparr>"
      and enc: "encrypt_aead E (encryption_algorithm_from alg') key (Some iv') aad' payload (replicate 16 0) = (Ok c', tag)"
    with c tag_length [OF enc] show thesis by (intro that) (auto simp: iv_header_get)
  qed
qed

lemma sealed_in_session:
  assumes "encrypt_session oc L R E D w0 h w" and "q \<in> sealed_queries L h"
  obtains c r w1 w2 where "(c, r) \<in> set h" and "encrypt_perform oc L R E D c w1 = (r, w2)" and "sealed L (c, r) = Some q"
proof -
  obtain c r where e: "(c, r) \<in> set h" "sealed L (c, r) = Some q"
    using assms(2) by (auto simp: sealed_queries_def)
  then obtain later earlier where "h = later @ (c, r) # earlier" by (meson split_list)
  with assms(1) e that show thesis by (metis encrypt_session_event)
qed

text \<open>
  The reduction: a payload that comes out was put in before, under the same key, protected header,
  nonce and ciphertext, or the AEAD accepted a query that was never sealed.
\<close>

lemma plaintext_reduction:
  assumes "encrypt_session oc L R E D w0 h w" and "events_fit L h"
    and dec: "decrypt oc' L D doc key = Ok (m, u, payload)"
    and fits: "fits_memory (enc0_ciphertext doc)" "pred_option fits_memory (rewritten_header L doc)"
    and "\<not> plaintext_forged L D doc key h"
  shows "\<exists>cfg doc'. (Encrypt payload cfg key, Encrypted (Ok doc')) \<in> set h
    \<and> rewritten_header L doc = Some (enc0_protected doc')
    \<and> header_get L (enc0_unprotected doc) (VInteger 5) = header_get L (enc0_unprotected doc') (VInteger 5)
    \<and> enc0_ciphertext doc = enc0_ciphertext doc'"
proof (rule opened_accepted [OF dec fits(1)])
  fix alg iv c tag pb aad
  assume q: "opened L doc key = Some (key, alg, iv, aad, c @ tag)" "rewritten_header L doc = Some pb"
    "to_vec L (aead_item pb) = Inr aad" "enc0_ciphertext doc = c @ tag" "length tag = 16"
    and accepted: "decrypt_aead D alg key (Some iv) aad c tag = Ok payload"
  have "(key, alg, iv, aad, c @ tag) \<in> sealed_queries L h"
    using assms(6) q(1,5) accepted by (simp add: plaintext_forged_def)
  then obtain ca r w1 w2 where e: "(ca, r) \<in> set h" "encrypt_perform oc L R E D ca w1 = (r, w2)"
    "sealed L (ca, r) = Some (key, alg, iv, aad, c @ tag)"
    by (rule sealed_in_session [OF assms(1)])
  from sealed_event [OF e(2,3)] obtain payload' cfg doc' c' tag' where s:
    "ca = Encrypt payload' cfg key" "r = Encrypted (Ok doc')"
    "to_vec L (aead_item (enc0_protected doc')) = Inr aad" "c @ tag = c' @ tag'" "length tag' = 16"
    "encrypt_aead E alg key (Some iv) aad payload' (replicate 16 0) = (Ok c', tag')"
    by metis
  then have "c = c'" "tag = tag'" using q(5) by auto
  with accepted decrypt_encrypted [OF s(6)] have "payload' = payload" by simp
  have fits': "fits_memory (enc0_protected doc')" "fits_memory pb"
    using assms(2) e(1) s(1,2) fits(2) q(2) by (auto simp: events_fit_def list_all_iff)
  have "aead_item pb = aead_item (enc0_protected doc')"
    using to_vec_inj [OF q(3) s(3) wf_aead_item [of pb _ 0] wf_aead_item [of "enc0_protected doc'" _ 0]]
      fits' depth_limit by (simp add: fits_memory_def)
  then show ?thesis
    using e(1,3) s(1,2) q \<open>payload' = payload\<close>
    by (intro exI [of _ cfg] exI [of _ doc'])
      (auto simp: opened_def split: option.splits cbor_value.splits sum.splits)
qed

text \<open>A session in which the AEAD holds is a session of the ideal log.\<close>

lemma encrypt_session_refines:
  assumes "encrypt_session oc L R E D w0 h w" and "events_fit L h" and "encrypt_secure L D h"
  shows "log_accepts (encrypt_log L h)"
  using assms
proof (induction rule: encrypt_session.induct)
  case (call h w c r w')
  have "s \<in> entered encrypt_enters h" if gives: "decrypt_gives L (c, r) = Some s" for s
  proof -
    obtain key pb payload where s: "s = (key, pb, payload)" by (rule prod_cases3)
    then obtain doc m u where c: "c = Decrypt doc key" "r = Decrypted (Ok (m, u, payload))"
      "rewritten_header L doc = Some pb"
      using gives by (auto simp: decrypt_gives_Some)
    then have "decrypt oc L D doc key = Ok (m, u, payload)" using call.hyps(2) by simp
    from plaintext_reduction [OF call.hyps(1) _ this] call.prems c
    obtain cfg doc' where "(Encrypt payload cfg key, Encrypted (Ok doc')) \<in> set h" "pb = enc0_protected doc'"
      by auto
    then show ?thesis unfolding s entered_def
      by (intro CollectI bexI [of _ "(Encrypt payload cfg key, Encrypted (Ok doc'))"]) auto
  qed
  moreover have "encrypt_secure L D h" using call.prems by (cases c) auto
  ultimately show ?case
    using call unfolding encrypt_log_def by (subst event_log_accepts_Cons) (auto simp: enters_gives_not)
qed simp

end

end
