(* ===== verification/Encrypt_Session_Properties.thy ===== *)
theory Encrypt_Session_Properties
  imports Encrypt_Session Encrypt_Properties
begin

text \<open>
  The properties of \<open>COSE_Encrypt0\<close> over whole sessions, in which \<open>new\<close> and \<open>decrypt\<close> are called in
  any order, on documents from anywhere, with their runs at a concrete history.
\<close>

section \<open>A history\<close>

text \<open>A payload is encrypted, and the document decrypted; then the next payload is encrypted.\<close>

definition demo_encryption :: encrypt_history where
  "demo_encryption = [(Encrypt [1, 2, 3] Gcm demo_key16, Encrypted (Ok demo_encrypt0))]"

definition demo_decryption :: "encrypt_call \<times> encrypt_reply" where
  "demo_decryption =
     (Decrypt demo_encrypt0 demo_key16,
      Decrypted (Ok (alg_header AesGcm96_128_128, enc0_unprotected demo_encrypt0, [1, 2, 3])))"

lemma demo_encryption_session:
  "encrypt_session True reference_lib demo_source demo_enc demo_dec 3 demo_encryption 4"
  by (simp add: demo_encryption_def encrypt_session_Cons demo_encrypt0_new)

lemma demo_decryption_session:
  "encrypt_session True reference_lib demo_source demo_enc demo_dec 3 (demo_decryption # demo_encryption) 4"
  unfolding demo_decryption_def
  by (rule encrypt_session.call [OF demo_encryption_session]) (simp add: demo_decrypts)

lemma demo_rewritten: "rewritten_header reference_lib demo_encrypt0 = Some [0xA1, 0x01, 0x01]"
  by (simp add: rewritten_header_def demo_encrypt0_header map_to_empty_or_serialized_def gcm128_header_bytes)

lemma demo_query:
  "sealed reference_lib (Encrypt [1, 2, 3] Gcm demo_key16, Encrypted (Ok demo_encrypt0)) =
     opened reference_lib demo_encrypt0 demo_key16"
  unfolding opened_def demo_rewritten
  by (simp add: header_algorithm_def demo_encrypt0_header i128_as_i8_def alg_from_value_def demo_encrypt0_def
      iv_header_def demo_aad_bytes del: alg_from_value_Some)

lemma demo_not_forged:
  "\<not> plaintext_forged reference_lib demo_dec demo_encrypt0 demo_key16 demo_encryption"
  by (auto simp: plaintext_forged_def sealed_queries_def demo_encryption_def demo_query
      simp del: sealed.simps split: option.splits)

lemma demo_events_fit: "events_fit reference_lib (demo_decryption # demo_encryption)"
  by (simp add: demo_decryption_def demo_encryption_def demo_rewritten fits_memory_def) (simp add: demo_encrypt0_def)

section \<open>Authenticity\<close>

text \<open>
  C7: a session of encryption and decryption refines the ideal log.  Map every successful \<open>new\<close> to entering
  its payload under its key and protected header, and every successful \<open>decrypt\<close> to giving out a
  payload under the caller's key and the document's protected header: then in every session, in every build profile,
  as long as the AEAD accepts no query that was not sealed in the session before, everything given out
  was entered under the same key and header before.
\<close>

theorem encrypt_session_refines_log:
  assumes "serde_cbor L" and "aead E D" and "entropy_source R"
    and "encrypt_session oc L R E D w0 h w" and "events_fit L h" and "encrypt_secure L D h"
  shows "log_accepts (encrypt_log L h)"
  by (rule encrypt0_suite.encrypt_session_refines [OF encrypt0_suite.intro [OF assms(1-3)] assms(4-6)])

theorem encrypt_session_refines_log_witness:
  "log_accepts (encrypt_log reference_lib (demo_decryption # demo_encryption))
   \<and> encrypt_log reference_lib (demo_decryption # demo_encryption) =
       [Give_Out (demo_key16, [0xA1, 0x01, 0x01], [1, 2, 3]), Enter (demo_key16, [0xA1, 0x01, 0x01], [1, 2, 3])]"
proof
  have "encrypt_secure reference_lib demo_dec (demo_decryption # demo_encryption)"
    using demo_not_forged by (simp add: demo_decryption_def) (simp add: demo_encryption_def)
  then show "log_accepts (encrypt_log reference_lib (demo_decryption # demo_encryption))"
    by (rule encrypt_session_refines_log [OF reference_laws demo_aead_laws demo_entropy_laws demo_decryption_session demo_events_fit])
  show "encrypt_log reference_lib (demo_decryption # demo_encryption) =
      [Give_Out (demo_key16, [0xA1, 0x01, 0x01], [1, 2, 3]), Enter (demo_key16, [0xA1, 0x01, 0x01], [1, 2, 3])]"
    by (simp add: demo_decryption_def demo_encryption_def demo_rewritten) (simp add: demo_encrypt0_def)
qed

text \<open>
  C8: with no assumption on the strength of the AEAD: whenever \<open>decrypt\<close> gives a payload out under a key, at
  any point of any session, then \<open>new\<close> encrypted this payload in the same session under this key, in
  a document with the same nonce, the same ciphertext and, as it is written again, the same protected header; or the AEAD
  has just accepted a query that was never sealed.
\<close>

theorem forged_plaintext_breaks_aead:
  assumes "serde_cbor L" and "aead E D" and "entropy_source R"
    and "encrypt_session oc L R E D w0 (later @ (Decrypt doc key, Decrypted (Ok (m, u, payload))) # earlier) w"
    and "events_fit L (later @ (Decrypt doc key, Decrypted (Ok (m, u, payload))) # earlier)"
  shows "plaintext_forged L D doc key earlier
    \<or> (\<exists>cfg doc'. (Encrypt payload cfg key, Encrypted (Ok doc')) \<in> set earlier
        \<and> map_to_empty_or_serialized L m = Inr (enc0_protected doc')
        \<and> header_get L u (VInteger 5) = header_get L (enc0_unprotected doc') (VInteger 5)
        \<and> enc0_ciphertext doc = enc0_ciphertext doc')"
proof -
  note suite = encrypt0_suite.intro [OF assms(1-3)]
  obtain w1 w2 where run: "encrypt_session oc L R E D w0 earlier w1"
    "encrypt_perform oc L R E D (Decrypt doc key) w1 = (Decrypted (Ok (m, u, payload)), w2)"
    by (rule encrypt_session_event [OF assms(4)])
  then have dec: "decrypt oc L D doc key = Ok (m, u, payload)" by simp
  show ?thesis
    by (rule decrypt_Ok [OF dec])
      (use encrypt0_suite.plaintext_reduction [OF suite run(1) _ dec] assms(5) in \<open>auto simp: rewritten_header_def\<close>)
qed

theorem forged_plaintext_breaks_aead_witness:
  "\<exists>cfg doc'. (Encrypt [1, 2, 3] cfg demo_key16, Encrypted (Ok doc')) \<in> set demo_encryption
    \<and> enc0_ciphertext demo_encrypt0 = enc0_ciphertext doc'"
  using forged_plaintext_breaks_aead [OF reference_laws demo_aead_laws demo_entropy_laws, where later = "[]",
      unfolded append_Nil, OF demo_decryption_session [unfolded demo_decryption_def]
        demo_events_fit [unfolded demo_decryption_def]] demo_not_forged
  by blast

section \<open>Nonces\<close>

text \<open>
  C9: a session reuses no nonce unless its source of entropy repeats itself.  The nonces of the
  documents that a session creates are, in order, a subsequence of what the source gives in
  \<open>n\<close> consecutive calls, where \<open>n\<close> counts the calls of \<open>new\<close> under a key of a supported
  length, the failing ones included; no call of \<open>decrypt\<close> draws
  anything.  So if these \<open>n\<close> outputs differ, then so do the nonces, under every key.
\<close>

theorem nonces_drawn_once:
  assumes "serde_cbor L" and "encrypt_session oc L R E D w0 h w"
  shows "\<exists>ivs. entropy_after R (length (filter draws h)) w0 = (ivs, w) \<and> subseq (nonces L h) ivs
    \<and> (distinct ivs \<longrightarrow> distinct (nonces L h))"
  using serde_cbor.session_nonces [OF assms] distinct_subseq by blast

text \<open>The history with a third call, for the next payload.\<close>

definition demo_encrypt0_next :: cose_encrypt0 where
  "demo_encrypt0_next =
     (case fst (cose_encrypt0_new reference_lib demo_source demo_enc [1, 2, 3] Gcm demo_key16 4) of Ok doc \<Rightarrow> doc)"

lemma demo_encrypt0_next_new:
  "cose_encrypt0_new reference_lib demo_source demo_enc [1, 2, 3] Gcm demo_key16 4 = (Ok demo_encrypt0_next, 5)"
  "header_get reference_lib (enc0_unprotected demo_encrypt0_next) (VInteger 5) =
     Some (VBytes [64, 65, 66, 67, 68, 69, 70, 71, 72, 73, 74, 75])"
proof -
  let ?iv = "[64, 65, 66, 67, 68, 69, 70, 71, 72, 73, 74, 75] :: bytes"
  have draw: "rand_bytes demo_source (replicate 12 0) 4 = (Ok (), ?iv, 5)" by code_simp
  have "\<exists>c tag. encrypt_aead demo_enc Aes128Gcm demo_key16 (Some ?iv) demo_aad [1, 2, 3] (replicate 16 0) = (Ok c, tag)"
    by (intro exI) code_simp
  then obtain c tag where enc:
    "encrypt_aead demo_enc Aes128Gcm demo_key16 (Some ?iv) demo_aad [1, 2, 3] (replicate 16 0) = (Ok c, tag)"
    by blast
  have new: "cose_encrypt0_new reference_lib demo_source demo_enc [1, 2, 3] Gcm demo_key16 4 =
      (Ok \<lparr>enc0_protected = [0xA1, 0x01, 0x01], enc0_unprotected = iv_header ?iv, enc0_ciphertext = c @ tag\<rparr>, 5)"
    by (simp add: cose_encrypt0_new_def draw header_single map_to_empty_or_serialized_def
        gcm128_header_bytes enc_new_encrypt0_def demo_aad_bytes enc iv_header_def Let_def)
  then show "cose_encrypt0_new reference_lib demo_source demo_enc [1, 2, 3] Gcm demo_key16 4 = (Ok demo_encrypt0_next, 5)"
    "header_get reference_lib (enc0_unprotected demo_encrypt0_next) (VInteger 5) = Some (VBytes ?iv)"
    by (simp_all add: demo_encrypt0_next_def iv_header_def)
qed

definition demo_second :: "encrypt_call \<times> encrypt_reply" where
  "demo_second = (Encrypt [1, 2, 3] Gcm demo_key16, Encrypted (Ok demo_encrypt0_next))"

theorem nonces_drawn_once_witness:
  "encrypt_session True reference_lib demo_source demo_enc demo_dec 3 (demo_second # demo_decryption # demo_encryption) 5
   \<and> nonces reference_lib (demo_second # demo_decryption # demo_encryption) =
       [[64, 65, 66, 67, 68, 69, 70, 71, 72, 73, 74, 75], demo_iv]
   \<and> distinct (nonces reference_lib (demo_second # demo_decryption # demo_encryption))"
proof (intro conjI)
  let ?h = "demo_second # demo_decryption # demo_encryption"
  have first: "header_get reference_lib (enc0_unprotected demo_encrypt0) (VInteger 5) = Some (VBytes demo_iv)"
    by (simp add: demo_encrypt0_def iv_header_def)
  show session: "encrypt_session True reference_lib demo_source demo_enc demo_dec 3 ?h 5"
    unfolding demo_second_def
    by (rule encrypt_session.call [OF demo_decryption_session]) (simp add: demo_encrypt0_next_new(1))
  show "nonces reference_lib ?h = [[64, 65, 66, 67, 68, 69, 70, 71, 72, 73, 74, 75], demo_iv]"
    using first demo_encrypt0_next_new(2) by (simp add: demo_second_def demo_decryption_def demo_encryption_def)
  have "length (filter draws ?h) = 2"
    by (simp add: demo_second_def demo_decryption_def demo_encryption_def)
  moreover have "distinct (fst (entropy_after demo_source 2 3))" by code_simp
  ultimately show "distinct (nonces reference_lib ?h)"
    using nonces_drawn_once [OF reference_laws session] by auto
qed

end
