(* ===== verification/Layers.thy ===== *)
theory Layers
  imports Sign Encrypt
begin

text \<open>
  Documents of the two kinds inside one another, as the crate is used: a document is signed, its
  bytes are encrypted, and the receiver takes the layers off in turn.  The readers of the two kinds
  do not read each other's documents.
\<close>

context serde_cbor
begin

lemma tagged_written:
  assumes "to_vec L (tagged_item tag v) = Inr bs" and "wf_value L (depth_limit L) (tagged_item tag v)"
    and "\<forall>t u. v \<noteq> VTag t u"
  shows "tagged_from_slice L d bs = sbind (d v) (\<lambda>x. Inr (tag, x))"
  using write_read_bytes [OF assms(1,2)] assms(3) by (simp add: tagged_from_slice_item)

lemma sign1_refused_as_encrypt0:
  assumes "sign1_storable L doc" and "sign1_as_bytes L doc tagged = Ok bs"
  shows "\<exists>e. encrypt0_from_bytes L bs = Err (SerializationError e)"
proof -
  let ?tag = "if tagged then Some 18 else None" and ?v = "cose_sign1_item doc"
  have "wf_value L (depth_limit L) (tagged_item ?tag ?v)"
    using wf_tagged_item [OF wf_cose_sign1_item [OF assms(1)]] by simp
  moreover have "to_vec L (tagged_item ?tag ?v) = Inr bs"
    using assms(2) by (simp add: sign1_as_bytes_def split: if_splits)
  ultimately have read: "tagged_from_slice L (cose_encrypt0_deserialize L) bs
      = sbind (cose_encrypt0_deserialize L ?v) (\<lambda>x. Inr (?tag, x))"
    using tagged_written cose_sign1_not_tag by blast
  obtain e where "cose_encrypt0_deserialize L ?v = Inl e"
    using assms(1) end_seq_unread [of "VBytes (sign1_signature doc)" "[]"]
    by (auto simp: cose_sign1_item_def sign1_storable_def bytebuf_bytes header_deserialize_item)
  then show ?thesis
    unfolding encrypt0_from_bytes_def read by simp
qed

lemma encrypt0_refused_as_sign1:
  assumes "encrypt0_storable L doc" and "encrypt0_as_bytes L doc tagged = Ok bs"
  shows "\<exists>e. sign1_from_bytes L bs = Err (SerializationError e)"
proof -
  let ?tag = "if tagged then Some 16 else None" and ?v = "cose_encrypt0_item doc"
  have "wf_value L (depth_limit L) (tagged_item ?tag ?v)"
    using wf_tagged_item [OF wf_cose_encrypt0_item [OF assms(1)]] by simp
  moreover have "to_vec L (tagged_item ?tag ?v) = Inr bs"
    using assms(2) by (simp add: encrypt0_as_bytes_def split: if_splits)
  ultimately have read: "tagged_from_slice L (cose_sign1_deserialize L) bs
      = sbind (cose_sign1_deserialize L ?v) (\<lambda>x. Inr (?tag, x))"
    using tagged_written cose_encrypt0_not_tag by blast
  have "cose_sign1_deserialize L ?v = Inl (de_error L (Missing_Field ''signature''))"
    using assms(1)
    by (simp add: cose_encrypt0_item_def encrypt0_storable_def sign1_visit_seq_def bytebuf_bytes header_deserialize_item)
  then show ?thesis
    unfolding sign1_from_bytes_def read by simp
qed

end

end
