(* ===== verification/Spec2Isabelle.thy ===== *)
theory Spec2Isabelle
  imports Sign_Properties Encrypt_Properties Header_Properties Key_Properties Session_Properties Test_Properties
    Encrypt_Session_Properties Layers
begin

text \<open>
  A model of the crate \<open>aws-nitro-enclaves-cose\<close> (\<open>src/src\<close>): \<open>COSE_Sign1\<close> and
  \<open>COSE_Encrypt0\<close> documents of RFC 8152, over interchangeable cryptographic back ends.

  \<^bold>\<open>The program.\<close>  \<open>sign.rs\<close> builds, signs, serializes, reads and verifies a \<open>CoseSign1\<close>; \<open>encrypt.rs\<close>
  does the same for an encrypted \<open>CoseEncrypt0\<close>.  Both keep their protected header as serialized
  bytes and their unprotected header as a \<open>HeaderMap\<close> (\<open>header_map.rs\<close>), and both call the
  cryptography through the traits of \<open>crypto/mod.rs\<close>: \<open>Entropy\<close>, \<open>Encryption\<close>, \<open>Decryption\<close>,
  \<open>Hash\<close>, \<open>SigningPublicKey\<close> and \<open>SigningPrivateKey\<close>.  \<open>crypto/openssl.rs\<close> implements the first
  four; \<open>crypto/openssl_pkey.rs\<close>, \<open>crypto/kms.rs\<close> and \<open>crypto/tpm.rs\<close> implement the signing
  traits with a local EC key, a key in AWS KMS and a key in a TPM.  Every failure is a
  \<open>CoseError\<close> (\<open>error.rs\<close>).

  \<^bold>\<open>Conventions.\<close>  A function returning \<open>Result<T, E>\<close> yields an \<open>outcome\<close>: \<open>Ok\<close>, \<open>Err\<close> or a \<open>Panic\<close>
  with its message, so every early return and every panicking standard-library call of the source
  is a branch.  Calls on a key, a client, a TPM context or a random source thread its state
  explicitly and return it, on every path.  Bytes are \<open>8 word\<close>s; the narrow integers of the code
  (\<open>i8\<close> discriminants, the cast \<open>as i8\<close>, the \<open>usize\<close> subtraction, tags) keep their width.
  All functions terminate by structural recursion; the only bound is the nesting depth of CBOR items,
  \<open>depth_limit\<close>, of which a document uses three levels around its header
  (\<open>header_depth\<close>); \<open>serde_cbor\<close>'s own limit of 128 leaves room for any practical header.

  \<^bold>\<open>Theories.\<close>
  \<^item> \<open>Prelude\<close>: outcomes, state threading, panicking slice operations, big-endian numbers.
  \<^item> \<open>Cose_Error\<close> (\<open>error.rs\<close>): \<open>cose_error\<close> with \<open>display_error\<close> and \<open>error_source\<close>.
  \<^item> \<open>Btree\<close>: the standard library's \<open>BTreeMap\<close> as sorted entry lists; its contract is the locale
    \<open>key_map\<close>, which they satisfy over every lawful comparison (\<open>ordered_keys\<close>).
  \<^item> \<open>Cbor\<close>: what is used of \<open>serde_cbor\<close>, \<open>serde_bytes\<close> and \<open>serde_with\<close>: the parameter \<open>cbor_lib\<close> and,
    as the locale \<open>serde_cbor\<close>, the laws relied on (writing and reading back, lawful key order,
    refusal of repeated keys).
  \<^item> \<open>Header_Map\<close> (\<open>header_map.rs\<close>), \<open>Crypto\<close> (\<open>crypto/mod.rs\<close>), \<open>Sign\<close> (\<open>sign.rs\<close>), \<open>Encrypt\<close>
    (\<open>encrypt.rs\<close>), \<open>Openssl\<close>, \<open>Openssl_Pkey\<close>, \<open>Kms\<close>, \<open>Tpm\<close>: one definition per function or
    method, in the order of the source, then the lemmas about them.
  \<^item> \<open>Session\<close>: the methods of \<open>CoseSign1\<close> as a step relation, over a ring of keys in one world and
    with documents from anywhere; \<open>Encrypt_Session\<close>: those of \<open>CoseEncrypt0\<close>, over one source of
    entropy; \<open>Ideal_Log\<close>: the abstract specification that both refine.  \<open>Wire\<close>: the layouts of
    RFC 8152 as bytes; \<open>Layers\<close>: the documents of one kind seen by the reader of the other.
  \<^item> \<open>Cbor_Reference\<close>: an executable RFC 7049 codec that satisfies \<open>serde_cbor\<close>; \<open>Backend\<close>: small
    executable libraries that satisfy the assumptions on \<open>openssl\<close>, KMS and the TPM; \<open>Scenarios\<close>:
    concrete documents and runs.
  \<^item> \<open>Repository_Tests\<close>, \<open>Test_Keys\<close>, \<open>Test_Devices\<close>, \<open>Test_Vectors\<close>: the tests in \<open>sign.rs\<close> and
    \<open>encrypt.rs\<close> as programs over any library, the functions that build their OpenSSL keys, the
    TPM contexts and KMS clients that they set up, and the documents they hold byte for byte.  A test is its outcome: \<open>Ok ()\<close>, or a panic where an \<open>unwrap\<close> or an assertion fails.
  \<^item> \<open>Sign_Properties\<close>, \<open>Encrypt_Properties\<close>, \<open>Header_Properties\<close>, \<open>Key_Properties\<close>,
    \<open>Session_Properties\<close>, \<open>Encrypt_Session_Properties\<close>, \<open>Test_Properties\<close> and this theory: the numbered properties, each with a
    witness where it has hypotheses.

  \<^bold>\<open>Interfaces.\<close>  \<open>key_pair\<close> is the contract of the signing traits: both halves report the same
  parameters and the public one accepts what the private one signs.  The OpenSSL keys
  (\<open>openssl_ec\<close>), the KMS handles (\<open>kms_service\<close>) and the TPM handles (\<open>tpm_device\<close>) are shown to be
  key pairs from assumptions on the libraries below them only; \<open>sign1_suite\<close> proves once, for
  every key pair, that documents verify.  \<open>aead\<close> and \<open>entropy_source\<close> are the contracts of the
  other traits, which \<open>openssl_laws\<close> implies for \<open>crypto/openssl.rs\<close>; \<open>encrypt0_suite\<close> proves once that
  documents decrypt.  \<open>key_ring\<close> is a family of key pairs that share a world, and \<open>session_suite\<close> proves the
  refinement and the availability of sessions over every ring; OpenSSL keys over one random source,
  a KMS key and a TPM key are rings.  \<open>cbor_wire\<close> adds to \<open>serde_cbor\<close> that items without
  floating-point numbers are written in their shortest form; under it the layouts are exact.
  \<open>signing_tests\<close> and \<open>encryption_tests\<close> prove the tests over every key pair and AEAD, and
  \<open>test_keys\<close> and \<open>test_environment\<close> over the OpenSSL keys that the tests build, and
  \<open>device_bench\<close> over the TPM and KMS keys.

  \<^bold>\<open>What is shown.\<close>  Signed documents verify, survive serialization with and without their tag and
  release their payload only after the key accepted exactly the canonical signed bytes; the signed
  bytes determine the document and never equal authenticated bytes of an encrypted one; encrypted
  documents decrypt to their payload, and no plaintext is released that the AEAD did not accept.
  The three kinds of key sign what they verify.  Headers behave as maps and are read back as written;
  the recipient of a document finds under each label the value that was inserted last (\<open>labels_delivered\<close>), and repeated
  labels are refused wherever the crate meets them (\<open>repeated_labels_refused\<close>).  Which bytes are read, and as
  which document, is characterised down to the items of the array (\<open>sign1_from_bytes_accepts_iff\<close>,
  \<open>encrypt0_from_bytes_accepts_iff\<close>).  Each error path of
  verification, decryption and reading is stated with its error, and the conditions under which
  signing, verification, with each kind of key, encryption and decryption panic are exact
  (\<open>signing_panics_iff\<close>, \<open>verification_panics_iff\<close>, \<open>encrypt0_panics_iff\<close>).

  Over whole sessions, in which calls on created, altered and foreign documents come in any order,
  every payload that is given out under a key was submitted for signing under that key before
  (\<open>session_refines_log\<close>); with no assumption on the cryptography, each one that was not exhibits a forged
  signature or a collision of the hash (\<open>forged_payload_breaks_crypto\<close>), and a document that was
  created stays readable (\<open>signed_documents_stay_readable\<close>).  Likewise every plaintext that \<open>decrypt\<close>
  gives out in a session was encrypted in it before, under the same key, protected header, nonce and
  ciphertext, or exhibits a forgery against the AEAD (\<open>encrypt_session_refines_log\<close>,
  \<open>forged_plaintext_breaks_aead\<close>), and a nonce is repeated only if the source of entropy repeats
  itself (\<open>nonces_drawn_once\<close>).  A signed document can be sent inside an encrypted one, and neither
  reader takes one for the other (\<open>signed_inside_encrypted\<close>).  The bytes of both documents are those
  of RFC 8152 (\<open>document_layout\<close>).  The tests of the repository pass over every lawful library, not
  only the installed one (\<open>signing_tests_pass\<close>, \<open>encryption_tests_pass\<close>, \<open>run_tpm_test_passes\<close>,
  \<open>run_kms_tests_pass\<close>); for the tests with fixed
  documents, tampered documents, mangled signatures and a second key of the same type it is shown exactly what the key has to answer for
  them to pass, and that the fixed keys are points of their curves.

  \<^bold>\<open>Bounds.\<close>  Byte strings are assumed shorter than \<open>2 ^ 63\<close> where they are written into a document
  or signed (\<open>fits_memory\<close>), which Rust guarantees for every allocation.  Signatures are taken to be
  shorter than 2 GiB where they are verified with OpenSSL's numbers: \<open>BigNum::from_slice\<close> asserts
  that a length fits a C \<open>int\<close>, which is not modelled.

  \<^bold>\<open>Where the code departs from its documentation or panics.\<close>  Signatures shorter than one factor and
  ciphertexts shorter than the tag panic instead of being refused (\<open>verification_panics_iff\<close>,
  \<open>encrypt0_panics_iff\<close>); an algorithm identifier is read modulo 256
  (\<open>algorithm_identifier_mod_256\<close>); a document with an empty protected header can be created but
  neither verified nor read back (\<open>empty_protected_header_unverifiable\<close>); \<open>new_with_protected\<close> does not
  add the algorithm it documents to add (\<open>new_with_protected_adds_no_algorithm\<close>); decryption
  authenticates the header as it is written again, not as it was transported
  (\<open>protected_bytes_exchangeable\<close>); tags inside the outermost one of a signed document are skipped
  (\<open>sign1_from_bytes_accepts_iff\<close>); an encrypted document is read from a CBOR map of its fields as well as
  from an array (\<open>encrypt0_from_bytes_accepts_iff\<close>); a TPM key on P-256 may hash with SHA-384 (\<open>tpm_key_parameters\<close>); zero
  bytes inserted between the factors of a signature are accepted (\<open>padded_signatures_accepted\<close>); the TPM test
  with a mangled signature fails when the first byte of the signature is zero already
  (\<open>tpm_mangled_test_may_fail\<close>).

  \<^bold>\<open>Not modelled.\<close>  \<open>lib.rs\<close> only re-exports.  The libraries the crate calls are parameters; the
  texts of their errors are kept as they display, \<open>Debug\<close> output and the identity of error values
  are not.  Memory, time and the \<open>Sync\<close> and lifetime structure of keys are not modelled; a TPM
  context in its \<open>RefCell\<close> is part of the key's state, since every borrow ends in the method that
  takes it.  KMS keys are modelled with the feature \<open>key_openssl_pkey\<close> on, which \<open>key_kms\<close> enables in
  \<open>Cargo.toml\<close>, so that the other branches of \<open>kms.rs\<close> are never compiled.  The \<open>Deserialize\<close> that is
  derived for \<open>EncStructure\<close> is called by nothing and left out.  ECDSA and AES themselves are parameters, so that a fixed
  signature is valid is not shown, only what follows when the library accepts it.
\<close>

section \<open>Across the two kinds of document\<close>

text \<open>
  C25: the bytes that are signed for a \<open>COSE_Sign1\<close> document and the bytes that are authenticated for a
  \<open>COSE_Encrypt0\<close> document are never the same, whatever the headers and the payload.
\<close>

theorem signing_and_encryption_separated:
  assumes laws: "serde_cbor L"
    and sig: "sig_new_sign1 protected payload = Inr s" "sig_structure_as_bytes L s = Inr bs"
    and enc: "enc_new_encrypt0 protected' = Inr e" "enc_structure_as_bytes L e = Inr bs'"
    and len: "length protected < 2 ^ 63" "length payload < 2 ^ 63" "length protected' < 2 ^ 63"
  shows "bs \<noteq> bs'"
proof
  assume eq: "bs = bs'"
  have "1 \<le> depth_limit L" using serde_cbor.depth_limit [OF laws] by simp
  then have "signed_item protected payload = aead_item protected'"
    using sig enc eq wf_signed_item [OF len(1,2), of _ 0] wf_aead_item [OF len(3), of _ 0]
    by (intro serde_cbor.to_vec_inj [OF laws, where n = 1]) auto
  then show False by (simp add: signed_item_def aead_item_def)
qed

theorem signing_and_encryption_separated_witness:
  "sig_structure_as_bytes reference_lib (SigStructure ''Signature1'' [0xA1, 0x01, 0x26] None [] [1, 2, 3]) = Inr demo_tbs
   \<and> enc_structure_as_bytes reference_lib (EncStructure ''Encrypt0'' [0xA1, 0x01, 0x01] []) = Inr demo_aad
   \<and> demo_tbs \<noteq> demo_aad"
proof -
  have runs: "sig_structure_as_bytes reference_lib (SigStructure ''Signature1'' [0xA1, 0x01, 0x26] None [] [1, 2, 3]) = Inr demo_tbs"
    "enc_structure_as_bytes reference_lib (EncStructure ''Encrypt0'' [0xA1, 0x01, 0x01] []) = Inr demo_aad"
    by (simp_all add: demo_tbs_bytes demo_aad_bytes)
  moreover have "demo_tbs \<noteq> demo_aad"
    by (rule signing_and_encryption_separated [OF reference_laws _ runs(1) _ runs(2),
          where protected = "[0xA1, 0x01, 0x26]" and payload = "[1, 2, 3]" and protected' = "[0xA1, 0x01, 0x01]"]) simp_all
  ultimately show ?thesis by blast
qed

text \<open>
  C6: the two kinds of document compose, as they do when a signed document is sent encrypted.  A payload is
  signed, the written document encrypted, and the result written, with or without tags; then the receiver reads the outer
  document, decrypts the bytes of the inner one, reads it, and is given the payload by the public key.  Neither
  reader takes one layer for the other: the outer bytes are no \<open>COSE_Sign1\<close> document and the inner
  bytes are no \<open>COSE_Encrypt0\<close> document.
\<close>

theorem signed_inside_encrypted:
  assumes laws: "serde_cbor L" and keys: "key_pair K P valid_priv valid_pub alg dig"
    and "aead E D" and "entropy_source R" and k: "valid_priv k" and p: "valid_pub p"
    and sign: "cose_sign1_new L H K payload unprotected k = (Ok inner, k')"
    and written: "sign1_as_bytes L inner tagged = Ok bs"
    and enc: "cose_encrypt0_new L R E bs cfg key w = (Ok outer, w')"
    and stored: "sign1_storable L inner" "encrypt0_storable L outer"
  shows "\<exists>wire m u p'. encrypt0_as_bytes L outer tagged' = Ok wire \<and> encrypt0_from_bytes L wire = Ok outer
    \<and> decrypt oc L D outer key = Ok (m, u, bs) \<and> sign1_from_bytes L bs = Ok inner
    \<and> get_payload L H (Some P) inner p = (Ok payload, p')
    \<and> (\<exists>e. sign1_from_bytes L wire = Err (SerializationError e))
    \<and> (\<exists>e. encrypt0_from_bytes L bs = Err (SerializationError e))"
proof -
  note suite = sign1_suite.intro [OF laws keys]
  note shape = sign1_suite.new_shape [OF suite k sign]
  obtain p' where "verify_signature L H P inner p = (Ok True, p')"
    using sign1_suite.new_verifies [OF suite k p sign] by blast
  then have "get_payload L H (Some P) inner p = (Ok payload, p')"
    using shape by (simp add: get_payload_def)
  moreover have "sign1_from_bytes L bs = Ok inner"
    using serde_cbor.sign1_roundtrip [OF laws stored(1), of "header_from_sig_alg L alg" tagged] shape written by auto
  moreover obtain alg where dec: "decrypt oc L D outer key = Ok (alg_header alg, enc0_unprotected outer, bs)"
    using encrypt0_suite.new_decrypts_self [OF encrypt0_suite.intro [OF laws assms(3,4)] enc, of oc] stored(2)
    by (auto simp: encrypt0_storable_def)
  moreover obtain wire where "encrypt0_as_bytes L outer tagged' = Ok wire" "encrypt0_from_bytes L wire = Ok outer"
    by (rule decrypt_Ok [OF dec]) (use serde_cbor.encrypt0_roundtrip [OF laws stored(2), of "alg_header alg" tagged'] in blast)
  ultimately show ?thesis
    using serde_cbor.sign1_refused_as_encrypt0 [OF laws stored(1) written]
      serde_cbor.encrypt0_refused_as_sign1 [OF laws stored(2)] by blast
qed

lemma demo_inner_bytes:
  "sign1_as_bytes reference_lib demo_sign1 True =
     Ok ([0xD2, 0x84, 0x43, 0xA1, 0x01, 0x26, 0xA1, 0x04, 0x42, 0x31, 0x31, 0x43, 1, 2, 3, 0x58, 0x40]
       @ replicate 31 0 @ [4] @ replicate 31 0 @ [3])"
  by code_simp

theorem signed_inside_encrypted_witness:
  "\<exists>bs outer m u. sign1_as_bytes reference_lib demo_sign1 True = Ok bs
    \<and> cose_encrypt0_new reference_lib demo_source demo_enc bs Gcm demo_key16 3 = (Ok outer, 4)
    \<and> decrypt True reference_lib demo_dec outer demo_key16 = Ok (m, u, bs)
    \<and> sign1_from_bytes reference_lib bs = Ok demo_sign1
    \<and> fst (get_payload reference_lib demo_hasher (Some (demo_verifier ES256)) demo_sign1 9) = Ok [1, 2, 3]"
proof -
  let ?bs = "[0xD2, 0x84, 0x43, 0xA1, 0x01, 0x26, 0xA1, 0x04, 0x42, 0x31, 0x31, 0x43, 1, 2, 3, 0x58, 0x40]
       @ replicate 31 0 @ [4] @ replicate 31 0 @ [3] :: bytes"
  obtain c tag where len: "length c = length ?bs" "length tag = 16"
    and new: "cose_encrypt0_new reference_lib demo_source demo_enc ?bs Gcm demo_key16 3 =
      (Ok \<lparr>enc0_protected = [0xA1, 0x01, 0x01], enc0_unprotected = iv_header demo_iv, enc0_ciphertext = c @ tag\<rparr>, 4)"
    by (rule demo_encrypts [OF length_demo_key16, of ?bs])
  have "encrypt0_storable reference_lib
      \<lparr>enc0_protected = [0xA1, 0x01, 0x01], enc0_unprotected = iv_header demo_iv, enc0_ciphertext = c @ tag\<rparr>"
    using demo_encrypt0_storable len by (simp add: encrypt0_storable_def demo_encrypt0_def)
  from signed_inside_encrypted [OF reference_laws demo_pair demo_aead_laws demo_entropy_laws _ _ demo_sign1_new
      demo_inner_bytes new demo_sign1_storable this, where p = 9 and oc = True and tagged' = True]
  show ?thesis using new demo_inner_bytes by fastforce
qed

end
